(* ===== verification/Prelude.thy ===== *)
theory Prelude
  imports Complex_Main "HOL-Library.Word"
begin

text \<open>
  Prelude of the development: the model of Python exceptions and of effectful calls that every
  component shares.

  A Python function that can raise returns a value of \<open>py_error + 'a\<close>, the left side being the
  exception.  A method that also changes state is a function of type \<open>'s \<Rightarrow> (py_error + 'a) \<times> 's\<close>:
  as in Python, the state reached when the exception is raised is kept.  \<open>bindR\<close> and \<open>bindA\<close>
  sequence the two kinds of calls and stop at the first exception.
\<close>

section \<open>Exceptions\<close>

text \<open>
  The exception classes the program raises or lets through.  \<open>BoardError\<close> is the class declared
  in \<open>board_link_v2.py\<close>; \<open>InvalidTag\<close> comes from the AEAD package and \<open>OSError\<close> stands for the
  errors of the serial port.
\<close>

datatype py_error =
    ValueError string
  | RuntimeError string
  | BoardError string
  | TimeoutError string
  | OverflowError string
  | IndexError string
  | TypeError string
  | KeyError int
  | MissingKey string
  | ZeroDivisionError string
  | AssertionError
  | InvalidTag
  | OSError string

type_synonym 'a res = "py_error + 'a"

type_synonym ('s, 'a) act = "'s \<Rightarrow> 'a res \<times> 's"

named_theorems eff_simps \<open>equations that run the effect combinators\<close>

definition bindR :: "'a res \<Rightarrow> ('a \<Rightarrow> 'b res) \<Rightarrow> 'b res" where
  "bindR m f = (case m of Inl e \<Rightarrow> Inl e | Inr x \<Rightarrow> f x)"

definition retA :: "'a \<Rightarrow> ('s, 'a) act" where
  "retA x s = (Inr x, s)"

definition raiseA :: "py_error \<Rightarrow> ('s, 'a) act" where
  "raiseA e s = (Inl e, s)"

definition liftR :: "'a res \<Rightarrow> ('s, 'a) act" where
  "liftR r s = (r, s)"

definition bindA :: "('s, 'a) act \<Rightarrow> ('a \<Rightarrow> ('s, 'b) act) \<Rightarrow> ('s, 'b) act" where
  "bindA m f s = (case m s of (Inl e, t) \<Rightarrow> (Inl e, t) | (Inr x, t) \<Rightarrow> f x t)"

text \<open>\<open>guardR c e\<close> is the source's \<open>if not c: raise e\<close>.\<close>

definition guardR :: "bool \<Rightarrow> py_error \<Rightarrow> unit res" where
  "guardR c e = (if c then Inr () else Inl e)"

lemma bindR_simps [simp, eff_simps]:
  "bindR (Inl e) f = Inl e"
  "bindR (Inr x) f = f x"
  by (simp_all add: bindR_def)

lemma guardR_simps [simp, eff_simps]:
  "guardR True e = Inr ()"
  "guardR False e = Inl e"
  by (simp_all add: guardR_def)

lemma act_simps [simp, eff_simps]:
  "retA x s = (Inr x, s)"
  "raiseA e s = (Inl e, s)"
  "liftR r s = (r, s)"
  by (simp_all add: retA_def raiseA_def liftR_def)

lemma bindR_eq_Inr [simp]: "bindR m f = Inr y \<longleftrightarrow> (\<exists>x. m = Inr x \<and> f x = Inr y)"
  by (cases m) simp_all

lemma bindR_eq_Inl: "bindR m f = Inl e \<longleftrightarrow> m = Inl e \<or> (\<exists>x. m = Inr x \<and> f x = Inl e)"
  by (cases m) simp_all

lemma guardR_eq_Inr [simp]: "guardR c e = Inr u \<longleftrightarrow> c"
  by (cases c) simp_all

lemma guardR_eq_Inl [simp]: "guardR c e = Inl e' \<longleftrightarrow> \<not> c \<and> e' = e"
  by (cases c) auto

lemma bindR_guardR [eff_simps]: "bindR (guardR c e) f = (if c then f () else Inl e)"
  by simp

lemma bindA_Inr [eff_simps]: "m s = (Inr x, t) \<Longrightarrow> bindA m f s = f x t"
  by (simp add: bindA_def)

lemma bindA_Inl [eff_simps]: "m s = (Inl e, t) \<Longrightarrow> bindA m f s = (Inl e, t)"
  by (simp add: bindA_def)

lemma bindA_liftR [simp, eff_simps]:
  "bindA (liftR (Inr x)) f s = f x s"
  "bindA (liftR (Inl e)) f s = (Inl e, s)"
  by (simp_all add: bindA_def)

lemma bindA_retA [simp, eff_simps]: "bindA (retA x) f s = f x s"
  by (simp add: bindA_def)

lemma bindA_eq_Inr:
  "bindA m f s = (Inr y, u) \<longleftrightarrow> (\<exists>x t. m s = (Inr x, t) \<and> f x t = (Inr y, u))"
  by (auto simp: bindA_def split: prod.splits sum.splits)

lemma bindA_eq_Inl:
  "bindA m f s = (Inl e, u) \<longleftrightarrow>
    m s = (Inl e, u) \<or> (\<exists>x t. m s = (Inr x, t) \<and> f x t = (Inl e, u))"
  by (auto simp: bindA_def split: prod.splits sum.splits)

lemma bindAE:
  assumes "bindA m f s = (r, u)"
  obtains (raised) e where "m s = (Inl e, u)" "r = Inl e"
  | (returned) x t where "m s = (Inr x, t)" "f x t = (r, u)"
  using assms by (auto simp: bindA_def split: prod.splits sum.splits)

lemma liftRE:
  assumes "bindA (liftR q) f s = (r, u)"
  obtains (raised) e where "q = Inl e" "r = Inl e" "u = s"
  | (returned) x where "q = Inr x" "f x s = (r, u)"
  using assms by (cases q) auto

text \<open>
  The state rule every frame and invariant proof about an effectful method uses: a relation
  between the state before and after holds of a sequence when it is reflexive along the first
  call and transitive over the second.
\<close>

lemma bindA_state:
  assumes "bindA m f s = (r, u)"
    and "\<And>r' t. m s = (r', t) \<Longrightarrow> Q s t"
    and "\<And>x t r' u'. m s = (Inr x, t) \<Longrightarrow> f x t = (r', u') \<Longrightarrow> Q s t \<Longrightarrow> Q s u'"
  shows "Q s u"
  using assms by (auto simp: bindA_def split: prod.splits sum.splits)

lemma bindA_assoc: "bindA (bindA m f) g = bindA m (\<lambda>v. bindA (f v) g)"
  by (auto simp: bindA_def fun_eq_iff split: prod.splits sum.splits)

lemma bindA_unit: "bindA (retA v) f = f v" "bindA (liftR (Inr v)) f = f v"
  by (simp_all add: fun_eq_iff)

text \<open>An action that keeps a predicate on the state, whatever its outcome, and how it composes.\<close>

definition keeps :: "('s \<Rightarrow> bool) \<Rightarrow> ('s, 'a) act \<Rightarrow> bool" where
  "keeps P m \<longleftrightarrow> (\<forall>s. P s \<longrightarrow> P (snd (m s)))"

named_theorems keeps_intros \<open>actions that keep a predicate\<close>

lemma keepsI: "(\<And>s. P s \<Longrightarrow> P (snd (m s))) \<Longrightarrow> keeps P m"
  by (simp add: keeps_def)

lemma keeps_snd: "keeps P m \<Longrightarrow> P s \<Longrightarrow> P (snd (m s))"
  by (simp add: keeps_def)

lemma keepsD: "keeps P m \<Longrightarrow> P s \<Longrightarrow> m s = (r, s') \<Longrightarrow> P s'"
  by (metis keeps_snd snd_conv)

lemma keeps_result: "(\<And>s r s'. P s \<Longrightarrow> m s = (r, s') \<Longrightarrow> P s') \<Longrightarrow> keeps P m"
  unfolding keeps_def by (metis prod.collapse)

lemma keeps_simps [keeps_intros]:
  "keeps P (liftR q)" "keeps P (retA x)" "keeps P (raiseA e)" "keeps P (\<lambda>s. (g s, s))"
  by (simp_all add: keeps_def)

lemma keeps_bind [keeps_intros]:
  assumes "keeps P m" "\<And>x. keeps P (f x)"
  shows "keeps P (bindA m f)"
proof (rule keeps_result)
  fix s r s' assume "P s" "bindA m f s = (r, s')"
  then show "P s'" using assms by (auto elim!: bindAE dest: keepsD)
qed

section \<open>Lists with Python's index rules\<close>

text \<open>
  \<open>xs[i]\<close> and \<open>xs[i] = v\<close>: a negative index counts from the end, an index out of range raises
  \<open>IndexError\<close>.
\<close>

definition py_index :: "'a list \<Rightarrow> int \<Rightarrow> nat option" where
  "py_index xs i =
     (let j = (if i < 0 then i + int (length xs) else i)
      in if 0 \<le> j \<and> j < int (length xs) then Some (nat j) else None)"

definition py_get :: "'a list \<Rightarrow> int \<Rightarrow> 'a res" where
  "py_get xs i =
     (case py_index xs i of
        None \<Rightarrow> Inl (IndexError ''list index out of range'')
      | Some j \<Rightarrow> Inr (xs ! j))"

definition py_set :: "'a list \<Rightarrow> int \<Rightarrow> 'a \<Rightarrow> 'a list res" where
  "py_set xs i v =
     (case py_index xs i of
        None \<Rightarrow> Inl (IndexError ''list assignment index out of range'')
      | Some j \<Rightarrow> Inr (xs[j := v]))"

lemma py_index_Some:
  "py_index xs i = Some j \<Longrightarrow> j < length xs"
  by (auto simp: py_index_def Let_def split: if_splits)

lemma py_index_in_range [simp]:
  "0 \<le> i \<Longrightarrow> i < int (length xs) \<Longrightarrow> py_index xs i = Some (nat i)"
  by (simp add: py_index_def)

lemma py_set_in_range [simp]:
  "0 \<le> i \<Longrightarrow> i < int (length xs) \<Longrightarrow> py_set xs i v = Inr (xs[nat i := v])"
  by (simp add: py_set_def)

lemma py_set_length: "py_set xs i v = Inr ys \<Longrightarrow> length ys = length xs"
  by (auto simp: py_set_def split: option.splits)

text \<open>\<open>collections.deque(maxlen=n)\<close>: appending at one end drops from the other.\<close>

definition deque_append :: "nat \<Rightarrow> 'a list \<Rightarrow> 'a \<Rightarrow> 'a list" where
  "deque_append n xs x = drop (Suc (length xs) - n) (xs @ [x])"

definition deque_appendleft :: "nat \<Rightarrow> 'a list \<Rightarrow> 'a \<Rightarrow> 'a list" where
  "deque_appendleft n xs x = take n (x # xs)"

lemma length_deque_append [simp]: "length (deque_append n xs x) = min n (Suc (length xs))"
  by (simp add: deque_append_def)

lemma length_deque_appendleft [simp]:
  "length (deque_appendleft n xs x) = min n (Suc (length xs))"
  by (simp add: deque_appendleft_def min.commute)

lemma set_deque_append: "set (deque_append n xs x) \<subseteq> insert x (set xs)"
  by (auto simp: deque_append_def dest!: in_set_dropD)

end
