(* ===== verification/PyText.thy ===== *)
theory PyText
  imports Prelude "HOL-Library.Sublist" "HOL-Library.Char_ord"
begin

text \<open>
  The part of Python's text handling the program uses: \<open>strip\<close>, \<open>split\<close>, \<open>startswith\<close>, decimal
  and hexadecimal formatting, \<open>int(s)\<close> and \<open>int(s, 16)\<close>, \<open>bytes.hex\<close> and \<open>bytes.fromhex\<close>,
  \<open>decode("ascii", errors="replace")\<close> and \<open>encode("ascii")\<close>.

  A Python \<open>str\<close> is a HOL \<open>string\<close>.  What the program reads was decoded from ASCII with
  replacement, so it consists of code points below 128 and of U+FFFD; U+FFFD is written
  \<open>CHR 0xFF\<close>.  A Python \<open>bytes\<close> is a list of 8-bit words.
\<close>

type_synonym byte = "8 word"
type_synonym bytes = "byte list"

named_theorems text_simps \<open>parsing what formatting produced\<close>

section \<open>Strings and lines\<close>

text \<open>White space as \<open>str.strip()\<close> and \<open>str.split()\<close> see it on ASCII text.\<close>

definition is_ws :: "char \<Rightarrow> bool" where
  "is_ws c = (let n = (of_char c :: nat) in n = 32 \<or> 9 \<le> n \<and> n \<le> 13 \<or> 28 \<le> n \<and> n \<le> 31)"

definition py_strip :: "string \<Rightarrow> string" where
  "py_strip s = rev (dropWhile is_ws (rev (dropWhile is_ws s)))"

function py_split :: "string \<Rightarrow> string list" where
  "py_split s =
     (case dropWhile is_ws s of
        [] \<Rightarrow> []
      | c # cs \<Rightarrow> (c # takeWhile (\<lambda>d. \<not> is_ws d) cs) # py_split (dropWhile (\<lambda>d. \<not> is_ws d) cs))"
  by pat_completeness auto
termination
proof (relation "measure length", goal_cases)
  case (2 s c cs)
  have "length (dropWhile (\<lambda>d. \<not> is_ws d) cs) \<le> length cs"
    by (rule length_dropWhile_le)
  moreover have "length (dropWhile is_ws s) \<le> length s"
    by (rule length_dropWhile_le)
  ultimately show ?case using 2 by simp
qed simp

declare py_split.simps [simp del]

definition py_startswith :: "string \<Rightarrow> string list \<Rightarrow> bool" where
  "py_startswith s ps = list_ex (\<lambda>p. prefix p s) ps"

fun py_join :: "string \<Rightarrow> string list \<Rightarrow> string" where
  "py_join sep [] = []"
| "py_join sep [x] = x"
| "py_join sep (x # y # zs) = x @ sep @ py_join sep (y # zs)"

text \<open>A field: what \<open>split\<close> returns, non-empty and free of white space.\<close>

definition is_field :: "string \<Rightarrow> bool" where
  "is_field s = (s \<noteq> [] \<and> list_all (\<lambda>c. \<not> is_ws c) s)"

lemma is_fieldE: "is_field s \<Longrightarrow> \<exists>c cs. s = c # cs \<and> \<not> is_ws c \<and> (\<forall>d \<in> set cs. \<not> is_ws d)"
  by (cases s) (auto simp: is_field_def list_all_iff)

lemma is_ws_space [simp]: "is_ws CHR '' ''"
  by (simp add: is_ws_def)

lemma py_split_Nil [simp]: "py_split [] = []"
  by (simp add: py_split.simps)

lemma py_split_ws [simp]: "is_ws c \<Longrightarrow> py_split (c # s) = py_split s"
  by (subst (1 2) py_split.simps) simp

lemma py_split_field:
  assumes "is_field f" and "rest = [] \<or> (\<exists>c cs. rest = c # cs \<and> is_ws c)"
  shows "py_split (f @ rest) = f # py_split rest"
proof -
  obtain c cs where f: "f = c # cs" "\<not> is_ws c" "\<forall>d \<in> set cs. \<not> is_ws d"
    using is_fieldE [OF assms(1)] by blast
  have tw: "takeWhile (\<lambda>d. \<not> is_ws d) (cs @ rest) = cs"
    and dw: "dropWhile (\<lambda>d. \<not> is_ws d) (cs @ rest) = rest"
    using f(3) assms(2) by auto
  show ?thesis
    using f(1,2) by (subst py_split.simps) (simp add: tw dw)
qed

lemma py_split_join:
  assumes "list_all is_field fs"
  shows "py_split (py_join '' '' fs) = fs"
  using assms
proof (induction "'' ''" fs rule: py_join.induct)
  case 1
  then show ?case by simp
next
  case (2 x)
  then show ?case using py_split_field [of x "[]"] by simp
next
  case (3 x y zs)
  then show ?case by (simp add: py_split_field)
qed

lemma py_split_fields: "f \<in> set (py_split s) \<Longrightarrow> is_field f"
proof (induction s rule: py_split.induct)
  case (1 s)
  show ?case
  proof (cases "dropWhile is_ws s")
    case Nil
    then have "py_split s = []" by (subst py_split.simps) (simp del: dropWhile_eq_Nil_conv)
    then show ?thesis using "1.prems" by simp
  next
    case (Cons c cs)
    have "\<not> is_ws c" using Cons by (metis hd_dropWhile list.discI list.sel(1))
    then have "is_field (c # takeWhile (\<lambda>d. \<not> is_ws d) cs)"
      by (auto simp: is_field_def list_all_iff dest: set_takeWhileD)
    then show ?thesis
      using "1.prems" "1.IH" [OF Cons] Cons by (auto simp: py_split.simps [of s])
  qed
qed

section \<open>Numbers as text\<close>

text \<open>\<open>num_str b n\<close> are the digits of \<open>n\<close> in base \<open>b\<close> (10 or 16), lower case.\<close>

definition digit_char :: "nat \<Rightarrow> char" where
  "digit_char n = (if n < 10 then char_of (48 + n) else char_of (87 + n))"

fun num_str :: "nat \<Rightarrow> nat \<Rightarrow> string" where
  "num_str b n =
     (if n < b \<or> b < 2 then [digit_char n] else num_str b (n div b) @ [digit_char (n mod b)])"

declare num_str.simps [simp del]

text \<open>\<open>str(i)\<close> and the formats \<open>f"{i:0wx}"\<close>; the zero padding counts the sign.\<close>

definition str_int :: "int \<Rightarrow> string" where
  "str_int i = (if i < 0 then ''-'' @ num_str 10 (nat (- i)) else num_str 10 (nat i))"

definition pad0 :: "nat \<Rightarrow> string \<Rightarrow> string" where
  "pad0 w s = replicate (w - length s) CHR ''0'' @ s"

definition fmt_hex :: "nat \<Rightarrow> int \<Rightarrow> string" where
  "fmt_hex w i =
     (if i < 0 then ''-'' @ pad0 (w - 1) (num_str 16 (nat (- i))) else pad0 w (num_str 16 (nat i)))"

text \<open>
  \<open>int(s, base)\<close>: surrounding white space, a sign, the prefix \<open>0x\<close> in base 16, single
  underscores between digits.  The message quotes the literal with \<open>repr\<close>.
\<close>

definition digit_val :: "nat \<Rightarrow> char \<Rightarrow> nat option" where
  "digit_val b c =
     (let n = (of_char c :: nat);
          v = (if 48 \<le> n \<and> n \<le> 57 then n - 48
               else if 97 \<le> n \<and> n \<le> 122 then n - 87
               else if 65 \<le> n \<and> n \<le> 90 then n - 55 else b)
      in if v < b then Some v else None)"

fun int_digits :: "nat \<Rightarrow> nat \<Rightarrow> string \<Rightarrow> nat option" where
  "int_digits b acc [] = Some acc"
| "int_digits b acc (c # cs) =
     (case digit_val b c of
        Some v \<Rightarrow> int_digits b (b * acc + v) cs
      | None \<Rightarrow>
          (if c = CHR ''_'' then
             (case cs of
                [] \<Rightarrow> None
              | d # ds \<Rightarrow>
                  (case digit_val b d of
                     None \<Rightarrow> None
                   | Some v \<Rightarrow> int_digits b (b * acc + v) ds))
           else None))"

definition int_body :: "nat \<Rightarrow> string \<Rightarrow> nat option" where
  "int_body b s =
     (case s of
        [] \<Rightarrow> None
      | c # cs \<Rightarrow>
          (case digit_val b c of None \<Rightarrow> None | Some v \<Rightarrow> int_digits b v cs))"

definition int_unsigned :: "nat \<Rightarrow> string \<Rightarrow> nat option" where
  "int_unsigned b s =
     (case s of
        z # x # rest \<Rightarrow>
          (if b = 16 \<and> z = CHR ''0'' \<and> (x = CHR ''x'' \<or> x = CHR ''X'')
           then (case rest of
                   CHR ''_'' # rest' \<Rightarrow> int_body b rest'
                 | _ \<Rightarrow> int_body b rest)
           else int_body b s)
      | _ \<Rightarrow> int_body b s)"

definition int_literal :: "nat \<Rightarrow> string \<Rightarrow> int option" where
  "int_literal b s =
     (case py_strip s of
        [] \<Rightarrow> None
      | c # cs \<Rightarrow>
          (if c = CHR ''-'' then map_option (\<lambda>n. - int n) (int_unsigned b cs)
           else if c = CHR ''+'' then map_option int (int_unsigned b cs)
           else map_option int (int_unsigned b (c # cs))))"

definition repr_char :: "char \<Rightarrow> char \<Rightarrow> string" where
  "repr_char q c =
     (let n = (of_char c :: nat) in
      if c = q \<or> n = 92 then [CHR 0x5C, c]
      else if n = 9 then [CHR 0x5C, CHR ''t'']
      else if n = 10 then [CHR 0x5C, CHR ''n'']
      else if n = 13 then [CHR 0x5C, CHR ''r'']
      else if n < 32 \<or> n = 127 then [CHR 0x5C, CHR ''x''] @ pad0 2 (num_str 16 n)
      else [c])"

definition py_repr :: "string \<Rightarrow> string" where
  "py_repr s =
     (let q = (if CHR 0x27 \<in> set s \<and> CHR 0x22 \<notin> set s then CHR 0x22 else CHR 0x27)
      in q # concat (map (repr_char q) s) @ [q])"

definition py_int :: "nat \<Rightarrow> string \<Rightarrow> int res" where
  "py_int b s =
     (case int_literal b s of
        Some i \<Rightarrow> Inr i
      | None \<Rightarrow> Inl (ValueError (''invalid literal for int() with base '' @ num_str 10 b @ '': ''
                  @ take 200 (py_repr s))))"

section \<open>Bytes and text\<close>

definition char_of_byte :: "byte \<Rightarrow> char" where
  "char_of_byte b = (if b < 128 then char_of (unat b) else CHR 0xFF)"

definition byte_of_char :: "char \<Rightarrow> byte" where
  "byte_of_char c = of_nat (of_char c)"

text \<open>\<open>decode("ascii", errors="replace")\<close>, and \<open>encode("ascii")\<close> on ASCII text.\<close>

definition decode_ascii :: "bytes \<Rightarrow> string" where
  "decode_ascii bs = map char_of_byte bs"

definition encode_ascii :: "string \<Rightarrow> bytes" where
  "encode_ascii s = map byte_of_char s"

definition is_ascii :: "string \<Rightarrow> bool" where
  "is_ascii s = list_all (\<lambda>c. (of_char c :: nat) < 128) s"

definition hex_byte :: "byte \<Rightarrow> string" where
  "hex_byte b = [digit_char (unat b div 16), digit_char (unat b mod 16)]"

definition bytes_hex :: "bytes \<Rightarrow> string" where
  "bytes_hex bs = concat (map hex_byte bs)"

text \<open>
  \<open>bytes.fromhex(s)\<close> skips white space between the bytes; a character that is no digit raises
  \<open>ValueError\<close> with its position, and a missing second digit is reported one past the first.
\<close>

definition is_c_space :: "char \<Rightarrow> bool" where
  "is_c_space c = (let n = (of_char c :: nat) in n = 32 \<or> 9 \<le> n \<and> n \<le> 13)"

fun fromhex_at :: "nat \<Rightarrow> string \<Rightarrow> nat + bytes" where
  "fromhex_at i [] = Inr []"
| "fromhex_at i [c] =
     (if is_c_space c then Inr []
      else case digit_val 16 c of None \<Rightarrow> Inl i | Some _ \<Rightarrow> Inl (Suc i))"
| "fromhex_at i (c # d # cs) =
     (if is_c_space c then fromhex_at (Suc i) (d # cs)
      else case digit_val 16 c of
             None \<Rightarrow> Inl i
           | Some h \<Rightarrow>
               (case digit_val 16 d of
                  None \<Rightarrow> Inl (Suc i)
                | Some l \<Rightarrow>
                    (case fromhex_at (i + 2) cs of
                       Inl j \<Rightarrow> Inl j
                     | Inr bs \<Rightarrow> Inr (of_nat (16 * h + l) # bs))))"

definition bytes_fromhex :: "string \<Rightarrow> bytes res" where
  "bytes_fromhex s =
     (let bad = (\<lambda>i. Inl (ValueError
            (''non-hexadecimal number found in fromhex() arg at position '' @ num_str 10 i)))
      in if \<not> is_ascii s then bad (length (takeWhile (\<lambda>c. (of_char c :: nat) < 128) s))
         else case fromhex_at 0 s of Inl i \<Rightarrow> bad i | Inr bs \<Rightarrow> Inr bs)"

section \<open>Reading back what was written\<close>

lemma of_char_digit_char [simp]: "n < 16 \<Longrightarrow> (of_char (digit_char n) :: nat) = (if n < 10 then 48 + n else 87 + n)"
  by (simp add: digit_char_def)

lemma digit_val_digit_char [simp, text_simps]:
  "d < b \<Longrightarrow> b \<le> 16 \<Longrightarrow> digit_val b (digit_char d) = Some d"
  by (simp add: digit_val_def Let_def)

lemma digit_char_ws [simp]: "n < 16 \<Longrightarrow> \<not> is_ws (digit_char n)"
  by (simp add: is_ws_def Let_def)

lemma digit_char_ascii [simp]: "n < 16 \<Longrightarrow> (of_char (digit_char n) :: nat) < 128"
  by simp

lemma digit_char_not [simp]:
  assumes "n < 16"
  shows "digit_char n \<noteq> CHR ''-''" "digit_char n \<noteq> CHR ''+''" "digit_char n \<noteq> CHR ''_''"
    "digit_char n \<noteq> CHR ''x''" "digit_char n \<noteq> CHR ''X''"
  using assms by (auto dest!: arg_cong [where f = "of_char :: char \<Rightarrow> nat"] split: if_splits)

text \<open>A string of digits of base \<open>b\<close>, and the number it denotes.\<close>

definition all_digits :: "nat \<Rightarrow> string \<Rightarrow> bool" where
  "all_digits b s = (s \<noteq> [] \<and> (\<forall>c \<in> set s. \<exists>d. d < b \<and> c = digit_char d))"

definition digits_value :: "nat \<Rightarrow> string \<Rightarrow> nat" where
  "digits_value b s = foldl (\<lambda>a c. b * a + the (digit_val b c)) 0 s"

lemma int_digits_all:
  "b \<le> 16 \<Longrightarrow> \<forall>c \<in> set s. \<exists>d. d < b \<and> c = digit_char d \<Longrightarrow>
    int_digits b acc s = Some (foldl (\<lambda>a c. b * a + the (digit_val b c)) acc s)"
  by (induction s arbitrary: acc) auto

lemma int_body_digits:
  assumes "all_digits b s" "b \<le> 16"
  shows "int_body b s = Some (digits_value b s)"
proof -
  obtain c cs where s: "s = c # cs" using assms(1) by (cases s) (auto simp: all_digits_def)
  moreover obtain d where "d < b" "c = digit_char d" using assms(1) s by (auto simp: all_digits_def)
  ultimately show ?thesis
    using assms int_digits_all [of b cs] by (simp add: int_body_def digits_value_def all_digits_def)
qed

lemma all_digits_field: "all_digits b s \<Longrightarrow> b \<le> 16 \<Longrightarrow> is_field s"
  by (fastforce simp: all_digits_def is_field_def list_all_iff)

lemma is_field_strip: "is_field s \<Longrightarrow> py_strip s = s"
proof -
  assume f: "is_field s"
  have "\<not> is_ws (hd s)" "\<not> is_ws (hd (rev s))" "s \<noteq> []"
    using f by (auto simp: is_field_def list_all_iff hd_rev)
  moreover from this have "dropWhile is_ws s = s" "dropWhile is_ws (rev s) = rev s"
    by (metis dropWhile.simps(2) list.exhaust list.sel(1),
        metis dropWhile.simps(2) list.exhaust list.sel(1) rev_is_Nil_conv)
  ultimately show "py_strip s = s" by (simp add: py_strip_def)
qed

lemma all_digits_unsigned:
  assumes "all_digits b s" "b \<le> 16"
  shows "int_unsigned b s = Some (digits_value b s)"
proof -
  have "x \<noteq> CHR ''x'' \<and> x \<noteq> CHR ''X''" if "s = z # x # rest" for z x rest
    using assms that by (force simp: all_digits_def)
  then show ?thesis
    using int_body_digits [OF assms] by (auto simp: int_unsigned_def split: list.split)
qed

lemma py_int_digits [text_simps]:
  assumes "all_digits b s" "b \<le> 16"
  shows "py_int b s = Inr (int (digits_value b s))"
proof -
  obtain c cs where s: "s = c # cs" using assms(1) by (cases s) (auto simp: all_digits_def)
  moreover have "c \<noteq> CHR ''-'' \<and> c \<noteq> CHR ''+''" using assms s by (force simp: all_digits_def)
  ultimately show ?thesis
    using all_digits_unsigned [OF assms] is_field_strip [OF all_digits_field [OF assms]]
    by (simp add: py_int_def int_literal_def)
qed

lemma num_str_digits: "2 \<le> b \<Longrightarrow> all_digits b (num_str b n)"
proof (induction b n rule: num_str.induct)
  case (1 b n)
  then show ?case
    by (subst num_str.simps) (auto simp: all_digits_def intro!: exI [where x = "n mod b"])
qed

lemma digits_value_snoc:
  "digits_value b (s @ [c]) = b * digits_value b s + the (digit_val b c)"
  by (simp add: digits_value_def)

lemma num_str_value: "2 \<le> b \<Longrightarrow> b \<le> 16 \<Longrightarrow> digits_value b (num_str b n) = n"
proof (induction b n rule: num_str.induct)
  case (1 b n)
  show ?case
  proof (cases "n < b")
    case True
    then show ?thesis using 1 by (subst num_str.simps) (simp add: digits_value_def)
  next
    case False
    with 1 show ?thesis by (subst num_str.simps) (simp add: digits_value_snoc)
  qed
qed

lemma all_digits_pad0: "all_digits b s \<Longrightarrow> 0 < b \<Longrightarrow> all_digits b (pad0 w s)"
proof -
  assume "all_digits b s" "0 < b"
  moreover have "CHR ''0'' = digit_char 0" by code_simp
  ultimately show ?thesis by (auto simp: all_digits_def pad0_def)
qed

lemma digits_value_pad0 [simp]: "0 < b \<Longrightarrow> b \<le> 16 \<Longrightarrow> digits_value b (pad0 w s) = digits_value b s"
proof -
  assume b: "0 < b" "b \<le> 16"
  have z: "digit_val b CHR ''0'' = Some 0" using b by (simp add: digit_val_def)
  have "foldl (\<lambda>a c. b * a + the (digit_val b c)) 0 (replicate k CHR ''0'') = 0" for k
    by (induction k) (simp_all add: z)
  then show ?thesis by (simp add: digits_value_def pad0_def)
qed

lemma py_int_num_str [simp, text_simps]:
  "2 \<le> b \<Longrightarrow> b \<le> 16 \<Longrightarrow> py_int b (num_str b n) = Inr (int n)"
  by (simp add: py_int_digits num_str_digits num_str_value)

lemma py_int_str_int [simp, text_simps]: "0 \<le> i \<Longrightarrow> py_int 10 (str_int i) = Inr i"
  by (simp add: str_int_def)

lemma py_int_fmt_hex [simp, text_simps]: "0 \<le> i \<Longrightarrow> py_int 16 (fmt_hex w i) = Inr i"
  by (simp add: fmt_hex_def py_int_digits all_digits_pad0 num_str_digits num_str_value)

lemma is_field_str_int [simp]: "0 \<le> i \<Longrightarrow> is_field (str_int i)"
  using all_digits_field [OF num_str_digits [of 10]] by (simp add: str_int_def)

lemma is_field_fmt_hex [simp]: "0 \<le> i \<Longrightarrow> is_field (fmt_hex w i)"
  using all_digits_field [OF all_digits_pad0 [OF num_str_digits [of 16]]] by (simp add: fmt_hex_def)

text \<open>Bytes in hexadecimal: two digits each, read back by \<open>fromhex\<close>.\<close>

lemma length_bytes_hex [simp]: "length (bytes_hex bs) = 2 * length bs"
  by (induction bs) (simp_all add: bytes_hex_def hex_byte_def)

lemma byte_div_lt [simp]: "unat (b :: byte) div 16 < 16"
proof -
  have "unat b < 2 ^ LENGTH(8)" by (rule unsigned_less)
  then show ?thesis by simp
qed

lemma digit_char_not_c_space [simp]: "n < 16 \<Longrightarrow> \<not> is_c_space (digit_char n)"
  by (simp add: is_c_space_def Let_def)

lemma fromhex_at_hex: "fromhex_at i (bytes_hex bs) = Inr bs"
proof (induction bs arbitrary: i)
  case Nil
  then show ?case by (simp add: bytes_hex_def)
next
  case (Cons b bs)
  have "bytes_hex (b # bs) = digit_char (unat b div 16) # digit_char (unat b mod 16) # bytes_hex bs"
    by (simp add: bytes_hex_def hex_byte_def)
  moreover have "16 * (unat b div 16) + unat b mod 16 = unat b" by simp
  ultimately show ?case using Cons by (simp del: mult_div_mod_eq)
qed

lemma bytes_hex_ascii: "is_ascii (bytes_hex bs)"
proof (induction bs)
  case Nil
  then show ?case by (simp add: bytes_hex_def is_ascii_def)
next
  case (Cons b bs)
  have "is_ascii (hex_byte b)"
    using digit_char_ascii [of "unat b div 16"] digit_char_ascii [of "unat b mod 16"]
    by (simp add: hex_byte_def is_ascii_def del: of_char_digit_char)
  with Cons show ?case by (simp add: bytes_hex_def is_ascii_def)
qed

lemma bytes_fromhex_hex [simp, text_simps]: "bytes_fromhex (bytes_hex bs) = Inr bs"
  by (simp add: bytes_fromhex_def bytes_hex_ascii fromhex_at_hex)

lemma is_field_bytes_hex: "bs \<noteq> [] \<Longrightarrow> is_field (bytes_hex bs)"
proof -
  assume "bs \<noteq> []"
  moreover have "list_all (\<lambda>c. \<not> is_ws c) (bytes_hex bs)"
    by (induction bs) (simp_all add: bytes_hex_def hex_byte_def)
  ultimately show ?thesis by (cases bs) (simp_all add: is_field_def bytes_hex_def hex_byte_def)
qed

lemma decode_encode_ascii: "is_ascii s \<Longrightarrow> decode_ascii (encode_ascii s) = s"
proof (induction s)
  case Nil
  then show ?case by (simp add: decode_ascii_def encode_ascii_def)
next
  case (Cons c s)
  then have c: "(of_char c :: nat) < 128" by (simp add: is_ascii_def)
  have u: "unat (byte_of_char c) = of_char c"
    using c by (simp add: byte_of_char_def unat_of_nat)
  have "char_of_byte (byte_of_char c) = c"
    using c u by (simp add: char_of_byte_def word_less_nat_alt)
  with Cons show ?case by (simp add: decode_ascii_def encode_ascii_def is_ascii_def)
qed

section \<open>Lines of the protocol\<close>

text \<open>A line that survives transport and \<open>strip()\<close>: ASCII, not empty, no white space at the ends.\<close>

definition line_ok :: "string \<Rightarrow> bool" where
  "line_ok s = (is_ascii s \<and> s \<noteq> [] \<and> \<not> is_ws (hd s) \<and> \<not> is_ws (last s))"

lemma strip_line:
  assumes "line_ok s" "list_all is_ws ws"
  shows "py_strip (s @ ws) = s"
proof -
  obtain c cs where s: "s = c # cs" "\<not> is_ws c" using assms by (cases s) (auto simp: line_ok_def)
  have "dropWhile is_ws (rev ws @ rev s) = dropWhile is_ws (rev s)"
    using assms(2) by (intro dropWhile_append2) (auto simp: list_all_iff)
  moreover have "rev s = last s # rev (butlast s)"
    using s by (metis append_butlast_last_id list.discI rev_eq_Cons_iff rev_rev_ident)
  ultimately have "rev (dropWhile is_ws (rev ws @ rev s)) = s"
    using assms by (metis dropWhile.simps(2) line_ok_def rev_rev_ident)
  then show ?thesis using s by (simp add: py_strip_def)
qed

lemma is_ascii_simps [simp]:
  "is_ascii []" "is_ascii (c # s) \<longleftrightarrow> (of_char c :: nat) < 128 \<and> is_ascii s"
  "is_ascii (s @ t) \<longleftrightarrow> is_ascii s \<and> is_ascii t"
  by (simp_all add: is_ascii_def)

lemma decode_line:
  assumes "line_ok s" "is_ascii ws" "list_all is_ws ws"
  shows "py_strip (decode_ascii (encode_ascii (s @ ws))) = s"
  using assms strip_line by (simp add: decode_encode_ascii line_ok_def)

lemma encode_ascii_Nil [simp]: "encode_ascii s = [] \<longleftrightarrow> s = []"
  by (simp add: encode_ascii_def)

lemma all_digits_ascii: "all_digits b s \<Longrightarrow> b \<le> 16 \<Longrightarrow> is_ascii s"
  unfolding is_ascii_def list_all_iff all_digits_def
  by (metis digit_char_ascii order_less_le_trans)

lemma is_ascii_str_int [simp]: "0 \<le> i \<Longrightarrow> is_ascii (str_int i)"
  using all_digits_ascii [OF num_str_digits [of 10]] by (simp add: str_int_def)

lemma is_ascii_fmt_hex [simp]: "0 \<le> i \<Longrightarrow> is_ascii (fmt_hex w i)"
  using all_digits_ascii [OF all_digits_pad0 [OF num_str_digits [of 16]]] by (simp add: fmt_hex_def)

text \<open>Fields joined by blanks make such a line.\<close>

lemma join_last: "fs \<noteq> [] \<Longrightarrow> list_all is_field fs \<Longrightarrow>
    py_join sep fs \<noteq> [] \<and> last (py_join sep fs) = last (last fs) \<and> hd (py_join sep fs) = hd (hd fs)"
proof (induction sep fs rule: py_join.induct)
  case (3 sep x y zs)
  then show ?case by (auto simp: is_field_def hd_append)
qed (auto simp: is_field_def)

lemma is_ascii_join: "is_ascii sep \<Longrightarrow> list_all is_ascii fs \<Longrightarrow> is_ascii (py_join sep fs)"
  by (induction sep fs rule: py_join.induct) auto

lemma line_ok_join:
  assumes "fs \<noteq> []" "list_all is_field fs" "list_all is_ascii fs"
  shows "line_ok (py_join '' '' fs)"
proof -
  have "is_field (hd fs)" "is_field (last fs)" using assms by (auto simp: list_all_iff)
  then have "\<not> is_ws (hd (hd fs))" "\<not> is_ws (last (last fs))"
    by (auto simp: is_field_def list_all_iff)
  then show ?thesis using join_last [OF assms(1,2)] is_ascii_join [of "'' ''" fs] assms(3)
    by (simp add: line_ok_def)
qed

end
