(* ===== verification/PyBytes.thy ===== *)
theory PyBytes
  imports PyText
begin

text \<open>
  Byte strings: \<open>int.to_bytes(n, "big")\<close>, \<open>bytes((a, b, ...))\<close>, slices and zero padding, with the
  facts that make the wire formats injective.
\<close>

section \<open>Big-endian integers\<close>

fun be_bytes :: "nat \<Rightarrow> nat \<Rightarrow> bytes" where
  "be_bytes 0 v = []"
| "be_bytes (Suc n) v = be_bytes n (v div 256) @ [of_nat (v mod 256)]"

definition be_value :: "bytes \<Rightarrow> nat" where
  "be_value bs = foldl (\<lambda>a b. 256 * a + unat b) 0 bs"

text \<open>\<open>i.to_bytes(n, "big")\<close> raises \<open>OverflowError\<close> on a negative or too large integer.\<close>

definition to_bytes_be :: "nat \<Rightarrow> int \<Rightarrow> bytes res" where
  "to_bytes_be n i =
     (if i < 0 then Inl (OverflowError ''can't convert negative int to unsigned'')
      else if 256 ^ n \<le> i then Inl (OverflowError ''int too big to convert'')
      else Inr (be_bytes n (nat i)))"

text \<open>\<open>bytes((a, b, ...))\<close>.\<close>

definition bytes_of_ints :: "int list \<Rightarrow> bytes res" where
  "bytes_of_ints xs =
     (if list_all (\<lambda>i. 0 \<le> i \<and> i < 256) xs then Inr (map of_int xs)
      else Inl (ValueError ''bytes must be in range(0, 256)''))"

text \<open>\<open>data + bytes(n - len(data))\<close>, \<open>frame[:-16]\<close>, \<open>frame[-16:]\<close> and \<open>data[a:b]\<close>.\<close>

definition zero_pad :: "nat \<Rightarrow> bytes \<Rightarrow> bytes" where
  "zero_pad n bs = bs @ replicate (n - length bs) 0"

definition drop_last :: "nat \<Rightarrow> 'a list \<Rightarrow> 'a list" where
  "drop_last n xs = take (length xs - n) xs"

definition take_last :: "nat \<Rightarrow> 'a list \<Rightarrow> 'a list" where
  "take_last n xs = drop (length xs - n) xs"

definition slice :: "nat \<Rightarrow> nat \<Rightarrow> 'a list \<Rightarrow> 'a list" where
  "slice a b xs = drop a (take b xs)"

text \<open>\<open>altered = bytearray(c); altered[0] ^= 0x01\<close>: the attack button flips one bit.\<close>

definition flip_first_bit :: "bytes \<Rightarrow> bytes res" where
  "flip_first_bit bs =
     (case bs of
        [] \<Rightarrow> Inl (IndexError ''bytearray index out of range'')
      | b # rest \<Rightarrow> Inr (Bit_Operations.xor b 1 # rest))"

lemma length_be_bytes [simp]: "length (be_bytes n v) = n"
  by (induction n arbitrary: v) simp_all

lemma be_value_snoc: "be_value (bs @ [b]) = 256 * be_value bs + unat b"
  by (simp add: be_value_def)

lemma be_value_be_bytes: "be_value (be_bytes n v) = v mod 256 ^ n"
proof (induction n arbitrary: v)
  case 0
  then show ?case by (simp add: be_value_def)
next
  case (Suc n)
  have "be_value (be_bytes (Suc n) v) = 256 * (v div 256 mod 256 ^ n) + v mod 256"
    by (simp add: be_value_snoc Suc unat_of_nat)
  also have "\<dots> = v mod 256 ^ Suc n"
    by (simp add: mod_mult2_eq)
  finally show ?case .
qed

lemma be_bytes_inject:
  "v < 256 ^ n \<Longrightarrow> w < 256 ^ n \<Longrightarrow> be_bytes n v = be_bytes n w \<longleftrightarrow> v = w"
  by (metis be_value_be_bytes mod_less)

lemma to_bytes_be_Inr:
  "to_bytes_be n i = Inr bs \<longleftrightarrow> 0 \<le> i \<and> i < 256 ^ n \<and> bs = be_bytes n (nat i)"
  by (auto simp: to_bytes_be_def)

lemma length_to_bytes_be: "to_bytes_be n i = Inr bs \<Longrightarrow> length bs = n"
  by (auto simp: to_bytes_be_Inr)

lemma to_bytes_be_inject:
  assumes "to_bytes_be n i = Inr bs" "to_bytes_be n j = Inr bs"
  shows "i = j"
proof -
  have "nat i < 256 ^ n" "nat j < 256 ^ n"
    using assms by (auto simp: to_bytes_be_Inr nat_less_iff)
  moreover have "be_bytes n (nat i) = be_bytes n (nat j)"
    using assms by (auto simp: to_bytes_be_Inr)
  ultimately have "nat i = nat j" by (simp add: be_bytes_inject)
  then show ?thesis using assms by (auto simp: to_bytes_be_Inr)
qed

lemma length_zero_pad [simp]: "length (zero_pad n bs) = max n (length bs)"
  by (simp add: zero_pad_def)

lemma take_zero_pad [simp]: "take (length bs) (zero_pad n bs) = bs"
  by (simp add: zero_pad_def)

lemma drop_last_take_last: "drop_last n xs @ take_last n xs = xs"
  by (simp add: drop_last_def take_last_def)

lemma length_drop_last [simp]: "length (drop_last n xs) = length xs - n"
  by (simp add: drop_last_def)

lemma length_take_last [simp]: "length (take_last n xs) = min n (length xs)"
  by (auto simp: take_last_def)

lemma length_slice [simp]: "length (slice a b xs) = min b (length xs) - a"
  by (simp add: slice_def min.commute)

lemma slice_append:
  assumes "a \<le> b" "b \<le> c"
  shows "slice a b xs @ slice b c xs = slice a c xs"
proof -
  have "take c xs = take b xs @ drop b (take c xs)"
    using assms by (metis append_take_drop_id min.absorb1 take_take)
  then have "drop a (take c xs) = drop a (take b xs) @ drop (a - length (take b xs)) (drop b (take c xs))"
    by (metis drop_append)
  moreover have "drop (a - length (take b xs)) (drop b (take c xs)) = drop b (take c xs)"
    using assms by (cases "b \<le> length xs") simp_all
  ultimately show ?thesis by (simp add: slice_def)
qed

lemma slice_all: "n = length xs \<Longrightarrow> slice 0 n xs = xs"
  by (simp add: slice_def)

lemma flip_first_bit_differs: "flip_first_bit bs = Inr cs \<Longrightarrow> cs \<noteq> bs \<and> length cs = length bs"
proof -
  have "Bit_Operations.xor b 1 \<noteq> (b :: byte)" for b
  proof
    assume "Bit_Operations.xor b 1 = b"
    then have "Bit_Operations.xor b (Bit_Operations.xor b 1) = Bit_Operations.xor b b" by simp
    then show False by (simp add: xor.assoc [symmetric])
  qed
  then show "flip_first_bit bs = Inr cs \<Longrightarrow> cs \<noteq> bs \<and> length cs = length bs"
    by (auto simp: flip_first_bit_def split: list.splits)
qed

end
