(* ===== verification/Keccak.thy ===== *)
theory Keccak
  imports PyBytes
begin

text \<open>
  \<open>hashlib.sha3_256\<close> and \<open>hashlib.shake_256\<close> of Python's standard library, as FIPS 202 defines
  them: the permutation Keccak-f[1600] on 25 lanes of 64 bits, lane \<open>(x, y)\<close> at index
  \<open>5 * y + x\<close>, and the sponge over it.  The program relies on the digest lengths, which are
  theorems here, and on both sides of the channel computing the same function.
\<close>

type_synonym lanes = "64 word list"

section \<open>The permutation\<close>

definition rotl64 :: "nat \<Rightarrow> 64 word \<Rightarrow> 64 word" where
  "rotl64 n w = Bit_Operations.or (push_bit (n mod 64) w) (drop_bit (64 - n mod 64) w)"

definition lane :: "lanes \<Rightarrow> nat \<Rightarrow> nat \<Rightarrow> 64 word" where
  "lane A x y = A ! (5 * (y mod 5) + x mod 5)"

definition from_lanes :: "(nat \<Rightarrow> nat \<Rightarrow> 64 word) \<Rightarrow> lanes" where
  "from_lanes f = map (\<lambda>i. f (i mod 5) (i div 5)) [0..<25]"

definition column :: "lanes \<Rightarrow> nat \<Rightarrow> 64 word" where
  "column A x = foldl (\<lambda>a y. Bit_Operations.xor a (lane A x y)) 0 [0..<5]"

definition theta :: "lanes \<Rightarrow> lanes" where
  "theta A =
     (let C = map (column A) [0..<5];
          D = map (\<lambda>x. Bit_Operations.xor (C ! ((x + 4) mod 5)) (rotl64 1 (C ! ((x + 1) mod 5)))) [0..<5]
      in from_lanes (\<lambda>x y. Bit_Operations.xor (lane A x y) (D ! x)))"

definition rho_offsets :: "nat list" where
  "rho_offsets =
     [0, 1, 62, 28, 27, 36, 44, 6, 55, 20, 3, 10, 43, 25, 39, 41, 45, 15, 21, 8, 18, 2, 61, 56, 14]"

definition rho :: "lanes \<Rightarrow> lanes" where
  "rho A = map2 rotl64 rho_offsets A"

definition pi_step :: "lanes \<Rightarrow> lanes" where
  "pi_step A = from_lanes (\<lambda>x y. lane A (x + 3 * y) x)"

definition chi :: "lanes \<Rightarrow> lanes" where
  "chi A = from_lanes (\<lambda>x y.
     Bit_Operations.xor (lane A x y)
       (Bit_Operations.and (Bit_Operations.not (lane A (x + 1) y)) (lane A (x + 2) y)))"

definition round_constants :: "64 word list" where
  "round_constants =
     [0x0000000000000001, 0x0000000000008082, 0x800000000000808A, 0x8000000080008000,
      0x000000000000808B, 0x0000000080000001, 0x8000000080008081, 0x8000000000008009,
      0x000000000000008A, 0x0000000000000088, 0x0000000080008009, 0x000000008000000A,
      0x000000008000808B, 0x800000000000008B, 0x8000000000008089, 0x8000000000008003,
      0x8000000000008002, 0x8000000000000080, 0x000000000000800A, 0x800000008000000A,
      0x8000000080008081, 0x8000000000008080, 0x0000000080000001, 0x8000000080008008]"

definition iota_step :: "64 word \<Rightarrow> lanes \<Rightarrow> lanes" where
  "iota_step rc A = A[0 := Bit_Operations.xor (A ! 0) rc]"

definition keccak_f :: "lanes \<Rightarrow> lanes" where
  "keccak_f A = foldl (\<lambda>A rc. iota_step rc (chi (pi_step (rho (theta A))))) A round_constants"

section \<open>The sponge\<close>

definition lane_of_bytes :: "bytes \<Rightarrow> 64 word" where
  "lane_of_bytes bs = foldr (\<lambda>b a. Bit_Operations.or (push_bit 8 a) (ucast b)) bs 0"

definition bytes_of_lane :: "64 word \<Rightarrow> bytes" where
  "bytes_of_lane w = map (\<lambda>i. ucast (drop_bit (8 * i) w)) [0..<8]"

definition state_bytes :: "lanes \<Rightarrow> bytes" where
  "state_bytes A = concat (map bytes_of_lane A)"

definition absorb_block :: "lanes \<Rightarrow> bytes \<Rightarrow> lanes" where
  "absorb_block A block =
     keccak_f (map (\<lambda>i. Bit_Operations.xor (A ! i) (lane_of_bytes (slice (8 * i) (8 * i + 8) block)))
       [0..<25])"

text \<open>\<open>pad10*1\<close> with the domain suffix in the first padding byte; the rate is a positive number.\<close>

definition keccak_pad :: "nat \<Rightarrow> byte \<Rightarrow> bytes \<Rightarrow> bytes" where
  "keccak_pad rate sfx msg =
     (let q = rate - length msg mod rate
      in if q = 1 then msg @ [Bit_Operations.or sfx 0x80]
         else msg @ [sfx] @ replicate (q - 2) 0 @ [0x80])"

fun absorb :: "nat \<Rightarrow> nat \<Rightarrow> bytes \<Rightarrow> lanes \<Rightarrow> lanes" where
  "absorb rate 0 bs A = A"
| "absorb rate (Suc n) bs A = absorb rate n (drop rate bs) (absorb_block A (take rate bs))"

fun squeeze :: "nat \<Rightarrow> nat \<Rightarrow> lanes \<Rightarrow> bytes" where
  "squeeze rate 0 A = []"
| "squeeze rate (Suc n) A = take rate (state_bytes A) @ squeeze rate n (keccak_f A)"

definition sponge :: "nat \<Rightarrow> byte \<Rightarrow> bytes \<Rightarrow> nat \<Rightarrow> bytes" where
  "sponge rate sfx msg n =
     (let p = keccak_pad rate sfx msg
      in take n (squeeze rate (n div rate + 1) (absorb rate (length p div rate) p (replicate 25 0))))"

definition sha3_256 :: "bytes \<Rightarrow> bytes" where
  "sha3_256 msg = sponge 136 0x06 msg 32"

definition shake_256 :: "bytes \<Rightarrow> nat \<Rightarrow> bytes" where
  "shake_256 msg n = sponge 136 0x1F msg n"

section \<open>Digest lengths\<close>

lemma length_iota [simp]: "length (iota_step rc A) = length A"
  by (simp add: iota_step_def)

lemma length_chi [simp]: "length (chi A) = 25"
  by (simp add: chi_def from_lanes_def)

lemma length_keccak_f: "length A = 25 \<Longrightarrow> length (keccak_f A) = 25"
proof -
  have "length (foldl (\<lambda>A rc. iota_step rc (chi (pi_step (rho (theta A))))) A rcs) = 25"
    if "length A = 25" for A rcs
    using that by (induction rcs arbitrary: A) simp_all
  then show "length A = 25 \<Longrightarrow> length (keccak_f A) = 25" by (simp add: keccak_f_def)
qed

lemma length_absorb_block: "length (absorb_block A block) = 25"
  by (simp add: absorb_block_def length_keccak_f)

lemma length_absorb: "length A = 25 \<Longrightarrow> length (absorb rate n bs A) = 25"
  by (induction n arbitrary: bs A) (simp_all add: length_absorb_block)

lemma length_state_bytes: "length (state_bytes A) = 8 * length A"
  by (induction A) (simp_all add: state_bytes_def bytes_of_lane_def)

lemma length_squeeze: "length A = 25 \<Longrightarrow> rate \<le> 200 \<Longrightarrow> length (squeeze rate n A) = n * rate"
  by (induction n arbitrary: A) (simp_all add: length_state_bytes length_keccak_f)

lemma length_sponge: "0 < rate \<Longrightarrow> rate \<le> 200 \<Longrightarrow> length (sponge rate sfx msg n) = n"
proof -
  assume r: "0 < rate" "rate \<le> 200"
  have "n mod rate < rate" using r by simp
  then have "n < n div rate * rate + rate" by (metis add_less_cancel_left div_mult_mod_eq)
  then show ?thesis
    using r by (simp add: sponge_def Let_def length_squeeze length_absorb add.commute del: squeeze.simps)
qed

lemma length_sha3_256 [simp]: "length (sha3_256 msg) = 32"
  by (simp add: sha3_256_def length_sponge)

lemma length_shake_256 [simp]: "length (shake_256 msg n) = n"
  by (simp add: shake_256_def length_sponge)

end
