(* ===== verification/Keccak_Spec.thy ===== *)
theory Keccak_Spec
  imports Keccak
begin

text \<open>
  The tables of \<open>Keccak\<close> are those that the algorithms of FIPS 202 generate.
\<close>

section \<open>Rotations\<close>

text \<open>
  Algorithm 2 of FIPS 202 walks over the lanes from \<open>(1, 0)\<close> with \<open>(x, y) \<mapsto> (y, 2 x + 3 y)\<close> and rotates the
  lane of step \<open>t\<close> by \<open>(t + 1) (t + 2) / 2\<close>.
\<close>

fun rho_walk :: "nat \<Rightarrow> nat \<times> nat" where
  "rho_walk 0 = (1, 0)"
| "rho_walk (Suc t) = (case rho_walk t of (x, y) \<Rightarrow> (y, (2 * x + 3 * y) mod 5))"

definition rho_index :: "nat \<Rightarrow> nat" where
  "rho_index t = (case rho_walk t of (x, y) \<Rightarrow> 5 * y + x)"

lemma rho_walk_covers: "insert 0 (set (map rho_index [0..<24])) = set [0..<25]"
  by code_simp

lemma rho_offsets_walk: "map (\<lambda>t. rho_offsets ! rho_index t) [0..<24] = map (\<lambda>t. (t + 1) * (t + 2) div 2 mod 64) [0..<24]"
  "rho_offsets ! 0 = 0"
  by code_simp+

section \<open>Round constants\<close>

text \<open>Algorithm 5: the bits come from a shift register with eight places.\<close>

fun shift_register :: "nat \<Rightarrow> bool list" where
  "shift_register 0 = [True, False, False, False, False, False, False, False]"
| "shift_register (Suc t) =
     (case shift_register t of
        [a, b, c, d, e, f, g, h] \<Rightarrow> [h, a, b, c, d \<noteq> h, e \<noteq> h, f \<noteq> h, g]
      | r \<Rightarrow> r)"

definition rc_bit :: "nat \<Rightarrow> bool" where
  "rc_bit t = hd (shift_register (t mod 255))"

definition round_constant :: "nat \<Rightarrow> 64 word" where
  "round_constant i = foldl (\<lambda>w j. if rc_bit (j + 7 * i) then Bit_Operations.or w (push_bit (2 ^ j - 1) 1) else w) 0 [0..<7]"

lemma round_constants_generated: "round_constants = map round_constant [0..<24]"
  by code_simp

end
