(* ===== verification/World.thy ===== *)
theory World
  imports Keccak
begin

text \<open>
  The program's outside world.  \<open>env\<close> holds the operations of the packages the program calls and
  whose code is not in the repository: the serial port (pyserial), the AEAD (cryptography) and the
  key encapsulation (kyber-py).  It is a parameter of every definition that uses it; \<open>'d\<close> is the
  state of what lies outside (the board at the far end of the UART, the entropy source).
  \<open>world\<close> adds the clocks of the \<open>time\<close> module.
\<close>

section \<open>Parameters\<close>

record 'd env =
  sr_write :: "'d \<Rightarrow> bytes \<Rightarrow> unit res \<times> 'd"     \<comment> \<open>\<open>write\<close> and \<open>flush\<close>\<close>
  sr_readline :: "'d \<Rightarrow> bytes res \<times> 'd"             \<comment> \<open>\<open>readline\<close>; empty after the port's timeout\<close>
  sr_close :: "'d \<Rightarrow> 'd"                         \<comment> \<open>\<open>close\<close>\<close>
  aead_encrypt :: "bytes \<Rightarrow> bytes \<Rightarrow> bytes \<Rightarrow> bytes \<Rightarrow> bytes res"
    \<comment> \<open>\<open>ChaCha20Poly1305(key).encrypt(nonce, data, aad)\<close>\<close>
  aead_decrypt :: "bytes \<Rightarrow> bytes \<Rightarrow> bytes \<Rightarrow> bytes \<Rightarrow> bytes res"
  kem_encaps :: "'d \<Rightarrow> bytes \<Rightarrow> (bytes \<times> bytes) res \<times> 'd"
    \<comment> \<open>\<open>ML_KEM_512.encaps(public_key)\<close>: shared secret and ciphertext\<close>

text \<open>
  What the package documents of ChaCha20-Poly1305 and the code relies on: with a 32-byte key and a
  12-byte nonce, \<open>encrypt\<close> returns the ciphertext followed by a 16-byte tag, \<open>decrypt\<close> inverts it,
  and \<open>decrypt\<close> returns a plaintext only for the frame that \<open>encrypt\<close> makes of it.
\<close>

definition aead_ok :: "'d env \<Rightarrow> bool" where
  "aead_ok E \<longleftrightarrow>
     (\<forall>k n p a. length k = 32 \<and> length n = 12 \<and> length p \<le> 64 \<and> length a = 16 \<longrightarrow>
        (\<exists>c. aead_encrypt E k n p a = Inr c \<and> length c = length p + 16 \<and>
             aead_decrypt E k n c a = Inr p)) \<and>
     (\<forall>k n c a p. aead_decrypt E k n c a = Inr p \<longrightarrow> aead_encrypt E k n p a = Inr c)"

lemma aead_okD:
  assumes "aead_ok E" "length k = 32" "length n = 12" "length p \<le> 64" "length a = 16"
  obtains c where "aead_encrypt E k n p a = Inr c" "length c = length p + 16"
    "aead_decrypt E k n c a = Inr p"
  using assms unfolding aead_ok_def by metis

lemma aead_ok_decrypt:
  "aead_ok E \<Longrightarrow> aead_decrypt E k n c a = Inr p \<Longrightarrow> aead_encrypt E k n p a = Inr c"
  by (auto simp: aead_ok_def)

section \<open>Clocks\<close>

text \<open>
  \<open>time.monotonic()\<close>: the sequence of values that successive calls return.  The standard library
  documents that it never goes backwards; that time passes is the fact that every deadline is
  reached.
\<close>

typedef clock = "{f :: nat \<Rightarrow> real. mono f \<and> (\<forall>b. \<exists>n. b \<le> f n)}"
  morphisms reading Clock
proof
  have "\<exists>n. b \<le> real n" for b by (rule real_arch_simple)
  then show "real \<in> {f. mono f \<and> (\<forall>b. \<exists>n. b \<le> f n)}" by (simp add: mono_def)
qed

setup_lifting type_definition_clock

text \<open>A clock that advances by one second with each reading, for evaluating examples.\<close>

lift_definition unit_clock :: clock is "real"
  by (auto simp: mono_def real_arch_simple)

lemma reading_unit_clock [simp]: "reading unit_clock n = real n"
  by (simp add: unit_clock.rep_eq)

lemma reading_mono: "m \<le> n \<Longrightarrow> reading c m \<le> reading c n"
  using reading [of c] by (auto simp: mono_def)

lemma reading_reaches: "\<exists>n. b \<le> reading c (m + n)"
proof -
  obtain n where "b \<le> reading c n" using reading [of c] by auto
  also have "reading c n \<le> reading c (m + n)" by (rule reading_mono) simp
  finally show ?thesis by blast
qed

record 'd world =
  dev :: 'd
  clk :: clock
  ticks :: nat            \<comment> \<open>readings of \<open>time.monotonic()\<close> made so far\<close>
  perf :: "nat \<Rightarrow> int"     \<comment> \<open>readings of \<open>time.perf_counter_ns()\<close>, nanoseconds\<close>
  perf_ticks :: nat

definition now :: "'d world \<Rightarrow> real" where
  "now w = reading (clk w) (ticks w)"

definition tick :: "'d world \<Rightarrow> 'd world" where
  "tick w = w\<lparr>ticks := Suc (ticks w)\<rparr>"

definition perf_now :: "'d world \<Rightarrow> int" where
  "perf_now w = perf w (perf_ticks w)"

definition perf_tick :: "'d world \<Rightarrow> 'd world" where
  "perf_tick w = w\<lparr>perf_ticks := Suc (perf_ticks w)\<rparr>"

text \<open>\<open>time.perf_counter()\<close> is the same clock in seconds.\<close>

definition perf_seconds :: "int \<Rightarrow> real" where
  "perf_seconds t = real_of_int t / 1000000000"

section \<open>The serial port\<close>

definition serial_close :: "'d env \<Rightarrow> 'd world \<Rightarrow> 'd world" where
  "serial_close E w = w\<lparr>dev := sr_close E (dev w)\<rparr>"


text \<open>The read loop below ends because the clock reaches the deadline: the number of readings left.\<close>

definition readings_left :: "real \<Rightarrow> 'd world \<Rightarrow> nat" where
  "readings_left deadline w = (LEAST n. deadline \<le> reading (clk w) (ticks w + n))"

lemma readings_left_tick:
  assumes "now w < deadline"
  shows "readings_left deadline ((tick w)\<lparr>dev := d\<rparr>) < readings_left deadline w"
proof -
  let ?P = "\<lambda>n. deadline \<le> reading (clk w) (ticks w + n)"
  have ex: "?P (LEAST n. ?P n)" using reading_reaches by (rule LeastI_ex)
  have "(LEAST n. ?P n) \<noteq> 0" using ex assms by (metis add.right_neutral not_le now_def)
  then obtain m where m: "(LEAST n. ?P n) = Suc m" by (cases "LEAST n. ?P n") auto
  have "(LEAST n. deadline \<le> reading (clk w) (Suc (ticks w) + n)) \<le> m"
    using ex m by (intro Least_le) simp
  then show ?thesis using m by (simp add: readings_left_def tick_def)
qed

text \<open>
  The loop every client of the UART protocol has: read lines until one starts with a known
  response prefix or the deadline has passed.  Each pass reads the clock once.
\<close>

function read_until :: "'d env \<Rightarrow> string list \<Rightarrow> py_error \<Rightarrow> real \<Rightarrow> ('d world, string) act" where
  "read_until E ps late deadline w =
     (if now w < deadline then
        (case sr_readline E (dev w) of
           (Inl e, d) \<Rightarrow> (Inl e, (tick w)\<lparr>dev := d\<rparr>)
         | (Inr raw, d) \<Rightarrow>
             (if raw = [] then read_until E ps late deadline ((tick w)\<lparr>dev := d\<rparr>)
              else if py_startswith (py_strip (decode_ascii raw)) ps
              then (Inr (py_strip (decode_ascii raw)), (tick w)\<lparr>dev := d\<rparr>)
              else read_until E ps late deadline ((tick w)\<lparr>dev := d\<rparr>)))
      else (Inl late, tick w))"
  by pat_completeness auto

termination
  by (relation "measure (\<lambda>(E, ps, late, deadline, w). readings_left deadline w)")
    (auto simp: readings_left_tick)

declare read_until.simps [simp del]

lemma read_until_cases:
  assumes "read_until E ps late deadline w = (r, w')"
  shows "(\<exists>line. r = Inr line \<and> py_startswith line ps) \<or> r = Inl late \<or>
         (\<exists>d d' e. sr_readline E d = (Inl e, d') \<and> r = Inl e)"
  using assms
proof (induction E ps late deadline w rule: read_until.induct)
  case (1 E ps late deadline w)
  obtain r1 d where rl: "sr_readline E (dev w) = (r1, d)" by fastforce
  show ?case
    using "1.prems" "1.IH" rl
    by (cases r1) (auto simp: read_until.simps [of E ps late deadline w] split: if_splits)
qed

text \<open>A device that answers at once with a response line: the loop returns it in its first pass.\<close>

lemma read_until_first:
  assumes "now w < deadline" "sr_readline E (dev w) = (Inr raw, d)" "raw \<noteq> []"
    and "py_startswith (py_strip (decode_ascii raw)) ps"
  shows "read_until E ps late deadline w =
    (Inr (py_strip (decode_ascii raw)), (tick w)\<lparr>dev := d\<rparr>)"
  using assms by (subst read_until.simps) simp

definition serial_write :: "'d env \<Rightarrow> string \<Rightarrow> ('d world, unit) act" where
  "serial_write E text w =
     (case sr_write E (dev w) (encode_ascii (text @ [CHR 0x0A])) of (r, d) \<Rightarrow> (r, w\<lparr>dev := d\<rparr>))"

text \<open>
  \<open>_read_protocol_line\<close> and \<open>_send\<close> of the link classes and \<open>read_protocol_line\<close>, \<open>send_line\<close> of
  the UART client: the deadline is one clock reading plus the timeout.  \<open>ps\<close> are the class's
  response prefixes, \<open>late\<close> the \<open>TimeoutError\<close> it raises.
\<close>

definition read_line :: "'d env \<Rightarrow> string list \<Rightarrow> py_error \<Rightarrow> real \<Rightarrow> ('d world, string) act" where
  "read_line E ps late timeout w = read_until E ps late (now w + timeout) (tick w)"

definition send_line ::
    "'d env \<Rightarrow> string list \<Rightarrow> py_error \<Rightarrow> real \<Rightarrow> string \<Rightarrow> ('d world, string) act" where
  "send_line E ps late timeout text =
     bindA (serial_write E text) (\<lambda>_. read_line E ps late timeout)"

text \<open>One reading of \<open>time.perf_counter_ns()\<close>.\<close>

definition read_perf :: "('d world, int) act" where
  "read_perf w = (Inr (perf_now w), perf_tick w)"

lemma read_perf_eq [simp]: "read_perf w = (Inr (perf w (perf_ticks w)), perf_tick w)"
  by (simp add: read_perf_def perf_now_def)

lemma send_line_prefix:
  assumes "send_line E ps late timeout text w = (Inr line, w')"
  shows "py_startswith line ps"
  using assms read_until_cases [of E ps late]
  by (fastforce simp: send_line_def read_line_def bindA_eq_Inr)

end
