(* ===== verification/DemoEnv.thy ===== *)
theory DemoEnv
  imports World
begin

text \<open>
  A concrete environment, so that the hypotheses on the packages can be seen to hold together and
  examples can be run: the serial port replays a list of lines and records what was written, the
  AEAD appends a 16-byte tag with the exclusive or of everything it authenticates, the KEM returns
  constants of the right sizes.  No theorem about the program depends on it.
\<close>

record script =
  replies :: "bytes list"
  sent :: "bytes list"

definition demo_tag :: "bytes \<Rightarrow> bytes \<Rightarrow> bytes \<Rightarrow> bytes \<Rightarrow> bytes" where
  "demo_tag k n p a = replicate 15 0 @ [foldl Bit_Operations.xor 0 (k @ n @ p @ a)]"

definition demo_encrypt :: "bytes \<Rightarrow> bytes \<Rightarrow> bytes \<Rightarrow> bytes \<Rightarrow> bytes res" where
  "demo_encrypt k n p a = Inr (p @ demo_tag k n p a)"

definition demo_decrypt :: "bytes \<Rightarrow> bytes \<Rightarrow> bytes \<Rightarrow> bytes \<Rightarrow> bytes res" where
  "demo_decrypt k n c a =
     (if c = drop_last 16 c @ demo_tag k n (drop_last 16 c) a then Inr (drop_last 16 c)
      else Inl InvalidTag)"

definition demo_env :: "script env" where
  "demo_env = \<lparr>
     sr_write = (\<lambda>d bs. (Inr (), d\<lparr>sent := sent d @ [bs]\<rparr>)),
     sr_readline = (\<lambda>d. case replies d of
        [] \<Rightarrow> (Inr [], d) | r # rs \<Rightarrow> (Inr r, d\<lparr>replies := rs\<rparr>)),
     sr_close = (\<lambda>d. d\<lparr>replies := []\<rparr>),
     aead_encrypt = demo_encrypt,
     aead_decrypt = demo_decrypt,
     kem_encaps = (\<lambda>d pk. (Inr (replicate 32 7, replicate 768 9), d))\<rparr>"

definition demo_world :: "string list \<Rightarrow> script world" where
  "demo_world ls = \<lparr>dev = \<lparr>replies = map (\<lambda>l. encode_ascii (l @ [CHR 0x0A])) ls, sent = []\<rparr>,
     clk = unit_clock, ticks = 0, perf = (\<lambda>n. 1000 * int n), perf_ticks = 0\<rparr>"

lemma length_demo_tag [simp]: "length (demo_tag k n p a) = 16"
  by (simp add: demo_tag_def)

lemma demo_aead_ok [simp]: "aead_ok demo_env"
  by (auto simp: aead_ok_def demo_env_def demo_encrypt_def demo_decrypt_def drop_last_def
      split: if_splits)

lemma demo_env_simps [simp]:
  "sr_write demo_env d bs = (Inr (), d\<lparr>sent := sent d @ [bs]\<rparr>)"
  "sr_readline demo_env d = (case replies d of
     [] \<Rightarrow> (Inr [], d) | r # rs \<Rightarrow> (Inr r, d\<lparr>replies := rs\<rparr>))"
  "kem_encaps demo_env d pk = (Inr (replicate 32 7, replicate 768 9), d)"
  by (simp_all add: demo_env_def)

text \<open>The scripted port answers with its next line, whatever was sent.\<close>

lemma demo_send_line:
  assumes "replies (dev w) = encode_ascii (line @ [CHR 0x0A]) # rs" "line_ok line"
    and "py_startswith line ps" "clk w = unit_clock" "1 < timeout"
  shows "send_line demo_env ps late timeout text w =
    (Inr line, w\<lparr>ticks := ticks w + 2,
       dev := \<lparr>replies = rs, sent = sent (dev w) @ [encode_ascii (text @ [CHR 0x0A])]\<rparr>\<rparr>)"
proof -
  have nl: "is_ws CHR 0x0A" by (simp add: is_ws_def)
  have d: "py_strip (decode_ascii (encode_ascii (line @ [CHR 0x0A]))) = line"
    using assms(2) nl by (intro decode_line) simp_all
  define d1 where "d1 = \<lparr>replies = replies (dev w), sent = sent (dev w) @ [encode_ascii (text @ [CHR 0x0A])]\<rparr>"
  have w: "serial_write demo_env text w = (Inr (), w\<lparr>dev := d1\<rparr>)"
    by (cases "dev w") (simp add: serial_write_def d1_def)
  have "read_line demo_env ps late timeout (w\<lparr>dev := d1\<rparr>) =
    (Inr line, w\<lparr>ticks := ticks w + 2, dev := \<lparr>replies = rs, sent = sent d1\<rparr>\<rparr>)"
    unfolding read_line_def
    using assms d by (subst read_until_first) (auto simp: now_def tick_def d1_def)
  then show ?thesis using w by (simp add: send_line_def bindA_def d1_def)
qed

end
