(* ===== verification/PqcCrypto.thy ===== *)
theory PqcCrypto
  imports DemoEnv
begin

text \<open>
  \<open>pqc_crypto.py\<close>: encapsulation, the 72-byte key derivation, and the seal and open operations of
  the 64-byte packet format.  The AEAD and the KEM are the parameters of \<open>env\<close>; hashing is
  \<open>Keccak\<close>.
\<close>

section \<open>Constants and session keys\<close>

definition PACKET_BYTES :: nat where "PACKET_BYTES = 64"
definition PUBLIC_KEY_BYTES :: nat where "PUBLIC_KEY_BYTES = 800"
definition CIPHERTEXT_BYTES :: nat where "CIPHERTEXT_BYTES = 768"
definition SHARED_SECRET_BYTES :: nat where "SHARED_SECRET_BYTES = 32"

definition KDF_DOMAIN :: bytes where
  "KDF_DOMAIN = encode_ascii ''ZYNQ-PQC-v1''"

lemmas size_defs = PACKET_BYTES_def PUBLIC_KEY_BYTES_def CIPHERTEXT_BYTES_def
  SHARED_SECRET_BYTES_def

record session_keys =
  k_sid :: int
  pc_to_board_key :: bytes
  pc_to_board_prefix :: bytes
  board_to_pc_key :: bytes
  board_to_pc_prefix :: bytes
  tx_counter :: int
  rx_counter :: int

section \<open>Operations\<close>

definition encaps :: "'d env \<Rightarrow> bytes \<Rightarrow> ('d world, bytes \<times> bytes) act" where
  "encaps E public_key w =
     (if length public_key \<noteq> PUBLIC_KEY_BYTES
      then (Inl (ValueError ''ML-KEM-512 public key must be 800 bytes''), w)
      else case kem_encaps E (dev w) public_key of
        (Inl e, d) \<Rightarrow> (Inl e, w\<lparr>dev := d\<rparr>)
      | (Inr (shared_secret, ciphertext), d) \<Rightarrow>
          (if length shared_secret \<noteq> SHARED_SECRET_BYTES \<or> length ciphertext \<noteq> CIPHERTEXT_BYTES
           then (Inl (RuntimeError ''Unexpected ML-KEM-512 result size''), w\<lparr>dev := d\<rparr>)
           else (Inr (shared_secret, ciphertext), w\<lparr>dev := d\<rparr>)))"

definition kdf_material :: "bytes \<Rightarrow> bytes \<Rightarrow> bytes \<Rightarrow> bytes \<Rightarrow> bytes" where
  "kdf_material public_key kem_ciphertext shared_secret sid_bytes =
     (let transcript = sha3_256 (public_key @ kem_ciphertext @ sid_bytes)
      in shake_256 (KDF_DOMAIN @ shared_secret @ transcript) 72)"

definition derive_session :: "bytes \<Rightarrow> bytes \<Rightarrow> bytes \<Rightarrow> int \<Rightarrow> session_keys res" where
  "derive_session public_key kem_ciphertext shared_secret sid =
     bindR (guardR (0 \<le> sid \<and> sid \<le> 0xFFFFFFFF) (ValueError ''sid must be uint32'')) (\<lambda>_.
     bindR (guardR (length public_key = PUBLIC_KEY_BYTES \<and> length kem_ciphertext = CIPHERTEXT_BYTES)
        (ValueError ''Invalid ML-KEM public key or ciphertext length'')) (\<lambda>_.
     bindR (guardR (length shared_secret = SHARED_SECRET_BYTES)
        (ValueError ''ML-KEM-512 shared secret must be 32 bytes'')) (\<lambda>_.
     bindR (to_bytes_be 4 sid) (\<lambda>sid_bytes.
     let material = kdf_material public_key kem_ciphertext shared_secret sid_bytes
     in Inr \<lparr>k_sid = sid,
             pc_to_board_key = slice 0 32 material,
             pc_to_board_prefix = slice 32 36 material,
             board_to_pc_key = slice 36 68 material,
             board_to_pc_prefix = slice 68 72 material,
             tx_counter = 0, rx_counter = 0\<rparr>))))"

definition nonce :: "bytes \<Rightarrow> int \<Rightarrow> bytes res" where
  "nonce pfx counter =
     bindR (guardR (length pfx = 4 \<and> 0 \<le> counter \<and> counter \<le> 0xFFFFFFFFFFFFFFFF)
        (ValueError ''Invalid nonce prefix/counter'')) (\<lambda>_.
     bindR (to_bytes_be 8 counter) (\<lambda>c. Inr (pfx @ c)))"

definition aad :: "int \<Rightarrow> int \<Rightarrow> int \<Rightarrow> bytes res" where
  "aad sid counter len =
     bindR (to_bytes_be 4 sid) (\<lambda>s.
     bindR (to_bytes_be 8 counter) (\<lambda>c.
     bindR (bytes_of_ints [len, 0, 0, 0]) (\<lambda>l. Inr (s @ c @ l))))"

definition seal :: "'d env \<Rightarrow> session_keys \<Rightarrow> bytes \<Rightarrow> (int \<times> bytes \<times> bytes) res" where
  "seal E keys plaintext =
     bindR (guardR (length plaintext \<le> PACKET_BYTES)
        (ValueError ''Demo payload may be at most 64 bytes'')) (\<lambda>_.
     let len = int (length plaintext); padded = zero_pad PACKET_BYTES plaintext in
     bindR (nonce (pc_to_board_prefix keys) (tx_counter keys)) (\<lambda>n.
     bindR (aad (k_sid keys) (tx_counter keys) len) (\<lambda>a.
     bindR (aead_encrypt E (pc_to_board_key keys) n padded a) (\<lambda>frame.
     Inr (len, drop_last 16 frame, take_last 16 frame)))))"

definition open_response ::
    "'d env \<Rightarrow> session_keys \<Rightarrow> int \<Rightarrow> int \<Rightarrow> bytes \<Rightarrow> bytes \<Rightarrow> bytes res" where
  "open_response E keys counter len ciphertext tag =
     bindR (guardR (0 \<le> len \<and> len \<le> int PACKET_BYTES) (ValueError ''Invalid response length'')) (\<lambda>_.
     bindR (guardR (length ciphertext = PACKET_BYTES \<and> length tag = 16)
        (ValueError ''Invalid response ciphertext/tag length'')) (\<lambda>_.
     bindR (nonce (board_to_pc_prefix keys) counter) (\<lambda>n.
     bindR (aad (k_sid keys) counter len) (\<lambda>a.
     bindR (aead_decrypt E (board_to_pc_key keys) n (ciphertext @ tag) a) (\<lambda>plain.
     Inr (take (nat len) plain))))))"

section \<open>Well-formed key sets\<close>

text \<open>
  The sizes a derived key set has, and the counter range in which a packet can be sealed.  The
  board's view of a session swaps the two directions.
\<close>

definition keys_ok :: "session_keys \<Rightarrow> bool" where
  "keys_ok k \<longleftrightarrow>
     0 \<le> k_sid k \<and> k_sid k < 2 ^ 32 \<and>
     length (pc_to_board_key k) = 32 \<and> length (pc_to_board_prefix k) = 4 \<and>
     length (board_to_pc_key k) = 32 \<and> length (board_to_pc_prefix k) = 4 \<and>
     0 \<le> tx_counter k \<and> 0 \<le> rx_counter k"

definition peer_keys :: "session_keys \<Rightarrow> session_keys" where
  "peer_keys k = k\<lparr>pc_to_board_key := board_to_pc_key k, pc_to_board_prefix := board_to_pc_prefix k,
                   board_to_pc_key := pc_to_board_key k, board_to_pc_prefix := pc_to_board_prefix k\<rparr>"

lemma peer_keys_keys_ok [simp]: "keys_ok (peer_keys k) = keys_ok k"
  by (auto simp: keys_ok_def peer_keys_def)

lemma peer_keys_sel:
  "pc_to_board_key (peer_keys k) = board_to_pc_key k"
  "pc_to_board_prefix (peer_keys k) = board_to_pc_prefix k"
  "board_to_pc_key (peer_keys k) = pc_to_board_key k"
  "board_to_pc_prefix (peer_keys k) = pc_to_board_prefix k"
  "k_sid (peer_keys k) = k_sid k"
  by (simp_all add: peer_keys_def)

lemma nonce_Inr:
  "nonce pfx counter = Inr n \<longleftrightarrow>
    length pfx = 4 \<and> 0 \<le> counter \<and> counter < 2 ^ 64 \<and> n = pfx @ be_bytes 8 (nat counter)"
  by (auto simp: nonce_def to_bytes_be_Inr)

lemma length_nonce: "nonce pfx counter = Inr n \<Longrightarrow> length n = 12"
  by (auto simp: nonce_Inr)


lemma aad_Inr:
  "aad sid counter len = Inr a \<longleftrightarrow>
    0 \<le> sid \<and> sid < 2 ^ 32 \<and> 0 \<le> counter \<and> counter < 2 ^ 64 \<and> 0 \<le> len \<and> len < 256 \<and>
    a = be_bytes 4 (nat sid) @ be_bytes 8 (nat counter) @ [of_int len, 0, 0, 0]"
  by (auto simp: aad_def to_bytes_be_Inr bytes_of_ints_def)

lemma length_aad: "aad sid counter len = Inr a \<Longrightarrow> length a = 16"
  by (auto simp: aad_Inr)



section \<open>Properties\<close>

definition derive_args_ok :: "bytes \<Rightarrow> bytes \<Rightarrow> bytes \<Rightarrow> int \<Rightarrow> bool" where
  "derive_args_ok pk ct ss sid \<longleftrightarrow>
     0 \<le> sid \<and> sid < 2 ^ 32 \<and> length pk = 800 \<and> length ct = 768 \<and> length ss = 32"

lemma length_kdf_material [simp]: "length (kdf_material pk ct ss s) = 72"
  by (simp add: kdf_material_def Let_def)

lemma derive_session_Inr:
  "derive_args_ok pk ct ss sid \<Longrightarrow>
    derive_session pk ct ss sid = Inr \<lparr>k_sid = sid,
      pc_to_board_key = slice 0 32 (kdf_material pk ct ss (be_bytes 4 (nat sid))),
      pc_to_board_prefix = slice 32 36 (kdf_material pk ct ss (be_bytes 4 (nat sid))),
      board_to_pc_key = slice 36 68 (kdf_material pk ct ss (be_bytes 4 (nat sid))),
      board_to_pc_prefix = slice 68 72 (kdf_material pk ct ss (be_bytes 4 (nat sid))),
      tx_counter = 0, rx_counter = 0\<rparr>"
  by (simp add: derive_session_def derive_args_ok_def size_defs to_bytes_be_def Let_def)

lemma derive_session_Inl:
  assumes "\<not> derive_args_ok pk ct ss sid"
  shows "\<exists>msg. derive_session pk ct ss sid = Inl (ValueError msg)"
proof -
  consider "\<not> (0 \<le> sid \<and> sid \<le> 0xFFFFFFFF)"
    | "0 \<le> sid" "sid \<le> 0xFFFFFFFF" "\<not> (length pk = 800 \<and> length ct = 768)"
    | "0 \<le> sid" "sid \<le> 0xFFFFFFFF" "length pk = 800" "length ct = 768" "length ss \<noteq> 32"
    using assms by (fastforce simp: derive_args_ok_def)
  then show ?thesis
    by cases (auto simp: derive_session_def size_defs guardR_def)
qed

text \<open>C1. \<open>derive_session\<close> accepts exactly a 32-bit session id with ML-KEM-512 sizes; it then
  returns a well-formed key set with both counters at zero whose four parts, in the order PC key, PC
  prefix, board key, board prefix, are the 72 bytes of the KDF; anything else raises
  \<open>ValueError\<close>.\<close>

theorem derive_session_spec:
  "if derive_args_ok pk ct ss sid
   then \<exists>k. derive_session pk ct ss sid = Inr k \<and> keys_ok k \<and> k_sid k = sid \<and>
          tx_counter k = 0 \<and> rx_counter k = 0 \<and>
          pc_to_board_key k @ pc_to_board_prefix k @ board_to_pc_key k @ board_to_pc_prefix k =
          kdf_material pk ct ss (be_bytes 4 (nat sid))
   else \<exists>msg. derive_session pk ct ss sid = Inl (ValueError msg)"
proof (cases "derive_args_ok pk ct ss sid")
  case True
  let ?m = "kdf_material pk ct ss (be_bytes 4 (nat sid))"
  have "slice 0 32 ?m @ slice 32 36 ?m @ slice 36 68 ?m @ slice 68 72 ?m = ?m"
    by (simp add: slice_append slice_all)
  then show ?thesis
    using True derive_session_Inr [OF True] by (simp add: keys_ok_def derive_args_ok_def)
next
  case False
  then show ?thesis
    using derive_session_Inl [OF False] by simp
qed



lemma seal_frame:
  assumes "aead_ok E" "keys_ok k" "tx_counter k < 2 ^ 64" "length p \<le> 64"
  obtains n a frame where
    "nonce (pc_to_board_prefix k) (tx_counter k) = Inr n"
    "aad (k_sid k) (tx_counter k) (int (length p)) = Inr a"
    "aead_encrypt E (pc_to_board_key k) n (zero_pad 64 p) a = Inr frame"
    "aead_decrypt E (pc_to_board_key k) n frame a = Inr (zero_pad 64 p)"
    "length frame = 80"
    "seal E k p = Inr (int (length p), drop_last 16 frame, take_last 16 frame)"
proof -
  obtain n where n: "nonce (pc_to_board_prefix k) (tx_counter k) = Inr n"
    using assms by (auto simp: nonce_Inr keys_ok_def)
  obtain a where a: "aad (k_sid k) (tx_counter k) (int (length p)) = Inr a"
    using assms by (auto simp: aad_Inr keys_ok_def)
  obtain frame where f: "aead_encrypt E (pc_to_board_key k) n (zero_pad 64 p) a = Inr frame"
      "length frame = length (zero_pad 64 p) + 16"
      "aead_decrypt E (pc_to_board_key k) n frame a = Inr (zero_pad 64 p)"
    using aead_okD [OF assms(1), of "pc_to_board_key k" n "zero_pad 64 p" a]
      assms(2,4) n a by (auto simp: length_nonce length_aad keys_ok_def)
  have "seal E k p = Inr (int (length p), drop_last 16 frame, take_last 16 frame)"
    using assms n a f(1) by (simp add: seal_def PACKET_BYTES_def)
  then show thesis using that n a f assms(4) by auto
qed

lemma seal_open_exists:
  assumes "aead_ok E" "keys_ok k" "tx_counter k < 2 ^ 64" "length p \<le> 64"
  shows "\<exists>ct tag. seal E k p = Inr (int (length p), ct, tag) \<and> length ct = 64 \<and> length tag = 16 \<and>
    open_response E (peer_keys k) (tx_counter k) (int (length p)) ct tag = Inr p"
proof -
  obtain n a frame where f: "nonce (pc_to_board_prefix k) (tx_counter k) = Inr n"
    "aad (k_sid k) (tx_counter k) (int (length p)) = Inr a"
    "aead_decrypt E (pc_to_board_key k) n frame a = Inr (zero_pad 64 p)"
    "length frame = 80" "seal E k p = Inr (int (length p), drop_last 16 frame, take_last 16 frame)"
    using seal_frame [OF assms] by metis
  have "open_response E (peer_keys k) (tx_counter k) (int (length p))
      (drop_last 16 frame) (take_last 16 frame) = Inr p"
    using f assms(4)
    by (simp add: open_response_def peer_keys_def PACKET_BYTES_def drop_last_take_last)
  then show ?thesis using f(4,5) by (intro exI conjI) simp_all
qed

lemma seal_opens:
  assumes "aead_ok E" "keys_ok k" "tx_counter k < 2 ^ 64" "length p \<le> 64"
    and "seal E k p = Inr (len, ct, tag)"
  shows "len = int (length p) \<and> length ct = 64 \<and> length tag = 16 \<and>
    open_response E (peer_keys k) (tx_counter k) len ct tag = Inr p"
  using seal_open_exists [OF assms(1-4)] assms(5) by auto

text \<open>C3. Round trip of a packet: with a working AEAD, sealing a payload of at most 64 bytes under a
  well-formed key set succeeds, its ciphertext has 64 and its tag 16 bytes whatever the payload's
  length, and the peer, who holds the same keys with the directions swapped, opens it to exactly the
  payload.\<close>

theorem seal_open_roundtrip:
  assumes "aead_ok E" "keys_ok k" "tx_counter k < 2 ^ 64" "length p \<le> 64"
  shows "\<exists>ct tag. seal E k p = Inr (int (length p), ct, tag) \<and> length ct = 64 \<and> length tag = 16 \<and>
    open_response E (peer_keys k) (tx_counter k) (int (length p)) ct tag = Inr p"
  by (rule seal_open_exists [OF assms])

lemma open_response_sealed:
  assumes "aead_ok E" "open_response E k c len ct tag = Inr p"
  shows "\<exists>n a block. nonce (board_to_pc_prefix k) c = Inr n \<and> aad (k_sid k) c len = Inr a \<and>
    aead_encrypt E (board_to_pc_key k) n block a = Inr (ct @ tag) \<and> p = take (nat len) block \<and>
    0 \<le> len \<and> len \<le> 64 \<and> length ct = 64 \<and> length tag = 16"
proof -
  obtain n a block where "nonce (board_to_pc_prefix k) c = Inr n" "aad (k_sid k) c len = Inr a"
    "aead_decrypt E (board_to_pc_key k) n (ct @ tag) a = Inr block" "p = take (nat len) block"
    "0 \<le> len" "len \<le> 64" "length ct = 64" "length tag = 16"
    using assms(2) by (auto simp: open_response_def PACKET_BYTES_def)
  then show ?thesis using aead_ok_decrypt [OF assms(1)] by blast
qed

text \<open>C4. What \<open>open_response\<close> returns was encrypted: an accepted response is, bit for bit, the
  encryption under the board's key of a block whose first \<open>length\<close> bytes are returned, with the
  nonce of the counter and the additional data of session id, counter and length it was opened
  with.\<close>

theorem open_response_authentic:
  assumes "aead_ok E" "open_response E k c len ct tag = Inr p"
  shows "\<exists>n a block. nonce (board_to_pc_prefix k) c = Inr n \<and> aad (k_sid k) c len = Inr a \<and>
    aead_encrypt E (board_to_pc_key k) n block a = Inr (ct @ tag) \<and> p = take (nat len) block \<and>
    0 \<le> len \<and> len \<le> 64 \<and> length ct = 64 \<and> length tag = 16"
  by (rule open_response_sealed [OF assms])

text \<open>The packet counter never wraps: with a well-formed key set and a payload that fits, sealing
  succeeds exactly while the counter is below \<open>2 ^ 64\<close>; after that it raises \<open>ValueError\<close>
  instead of reusing a nonce, and a payload that does not fit is refused first.\<close>

theorem seal_counter_limit:
  assumes "aead_ok E" "keys_ok k"
  shows "(length p \<le> 64 \<longrightarrow> (\<exists>r. seal E k p = Inr r) = (tx_counter k < 2 ^ 64)) \<and>
    (length p \<le> 64 \<longrightarrow> 2 ^ 64 \<le> tx_counter k \<longrightarrow>
       seal E k p = Inl (ValueError ''Invalid nonce prefix/counter'')) \<and>
    (64 < length p \<longrightarrow> seal E k p = Inl (ValueError ''Demo payload may be at most 64 bytes''))"
proof (intro conjI impI)
  assume p: "length p \<le> 64"
  have over: "seal E k p = Inl (ValueError ''Invalid nonce prefix/counter'')"
    if "2 ^ 64 \<le> tx_counter k"
    using that p by (simp add: seal_def PACKET_BYTES_def nonce_def guardR_def)
  show "(\<exists>r. seal E k p = Inr r) = (tx_counter k < 2 ^ 64)"
  proof (cases "tx_counter k < 2 ^ 64")
    case True
    then have "\<exists>r. seal E k p = Inr r" by (rule seal_frame [OF assms _ p]) blast
    with True show ?thesis by simp
  next
    case False
    with over show ?thesis by simp
  qed
  show "seal E k p = Inl (ValueError ''Invalid nonce prefix/counter'')" if "2 ^ 64 \<le> tx_counter k"
    using that by (rule over)
next
  assume "64 < length p"
  then show "seal E k p = Inl (ValueError ''Demo payload may be at most 64 bytes'')"
    by (simp add: seal_def PACKET_BYTES_def guardR_def)
qed

subsection \<open>Witnesses\<close>

definition demo_keys :: session_keys where
  "demo_keys = \<lparr>k_sid = 5, pc_to_board_key = replicate 32 1, pc_to_board_prefix = replicate 4 2,
     board_to_pc_key = replicate 32 3, board_to_pc_prefix = replicate 4 4,
     tx_counter = 7, rx_counter = 7\<rparr>"

lemma demo_keys_ok [simp]: "keys_ok demo_keys"
  by (simp add: keys_ok_def demo_keys_def)

lemma tx_counter_demo_keys [simp]: "tx_counter demo_keys = 7"
  by (simp add: demo_keys_def)


theorem seal_open_roundtrip_witness:
  "\<exists>ct tag. seal demo_env demo_keys [10, 20] = Inr (2, ct, tag) \<and>
    open_response demo_env (peer_keys demo_keys) 7 2 ct tag = Inr [10, 20]"
  using seal_open_roundtrip [OF demo_aead_ok demo_keys_ok, of "[10, 20]"] by auto

theorem open_response_authentic_witness:
  "\<exists>ct tag n a block. open_response demo_env (peer_keys demo_keys) 7 2 ct tag = Inr [10, 20] \<and>
    aead_encrypt demo_env (pc_to_board_key demo_keys) n block a = Inr (ct @ tag)"
proof -
  obtain ct tag where o: "open_response demo_env (peer_keys demo_keys) 7 2 ct tag = Inr [10, 20]"
    using seal_open_roundtrip [OF demo_aead_ok demo_keys_ok, of "[10, 20]"] by auto
  show ?thesis
    using o open_response_authentic [OF demo_aead_ok o, unfolded peer_keys_sel] by blast
qed

theorem seal_counter_limit_witness:
  "seal demo_env (demo_keys\<lparr>tx_counter := 2 ^ 64\<rparr>) [10] =
     Inl (ValueError ''Invalid nonce prefix/counter'') \<and>
   (\<exists>r. seal demo_env demo_keys [10] = Inr r)"
proof -
  have "keys_ok (demo_keys\<lparr>tx_counter := 2 ^ 64\<rparr>)" by (simp add: keys_ok_def demo_keys_def)
  from seal_counter_limit [OF demo_aead_ok this, of "[10]"]
    seal_counter_limit [OF demo_aead_ok demo_keys_ok, of "[10]"]
  show ?thesis by simp
qed

end
