(* ===== verification/BoardTypes.thy ===== *)
theory BoardTypes
  imports PqcCrypto
begin

text \<open>
  The data types of \<open>board_link.py\<close> (sessions, statistics, commands, results) with the operations
  on the statistics, the random generator of the \<open>random\<close> module, and the two interfaces the
  workers rely on: \<open>session_table\<close>, what opening and leaving do to the set of live slots, and
  \<open>board_backend\<close>, which adds data transfer.

  The only board names in the program are \<open>"A"\<close> and \<open>"B"\<close> (\<open>make_workers\<close>), so a board's name in
  a worker, a result or a vehicle is a value of \<open>board_id\<close>.
\<close>

section \<open>Data\<close>

definition MAX_SESSIONS :: nat where "MAX_SESSIONS = 64"

definition SHARED_SECRET :: bytes where
  "SHARED_SECRET = [0xee, 0x5f, 0x8f, 0x90, 0xfb, 0x6f, 0x15, 0xa5, 0x93, 0x45, 0x04, 0xe1, 0xf6, 0x5c,
     0x23, 0xad, 0x2d, 0x60, 0x96, 0x41, 0x04, 0xbf, 0x42, 0x46, 0x38, 0x76, 0x36, 0x3a, 0x79, 0x9d,
     0xee, 0x4f]"

datatype board_id = BoardA | BoardB

fun board_str :: "board_id \<Rightarrow> string" where
  "board_str BoardA = ''A''"
| "board_str BoardB = ''B''"

record session =
  s_vehicle_id :: int
  s_slot :: int
  s_sid :: int
  s_kem_us :: int
  s_tx_key :: bytes
  s_tx_prefix :: bytes
  s_rx_key :: bytes
  s_rx_prefix :: bytes
  s_tx_counter :: int
  s_rx_counter :: int

text \<open>\<open>Session(vehicle_id=..., slot=..., sid=..., kem_us=...)\<close>: the other fields by default.\<close>

definition new_session :: "int \<Rightarrow> int \<Rightarrow> int \<Rightarrow> int \<Rightarrow> session" where
  "new_session vehicle_id slot sid kem_us =
     \<lparr>s_vehicle_id = vehicle_id, s_slot = slot, s_sid = sid, s_kem_us = kem_us,
      s_tx_key = [], s_tx_prefix = [], s_rx_key = [], s_rx_prefix = [],
      s_tx_counter = 0, s_rx_counter = 0\<rparr>"

record board_stats =
  bs_name :: board_id
  connected :: bool
  slots :: "int option list"
  last_kem_us :: int
  kem_total_us :: int
  kem_samples :: int
  kem_min_us :: int
  kem_max_us :: int
  sw_supported :: "bool option"
  sw_total_us :: int
  sw_samples :: int
  last_sw_us :: int
  sw_mismatch :: int
  opens :: int
  leaves :: int
  data_ok :: int
  data_fail :: int
  attacks_blocked :: int
  last_rx_us :: int
  last_tx_us :: int
  last_rtt_ms :: real
  bs_error :: string

definition new_stats :: "board_id \<Rightarrow> board_stats" where
  "new_stats name =
     \<lparr>bs_name = name, connected = True, slots = replicate MAX_SESSIONS None,
      last_kem_us = 0, kem_total_us = 0, kem_samples = 0, kem_min_us = 0, kem_max_us = 0,
      sw_supported = None, sw_total_us = 0, sw_samples = 0, last_sw_us = 0, sw_mismatch = 0,
      opens = 0, leaves = 0, data_ok = 0, data_fail = 0, attacks_blocked = 0,
      last_rx_us = 0, last_tx_us = 0, last_rtt_ms = 0, bs_error = []\<rparr>"

definition active_count :: "board_stats \<Rightarrow> nat" where
  "active_count st = length (filter (\<lambda>v. v \<noteq> None) (slots st))"

definition average_kem_us :: "board_stats \<Rightarrow> real" where
  "average_kem_us st =
     (if kem_samples st \<noteq> 0 then real_of_int (kem_total_us st) / real_of_int (kem_samples st) else 0)"

definition average_sw_us :: "board_stats \<Rightarrow> real" where
  "average_sw_us st =
     (if sw_samples st \<noteq> 0 then real_of_int (sw_total_us st) / real_of_int (sw_samples st) else 0)"

definition record_sw :: "int \<Rightarrow> bool \<Rightarrow> board_stats \<Rightarrow> board_stats" where
  "record_sw sw_us ok st =
     (let st = st\<lparr>last_sw_us := sw_us, sw_total_us := sw_total_us st + sw_us,
                  sw_samples := sw_samples st + 1\<rparr>
      in if \<not> ok then st\<lparr>sw_mismatch := sw_mismatch st + 1\<rparr> else st)"

definition record_kem :: "int \<Rightarrow> board_stats \<Rightarrow> board_stats" where
  "record_kem kem_us st =
     (let st = st\<lparr>last_kem_us := kem_us, kem_total_us := kem_total_us st + kem_us,
                  kem_samples := kem_samples st + 1\<rparr>;
          st = st\<lparr>kem_min_us := (if kem_samples st = 1 then kem_us else min (kem_min_us st) kem_us)\<rparr>
      in st\<lparr>kem_max_us := max (kem_max_us st) kem_us\<rparr>)"

text \<open>The kinds of commands the worker dispatches on; \<open>KOther\<close> is any other string.\<close>

datatype command_kind = KOpen | KLeave | KSwkem | KData | KOther string

fun kind_str :: "command_kind \<Rightarrow> string" where
  "kind_str KOpen = ''open''"
| "kind_str KLeave = ''leave''"
| "kind_str KSwkem = ''swkem''"
| "kind_str KData = ''data''"
| "kind_str (KOther s) = s"

record board_command =
  bc_command_id :: int
  bc_kind :: command_kind
  bc_vehicle_id :: int
  bc_slot :: "int option"
  bc_payload :: bytes
  bc_tamper :: bool

record board_result =
  br_command_id :: int
  br_board :: board_id
  br_kind :: command_kind
  br_vehicle_id :: int
  br_ok :: bool
  br_slot :: "int option"
  br_session :: "session option"
  br_detail :: string
  br_blocked :: bool
  br_rx_us :: int
  br_tx_us :: int
  br_rtt_ms :: real
  br_sw_us :: int

text \<open>\<open>BoardResult(command_id, board, kind, vehicle_id, ok)\<close>: the other fields by default.\<close>

definition new_result ::
    "int \<Rightarrow> board_id \<Rightarrow> command_kind \<Rightarrow> int \<Rightarrow> bool \<Rightarrow> board_result" where
  "new_result command_id board kind vehicle_id ok =
     \<lparr>br_command_id = command_id, br_board = board, br_kind = kind, br_vehicle_id = vehicle_id,
      br_ok = ok, br_slot = None, br_session = None, br_detail = [], br_blocked = False,
      br_rx_us = 0, br_tx_us = 0, br_rtt_ms = 0, br_sw_us = 0\<rparr>"

text \<open>The dictionary \<open>send_data\<close> returns.\<close>

record data_info =
  i_ok :: bool
  i_blocked :: bool
  i_detail :: string
  i_rx_us :: int
  i_tx_us :: int
  i_rtt_ms :: real

text \<open>\<open>str(exc)\<close>: the message; for a \<open>KeyError\<close> the missing key.\<close>

fun str_exc :: "py_error \<Rightarrow> string" where
  "str_exc (ValueError m) = m"
| "str_exc (RuntimeError m) = m"
| "str_exc (BoardError m) = m"
| "str_exc (TimeoutError m) = m"
| "str_exc (OverflowError m) = m"
| "str_exc (IndexError m) = m"
| "str_exc (TypeError m) = m"
| "str_exc (KeyError k) = str_int k"
| "str_exc (MissingKey k) = py_repr k"
| "str_exc (ZeroDivisionError m) = m"
| "str_exc AssertionError = []"
| "str_exc InvalidTag = []"
| "str_exc (OSError m) = m"

section \<open>The ML-KEM statistics\<close>

definition record_kems :: "int list \<Rightarrow> board_stats \<Rightarrow> board_stats" where
  "record_kems ks st = foldl (\<lambda>st k. record_kem k st) st ks"

lemma record_kem_fields [simp]:
  "kem_samples (record_kem k st) = kem_samples st + 1"
  "kem_total_us (record_kem k st) = kem_total_us st + k"
  "last_kem_us (record_kem k st) = k"
  "kem_min_us (record_kem k st) = (if kem_samples st = 0 then k else min (kem_min_us st) k)"
  "kem_max_us (record_kem k st) = max (kem_max_us st) k"
  "slots (record_kem k st) = slots st"
  by (simp_all add: record_kem_def Let_def)

lemma record_kems_snoc: "record_kems (ks @ [k]) st = record_kem k (record_kems ks st)"
  "record_kems [] st = st" "record_kems [k] st = record_kem k st"
  by (simp_all add: record_kems_def)

lemma record_kems_fields:
  "kem_samples (record_kems ks (new_stats n)) = int (length ks) \<and>
   kem_total_us (record_kems ks (new_stats n)) = sum_list ks \<and>
   (ks \<noteq> [] \<longrightarrow> kem_min_us (record_kems ks (new_stats n)) = Min (set ks)) \<and>
   kem_max_us (record_kems ks (new_stats n)) = Max (insert 0 (set ks))"
proof (induction ks rule: rev_induct)
  case Nil
  then show ?case by (simp add: record_kems_def new_stats_def)
next
  case (snoc k ks)
  then show ?case
    by (cases "ks = []") (simp_all add: record_kems_snoc new_stats_def min.commute max.commute insert_commute)
qed

lemma sum_list_bounds:
  assumes "\<forall>k \<in> set ks. lo \<le> k \<and> k \<le> (hi :: int)"
  shows "int (length ks) * lo \<le> sum_list ks \<and> sum_list ks \<le> int (length ks) * hi"
  using assms by (induction ks) (auto simp: algebra_simps)

text \<open>The ML-KEM statistics summarise the recorded times: after any non-empty list of
  non-negative samples the sample count, the total, the minimum and the maximum are those of the
  list, and the average lies between minimum and maximum.\<close>

theorem record_kems_summary:
  assumes "ks \<noteq> []" "\<forall>k \<in> set ks. 0 \<le> k"
  shows "let st = record_kems ks (new_stats n) in
    kem_samples st = int (length ks) \<and> kem_total_us st = sum_list ks \<and>
    kem_min_us st = Min (set ks) \<and> kem_max_us st = Max (set ks) \<and> last_kem_us st = last ks \<and>
    real_of_int (kem_min_us st) \<le> average_kem_us st \<and>
    average_kem_us st \<le> real_of_int (kem_max_us st)"
proof -
  define st where "st = record_kems ks (new_stats n)"
  have f: "kem_samples st = int (length ks)" "kem_total_us st = sum_list ks"
    "kem_min_us st = Min (set ks)" "kem_max_us st = Max (insert 0 (set ks))"
    using record_kems_fields [of ks n] assms(1) by (auto simp: st_def)
  have "0 \<le> Max (set ks)" using assms by (meson List.finite_set Max_in set_empty)
  then have m: "kem_max_us st = Max (set ks)" using assms(1) f(4) by simp
  have l: "last_kem_us st = last ks"
    using assms(1) unfolding st_def by (cases ks rule: rev_cases) (simp_all add: record_kems_snoc)
  have b: "int (length ks) * Min (set ks) \<le> sum_list ks \<and> sum_list ks \<le> int (length ks) * Max (set ks)"
    by (rule sum_list_bounds) simp
  have n: "0 < real (length ks)" using assms(1) by simp
  have "real (length ks) * real_of_int (Min (set ks)) \<le> real_of_int (sum_list ks)"
    "real_of_int (sum_list ks) \<le> real (length ks) * real_of_int (Max (set ks))"
    using b by (metis of_int_le_iff of_int_mult of_int_of_nat_eq)+
  then have "real_of_int (Min (set ks)) \<le> average_kem_us st"
    "average_kem_us st \<le> real_of_int (Max (set ks))"
    using n f(1,2) by (simp_all add: average_kem_us_def field_simps)
  then show ?thesis using f m l by (simp add: st_def [symmetric])
qed

theorem record_kems_summary_witness:
  "kem_min_us (record_kems [540, 531, 570] (new_stats BoardA)) = 531 \<and>
   average_kem_us (record_kems [540, 531, 570] (new_stats BoardA)) \<le> 570"
  using record_kems_summary [of "[540, 531, 570]" BoardA] by (simp add: Let_def)

section \<open>The random generator\<close>

text \<open>
  \<open>random.Random\<close>: the values that successive calls of \<open>random()\<close> return, each in \<open>[0, 1)\<close>.
  \<open>uniform(a, b)\<close> is \<open>a + (b - a) * random()\<close>; \<open>randint(a, b)\<close> is some integer of \<open>a..b\<close>, every
  one being returned for some draw.
\<close>

typedef draws = "{f :: nat \<Rightarrow> real. \<forall>n. 0 \<le> f n \<and> f n < 1}"
  morphisms draw Draws
  by (rule exI [of _ "\<lambda>_. 0"]) simp

setup_lifting type_definition_draws

lift_definition zero_draws :: draws is "\<lambda>_. 0"
  by simp

lemma draw_zero_draws [simp]: "draw zero_draws n = 0"
  by (simp add: zero_draws.rep_eq)

lemma draw_bounds: "0 \<le> draw f n \<and> draw f n < 1"
  using draw [of f] by simp

record rng =
  rng_draws :: draws
  rng_used :: nat

definition py_random :: "rng \<Rightarrow> real \<times> rng" where
  "py_random g = (draw (rng_draws g) (rng_used g), g\<lparr>rng_used := Suc (rng_used g)\<rparr>)"

definition uniform :: "real \<Rightarrow> real \<Rightarrow> rng \<Rightarrow> real \<times> rng" where
  "uniform a b g = (case py_random g of (u, g') \<Rightarrow> (a + (b - a) * u, g'))"

definition randint :: "int \<Rightarrow> int \<Rightarrow> rng \<Rightarrow> int \<times> rng" where
  "randint a b g = (case py_random g of (u, g') \<Rightarrow> (a + \<lfloor>u * real_of_int (b - a + 1)\<rfloor>, g'))"

lemma randint_bounds:
  assumes "randint a b g = (n, g')" "a \<le> b"
  shows "a \<le> n \<and> n \<le> b"
proof -
  let ?u = "draw (rng_draws g) (rng_used g)"
  have u: "0 \<le> ?u" "?u < 1" using draw_bounds by auto
  have "?u * real_of_int (b - a + 1) < real_of_int (b - a + 1)"
    using u assms(2) by (simp add: mult_less_cancel_right1)
  then have "\<lfloor>?u * real_of_int (b - a + 1)\<rfloor> < b - a + 1" by (simp only: floor_less_iff)
  moreover have "0 \<le> \<lfloor>?u * real_of_int (b - a + 1)\<rfloor>" using u assms(2) by simp
  ultimately show ?thesis using assms(1) by (auto simp: randint_def py_random_def)
qed

lemma fst_randint_bounds: "a \<le> b \<Longrightarrow> a \<le> fst (randint a b g) \<and> fst (randint a b g) \<le> b"
  using randint_bounds [of a b g] by (cases "randint a b g") simp

lemma uniform_bounds:
  assumes "uniform a b g = (x, g')" "a \<le> b"
  shows "a \<le> x \<and> x \<le> b"
proof -
  let ?u = "draw (rng_draws g) (rng_used g)"
  have "0 \<le> ?u" "?u < 1" using draw_bounds by auto
  then have "0 \<le> (b - a) * ?u" "(b - a) * ?u \<le> (b - a) * 1"
    using assms(2) by (simp, intro mult_left_mono) simp_all
  then show ?thesis using assms(1) by (auto simp: uniform_def py_random_def)
qed

section \<open>Interfaces\<close>

text \<open>
  A table of sessions: \<open>live b\<close> is the set of slots the board object \<open>b\<close> can use.  Opening a slot
  makes it live, leaving removes it, and neither touches another slot; a call that raises leaves the
  set as it was.  \<open>wf\<close> is the object's invariant.
\<close>

locale session_table =
  fixes open_s :: "int \<Rightarrow> int \<Rightarrow> ('b, 'x) act"
    and leave_s :: "int \<Rightarrow> ('b, 'y) act"
    and live :: "'b \<Rightarrow> int set"
    and wf :: "'b \<Rightarrow> bool"
  assumes open_wf: "wf b \<Longrightarrow> open_s v s b = (r, b') \<Longrightarrow> wf b'"
    and open_live: "wf b \<Longrightarrow> open_s v s b = (Inr x, b') \<Longrightarrow> live b' = insert s (live b)"
    and open_fails: "wf b \<Longrightarrow> open_s v s b = (Inl e, b') \<Longrightarrow> live b' = live b"
    and leave_wf: "wf b \<Longrightarrow> leave_s s b = (q, b') \<Longrightarrow> wf b'"
    and leave_was_live: "wf b \<Longrightarrow> leave_s s b = (Inr y, b') \<Longrightarrow> s \<in> live b"
    and leave_live: "wf b \<Longrightarrow> leave_s s b = (Inr y, b') \<Longrightarrow> live b' = live b - {s}"
    and leave_fails: "wf b \<Longrightarrow> leave_s s b = (Inl e, b') \<Longrightarrow> live b' = live b"
begin

lemma open_only_adds: "wf b \<Longrightarrow> open_s v s b = (r, b') \<Longrightarrow> live b \<subseteq> live b' \<and> live b' \<subseteq> insert s (live b)"
  using open_live open_fails by (cases r) auto

lemma leave_only_removes: "wf b \<Longrightarrow> leave_s s b = (r, b') \<Longrightarrow> live b - {s} \<subseteq> live b' \<and> live b' \<subseteq> live b"
  using leave_live leave_fails by (cases r) auto

lemma leave_twice_fails:
  assumes "wf b" "leave_s s b = (Inr y, b')" "leave_s s b' = (r, b'')"
  shows "\<exists>e. r = Inl e"
proof (cases r)
  case (Inr z)
  have "wf b'" using leave_wf assms by blast
  then have "s \<in> live b'" using leave_was_live assms(3) Inr by blast
  then show ?thesis using leave_live [OF assms(1,2)] by simp
qed simp

end

text \<open>A table that refuses to open a slot that is live.\<close>

locale exclusive_table = session_table +
  assumes open_exclusive: "wf b \<Longrightarrow> s \<in> live b \<Longrightarrow> \<exists>e b'. open_s v s b = (Inl e, b')"
begin

lemma open_was_free: "wf b \<Longrightarrow> open_s v s b = (Inr x, b') \<Longrightarrow> s \<notin> live b"
  using open_exclusive [of b s v] by auto

lemma open_twice_fails:
  assumes "wf b" "open_s v s b = (Inr x, b')"
  shows "\<exists>e b''. open_s v' s b' = (Inl e, b'')"
proof -
  have "wf b'" "s \<in> live b'" using open_wf open_live assms by blast+
  then show ?thesis by (rule open_exclusive)
qed

end

text \<open>What a \<open>BoardWorker\<close> needs of its board object.\<close>

locale board_backend = session_table open_s leave_s live wf
  for open_s :: "int \<Rightarrow> int \<Rightarrow> ('b, session) act"
    and leave_s :: "int \<Rightarrow> ('b, 'y) act"
    and live :: "'b \<Rightarrow> int set"
    and wf :: "'b \<Rightarrow> bool" +
  fixes send_d :: "int \<Rightarrow> bytes \<Rightarrow> bool \<Rightarrow> ('b, data_info) act"
  assumes open_session_of: "wf b \<Longrightarrow> open_s v s b = (Inr x, b') \<Longrightarrow> s_slot x = s \<and> s_vehicle_id x = v"
    and send_wf: "wf b \<Longrightarrow> send_d s p t b = (r, b') \<Longrightarrow> wf b'"
    and send_live: "wf b \<Longrightarrow> send_d s p t b = (r, b') \<Longrightarrow> live b' = live b"
    and send_needs_live: "wf b \<Longrightarrow> send_d s p t b = (Inr i, b') \<Longrightarrow> s \<in> live b"
    and send_tamper: "wf b \<Longrightarrow> send_d s p True b = (Inr i, b') \<Longrightarrow> \<not> i_ok i"
begin

lemma send_after_leave_fails:
  assumes "wf b" "leave_s s b = (Inr y, b')" "send_d s p t b' = (r, b'')"
  shows "\<exists>e. r = Inl e"
proof (cases r)
  case (Inr i)
  have "wf b'" using leave_wf assms by blast
  then have "s \<in> live b'" using send_needs_live assms(3) Inr by blast
  then show ?thesis using leave_live [OF assms(1,2)] by simp
qed simp

end

end
