(* ===== verification/SerialV2.thy ===== *)
theory SerialV2
  imports BoardTypes
begin

text \<open>
  \<open>SerialBoardLink\<close> of \<open>serial_board_v2.py\<close>, the backend the demo runs on real boards: a fresh
  ML-KEM encapsulation per session, two tables (\<open>_sessions\<close> for the worker, \<open>_keys\<close> for the channel)
  and the UART protocol HELLO, RESET, STATUS, SWKEM, OPEN, LEAVE, DATA.
\<close>

section \<open>State\<close>

record 'd serial_v2 =
  v2_name :: string
  v2_timeout :: real
  v2_keys :: "int \<rightharpoonup> session_keys"
  v2_sessions :: "int \<rightharpoonup> session"
  v2_public_key :: bytes
  v2_world :: "'d world"

definition V2_PREFIXES :: "string list" where
  "V2_PREFIXES = [''HELLO '', ''RESET '', ''READY '', ''RESP '', ''ERR '', ''BYE'', ''LEFT '', ''STATUS '',
     ''SWKEM '']"

text \<open>Running an operation of the outside world inside the object.\<close>

definition v2_io :: "('d world, 'a) act \<Rightarrow> ('d serial_v2, 'a) act" where
  "v2_io m L = (case m (v2_world L) of (r, w) \<Rightarrow> (r, L\<lparr>v2_world := w\<rparr>))"

section \<open>Operations\<close>

definition v2_read_protocol_line :: "'d env \<Rightarrow> ('d serial_v2, string) act" where
  "v2_read_protocol_line E L =
     v2_io (read_line E V2_PREFIXES
        (TimeoutError (''Board '' @ v2_name L @ '' response timeout'')) (v2_timeout L)) L"

definition v2_send :: "'d env \<Rightarrow> string \<Rightarrow> ('d serial_v2, string) act" where
  "v2_send E text = bindA (v2_io (serial_write E text)) (\<lambda>_. v2_read_protocol_line E)"

definition v2_reject_error :: "string \<Rightarrow> unit res" where
  "v2_reject_error line = (if prefix ''ERR '' line then Inl (RuntimeError line) else Inr ())"

definition v2_hello :: "'d env \<Rightarrow> ('d serial_v2, bytes) act" where
  "v2_hello E =
     bindA (v2_send E ''HELLO'') (\<lambda>line L.
       let fields = py_split line in
       if length fields \<noteq> 3 \<or> fields ! 0 \<noteq> ''HELLO'' \<or> fields ! 1 \<noteq> v2_name L
       then (Inl (RuntimeError (''Wrong board or malformed HELLO: '' @ py_join '' '' fields)), L)
       else case bytes_fromhex (fields ! 2) of
         Inl e \<Rightarrow> (Inl e, L)
       | Inr pk \<Rightarrow>
           let L = L\<lparr>v2_public_key := pk\<rparr> in
           if length pk \<noteq> 800
           then (Inl (RuntimeError ''Board returned a malformed ML-KEM-512 public key''), L)
           else (Inr pk, L))"

definition v2_reset :: "'d env \<Rightarrow> ('d serial_v2, unit) act" where
  "v2_reset E =
     bindA (v2_send E ''RESET'') (\<lambda>line.
       if line \<noteq> ''RESET OK'' then
         bindA (liftR (v2_reject_error line)) (\<lambda>_. raiseA (RuntimeError (''Malformed RESET: '' @ line)))
       else (\<lambda>L. (Inr (), L\<lparr>v2_keys := Map.empty, v2_sessions := Map.empty\<rparr>)))"

definition v2_close :: "'d env \<Rightarrow> 'd serial_v2 \<Rightarrow> 'd serial_v2" where
  "v2_close E L = L\<lparr>v2_world := serial_close E (v2_world L)\<rparr>"

text \<open>\<open>__init__\<close>: the object with empty tables, then HELLO and RESET.\<close>

definition v2_init :: "'d env \<Rightarrow> string \<Rightarrow> real \<Rightarrow> 'd world \<Rightarrow> unit res \<times> 'd serial_v2" where
  "v2_init E name timeout w =
     bindA (v2_hello E) (\<lambda>_. v2_reset E)
       \<lparr>v2_name = name, v2_timeout = timeout, v2_keys = Map.empty, v2_sessions = Map.empty,
        v2_public_key = [], v2_world = w\<rparr>"

definition v2_status :: "'d env \<Rightarrow> ('d serial_v2, int \<times> int) act" where
  "v2_status E =
     bindA (v2_send E ''STATUS'') (\<lambda>line.
       let fields = py_split line in
       if length fields \<noteq> 4 \<or> fields ! 0 \<noteq> ''STATUS''
       then raiseA (RuntimeError (''Malformed STATUS: '' @ py_join '' '' fields))
       else liftR (bindR (py_int 10 (fields ! 1)) (\<lambda>count.
                   bindR (py_int 16 (fields ! 2)) (\<lambda>hi.
                   bindR (py_int 16 (fields ! 3)) (\<lambda>lo.
                   Inr (count, Bit_Operations.or (push_bit 32 hi) lo))))))"

definition v2_sw_kem :: "'d env \<Rightarrow> ('d serial_v2, (int \<times> bool) option) act" where
  "v2_sw_kem E L =
     (case v2_send E ''SWKEM'' L of
        (Inl (TimeoutError m), L') \<Rightarrow> (Inr None, L')
      | (Inl e, L') \<Rightarrow> (Inl e, L')
      | (Inr line, L') \<Rightarrow>
          let fields = py_split line in
          if length fields = 3 \<and> fields ! 0 = ''SWKEM''
          then (bindR (py_int 10 (fields ! 1)) (\<lambda>us. Inr (Some (us, fields ! 2 = ''1''))), L')
          else (Inr None, L'))"

text \<open>The checks on a READY line; the result is the session id and the measured time.\<close>

definition v2_check_ready :: "int \<Rightarrow> int \<Rightarrow> string \<Rightarrow> (int \<times> int) res" where
  "v2_check_ready vehicle_id slot line =
     bindR (v2_reject_error line) (\<lambda>_.
     let fields = py_split line; malformed = RuntimeError (''Malformed READY: '' @ line) in
     bindR (guardR (length fields = 5 \<and> fields ! 0 = ''READY'') malformed) (\<lambda>_.
     bindR (py_int 10 (fields ! 1)) (\<lambda>s. bindR (guardR (s = slot) malformed) (\<lambda>_.
     bindR (py_int 10 (fields ! 4)) (\<lambda>v. bindR (guardR (v = vehicle_id) malformed) (\<lambda>_.
     bindR (py_int 16 (fields ! 2)) (\<lambda>sid.
     bindR (py_int 10 (fields ! 3)) (\<lambda>kem_us. Inr (sid, kem_us)))))))))"

text \<open>Filing a session: first in \<open>_sessions\<close>, then its keys in \<open>_keys\<close>, as the source does.\<close>

definition v2_store_session :: "int \<Rightarrow> int \<Rightarrow> bytes \<times> bytes \<Rightarrow> int \<times> int \<Rightarrow> ('d serial_v2, session) act" where
  "v2_store_session vehicle_id slot = (\<lambda>(shared_secret, kem_ciphertext) (sid, kem_us) L.
     let session = new_session vehicle_id slot sid kem_us;
         L = L\<lparr>v2_sessions := (v2_sessions L)(slot \<mapsto> session)\<rparr>
     in case derive_session (v2_public_key L) kem_ciphertext shared_secret sid of
          Inl e \<Rightarrow> (Inl e, L)
        | Inr keys \<Rightarrow> (Inr session, L\<lparr>v2_keys := (v2_keys L)(slot \<mapsto> keys)\<rparr>))"

definition v2_open_session :: "'d env \<Rightarrow> int \<Rightarrow> int \<Rightarrow> ('d serial_v2, session) act" where
  "v2_open_session E vehicle_id slot L =
     (if v2_sessions L slot \<noteq> None
      then (Inl (RuntimeError (''slot '' @ str_int slot @ '' is already open'')), L)
      else bindA (v2_io (encaps E (v2_public_key L))) (\<lambda>secret_ct.
        bindA (v2_send E (''OPEN '' @ str_int slot @ '' '' @ str_int vehicle_id @ '' ''
                 @ bytes_hex (snd secret_ct))) (\<lambda>line.
        bindA (liftR (v2_check_ready vehicle_id slot line))
          (v2_store_session vehicle_id slot secret_ct))) L)"

text \<open>The checks on a LEFT line.\<close>

definition v2_check_left :: "int \<Rightarrow> int \<Rightarrow> string \<Rightarrow> unit res" where
  "v2_check_left slot old_sid line =
     bindR (v2_reject_error line) (\<lambda>_.
     let fields = py_split line; malformed = RuntimeError (''Malformed LEFT: '' @ line) in
     bindR (guardR (length fields = 3 \<and> fields ! 0 = ''LEFT'') malformed) (\<lambda>_.
     bindR (py_int 10 (fields ! 1)) (\<lambda>s. bindR (guardR (s = slot) malformed) (\<lambda>_.
     bindR (py_int 16 (fields ! 2)) (\<lambda>sid. guardR (sid = old_sid) malformed)))))"

text \<open>\<open>del self._sessions[slot]; del self._keys[slot]\<close>\<close>

definition v2_drop_session :: "int \<Rightarrow> session \<Rightarrow> ('d serial_v2, session) act" where
  "v2_drop_session slot old L =
     (let L = L\<lparr>v2_sessions := (v2_sessions L)(slot := None)\<rparr> in
      if v2_keys L slot = None then (Inl (KeyError slot), L)
      else (Inr old, L\<lparr>v2_keys := (v2_keys L)(slot := None)\<rparr>))"

definition v2_leave_session :: "'d env \<Rightarrow> int \<Rightarrow> ('d serial_v2, session) act" where
  "v2_leave_session E slot L =
     (case v2_sessions L slot of
        None \<Rightarrow> (Inl (RuntimeError (''no local session for slot '' @ str_int slot)), L)
      | Some old \<Rightarrow>
          bindA (v2_send E (''LEAVE '' @ str_int slot)) (\<lambda>line.
          bindA (liftR (v2_check_left slot (s_sid old) line)) (\<lambda>_.
          v2_drop_session slot old)) L)"

definition v2_data_command :: "int \<Rightarrow> int \<Rightarrow> int \<Rightarrow> bytes \<Rightarrow> bytes \<Rightarrow> string" where
  "v2_data_command slot counter len ciphertext tag =
     ''DATA '' @ str_int slot @ '' '' @ fmt_hex 16 counter @ '' '' @ str_int len @ '' ''
     @ bytes_hex ciphertext @ '' '' @ bytes_hex tag"

definition v2_tamper_reply :: "string \<Rightarrow> real \<Rightarrow> data_info res" where
  "v2_tamper_reply line rtt_ms =
     (let fields = py_split line; blocked = (length fields = 4 \<and> take 2 fields = [''ERR'', ''AUTH'']) in
      bindR (if blocked then py_int 10 (fields ! 3) else Inr 0) (\<lambda>rx.
      Inr \<lparr>i_ok = False, i_blocked = blocked, i_detail = line, i_rx_us = rx, i_tx_us = 0,
           i_rtt_ms = rtt_ms\<rparr>))"

text \<open>The checks on a RESP line, up to the comparison with the payload.\<close>

definition v2_check_resp :: "'d env \<Rightarrow> session_keys \<Rightarrow> int \<Rightarrow> bytes \<Rightarrow> string \<Rightarrow> unit res" where
  "v2_check_resp E keys slot payload line =
     bindR (v2_reject_error line) (\<lambda>_.
     let fields = py_split line; malformed = RuntimeError (''Malformed RESP: '' @ line) in
     bindR (guardR (length fields = 8 \<and> fields ! 0 = ''RESP'') malformed) (\<lambda>_.
     bindR (py_int 10 (fields ! 1)) (\<lambda>s. bindR (guardR (s = slot) malformed) (\<lambda>_.
     bindR (py_int 16 (fields ! 2)) (\<lambda>response_counter.
     bindR (guardR (response_counter = rx_counter keys)
        (RuntimeError ''Board response counter mismatch'')) (\<lambda>_.
     bindR (py_int 10 (fields ! 3)) (\<lambda>len.
     bindR (bytes_fromhex (fields ! 6)) (\<lambda>ct. bindR (bytes_fromhex (fields ! 7)) (\<lambda>tag.
     bindR (open_response E keys response_counter len ct tag) (\<lambda>response.
     guardR (response = payload) (RuntimeError ''authenticated echo plaintext mismatch'')))))))))))"

definition advance :: "session_keys \<Rightarrow> session_keys" where
  "advance k = k\<lparr>tx_counter := tx_counter k + 1, rx_counter := rx_counter k + 1\<rparr>"

text \<open>Sending the command and reading the answer, timed with \<open>time.perf_counter()\<close>.\<close>

definition v2_exchange :: "'d env \<Rightarrow> string \<Rightarrow> ('d serial_v2, string \<times> real) act" where
  "v2_exchange E command =
     bindA (v2_io read_perf) (\<lambda>started.
     bindA (v2_send E command) (\<lambda>line.
     bindA (v2_io read_perf) (\<lambda>stopped.
     retA (line, (perf_seconds stopped - perf_seconds started) * 1000))))"

text \<open>What happens to the answer: a tampered packet is only reported; an honest one is checked, the
  counters advance, and then the two measured times are read.\<close>

definition v2_finish_data ::
    "'d env \<Rightarrow> session_keys \<Rightarrow> int \<Rightarrow> bytes \<Rightarrow> bool \<Rightarrow> string \<times> real \<Rightarrow> ('d serial_v2, data_info) act" where
  "v2_finish_data E keys slot payload tamper = (\<lambda>(line, rtt_ms).
     if tamper then liftR (v2_tamper_reply line rtt_ms)
     else
       bindA (liftR (v2_check_resp E keys slot payload line)) (\<lambda>_.
       bindA (\<lambda>L. (Inr (), L\<lparr>v2_keys := (v2_keys L)(slot \<mapsto> advance keys)\<rparr>)) (\<lambda>_.
       let fields = py_split line in
       liftR (bindR (py_int 10 (fields ! 4)) (\<lambda>rx. bindR (py_int 10 (fields ! 5)) (\<lambda>tx.
         Inr \<lparr>i_ok = True, i_blocked = False, i_detail = ''secure echo verified'', i_rx_us = rx,
              i_tx_us = tx, i_rtt_ms = rtt_ms\<rparr>))))))"

definition v2_send_data :: "'d env \<Rightarrow> int \<Rightarrow> bytes \<Rightarrow> bool \<Rightarrow> ('d serial_v2, data_info) act" where
  "v2_send_data E slot payload tamper L =
     (if PACKET_BYTES < length payload then (Inl (ValueError ''payload exceeds 64 bytes''), L)
      else case v2_keys L slot of
        None \<Rightarrow> (Inl (RuntimeError (''no local session for slot '' @ str_int slot)), L)
      | Some keys \<Rightarrow>
          bindA (liftR (seal E keys payload)) (\<lambda>(len, sealed, tag).
          bindA (liftR (if tamper then flip_first_bit sealed else Inr sealed)) (\<lambda>ciphertext.
          bindA (v2_exchange E (v2_data_command slot (tx_counter keys) len ciphertext tag))
            (v2_finish_data E keys slot payload tamper))) L)"

section \<open>Frames\<close>

text \<open>\<open>v2_same\<close>: two states that differ at most in the outside world.\<close>

definition v2_same :: "'d serial_v2 \<Rightarrow> 'd serial_v2 \<Rightarrow> bool" where
  "v2_same L L' \<longleftrightarrow> v2_name L' = v2_name L \<and> v2_timeout L' = v2_timeout L \<and> v2_keys L' = v2_keys L \<and>
     v2_sessions L' = v2_sessions L \<and> v2_public_key L' = v2_public_key L"

lemma v2_same_refl [simp]: "v2_same L L"
  by (simp add: v2_same_def)

lemma v2_same_trans: "v2_same L M \<Longrightarrow> v2_same M N \<Longrightarrow> v2_same L N"
  by (simp add: v2_same_def)

lemma v2_io_same: "v2_io m L = (r, L') \<Longrightarrow> v2_same L L'"
  by (auto simp: v2_io_def v2_same_def split: prod.splits)

lemma v2_send_same: "v2_send E text L = (r, L') \<Longrightarrow> v2_same L L'"
  unfolding v2_send_def
  by (erule bindA_state) (auto simp: v2_read_protocol_line_def dest: v2_io_same intro: v2_same_trans)

lemma v2_send_eq:
  "v2_send E text L = v2_io (send_line E V2_PREFIXES
     (TimeoutError (''Board '' @ v2_name L @ '' response timeout'')) (v2_timeout L) text) L"
  by (simp add: v2_send_def v2_read_protocol_line_def v2_io_def send_line_def bindA_def
      split: prod.splits sum.splits)

lemma v2_exchange_same: "v2_exchange E c L = (r, L') \<Longrightarrow> v2_same L L'"
  unfolding v2_exchange_def
  by (auto elim!: bindAE dest!: v2_io_same v2_send_same simp: retA_def intro: v2_same_trans)

section \<open>Opening and leaving\<close>

lemma encaps_sizes:
  "encaps E pk w = (Inr (ss, ct), w') \<Longrightarrow> length pk = 800 \<and> length ss = 32 \<and> length ct = 768"
  by (auto simp: encaps_def size_defs split: prod.splits sum.splits if_splits)

lemma v2_io_results:
  "v2_io m L = (Inr x, L') \<Longrightarrow> v2_same L L' \<and> (\<exists>w. m (v2_world L) = (Inr x, w))"
  "v2_io m L = (Inl e, L') \<Longrightarrow> v2_same L L'"
  by (auto simp: v2_io_def v2_same_def split: prod.splits)

lemma v2_store_cases:
  assumes "v2_store_session v s (ss, ct) (sid, us) M = (r, L')"
    and "length (v2_public_key M) = 800" "length ss = 32" "length ct = 768"
  shows "v2_sessions L' = (v2_sessions M)(s \<mapsto> new_session v s sid us) \<and>
    (if 0 \<le> sid \<and> sid < 2 ^ 32
     then r = Inr (new_session v s sid us) \<and>
       (\<exists>k. derive_session (v2_public_key M) ct ss sid = Inr k \<and> v2_keys L' = (v2_keys M)(s \<mapsto> k))
     else (\<exists>e. r = Inl e) \<and> v2_keys L' = v2_keys M)"
proof (cases "0 \<le> sid \<and> sid < 2 ^ 32")
  case True
  then have "derive_args_ok (v2_public_key M) ct ss sid" using assms by (simp add: derive_args_ok_def)
  from derive_session_Inr [OF this] show ?thesis
    using assms(1) True by (auto simp: v2_store_session_def Let_def)
next
  case False
  then have "\<not> derive_args_ok (v2_public_key M) ct ss sid" by (auto simp: derive_args_ok_def)
  from derive_session_Inl [OF this] show ?thesis
    using assms(1) False by (auto simp: v2_store_session_def Let_def)
qed

lemma v2_open_cases:
  assumes "v2_open_session E v s L = (r, L')"
  obtains (failed) e where "r = Inl e" "v2_keys L' = v2_keys L" "v2_sessions L' = v2_sessions L"
  | (half) sid us e where "r = Inl e" "v2_sessions L s = None" "v2_keys L' = v2_keys L"
      "v2_sessions L' = (v2_sessions L)(s \<mapsto> new_session v s sid us)" "\<not> (0 \<le> sid \<and> sid < 2 ^ 32)"
  | (opened) sid us ss ct keys where "r = Inr (new_session v s sid us)" "v2_sessions L s = None"
      "v2_sessions L' = (v2_sessions L)(s \<mapsto> new_session v s sid us)"
      "v2_keys L' = (v2_keys L)(s \<mapsto> keys)"
      "derive_session (v2_public_key L) ct ss sid = Inr keys"
proof (cases "v2_sessions L s")
  case (Some x)
  then show ?thesis using assms by (intro failed) (auto simp: v2_open_session_def)
next
  case None
  from assms None have "bindA (v2_io (encaps E (v2_public_key L))) (\<lambda>sc.
        bindA (v2_send E (''OPEN '' @ str_int s @ '' '' @ str_int v @ '' '' @ bytes_hex (snd sc))) (\<lambda>line.
        bindA (liftR (v2_check_ready v s line)) (v2_store_session v s sc))) L = (r, L')"
    by (simp add: v2_open_session_def)
  then consider (early) e where "r = Inl e" "v2_same L L'"
    | (late) ss ct sid us M w where "v2_same L M" "encaps E (v2_public_key L) (v2_world L) = (Inr (ss, ct), w)"
        "v2_store_session v s (ss, ct) (sid, us) M = (r, L')"
    by (auto elim!: bindAE dest!: v2_send_same v2_io_results) (metis v2_same_trans)+
  then show ?thesis
  proof cases
    case early
    then show ?thesis by (intro failed) (auto simp: v2_same_def)
  next
    case late
    have same: "v2_keys M = v2_keys L" "v2_sessions M = v2_sessions L" "v2_public_key M = v2_public_key L"
      using late(1) by (simp_all add: v2_same_def)
    from v2_store_cases [OF late(3)] encaps_sizes [OF late(2)] show ?thesis
      using same None half opened by (simp split: if_splits) blast+
  qed
qed

lemma v2_leave_cases:
  assumes "v2_leave_session E s L = (r, L')"
  obtains (failed) e where "r = Inl e" "v2_keys L' = v2_keys L" "v2_sessions L' = v2_sessions L"
  | (half) e x where "r = Inl e" "v2_sessions L s = Some x" "v2_keys L s = None" "v2_keys L' = v2_keys L"
      "v2_sessions L' = (v2_sessions L)(s := None)"
  | (left) x k where "r = Inr x" "v2_sessions L s = Some x" "v2_keys L s = Some k"
      "v2_keys L' = (v2_keys L)(s := None)" "v2_sessions L' = (v2_sessions L)(s := None)"
proof (cases "v2_sessions L s")
  case None
  then show ?thesis using assms by (intro failed) (auto simp: v2_leave_session_def)
next
  case (Some old)
  from assms Some have "bindA (v2_send E (''LEAVE '' @ str_int s)) (\<lambda>line.
      bindA (liftR (v2_check_left s (s_sid old) line)) (\<lambda>_. v2_drop_session s old)) L = (r, L')"
    by (simp add: v2_leave_session_def)
  then consider (early) e where "r = Inl e" "v2_same L L'"
    | (late) M where "v2_same L M" "v2_drop_session s old M = (r, L')"
    by (auto elim!: bindAE dest!: v2_send_same)
  then show ?thesis
  proof cases
    case early
    then show ?thesis by (intro failed) (auto simp: v2_same_def)
  next
    case late
    then show ?thesis using Some half left
      by (auto simp: v2_drop_session_def v2_same_def Let_def split: if_splits)
  qed
qed

section \<open>Data\<close>

lemma v2_tamper_reply_not_ok: "v2_tamper_reply line rtt = Inr i \<Longrightarrow> \<not> i_ok i"
  by (auto simp: v2_tamper_reply_def Let_def)

lemma v2_finish_cases:
  assumes "v2_finish_data E k s p tamper y M = (r, L')"
  shows "(L' = M \<and> (\<forall>i. r = Inr i \<longrightarrow> tamper \<and> \<not> i_ok i)) \<or>
    (\<exists>line. \<not> tamper \<and> L' = M\<lparr>v2_keys := (v2_keys M)(s \<mapsto> advance k)\<rparr> \<and>
       v2_check_resp E k s p line = Inr () \<and> (\<forall>i. r = Inr i \<longrightarrow> i_ok i \<and> \<not> i_blocked i))"
proof -
  obtain line rtt where y: "y = (line, rtt)" by fastforce
  show ?thesis
    using assms v2_tamper_reply_not_ok [of line rtt]
    by (cases "v2_check_resp E k s p line") (auto simp: v2_finish_data_def y bindA_def Let_def split: if_splits)
qed

lemma v2_send_cases:
  assumes "v2_send_data E s p tamper L = (r, L')"
  obtains (kept) "v2_keys L' = v2_keys L" "v2_sessions L' = v2_sessions L"
      "\<forall>i. r = Inr i \<longrightarrow> tamper \<and> \<not> i_ok i \<and> v2_keys L s \<noteq> None"
  | (echoed) k line where "\<not> tamper" "v2_keys L s = Some k" "length p \<le> 64"
      "v2_keys L' = (v2_keys L)(s \<mapsto> advance k)" "v2_sessions L' = v2_sessions L"
      "v2_check_resp E k s p line = Inr ()" "\<forall>i. r = Inr i \<longrightarrow> i_ok i \<and> \<not> i_blocked i"
proof (cases "64 < length p \<or> v2_keys L s = None")
  case True
  then show thesis using assms
    by (intro kept) (auto simp: v2_send_data_def PACKET_BYTES_def split: if_splits)
next
  case False
  then obtain k where k: "length p \<le> 64" "v2_keys L s = Some k" by force
  have run: "bindA (liftR (seal E k p)) (\<lambda>(len, sealed, tag).
      bindA (liftR (if tamper then flip_first_bit sealed else Inr sealed)) (\<lambda>ct.
      bindA (v2_exchange E (v2_data_command s (tx_counter k) len ct tag))
        (v2_finish_data E k s p tamper))) L = (r, L')"
    using assms k by (simp add: v2_send_data_def PACKET_BYTES_def)
  then consider (early) e where "r = Inl e" "v2_same L L'"
    | (late) y M where "v2_same L M" "v2_finish_data E k s p tamper y M = (r, L')"
    by (auto elim!: bindAE dest!: v2_exchange_same)
  then show thesis
  proof cases
    case early
    then show ?thesis by (intro kept) (auto simp: v2_same_def)
  next
    case late
    then have same: "v2_keys M = v2_keys L" "v2_sessions M = v2_sessions L"
      by (simp_all add: v2_same_def)
    from v2_finish_cases [OF late(2)] show ?thesis
    proof
      assume "L' = M \<and> (\<forall>i. r = Inr i \<longrightarrow> tamper \<and> \<not> i_ok i)"
      then show thesis using same k by (intro kept) auto
    next
      assume "\<exists>line. \<not> tamper \<and> L' = M\<lparr>v2_keys := (v2_keys M)(s \<mapsto> advance k)\<rparr> \<and>
        v2_check_resp E k s p line = Inr () \<and> (\<forall>i. r = Inr i \<longrightarrow> i_ok i \<and> \<not> i_blocked i)"
      then show thesis using same k echoed by auto
    qed
  qed
qed

section \<open>Invariant and interface\<close>

definition v2_live :: "'d serial_v2 \<Rightarrow> int set" where
  "v2_live L = dom (v2_keys L)"

text \<open>A slot with keys has a session, filed under its own slot and with the session id of the keys;
  the keys have the sizes the cipher needs, and the two counters agree.\<close>

definition v2_wf :: "'d serial_v2 \<Rightarrow> bool" where
  "v2_wf L \<longleftrightarrow> (\<forall>s k. v2_keys L s = Some k \<longrightarrow>
     keys_ok k \<and> tx_counter k = rx_counter k \<and>
     (\<exists>x. v2_sessions L s = Some x \<and> s_slot x = s \<and> s_sid x = k_sid k))"

lemma keys_ok_advance [simp]: "keys_ok k \<Longrightarrow> keys_ok (advance k)"
  by (simp add: keys_ok_def advance_def)

lemma derive_session_keys_ok:
  "derive_session pk ct ss sid = Inr k \<Longrightarrow>
    keys_ok k \<and> k_sid k = sid \<and> tx_counter k = 0 \<and> rx_counter k = 0"
  using derive_session_Inr [of pk ct ss sid] derive_session_Inl [of pk ct ss sid]
  by (cases "derive_args_ok pk ct ss sid") (auto simp: keys_ok_def derive_args_ok_def)

lemma v2_wf_upd:
  assumes "v2_wf L"
  shows "v2_keys L' = v2_keys L \<Longrightarrow> v2_sessions L' = v2_sessions L \<Longrightarrow> v2_wf L'"
    and "v2_sessions L s = None \<Longrightarrow> v2_keys L' = v2_keys L \<Longrightarrow> v2_sessions L' = (v2_sessions L)(s \<mapsto> x) \<Longrightarrow> v2_wf L'"
    and "v2_keys L s = None \<Longrightarrow> v2_keys L' = v2_keys L \<Longrightarrow> v2_sessions L' = (v2_sessions L)(s := None) \<Longrightarrow> v2_wf L'"
    and "v2_keys L' = (v2_keys L)(s := None) \<Longrightarrow> v2_sessions L' = (v2_sessions L)(s := None) \<Longrightarrow> v2_wf L'"
    and "v2_keys L' = (v2_keys L)(s \<mapsto> k) \<Longrightarrow> v2_sessions L' = (v2_sessions L)(s \<mapsto> y) \<Longrightarrow>
      keys_ok k \<Longrightarrow> tx_counter k = rx_counter k \<Longrightarrow> s_slot y = s \<Longrightarrow> s_sid y = k_sid k \<Longrightarrow> v2_wf L'"
    and "v2_keys L s = Some j \<Longrightarrow> v2_keys L' = (v2_keys L)(s \<mapsto> advance j) \<Longrightarrow>
      v2_sessions L' = v2_sessions L \<Longrightarrow> v2_wf L'"
  using assms by (fastforce simp: v2_wf_def advance_def keys_ok_def split: if_splits)+

lemma v2_wf_dom: "v2_wf L \<Longrightarrow> v2_keys L s = Some k \<Longrightarrow> v2_sessions L s \<noteq> None"
  by (auto simp: v2_wf_def)

interpretation v2: board_backend "v2_open_session E" "v2_leave_session E" v2_live v2_wf "v2_send_data E"
  for E :: "'d env"
proof (unfold_locales, goal_cases)
  case (1 b v s r b')
  from 1(2) show ?case
  proof (cases rule: v2_open_cases)
    case (opened sid us ss ct keys)
    then show ?thesis
      using v2_wf_upd(5) [OF 1(1) opened(4,3)] derive_session_keys_ok [OF opened(5)]
      by (simp add: new_session_def)
  qed (use v2_wf_upd(1,2) [OF 1(1)] in blast)+
next
  case (2 b v s x b')
  from 2(2) show ?case by (cases rule: v2_open_cases) (auto simp: v2_live_def)
next
  case (3 b v s e b')
  from 3(2) show ?case by (cases rule: v2_open_cases) (auto simp: v2_live_def)
next
  case (4 b s q b')
  from 4(2) show ?case
    by (cases rule: v2_leave_cases) (use v2_wf_upd(1,3,4) [OF 4(1)] in blast)+
next
  case (5 b s y b')
  from 5(2) show ?case by (cases rule: v2_leave_cases) (auto simp: v2_live_def)
next
  case (6 b s y b')
  from 6(2) show ?case by (cases rule: v2_leave_cases) (auto simp: v2_live_def)
next
  case (7 b s e b')
  from 7(2) show ?case by (cases rule: v2_leave_cases) (auto simp: v2_live_def)
next
  case (8 b v s x b')
  from 8(2) show ?case by (cases rule: v2_open_cases) (auto simp: new_session_def)
next
  case (9 b s p t r b')
  from 9(2) show ?case by (cases rule: v2_send_cases) (use v2_wf_upd(1,6) [OF 9(1)] in blast)+
next
  case (10 b s p t r b')
  from 10(2) show ?case by (cases rule: v2_send_cases) (auto simp: v2_live_def)
next
  case (11 b s p t i b')
  from 11(2) show ?case by (cases rule: v2_send_cases) (auto simp: v2_live_def)
next
  case (12 b s p i b')
  from 12(2) show ?case by (cases rule: v2_send_cases) auto
qed

interpretation v2x: exclusive_table "v2_open_session E" "v2_leave_session E" v2_live v2_wf
  for E :: "'d env"
proof (unfold_locales, goal_cases)
  case (1 b s v)
  then have "v2_sessions b s \<noteq> None" using v2_wf_dom by (fastforce simp: v2_live_def)
  then show ?case by (simp add: v2_open_session_def)
qed

end
