(* ===== verification/TwoBoard.thy ===== *)
theory TwoBoard
  imports SerialV2
begin

text \<open>
  \<open>TwoBoardSerialLink\<close> of \<open>board_link_v2.py\<close>: the same UART protocol as \<open>serial_board_v2.py\<close> behind
  one table of sessions that hold their keys, without the SWKEM command.
\<close>

section \<open>State\<close>

record open_session =
  os_vehicle_id :: int
  os_slot :: int
  os_kem_us :: int
  os_keys :: session_keys

record 'd two_board =
  tb_name :: string
  tb_timeout :: real
  tb_public_key :: bytes
  tb_sessions :: "int \<rightharpoonup> open_session"
  tb_world :: "'d world"

definition TB_PREFIXES :: "string list" where
  "TB_PREFIXES = [''HELLO '', ''RESET '', ''READY '', ''LEFT '', ''RESP '', ''STATUS '', ''ERR '', ''BYE'']"

definition tb_io :: "('d world, 'a) act \<Rightarrow> ('d two_board, 'a) act" where
  "tb_io m L = (case m (tb_world L) of (r, w) \<Rightarrow> (r, L\<lparr>tb_world := w\<rparr>))"

section \<open>Operations\<close>

definition tb_read :: "'d env \<Rightarrow> ('d two_board, string) act" where
  "tb_read E L =
     tb_io (read_line E TB_PREFIXES (TimeoutError (''Board '' @ tb_name L @ '' response timeout'')) (tb_timeout L)) L"

definition tb_send :: "'d env \<Rightarrow> string \<Rightarrow> ('d two_board, string) act" where
  "tb_send E command = bindA (tb_io (serial_write E command)) (\<lambda>_. tb_read E)"

definition tb_err :: "string \<Rightarrow> unit res" where
  "tb_err line = (if prefix ''ERR '' line then Inl (BoardError line) else Inr ())"

definition tb_hello :: "'d env \<Rightarrow> ('d two_board, bytes) act" where
  "tb_hello E =
     bindA (tb_send E ''HELLO'') (\<lambda>line L.
       let fields = py_split line in
       if length fields \<noteq> 3 \<or> fields ! 0 \<noteq> ''HELLO'' \<or> fields ! 1 \<noteq> tb_name L
       then (Inl (BoardError ''Malformed HELLO or wrong UART port''), L)
       else case bytes_fromhex (fields ! 2) of
         Inl e \<Rightarrow> (Inl e, L)
       | Inr pk \<Rightarrow>
           let L = L\<lparr>tb_public_key := pk\<rparr> in
           if length pk \<noteq> PUBLIC_KEY_BYTES
           then (Inl (BoardError ''Board returned malformed ML-KEM public key''), L)
           else (Inr pk, L))"

definition tb_init :: "'d env \<Rightarrow> string \<Rightarrow> real \<Rightarrow> 'd world \<Rightarrow> bytes res \<times> 'd two_board" where
  "tb_init E expected_name timeout w =
     tb_hello E \<lparr>tb_name = expected_name, tb_timeout = timeout, tb_public_key = [], tb_sessions = Map.empty,
       tb_world = w\<rparr>"

definition tb_close :: "'d env \<Rightarrow> 'd two_board \<Rightarrow> 'd two_board" where
  "tb_close E L = L\<lparr>tb_world := serial_close E (tb_world L)\<rparr>"

definition tb_reset :: "'d env \<Rightarrow> ('d two_board, unit) act" where
  "tb_reset E =
     bindA (tb_send E ''RESET'') (\<lambda>line.
       if line \<noteq> ''RESET OK'' then
         bindA (liftR (tb_err line)) (\<lambda>_. raiseA (BoardError (''Malformed RESET response: '' @ line)))
       else (\<lambda>L. (Inr (), L\<lparr>tb_sessions := Map.empty\<rparr>)))"

definition tb_status :: "'d env \<Rightarrow> ('d two_board, int \<times> int) act" where
  "tb_status E =
     bindA (tb_send E ''STATUS'') (\<lambda>line.
       let fields = py_split line in
       if length fields \<noteq> 4 \<or> fields ! 0 \<noteq> ''STATUS'' then raiseA (BoardError ''Malformed STATUS'')
       else liftR (bindR (py_int 10 (fields ! 1)) (\<lambda>count.
                   bindR (py_int 16 (fields ! 2)) (\<lambda>hi.
                   bindR (py_int 16 (fields ! 3)) (\<lambda>lo.
                   Inr (count, Bit_Operations.or (push_bit 32 hi) lo))))))"

text \<open>The READY line: its checks, then the session it stands for; only a complete session is filed.\<close>

definition tb_check_ready :: "int \<Rightarrow> int \<Rightarrow> string \<Rightarrow> unit res" where
  "tb_check_ready vehicle_id slot line =
     bindR (tb_err line) (\<lambda>_.
     let fields = py_split line; malformed = BoardError (''Malformed READY: '' @ line) in
     bindR (guardR (length fields = 5 \<and> fields ! 0 = ''READY'') malformed) (\<lambda>_.
     bindR (py_int 10 (fields ! 1)) (\<lambda>s. bindR (guardR (s = slot) malformed) (\<lambda>_.
     bindR (py_int 10 (fields ! 4)) (\<lambda>v. guardR (v = vehicle_id) malformed)))))"

definition tb_session_of :: "bytes \<Rightarrow> int \<Rightarrow> int \<Rightarrow> bytes \<times> bytes \<Rightarrow> string \<Rightarrow> open_session res" where
  "tb_session_of public_key vehicle_id slot = (\<lambda>(shared_secret, kem_ciphertext) line.
     let fields = py_split line in
     bindR (py_int 16 (fields ! 2)) (\<lambda>sid.
     bindR (derive_session public_key kem_ciphertext shared_secret sid) (\<lambda>keys.
     bindR (py_int 10 (fields ! 3)) (\<lambda>kem_us.
     Inr \<lparr>os_vehicle_id = vehicle_id, os_slot = slot, os_kem_us = kem_us, os_keys = keys\<rparr>))))"

definition tb_store :: "int \<Rightarrow> open_session \<Rightarrow> ('d two_board, open_session) act" where
  "tb_store slot x L = (Inr x, L\<lparr>tb_sessions := (tb_sessions L)(slot \<mapsto> x)\<rparr>)"

definition tb_open_session :: "'d env \<Rightarrow> int \<Rightarrow> int \<Rightarrow> ('d two_board, open_session) act" where
  "tb_open_session E vehicle_id slot L =
     (if \<not> (0 \<le> slot \<and> slot < 64) \<or> \<not> (0 \<le> vehicle_id \<and> vehicle_id < 64)
      then (Inl (ValueError ''vehicle and slot must be 0..63''), L)
      else if tb_sessions L slot \<noteq> None
      then (Inl (BoardError (''Local slot '' @ str_int slot @ '' is already in use'')), L)
      else bindA (tb_io (encaps E (tb_public_key L))) (\<lambda>secret_ct.
        bindA (liftR (guardR (length (snd secret_ct) = CIPHERTEXT_BYTES) AssertionError)) (\<lambda>_.
        bindA (tb_send E (''OPEN '' @ str_int slot @ '' '' @ str_int vehicle_id @ '' ''
                 @ bytes_hex (snd secret_ct))) (\<lambda>line.
        bindA (liftR (tb_check_ready vehicle_id slot line)) (\<lambda>_.
        bindA (liftR (tb_session_of (tb_public_key L) vehicle_id slot secret_ct line)) (tb_store slot))))) L)"

definition tb_check_left :: "int \<Rightarrow> int \<Rightarrow> string \<Rightarrow> unit res" where
  "tb_check_left slot old_sid line =
     bindR (tb_err line) (\<lambda>_.
     let fields = py_split line; malformed = BoardError (''Malformed LEFT: '' @ line) in
     bindR (guardR (length fields = 3 \<and> fields ! 0 = ''LEFT'') malformed) (\<lambda>_.
     bindR (py_int 10 (fields ! 1)) (\<lambda>s. bindR (guardR (s = slot) malformed) (\<lambda>_.
     bindR (py_int 16 (fields ! 2)) (\<lambda>sid. guardR (sid = old_sid) malformed)))))"

definition tb_leave_session :: "'d env \<Rightarrow> int \<Rightarrow> ('d two_board, unit) act" where
  "tb_leave_session E slot L =
     (case tb_sessions L slot of
        None \<Rightarrow> (Inl (BoardError (''No local session at slot '' @ str_int slot)), L)
      | Some old \<Rightarrow>
          bindA (tb_send E (''LEAVE '' @ str_int slot)) (\<lambda>line.
          bindA (liftR (tb_check_left slot (k_sid (os_keys old)) line)) (\<lambda>_ L.
          (Inr (), L\<lparr>tb_sessions := (tb_sessions L)(slot := None)\<rparr>))) L)"

text \<open>Sending, timed in whole microseconds with \<open>time.perf_counter_ns()\<close>.\<close>

definition tb_exchange :: "'d env \<Rightarrow> string \<Rightarrow> ('d two_board, string \<times> int) act" where
  "tb_exchange E command =
     bindA (tb_io read_perf) (\<lambda>started.
     bindA (tb_send E command) (\<lambda>line.
     bindA (tb_io read_perf) (\<lambda>stopped.
     retA (line, (stopped - started) div 1000))))"

definition tb_tamper_reply :: "string \<Rightarrow> int \<Rightarrow> (int \<times> int \<times> int) res" where
  "tb_tamper_reply line rtt_us =
     (let fields = py_split line in
      if length fields = 4 \<and> take 2 fields = [''ERR'', ''AUTH'']
      then bindR (py_int 10 (fields ! 3)) (\<lambda>rx. Inr (rx, 0, rtt_us))
      else Inl (BoardError (''Tampered packet was not rejected: '' @ line)))"

definition tb_check_resp :: "'d env \<Rightarrow> session_keys \<Rightarrow> int \<Rightarrow> bytes \<Rightarrow> string \<Rightarrow> unit res" where
  "tb_check_resp E keys slot plaintext line =
     bindR (tb_err line) (\<lambda>_.
     let fields = py_split line; malformed = BoardError (''Malformed RESP: '' @ line) in
     bindR (guardR (length fields = 8 \<and> fields ! 0 = ''RESP'') malformed) (\<lambda>_.
     bindR (py_int 10 (fields ! 1)) (\<lambda>s. bindR (guardR (s = slot) malformed) (\<lambda>_.
     bindR (py_int 16 (fields ! 2)) (\<lambda>response_counter.
     bindR (guardR (response_counter = rx_counter keys) (BoardError ''Unexpected board response counter'')) (\<lambda>_.
     bindR (py_int 10 (fields ! 3)) (\<lambda>len.
     bindR (bytes_fromhex (fields ! 6)) (\<lambda>ct. bindR (bytes_fromhex (fields ! 7)) (\<lambda>tag.
     bindR (open_response E keys response_counter len ct tag) (\<lambda>response.
     guardR (response = plaintext) (BoardError ''Authenticated echo plaintext mismatch'')))))))))))"

definition tb_finish_data ::
    "'d env \<Rightarrow> open_session \<Rightarrow> int \<Rightarrow> bytes \<Rightarrow> bool \<Rightarrow> string \<times> int \<Rightarrow> ('d two_board, int \<times> int \<times> int) act" where
  "tb_finish_data E x slot plaintext tamper = (\<lambda>(line, rtt_us).
     if tamper then liftR (tb_tamper_reply line rtt_us)
     else
       bindA (liftR (tb_check_resp E (os_keys x) slot plaintext line)) (\<lambda>_.
       bindA (\<lambda>L. (Inr (), L\<lparr>tb_sessions := (tb_sessions L)(slot \<mapsto> x\<lparr>os_keys := advance (os_keys x)\<rparr>)\<rparr>)) (\<lambda>_.
       let fields = py_split line in
       liftR (bindR (py_int 10 (fields ! 4)) (\<lambda>rx. bindR (py_int 10 (fields ! 5)) (\<lambda>tx.
         Inr (rx, tx, rtt_us)))))))"

definition tb_data :: "'d env \<Rightarrow> int \<Rightarrow> bytes \<Rightarrow> bool \<Rightarrow> ('d two_board, int \<times> int \<times> int) act" where
  "tb_data E slot plaintext tamper L =
     (case tb_sessions L slot of
        None \<Rightarrow> (Inl (BoardError (''No local session at slot '' @ str_int slot)), L)
      | Some x \<Rightarrow>
          bindA (liftR (seal E (os_keys x) plaintext)) (\<lambda>(len, sealed, tag).
          bindA (liftR (if tamper then flip_first_bit sealed else Inr sealed)) (\<lambda>ciphertext.
          bindA (tb_exchange E (v2_data_command slot (tx_counter (os_keys x)) len ciphertext tag))
            (tb_finish_data E x slot plaintext tamper))) L)"

section \<open>Frames\<close>

definition tb_same :: "'d two_board \<Rightarrow> 'd two_board \<Rightarrow> bool" where
  "tb_same L L' \<longleftrightarrow> L' = L\<lparr>tb_world := tb_world L'\<rparr>"

lemma tb_same_refl [simp]: "tb_same L L"
  by (simp add: tb_same_def)

lemma tb_same_trans: "tb_same L M \<Longrightarrow> tb_same M N \<Longrightarrow> tb_same L N"
  unfolding tb_same_def by (cases L; cases M; cases N) simp

lemma tb_same_sel: "tb_same L L' \<Longrightarrow> tb_sessions L' = tb_sessions L \<and> tb_public_key L' = tb_public_key L \<and>
    tb_name L' = tb_name L \<and> tb_timeout L' = tb_timeout L"
  unfolding tb_same_def by (metis two_board.select_convs(1-4) two_board.surjective two_board.update_convs(5))

lemma tb_io_same: "tb_io m L = (r, L') \<Longrightarrow> tb_same L L'"
  by (auto simp: tb_io_def tb_same_def split: prod.splits)

lemma tb_send_same: "tb_send E c L = (r, L') \<Longrightarrow> tb_same L L'"
  unfolding tb_send_def
  by (erule bindA_state) (auto simp: tb_read_def dest: tb_io_same intro: tb_same_trans)

lemma tb_exchange_same: "tb_exchange E c L = (r, L') \<Longrightarrow> tb_same L L'"
  unfolding tb_exchange_def
  by (auto elim!: bindAE dest!: tb_io_same tb_send_same simp: retA_def intro: tb_same_trans)

lemma tb_send_eq:
  "tb_send E c L = tb_io (send_line E TB_PREFIXES
     (TimeoutError (''Board '' @ tb_name L @ '' response timeout'')) (tb_timeout L) c) L"
  by (simp add: tb_send_def tb_read_def tb_io_def send_line_def bindA_def split: prod.splits sum.splits)

section \<open>Outcomes\<close>

text \<open>Opening files a complete session or nothing.\<close>

lemma tb_open_cases:
  assumes "tb_open_session E v s L = (r, L')"
  obtains (failed) e where "r = Inl e" "tb_same L L'"
  | (opened) x ss ct sid M where "r = Inr x" "tb_sessions L s = None" "tb_same L M"
      "L' = M\<lparr>tb_sessions := (tb_sessions L)(s \<mapsto> x)\<rparr>" "os_vehicle_id x = v" "os_slot x = s"
      "derive_session (tb_public_key L) ct ss sid = Inr (os_keys x)" "0 \<le> s" "s < 64" "0 \<le> v" "v < 64"
proof (cases "(0 \<le> s \<and> s < 64) \<and> (0 \<le> v \<and> v < 64) \<and> tb_sessions L s = None")
  case False
  then have "\<exists>e. r = Inl e \<and> tb_same L L'" using assms by (auto simp: tb_open_session_def split: if_splits)
  then show ?thesis using failed by blast
next
  case True
  then have run: "bindA (tb_io (encaps E (tb_public_key L))) (\<lambda>secret_ct.
        bindA (liftR (guardR (length (snd secret_ct) = CIPHERTEXT_BYTES) AssertionError)) (\<lambda>_.
        bindA (tb_send E (''OPEN '' @ str_int s @ '' '' @ str_int v @ '' ''
                 @ bytes_hex (snd secret_ct))) (\<lambda>line.
        bindA (liftR (tb_check_ready v s line)) (\<lambda>_.
        bindA (liftR (tb_session_of (tb_public_key L) v s secret_ct line)) (tb_store s))))) L = (r, L')"
    using assms by (simp add: tb_open_session_def)
  then consider (early) e where "r = Inl e" "tb_same L L'"
    | (late) ss ct line M x where "tb_same L M" "tb_session_of (tb_public_key L) v s (ss, ct) line = Inr x"
        "tb_store s x M = (r, L')"
    by (auto elim!: bindAE liftRE dest!: tb_io_same tb_send_same) (blast intro: tb_same_trans)+
  then show ?thesis
  proof cases
    case late
    obtain sid where "derive_session (tb_public_key L) ct ss sid = Inr (os_keys x)" "os_vehicle_id x = v" "os_slot x = s"
      using late(2) by (auto simp: tb_session_of_def Let_def bindR_eq_Inr)
    then show ?thesis
      using late True by (intro opened) (auto simp: tb_store_def tb_same_sel)
  qed (rule failed)
qed

lemma tb_leave_cases:
  assumes "tb_leave_session E s L = (r, L')"
  obtains (failed) e where "r = Inl e" "tb_same L L'"
  | (left) x M where "r = Inr ()" "tb_sessions L s = Some x" "tb_same L M" "L' = M\<lparr>tb_sessions := (tb_sessions L)(s := None)\<rparr>"
proof (cases "tb_sessions L s")
  case None
  then show ?thesis using assms by (intro failed [of "BoardError (''No local session at slot '' @ str_int s)"]) (auto simp: tb_leave_session_def)
next
  case (Some old)
  from assms Some have "bindA (tb_send E (''LEAVE '' @ str_int s)) (\<lambda>line.
      bindA (liftR (tb_check_left s (k_sid (os_keys old)) line)) (\<lambda>_ L.
      (Inr (), L\<lparr>tb_sessions := (tb_sessions L)(s := None)\<rparr>))) L = (r, L')"
    by (simp add: tb_leave_session_def)
  then show ?thesis using Some failed left
    by (auto elim!: bindAE liftRE dest!: tb_send_same simp: tb_same_sel)
qed

lemma tb_finish_cases:
  assumes "tb_finish_data E x s p tamper y M = (r, L')"
  shows "(L' = M \<and> (\<forall>i. r = Inr i \<longrightarrow> tamper)) \<or>
    (\<not> tamper \<and> L' = M\<lparr>tb_sessions := (tb_sessions M)(s \<mapsto> x\<lparr>os_keys := advance (os_keys x)\<rparr>)\<rparr> \<and>
       tb_check_resp E (os_keys x) s p (fst y) = Inr ())"
proof -
  obtain line rtt where y: "y = (line, rtt)" by fastforce
  show ?thesis
    using assms by (cases "tb_check_resp E (os_keys x) s p line")
      (auto simp: tb_finish_data_def y bindA_def Let_def split: if_splits)
qed

lemma tb_data_cases:
  assumes "tb_data E s p tamper L = (r, L')"
  obtains (kept) "tb_same L L'" "\<forall>i. r = Inr i \<longrightarrow> tamper \<and> tb_sessions L s \<noteq> None"
  | (echoed) x line M where "\<not> tamper" "tb_sessions L s = Some x" "tb_same L M"
      "L' = M\<lparr>tb_sessions := (tb_sessions L)(s \<mapsto> x\<lparr>os_keys := advance (os_keys x)\<rparr>)\<rparr>"
      "tb_check_resp E (os_keys x) s p line = Inr ()"
proof (cases "tb_sessions L s")
  case None
  then show ?thesis using assms by (intro kept) (auto simp: tb_data_def)
next
  case (Some x)
  then have "bindA (liftR (seal E (os_keys x) p)) (\<lambda>(len, sealed, tag).
      bindA (liftR (if tamper then flip_first_bit sealed else Inr sealed)) (\<lambda>ct.
      bindA (tb_exchange E (v2_data_command s (tx_counter (os_keys x)) len ct tag))
        (tb_finish_data E x s p tamper))) L = (r, L')"
    using assms by (simp add: tb_data_def)
  then consider (early) e where "r = Inl e" "tb_same L L'"
    | (late) y M where "tb_same L M" "tb_finish_data E x s p tamper y M = (r, L')"
    by (auto elim!: bindAE dest!: tb_exchange_same)
  then show ?thesis
  proof cases
    case early
    then show ?thesis by (intro kept) auto
  next
    case late
    from tb_finish_cases [OF late(2)] show ?thesis
    proof
      assume "L' = M \<and> (\<forall>i. r = Inr i \<longrightarrow> tamper)"
      then show ?thesis using late(1) Some by (intro kept) auto
    next
      assume "\<not> tamper \<and> L' = M\<lparr>tb_sessions := (tb_sessions M)(s \<mapsto> x\<lparr>os_keys := advance (os_keys x)\<rparr>)\<rparr> \<and>
        tb_check_resp E (os_keys x) s p (fst y) = Inr ()"
      then show ?thesis using late(1) Some by (intro echoed) (auto simp: tb_same_sel)
    qed
  qed
qed

section \<open>Invariant and interface\<close>

definition tb_live :: "'d two_board \<Rightarrow> int set" where
  "tb_live L = dom (tb_sessions L)"

definition tb_wf :: "'d two_board \<Rightarrow> bool" where
  "tb_wf L \<longleftrightarrow> (\<forall>s x. tb_sessions L s = Some x \<longrightarrow>
     os_slot x = s \<and> 0 \<le> s \<and> s < 64 \<and> keys_ok (os_keys x) \<and> tx_counter (os_keys x) = rx_counter (os_keys x))"

lemma tb_wf_same: "tb_wf L \<Longrightarrow> tb_same L L' \<Longrightarrow> tb_wf L'"
  using tb_same_sel by (fastforce simp: tb_wf_def)

interpretation tb: exclusive_table "tb_open_session E" "tb_leave_session E" tb_live tb_wf for E :: "'d env"
proof (unfold_locales, goal_cases)
  case (1 b v s r b')
  from 1(2) show ?case
  proof (cases rule: tb_open_cases)
    case (opened x ss ct sid M)
    then show ?thesis using 1(1) derive_session_keys_ok [OF opened(7)] by (auto simp: tb_wf_def)
  qed (rule tb_wf_same [OF 1(1)])
next
  case (2 b v s x b')
  from 2(2) show ?case by (cases rule: tb_open_cases) (auto simp: tb_live_def tb_same_sel)
next
  case (3 b v s e b')
  from 3(2) show ?case by (cases rule: tb_open_cases) (auto simp: tb_live_def tb_same_sel)
next
  case (4 b s q b')
  from 4(2) show ?case
    by (cases rule: tb_leave_cases) (use 4(1) in \<open>auto simp: tb_wf_def tb_same_sel\<close>)
next
  case (5 b s y b')
  from 5(2) show ?case by (cases rule: tb_leave_cases) (auto simp: tb_live_def)
next
  case (6 b s y b')
  from 6(2) show ?case by (cases rule: tb_leave_cases) (auto simp: tb_live_def)
next
  case (7 b s e b')
  from 7(2) show ?case by (cases rule: tb_leave_cases) (auto simp: tb_live_def tb_same_sel)
next
  case (8 b s v)
  then show ?case by (auto simp: tb_open_session_def tb_live_def)
qed

text \<open>Data keeps the invariant too.\<close>

lemma tb_data_wf: "tb_wf L \<Longrightarrow> tb_data E s p t L = (r, L') \<Longrightarrow> tb_wf L' \<and> tb_live L' = tb_live L"
proof -
  assume wf: "tb_wf L" and d: "tb_data E s p t L = (r, L')"
  from d show ?thesis
    by (cases rule: tb_data_cases)
      (use wf in \<open>auto simp: tb_wf_def tb_live_def tb_same_sel advance_def keys_ok_def split: if_splits\<close>)
qed

end
