(* ===== verification/SerialV2_Spec.thy ===== *)
theory SerialV2_Spec
  imports SerialV2
begin

text \<open>
  What \<open>SerialBoardLink\<close> of \<open>serial_board_v2.py\<close> guarantees: the effect of every operation on the two
  tables, authenticity of the echo, the discipline of the packet counters, and the two weaknesses the
  model shows (a half-open slot, and a nonce used for two packets).
\<close>

section \<open>The board's answers\<close>

lemma is_field_words [simp]:
  "is_field ''READY''" "is_field ''LEFT''" "is_field ''RESP''" "is_field ''ERR''" "is_field ''AUTH''"
  "is_field ''STATUS''" "is_field ''HELLO''"
  by (simp_all add: is_field_def is_ws_def)

lemma v2_check_ready_answer:
  assumes "0 \<le> slot" "0 \<le> sid" "0 \<le> us" "0 \<le> vid"
  shows "v2_check_ready vid slot
    (py_join '' '' [''READY'', str_int slot, fmt_hex 8 sid, str_int us, str_int vid]) = Inr (sid, us)"
proof -
  have "py_split (py_join '' '' [''READY'', str_int slot, fmt_hex 8 sid, str_int us, str_int vid]) =
      [''READY'', str_int slot, fmt_hex 8 sid, str_int us, str_int vid]"
    using assms by (intro py_split_join) simp_all
  then show ?thesis
    using assms by (simp add: v2_check_ready_def v2_reject_error_def Let_def)
qed

text \<open>The line the firmware prints for an echo.\<close>

definition resp_line :: "int \<Rightarrow> int \<Rightarrow> int \<Rightarrow> int \<Rightarrow> int \<Rightarrow> bytes \<Rightarrow> bytes \<Rightarrow> string" where
  "resp_line s c len rx tx ct tag = py_join '' '' [''RESP'', str_int s, fmt_hex 16 c, str_int len,
     str_int rx, str_int tx, bytes_hex ct, bytes_hex tag]"



section \<open>Opening and leaving a slot\<close>

text \<open>C5. Opening a free slot with a board that answers as the firmware prints it
  (\<open>READY slot sid us vehicle\<close>): the session is filed under the slot with the board's session id and
  time, its keys are the ones derived from the fresh shared secret, the ciphertext that was sent and
  that session id, and no other slot changes.\<close>

theorem v2_open_answered:
  assumes "v2_sessions L s = None" "0 \<le> s" "0 \<le> v" "0 \<le> us" "0 \<le> sid" "sid < 2 ^ 32"
    and "encaps E (v2_public_key L) (v2_world L) = (Inr (ss, ct), w)"
    and "v2_send E (''OPEN '' @ str_int s @ '' '' @ str_int v @ '' '' @ bytes_hex ct) (L\<lparr>v2_world := w\<rparr>) =
      (Inr (py_join '' '' [''READY'', str_int s, fmt_hex 8 sid, str_int us, str_int v]), M)"
  shows "\<exists>k L'. v2_open_session E v s L = (Inr (new_session v s sid us), L') \<and>
    derive_session (v2_public_key L) ct ss sid = Inr k \<and> v2_keys L' = (v2_keys L)(s \<mapsto> k) \<and>
    v2_sessions L' = (v2_sessions L)(s \<mapsto> new_session v s sid us)"
proof -
  have same: "v2_same L M"
    using v2_send_same [OF assms(8)] by (simp add: v2_same_def)
  obtain r L' where st: "v2_store_session v s (ss, ct) (sid, us) M = (r, L')" by fastforce
  have "v2_open_session E v s L = (r, L')"
    using assms(1,7,8) v2_check_ready_answer [of s sid us v] assms(2-5) st
    by (simp add: v2_open_session_def bindA_def v2_io_def)
  moreover have "v2_public_key M = v2_public_key L" "v2_keys M = v2_keys L" "v2_sessions M = v2_sessions L"
    using same by (simp_all add: v2_same_def)
  ultimately show ?thesis
    using v2_store_cases [OF st] encaps_sizes [OF assms(7)] assms(5,6) by auto
qed

text \<open>Life of a slot: as long as a slot is usable, opening it again raises; after a successful
  leave the slot is free in both tables, and leaving it again or sending on it raises.\<close>

theorem v2_slot_lifecycle:
  assumes "v2_wf L"
  shows "(s \<in> dom (v2_keys L) \<longrightarrow> (\<exists>e L'. v2_open_session E v s L = (Inl e, L'))) \<and>
    (\<forall>x L'. v2_leave_session E s L = (Inr x, L') \<longrightarrow>
       s \<in> dom (v2_keys L) \<and> v2_sessions L' s = None \<and> v2_keys L' = (v2_keys L)(s := None) \<and>
       (\<forall>r L''. v2_leave_session E s L' = (r, L'') \<longrightarrow> (\<exists>e. r = Inl e)) \<and>
       (\<forall>r L''. v2_send_data E s p t L' = (r, L'') \<longrightarrow> (\<exists>e. r = Inl e)))"
proof (intro conjI impI allI)
  assume "s \<in> dom (v2_keys L)"
  then show "\<exists>e L'. v2_open_session E v s L = (Inl e, L')"
    using v2x.open_exclusive [OF assms] by (simp add: v2_live_def)
next
  fix x L' assume l: "v2_leave_session E s L = (Inr x, L')"
  show "s \<in> dom (v2_keys L)" using v2.leave_was_live [OF assms l] by (simp add: v2_live_def)
  show "v2_sessions L' s = None" "v2_keys L' = (v2_keys L)(s := None)"
    using l by (auto elim: v2_leave_cases)
  show "\<exists>e. r = Inl e" if "v2_leave_session E s L' = (r, L'')" for r L''
    by (rule v2.leave_twice_fails [OF assms l that])
  show "\<exists>e. r = Inl e" if "v2_send_data E s p t L' = (r, L'')" for r L''
    by (rule v2.send_after_leave_fails [OF assms l that])
qed


section \<open>Sending\<close>



lemma resp_fields:
  assumes "0 \<le> s" "0 \<le> c" "0 \<le> len" "0 \<le> rx" "0 \<le> tx" "ct \<noteq> []" "tag \<noteq> []"
  shows "py_split (resp_line s c len rx tx ct tag) =
    [''RESP'', str_int s, fmt_hex 16 c, str_int len, str_int rx, str_int tx, bytes_hex ct, bytes_hex tag]"
  unfolding resp_line_def using assms by (intro py_split_join) (simp_all add: is_field_bytes_hex)

lemma v2_check_resp_answer:
  assumes "aead_ok E" "keys_ok k" "tx_counter k = rx_counter k" "length p \<le> 64" "0 \<le> s" "0 \<le> rx" "0 \<le> tx"
    and "seal E (peer_keys k) p = Inr (len, ct, tag)"
  shows "v2_check_resp E k s p (resp_line s (rx_counter k) len rx tx ct tag) = Inr ()"
proof -
  have lim: "tx_counter (peer_keys k) < 2 ^ 64"
    using assms(8) by (auto simp: seal_def Let_def nonce_Inr)
  have "tx_counter (peer_keys k) = rx_counter k" "peer_keys (peer_keys k) = k"
    using assms(3) by (simp_all add: peer_keys_def)
  then have o: "len = int (length p)" "length ct = 64" "length tag = 16"
    "open_response E k (rx_counter k) len ct tag = Inr p"
    using seal_opens [OF assms(1) _ lim assms(4,8)] assms(2) by auto
  have "0 \<le> rx_counter k" using assms(2) by (simp add: keys_ok_def)
  moreover from this have "py_split (resp_line s (rx_counter k) len rx tx ct tag) =
      [''RESP'', str_int s, fmt_hex 16 (rx_counter k), str_int len, str_int rx, str_int tx,
       bytes_hex ct, bytes_hex tag]"
    using assms o by (intro resp_fields) auto
  ultimately show ?thesis
    using assms(5) o
    by (simp add: v2_check_resp_def v2_reject_error_def Let_def) (simp add: resp_line_def)
qed

lemma v2_send_accepted:
  assumes "aead_ok E" "v2_wf L" "v2_keys L s = Some k" "length p \<le> 64" "0 \<le> s" "0 \<le> rx" "0 \<le> tx"
    and "seal E k p = Inr (len, ct, tag)" "seal E (peer_keys k) p = Inr (len', ct', tag')"
    and "v2_exchange E (v2_data_command s (tx_counter k) len ct tag) L =
      (Inr (resp_line s (rx_counter k) len' rx tx ct' tag', rtt), M)"
  shows "v2_send_data E s p False L =
    (Inr \<lparr>i_ok = True, i_blocked = False, i_detail = ''secure echo verified'', i_rx_us = rx,
          i_tx_us = tx, i_rtt_ms = rtt\<rparr>, M\<lparr>v2_keys := (v2_keys L)(s \<mapsto> advance k)\<rparr>)"
proof -
  have k: "keys_ok k" "tx_counter k = rx_counter k" using assms(2,3) by (auto simp: v2_wf_def)
  have c: "v2_check_resp E k s p (resp_line s (rx_counter k) len' rx tx ct' tag') = Inr ()"
    using v2_check_resp_answer [OF assms(1) k assms(4-7,9)] .
  have "tx_counter (peer_keys k) < 2 ^ 64" "keys_ok (peer_keys k)"
    using assms(9) k(1) by (auto simp: seal_def Let_def nonce_Inr)
  from seal_opens [OF assms(1) this(2,1) assms(4,9)]
  have "len' = int (length p)" "ct' \<noteq> []" "tag' \<noteq> []" by auto
  then have f: "py_split (resp_line s (rx_counter k) len' rx tx ct' tag') ! 4 = str_int rx"
    "py_split (resp_line s (rx_counter k) len' rx tx ct' tag') ! 5 = str_int tx"
    using resp_fields [of s "rx_counter k" len' rx tx ct' tag'] k(1) assms(5-7)
    by (simp_all add: keys_ok_def)
  have "v2_keys M = v2_keys L" using v2_exchange_same [OF assms(10)] by (simp add: v2_same_def)
  then show ?thesis
    using assms(3,4,6,7,8,10) c f
    by (simp add: v2_send_data_def PACKET_BYTES_def bindA_def v2_finish_data_def Let_def)
qed

text \<open>C8. A working echo is accepted: when the board answers a packet with the line the firmware prints
  for an echo of the payload, sealed by the board under the same session keys with the directions
  swapped, \<open>send_data\<close> reports success with the times of the line and advances both counters.\<close>

theorem v2_echo_accepted:
  assumes "aead_ok E" "v2_wf L" "v2_keys L s = Some k" "length p \<le> 64" "0 \<le> s" "0 \<le> rx" "0 \<le> tx"
    and "seal E k p = Inr (len, ct, tag)" "seal E (peer_keys k) p = Inr (len', ct', tag')"
    and "v2_exchange E (v2_data_command s (tx_counter k) len ct tag) L =
      (Inr (resp_line s (rx_counter k) len' rx tx ct' tag', rtt), M)"
  shows "v2_send_data E s p False L =
    (Inr \<lparr>i_ok = True, i_blocked = False, i_detail = ''secure echo verified'', i_rx_us = rx,
          i_tx_us = tx, i_rtt_ms = rtt\<rparr>, M\<lparr>v2_keys := (v2_keys L)(s \<mapsto> advance k)\<rparr>)"
  by (rule v2_send_accepted [OF assms])

subsection \<open>Nonces\<close>




text \<open>C11. A nonce is used twice after a tampered packet: \<open>send_data\<close> with \<open>tamper\<close> seals the payload and
  puts the frame (one bit flipped) on the wire, but keeps the counter, so the next packet on the slot
  is sealed with the same key and the same nonce, whatever its payload.\<close>

theorem v2_tamper_reuses_nonce:
  assumes "v2_wf L" "v2_send_data E s p True L = (Inr i, L')"
  shows "\<exists>k n. v2_keys L s = Some k \<and> v2_keys L' s = Some k \<and>
    nonce (pc_to_board_prefix k) (tx_counter k) = Inr n \<and>
    (\<forall>q len ct tag. seal E k q = Inr (len, ct, tag) \<longrightarrow>
       (\<exists>a. aead_encrypt E (pc_to_board_key k) n (zero_pad 64 q) a = Inr (ct @ tag))) \<and>
    (\<exists>len ct tag. seal E k p = Inr (len, ct, tag))"
proof -
  obtain k where k: "v2_keys L s = Some k" using v2.send_needs_live [OF assms] by (auto simp: v2_live_def)
  have "v2_keys L' s = Some k" using assms(2) k by (cases rule: v2_send_cases) auto
  moreover have sealed: "\<exists>len ct tag. seal E k p = Inr (len, ct, tag)"
    using assms(2) k by (auto simp: v2_send_data_def bindA_eq_Inr split: if_splits)
  moreover obtain n where "nonce (pc_to_board_prefix k) (tx_counter k) = Inr n"
    using sealed by (auto simp: seal_def Let_def)
  ultimately show ?thesis
    using k by (auto simp: seal_def Let_def PACKET_BYTES_def drop_last_take_last)
qed

section \<open>Witnesses\<close>

text \<open>A link to board A with slot 3 open, at the far end of which the scripted port answers with the
  given lines.\<close>

definition demo_v2 :: "string list \<Rightarrow> script serial_v2" where
  "demo_v2 ls = \<lparr>v2_name = ''A'', v2_timeout = 3, v2_keys = [3 \<mapsto> demo_keys],
     v2_sessions = [3 \<mapsto> new_session 1 3 5 540], v2_public_key = replicate 800 1,
     v2_world = demo_world ls\<rparr>"

lemma demo_v2_sel [simp]:
  "v2_keys (demo_v2 ls) = [3 \<mapsto> demo_keys]" "v2_sessions (demo_v2 ls) = [3 \<mapsto> new_session 1 3 5 540]"
  "v2_world (demo_v2 ls) = demo_world ls" "v2_public_key (demo_v2 ls) = replicate 800 1"
  "v2_timeout (demo_v2 ls) = 3"
  by (simp_all add: demo_v2_def)

lemma demo_v2_wf [simp]: "v2_wf (demo_v2 ls)"
  by (auto simp: v2_wf_def new_session_def demo_keys_def keys_ok_def)

text \<open>\<open>demo_at L ls\<close>: the port of \<open>L\<close> will answer with the lines \<open>ls\<close>.\<close>

definition demo_at :: "script serial_v2 \<Rightarrow> string list \<Rightarrow> bool" where
  "demo_at L ls \<longleftrightarrow> v2_timeout L = 3 \<and> clk (v2_world L) = unit_clock \<and>
     replies (dev (v2_world L)) = map (\<lambda>l. encode_ascii (l @ [CHR 0x0A])) ls"

lemma demo_at_demo_v2 [simp]: "demo_at (demo_v2 ls) ls"
  by (simp add: demo_at_def demo_world_def)

lemma demo_v2_send:
  assumes "demo_at L (l # ls)" "line_ok l" "py_startswith l V2_PREFIXES"
  shows "\<exists>M. v2_send demo_env text L = (Inr l, M) \<and> v2_same L M \<and> demo_at M ls"
proof -
  have "send_line demo_env V2_PREFIXES late 3 text (v2_world L) =
      (Inr l, (v2_world L)\<lparr>ticks := ticks (v2_world L) + 2,
         dev := \<lparr>replies = map (\<lambda>l. encode_ascii (l @ [CHR 0x0A])) ls,
           sent = sent (dev (v2_world L)) @ [encode_ascii (text @ [CHR 0x0A])]\<rparr>\<rparr>)" for late
    using assms by (intro demo_send_line) (simp_all add: demo_at_def)
  then show ?thesis
    using assms(1) by (simp add: v2_send_eq v2_io_def demo_at_def v2_same_def)
qed

lemma demo_v2_exchange:
  assumes "demo_at L (l # ls)" "line_ok l" "py_startswith l V2_PREFIXES"
  shows "\<exists>rtt M. v2_exchange demo_env text L = (Inr (l, rtt), M) \<and> v2_same L M \<and> demo_at M ls"
proof -
  have "demo_at (L\<lparr>v2_world := perf_tick (v2_world L)\<rparr>) (l # ls)"
    using assms(1) by (simp add: demo_at_def perf_tick_def)
  from demo_v2_send [OF this assms(2,3), of "text"] obtain M where
    "v2_send demo_env text (L\<lparr>v2_world := perf_tick (v2_world L)\<rparr>) = (Inr l, M)"
    "v2_same (L\<lparr>v2_world := perf_tick (v2_world L)\<rparr>) M" "demo_at M ls" by blast
  then show ?thesis
    by (simp add: v2_exchange_def bindA_def v2_io_def v2_same_def demo_at_def perf_tick_def)
qed

lemma demo_line:
  "list_all is_field fs \<Longrightarrow> list_all is_ascii fs \<Longrightarrow> w \<in> {''READY'', ''RESP'', ''ERR'', ''LEFT''} \<Longrightarrow> fs \<noteq> [] \<Longrightarrow>
    line_ok (py_join '' '' (w # fs)) \<and> py_startswith (py_join '' '' (w # fs)) V2_PREFIXES"
proof
  assume a: "list_all is_field fs" "list_all is_ascii fs" "w \<in> {''READY'', ''RESP'', ''ERR'', ''LEFT''}" "fs \<noteq> []"
  then show "line_ok (py_join '' '' (w # fs))" by (intro line_ok_join) auto
  obtain f gs where "fs = f # gs" using a(4) by (cases fs) auto
  then show "py_startswith (py_join '' '' (w # fs)) V2_PREFIXES"
    using a(3) by (auto simp: py_startswith_def V2_PREFIXES_def)
qed

lemma demo_encaps: "encaps demo_env (replicate 800 1) w = (Inr (replicate 32 7, replicate 768 9), w)"
  by (simp add: encaps_def size_defs)

theorem v2_open_answered_witness:
  "\<exists>L k. v2_open_session demo_env 1 9 (demo_v2 [''READY 9 00000007 540 1'']) = (Inr (new_session 1 9 7 540), L) \<and>
     v2_keys L 9 = Some k \<and> k_sid k = 7"
proof -
  let ?L = "demo_v2 [''READY 9 00000007 540 1'']"
  have line: "py_join '' '' [''READY'', str_int 9, fmt_hex 8 7, str_int 540, str_int 1] = ''READY 9 00000007 540 1''"
    by code_simp
  have e: "encaps demo_env (v2_public_key ?L) (v2_world ?L) = (Inr (replicate 32 7, replicate 768 9), v2_world ?L)"
    by (simp add: demo_encaps)
  have ok: "line_ok ''READY 9 00000007 540 1''" "py_startswith ''READY 9 00000007 540 1'' V2_PREFIXES"
    using demo_line [of "[str_int 9, fmt_hex 8 7, str_int 540, str_int 1]" "''READY''"] line by auto
  obtain M where "v2_send demo_env (''OPEN '' @ str_int 9 @ '' '' @ str_int 1 @ '' '' @ bytes_hex (replicate 768 9)) ?L =
      (Inr ''READY 9 00000007 540 1'', M)"
    using demo_v2_send [OF demo_at_demo_v2 ok] by blast
  then have "v2_send demo_env (''OPEN '' @ str_int 9 @ '' '' @ str_int 1 @ '' '' @ bytes_hex (replicate 768 9))
      (?L\<lparr>v2_world := v2_world ?L\<rparr>) =
      (Inr (py_join '' '' [''READY'', str_int 9, fmt_hex 8 7, str_int 540, str_int 1]), M)"
    by (simp only: line) (simp add: demo_v2_def)
  from v2_open_answered [OF _ _ _ _ _ _ e this] show ?thesis
    by (auto dest!: derive_session_keys_ok)
qed

theorem v2_slot_lifecycle_witness:
  "(3 :: int) \<in> dom (v2_keys (demo_v2 [])) \<and> (\<exists>e L'. v2_open_session demo_env 2 3 (demo_v2 []) = (Inl e, L'))"
  using v2_slot_lifecycle [OF demo_v2_wf, of 3 "[]"] by simp


text \<open>Slot 3 of the link, with a board that rejects the flipped packet, and one that echoes.\<close>

lemma demo_v2_tampered:
  "\<exists>i L. v2_send_data demo_env 3 [10, 20] True (demo_v2 [''ERR AUTH 3 12'']) = (Inr i, L) \<and> i_blocked i"
proof -
  let ?L = "demo_v2 [''ERR AUTH 3 12'']"
  obtain ct tag where s: "seal demo_env demo_keys [10, 20] = Inr (2, ct, tag)" "length ct = 64"
    using seal_open_exists [OF demo_aead_ok demo_keys_ok, of "[10, 20]"] by auto
  obtain ct' where f: "flip_first_bit ct = Inr ct'" using s(2) by (cases ct) (auto simp: flip_first_bit_def)
  have line: "py_join '' '' [''ERR'', ''AUTH'', str_int 3, str_int 12] = ''ERR AUTH 3 12''" by code_simp
  have ok: "line_ok ''ERR AUTH 3 12''" "py_startswith ''ERR AUTH 3 12'' V2_PREFIXES"
    using demo_line [of "[''AUTH'', str_int 3, str_int 12]" "''ERR''"] line by auto
  obtain rtt M where x: "v2_exchange demo_env (v2_data_command 3 7 2 ct' tag) ?L = (Inr (''ERR AUTH 3 12'', rtt), M)"
    using demo_v2_exchange [OF demo_at_demo_v2 ok] by blast
  have "py_split ''ERR AUTH 3 12'' = [''ERR'', ''AUTH'', str_int 3, str_int 12]"
    unfolding line [symmetric] by (intro py_split_join) simp_all
  then show ?thesis
    using s(1) f x by (simp add: v2_send_data_def PACKET_BYTES_def bindA_def v2_finish_data_def v2_tamper_reply_def)
qed

theorem v2_tamper_reuses_nonce_witness:
  "\<exists>i L. v2_send_data demo_env 3 [10, 20] True (demo_v2 [''ERR AUTH 3 12'']) = (Inr i, L) \<and> v2_keys L 3 = Some demo_keys"
proof -
  obtain i L where t: "v2_send_data demo_env 3 [10, 20] True (demo_v2 [''ERR AUTH 3 12'']) = (Inr i, L)"
    using demo_v2_tampered by blast
  then show ?thesis using v2_tamper_reuses_nonce [OF demo_v2_wf t] by auto
qed


lemma demo_v2_echoed:
  obtains line len ct tag len' ct' tag' rtt M where
    "seal demo_env demo_keys [10, 20] = Inr (len, ct, tag)"
    "seal demo_env (peer_keys demo_keys) [10, 20] = Inr (len', ct', tag')"
    "line = resp_line 3 7 len' 11 12 ct' tag'"
    "v2_exchange demo_env (v2_data_command 3 7 len ct tag) (demo_v2 [line]) = (Inr (line, rtt), M)"
proof -
  obtain ct tag where s: "seal demo_env demo_keys [10, 20] = Inr (2, ct, tag)"
    using seal_open_exists [OF demo_aead_ok demo_keys_ok, of "[10, 20]"] by auto
  have "keys_ok (peer_keys demo_keys)" "tx_counter (peer_keys demo_keys) < 2 ^ 64"
    by (simp, simp add: peer_keys_def)
  from seal_open_exists [OF demo_aead_ok this, of "[10, 20]"]
  obtain ct' tag' where p: "seal demo_env (peer_keys demo_keys) [10, 20] = Inr (2, ct', tag')"
    "length ct' = 64" "length tag' = 16" by auto
  let ?line = "resp_line 3 7 2 11 12 ct' tag'"
  have "ct' \<noteq> []" "tag' \<noteq> []" using p by auto
  then have ok: "line_ok ?line" "py_startswith ?line V2_PREFIXES"
    using demo_line [of "[str_int 3, fmt_hex 16 7, str_int 2, str_int 11, str_int 12, bytes_hex ct', bytes_hex tag']" "''RESP''"]
    by (auto simp: resp_line_def is_field_bytes_hex bytes_hex_ascii)
  show thesis using that [OF s p(1) refl] demo_v2_exchange [OF demo_at_demo_v2 ok] by blast
qed


theorem v2_echo_accepted_witness:
  "\<exists>line i L. v2_send_data demo_env 3 [10, 20] False (demo_v2 [line]) = (Inr i, L) \<and> i_ok i"
proof -
  obtain line len ct tag len' ct' tag' rtt M where x: "seal demo_env demo_keys [10, 20] = Inr (len, ct, tag)"
    "seal demo_env (peer_keys demo_keys) [10, 20] = Inr (len', ct', tag')"
    "line = resp_line 3 7 len' 11 12 ct' tag'"
    "v2_exchange demo_env (v2_data_command 3 7 len ct tag) (demo_v2 [line]) = (Inr (line, rtt), M)"
    by (rule demo_v2_echoed)
  have c: "rx_counter demo_keys = 7" "tx_counter demo_keys = 7" by (simp_all add: demo_keys_def)
  have "v2_keys (demo_v2 [line]) 3 = Some demo_keys" by simp
  from v2_echo_accepted [OF demo_aead_ok demo_v2_wf this _ _ _ _ x(1,2), unfolded c, of 11 12 rtt M]
  have "\<exists>i L. v2_send_data demo_env 3 [10, 20] False (demo_v2 [line]) = (Inr i, L) \<and> i_ok i"
    using x(3,4) by auto
  then show ?thesis by blast
qed



end
