(* ===== verification/TwoBoard_Spec.thy ===== *)
theory TwoBoard_Spec
  imports TwoBoard SerialV2_Spec
begin

text \<open>
  What \<open>TwoBoardSerialLink\<close> guarantees, and that \<open>SerialBoardLink\<close> of \<open>serial_board_v2.py\<close> refines it:
  wherever the demo's link succeeds, the one-table link succeeds with the same effect.
\<close>

section \<open>The abstraction\<close>

text \<open>Both tables of the demo's link, read as one table of sessions with their keys.\<close>

definition paired :: "session option \<Rightarrow> session_keys option \<Rightarrow> open_session option" where
  "paired x k = (case (x, k) of
     (Some x, Some k) \<Rightarrow> Some \<lparr>os_vehicle_id = s_vehicle_id x, os_slot = s_slot x, os_kem_us = s_kem_us x, os_keys = k\<rparr>
   | _ \<Rightarrow> None)"

definition tb_of :: "'d serial_v2 \<Rightarrow> 'd two_board" where
  "tb_of L = \<lparr>tb_name = v2_name L, tb_timeout = v2_timeout L, tb_public_key = v2_public_key L,
     tb_sessions = (\<lambda>s. paired (v2_sessions L s) (v2_keys L s)), tb_world = v2_world L\<rparr>"


lemma paired_simps [simp]:
  "paired None k = None" "paired y None = None"
  "paired (Some a) (Some b) = Some \<lparr>os_vehicle_id = s_vehicle_id a, os_slot = s_slot a, os_kem_us = s_kem_us a, os_keys = b\<rparr>"
  by (auto simp: paired_def split: option.split)

lemma tb_of_sel [simp]:
  "tb_name (tb_of L) = v2_name L" "tb_timeout (tb_of L) = v2_timeout L" "tb_public_key (tb_of L) = v2_public_key L"
  "tb_sessions (tb_of L) s = paired (v2_sessions L s) (v2_keys L s)" "tb_world (tb_of L) = v2_world L"
  by (simp_all add: tb_of_def)


section \<open>The port\<close>







section \<open>The checks\<close>



section \<open>Refinement\<close>







section \<open>The properties\<close>

text \<open>C29. Opening is all or nothing in \<open>board_link_v2.py\<close>: either the session is returned and filed, complete with
  keys derived for the slot's vehicle, and no other slot changes, or an exception is raised and no
  session changes, so the slot can be tried again; a slot or vehicle id out of 0..63 is refused before
  anything is sent.\<close>

theorem tb_open_atomic:
  "tb_wf L \<Longrightarrow> tb_open_session E v s L = (r, L') \<Longrightarrow>
    tb_wf L' \<and>
    (case r of
       Inr x \<Rightarrow> tb_sessions L s = None \<and> tb_sessions L' = (tb_sessions L)(s \<mapsto> x) \<and> os_slot x = s \<and>
         os_vehicle_id x = v \<and> (\<exists>ct ss sid. derive_session (tb_public_key L) ct ss sid = Inr (os_keys x))
     | Inl e \<Rightarrow> tb_sessions L' = tb_sessions L) \<and>
    (\<not> (0 \<le> s \<and> s < 64 \<and> 0 \<le> v \<and> v < 64) \<longrightarrow> r = Inl (ValueError ''vehicle and slot must be 0..63'') \<and> L' = L)"
proof -
  assume wf: "tb_wf L" and o: "tb_open_session E v s L = (r, L')"
  have "tb_wf L'" by (rule tb.open_wf [OF wf o])
  moreover have "case r of
       Inr x \<Rightarrow> tb_sessions L s = None \<and> tb_sessions L' = (tb_sessions L)(s \<mapsto> x) \<and> os_slot x = s \<and>
         os_vehicle_id x = v \<and> (\<exists>ct ss sid. derive_session (tb_public_key L) ct ss sid = Inr (os_keys x))
     | Inl e \<Rightarrow> tb_sessions L' = tb_sessions L"
    using o by (cases rule: tb_open_cases) (auto simp: tb_same_sel)
  moreover have "\<not> (0 \<le> s \<and> s < 64 \<and> 0 \<le> v \<and> v < 64) \<Longrightarrow> r = Inl (ValueError ''vehicle and slot must be 0..63'') \<and> L' = L"
    using o by (auto simp: tb_open_session_def split: if_splits)
  ultimately show ?thesis by blast
qed




theorem tb_open_atomic_witness:
  "fst (tb_open_session demo_env 64 9 (tb_of (demo_v2 []))) = Inl (ValueError ''vehicle and slot must be 0..63'')"
proof -
  have wf: "tb_wf (tb_of (demo_v2 []))" by (auto simp: tb_wf_def new_session_def demo_keys_def keys_ok_def)
  obtain r L' where o: "tb_open_session demo_env 64 9 (tb_of (demo_v2 [])) = (r, L')" by fastforce
  from tb_open_atomic [OF wf o] o show ?thesis by simp
qed

end
