(* ===== verification/MockBoard.thy ===== *)
theory MockBoard
  imports BoardTypes
begin

text \<open>
  \<open>MockBoardLink\<close>, the behavioural model of the board that the program ships: one record per object,
  one function per method.  \<open>time.sleep\<close> only consumes the draw that chose its length.
\<close>

record mock_board =
  m_name :: string
  m_rng :: rng
  m_sessions :: "int \<rightharpoonup> session"
  m_generation :: "int list"

definition new_mock :: "string \<Rightarrow> draws \<Rightarrow> mock_board" where
  "new_mock name seed =
     \<lparr>m_name = name, m_rng = \<lparr>rng_draws = seed, rng_used = 0\<rparr>, m_sessions = Map.empty,
      m_generation = replicate MAX_SESSIONS 0\<rparr>"

definition mock_close :: "(mock_board, unit) act" where
  "mock_close m = (Inr (), m)"

text \<open>Drawing from \<open>self._rng\<close>.\<close>

definition mock_uniform :: "real \<Rightarrow> real \<Rightarrow> (mock_board, real) act" where
  "mock_uniform a b m = (case uniform a b (m_rng m) of (x, g) \<Rightarrow> (Inr x, m\<lparr>m_rng := g\<rparr>))"

definition mock_randint :: "int \<Rightarrow> int \<Rightarrow> (mock_board, int) act" where
  "mock_randint a b m = (case randint a b (m_rng m) of (x, g) \<Rightarrow> (Inr x, m\<lparr>m_rng := g\<rparr>))"

definition mock_sid :: "int \<Rightarrow> int \<Rightarrow> int" where
  "mock_sid generation slot =
     Bit_Operations.or
       (Bit_Operations.or 0x60000000 (push_bit 6 (Bit_Operations.and generation 0x003FFFFF))) slot"

definition mock_open_session :: "int \<Rightarrow> int \<Rightarrow> (mock_board, session) act" where
  "mock_open_session vehicle_id slot m =
     (if \<not> (0 \<le> slot \<and> slot < int MAX_SESSIONS) then (Inl (ValueError ''slot must be 0..63''), m)
      else bindA (mock_uniform 0.035 0.095) (\<lambda>_.
        bindA (\<lambda>m. (py_get (m_generation m) slot, m)) (\<lambda>generation.
        bindA (\<lambda>m. case py_set (m_generation m) slot (generation + 1) of
            Inl e \<Rightarrow> (Inl e, m) | Inr gs \<Rightarrow> (Inr (), m\<lparr>m_generation := gs\<rparr>)) (\<lambda>_.
        bindA (mock_randint 530 578) (\<lambda>kem_us m.
          let session = new_session vehicle_id slot (mock_sid generation slot) kem_us
          in (Inr session, m\<lparr>m_sessions := (m_sessions m)(slot \<mapsto> session)\<rparr>))))) m)"

definition mock_sw_kem :: "(mock_board, (int \<times> bool) option) act" where
  "mock_sw_kem =
     bindA (mock_uniform 0.012 0.020) (\<lambda>_.
     bindA (mock_randint 1238 1279) (\<lambda>us. retA (Some (us, True))))"

definition no_session_error :: "int \<Rightarrow> py_error" where
  "no_session_error slot = RuntimeError (''ERR NOSESSION '' @ str_int slot)"

definition mock_leave_session :: "int \<Rightarrow> (mock_board, session) act" where
  "mock_leave_session slot m =
     (case m_sessions m slot of
        None \<Rightarrow> (Inl (no_session_error slot), m)
      | Some session \<Rightarrow>
          bindA (mock_uniform 0.008 0.025) (\<lambda>_ m.
            (Inr session, m\<lparr>m_sessions := (m_sessions m)(slot := None)\<rparr>)) m)"

definition mock_send_data :: "int \<Rightarrow> bytes \<Rightarrow> bool \<Rightarrow> (mock_board, data_info) act" where
  "mock_send_data slot payload tamper m =
     (case m_sessions m slot of
        None \<Rightarrow> (Inl (no_session_error slot), m)
      | Some session \<Rightarrow>
          (if PACKET_BYTES < length payload then (Inl (ValueError ''payload exceeds 64 bytes''), m)
           else bindA (mock_uniform 0.012 0.035) (\<lambda>_.
             if tamper then
               bindA (mock_randint 8 20) (\<lambda>rx.
               bindA (mock_uniform 13.0 25.0) (\<lambda>rtt.
               retA \<lparr>i_ok = False, i_blocked = True, i_detail = ''ERR AUTH'', i_rx_us = rx, i_tx_us = 0,
                     i_rtt_ms = rtt\<rparr>))
             else
               bindA (\<lambda>m. (Inr (), m\<lparr>m_sessions := (m_sessions m)(slot \<mapsto>
                   session\<lparr>s_tx_counter := s_tx_counter session + 1,
                           s_rx_counter := s_rx_counter session + 1\<rparr>)\<rparr>)) (\<lambda>_.
               bindA (mock_randint 8 20) (\<lambda>rx.
               bindA (mock_randint 8 20) (\<lambda>tx.
               bindA (mock_uniform 13.0 25.0) (\<lambda>rtt.
               retA \<lparr>i_ok = True, i_blocked = False, i_detail = ''secure echo verified'',
                     i_rx_us = rx, i_tx_us = tx, i_rtt_ms = rtt\<rparr>))))) m))"

section \<open>Invariant and interface\<close>

definition mock_live :: "mock_board \<Rightarrow> int set" where
  "mock_live m = dom (m_sessions m)"

text \<open>Every session is filed under its own slot, which is in range, and was numbered by a generation
  that the slot's counter has passed.\<close>

definition mock_wf :: "mock_board \<Rightarrow> bool" where
  "mock_wf m \<longleftrightarrow> length (m_generation m) = MAX_SESSIONS \<and>
     (\<forall>slot session. m_sessions m slot = Some session \<longrightarrow>
        s_slot session = slot \<and> 0 \<le> slot \<and> slot < int MAX_SESSIONS \<and>
        (\<exists>g. 0 \<le> g \<and> g < m_generation m ! nat slot \<and> s_sid session = mock_sid g slot)) \<and>
     (\<forall>g \<in> set (m_generation m). 0 \<le> g)"

lemma mock_uniform_eq: "mock_uniform a b m =
    (Inr (fst (uniform a b (m_rng m))), m\<lparr>m_rng := snd (uniform a b (m_rng m))\<rparr>)"
  by (simp add: mock_uniform_def split: prod.split)

lemma mock_randint_eq: "mock_randint a b m =
    (Inr (fst (randint a b (m_rng m))), m\<lparr>m_rng := snd (randint a b (m_rng m))\<rparr>)"
  by (simp add: mock_randint_def split: prod.split)

lemmas mock_run = mock_uniform_eq mock_randint_eq bindA_def

lemma mock_open_fields:
  assumes "mock_open_session v slot m = (r, m')" "length (m_generation m) = MAX_SESSIONS"
    and "0 \<le> slot" "slot < int MAX_SESSIONS"
  obtains us where "530 \<le> us" "us \<le> 578"
    "r = Inr (new_session v slot (mock_sid (m_generation m ! nat slot) slot) us)"
    "m_generation m' = (m_generation m)[nat slot := m_generation m ! nat slot + 1]"
    "m_sessions m' = (m_sessions m)(slot \<mapsto>
       new_session v slot (mock_sid (m_generation m ! nat slot) slot) us)"
proof -
  let ?us = "fst (randint 530 578 (snd (uniform 0.035 0.095 (m_rng m))))"
  have "530 \<le> ?us \<and> ?us \<le> 578" by (rule fst_randint_bounds) simp
  then show thesis
    using assms
    by (intro that [of ?us]) (auto simp: mock_open_session_def mock_run py_get_def Let_def)
qed

lemma mock_open_range:
  "\<not> (0 \<le> slot \<and> slot < int MAX_SESSIONS) \<Longrightarrow>
    mock_open_session v slot m = (Inl (ValueError ''slot must be 0..63''), m)"
  by (simp add: mock_open_session_def)

lemma mock_send_absent:
  "m_sessions m slot = None \<Longrightarrow> mock_send_data slot p tamper m = (Inl (no_session_error slot), m)"
  by (simp add: mock_send_data_def)

lemma mock_send_long:
  "m_sessions m slot = Some x \<Longrightarrow> 64 < length p \<Longrightarrow>
    mock_send_data slot p tamper m = (Inl (ValueError ''payload exceeds 64 bytes''), m)"
  by (simp add: mock_send_data_def PACKET_BYTES_def)

lemma mock_send_fields:
  assumes "mock_send_data slot p tamper m = (r, m')" "m_sessions m slot = Some x" "length p \<le> 64"
  shows "m_generation m' = m_generation m \<and>
    m_sessions m' = (if tamper then m_sessions m else (m_sessions m)(slot \<mapsto>
        x\<lparr>s_tx_counter := s_tx_counter x + 1, s_rx_counter := s_rx_counter x + 1\<rparr>)) \<and>
    (\<exists>i. r = Inr i \<and> i_ok i = (\<not> tamper) \<and> i_blocked i = tamper)"
  using assms by (auto simp: mock_send_data_def PACKET_BYTES_def mock_run retA_def)

lemma mock_send_cases:
  assumes "mock_send_data slot p tamper m = (r, m')"
  obtains (refused) e where "r = Inl e" "m' = m"
  | (sent) x i where "m_sessions m slot = Some x" "r = Inr i" "i_ok i = (\<not> tamper)"
      "i_blocked i = tamper" "m_generation m' = m_generation m"
      "m_sessions m' = (if tamper then m_sessions m else (m_sessions m)(slot \<mapsto>
        x\<lparr>s_tx_counter := s_tx_counter x + 1, s_rx_counter := s_rx_counter x + 1\<rparr>))"
proof (cases "m_sessions m slot")
  case None
  then show ?thesis using assms mock_send_absent [OF None] by (intro refused) auto
next
  case (Some x)
  show ?thesis
  proof (cases "length p \<le> 64")
    case True
    then show ?thesis using mock_send_fields [OF assms Some] Some sent by blast
  next
    case False
    then show ?thesis using assms mock_send_long [OF Some] by (intro refused) auto
  qed
qed

lemma mock_leave_eq:
  "mock_leave_session slot m =
    (case m_sessions m slot of None \<Rightarrow> (Inl (no_session_error slot), m)
     | Some x \<Rightarrow> (Inr x, m\<lparr>m_rng := snd (uniform 0.008 0.025 (m_rng m)),
                        m_sessions := (m_sessions m)(slot := None)\<rparr>))"
  by (simp add: mock_leave_session_def mock_run split: option.split)

text \<open>The invariant looks at the sessions and the generations only.\<close>

lemma mock_wf_same:
  "mock_wf m \<Longrightarrow> m_sessions m' = m_sessions m \<Longrightarrow> m_generation m' = m_generation m \<Longrightarrow> mock_wf m'"
  by (simp add: mock_wf_def)

lemma mock_wf_drop:
  "mock_wf m \<Longrightarrow> m_sessions m' = (m_sessions m)(slot := None) \<Longrightarrow>
    m_generation m' = m_generation m \<Longrightarrow> mock_wf m'"
  by (simp add: mock_wf_def)

lemma mock_wf_count:
  assumes "mock_wf m" "m_sessions m slot = Some x" "m_generation m' = m_generation m"
    and "m_sessions m' = (m_sessions m)(slot \<mapsto> x\<lparr>s_tx_counter := a, s_rx_counter := b\<rparr>)"
  shows "mock_wf m'"
  using assms by (simp add: mock_wf_def)

lemma mock_wf_open:
  assumes "mock_wf m" "0 \<le> slot" "slot < int MAX_SESSIONS"
    and gen: "m_generation m' = (m_generation m)[nat slot := m_generation m ! nat slot + 1]"
    and ses: "m_sessions m' = (m_sessions m)(slot \<mapsto>
        new_session v slot (mock_sid (m_generation m ! nat slot) slot) us)"
  shows "mock_wf m'"
proof -
  let ?G = "m_generation m"
  have len: "length ?G = MAX_SESSIONS" and ns: "nat slot < length ?G" and nn: "\<forall>g \<in> set ?G. 0 \<le> g"
    using assms by (auto simp: mock_wf_def)
  have g0: "0 \<le> ?G ! nat slot" using nn ns by simp
  have others: "\<exists>g. 0 \<le> g \<and> g < m_generation m' ! nat s \<and> s_sid x = mock_sid g s"
    if old: "m_sessions m s = Some x" for s x
  proof -
    obtain g where g: "0 \<le> g" "g < ?G ! nat s" "s_sid x = mock_sid g s" "nat s < length ?G"
      using assms(1) old len by (fastforce simp: mock_wf_def)
    moreover have "?G ! nat s \<le> m_generation m' ! nat s"
      using g(4) gen by (cases "nat s = nat slot") simp_all
    ultimately show ?thesis using order_less_le_trans by blast
  qed
  have "\<forall>h \<in> set (m_generation m'). 0 \<le> h"
    using nn g0 set_update_subset_insert [of ?G "nat slot" "?G ! nat slot + 1"] gen by fastforce
  moreover have "length (m_generation m') = MAX_SESSIONS" using gen len by simp
  moreover have "s_slot x = s \<and> 0 \<le> s \<and> s < int MAX_SESSIONS \<and>
      (\<exists>g. 0 \<le> g \<and> g < m_generation m' ! nat s \<and> s_sid x = mock_sid g s)"
    if "m_sessions m' s = Some x" for s x
  proof (cases "s = slot")
    case True
    then have "s_slot x = s" "s_sid x = mock_sid (?G ! nat s) s" "?G ! nat s < m_generation m' ! nat s"
      using that ses gen ns by (auto simp: new_session_def)
    then show ?thesis using True assms(2,3) g0 by auto
  next
    case False
    then have "m_sessions m s = Some x" using that ses by simp
    then show ?thesis using others assms(1) by (simp add: mock_wf_def)
  qed
  ultimately show ?thesis by (simp add: mock_wf_def)
qed

lemma mock_open_cases:
  assumes "mock_wf m" "mock_open_session v slot m = (r, m')"
  obtains (refused) e where "r = Inl e" "m' = m"
  | (opened) x where "r = Inr x" "0 \<le> slot" "slot < int MAX_SESSIONS" "mock_wf m'"
      "m_sessions m' = (m_sessions m)(slot \<mapsto> x)" "s_slot x = slot" "s_vehicle_id x = v"
      "s_sid x = mock_sid (m_generation m ! nat slot) slot"
proof (cases "0 \<le> slot \<and> slot < int MAX_SESSIONS")
  case True
  have len: "length (m_generation m) = MAX_SESSIONS" using assms(1) by (simp add: mock_wf_def)
  show ?thesis
  proof (rule mock_open_fields [OF assms(2) len])
    fix us
    assume o: "r = Inr (new_session v slot (mock_sid (m_generation m ! nat slot) slot) us)"
      "m_generation m' = (m_generation m)[nat slot := m_generation m ! nat slot + 1]"
      "m_sessions m' = (m_sessions m)(slot \<mapsto>
         new_session v slot (mock_sid (m_generation m ! nat slot) slot) us)"
    then have "mock_wf m'" using mock_wf_open [OF assms(1)] True by blast
    then show thesis using True by (intro opened [OF o(1) _ _ _ o(3)]) (simp_all add: new_session_def)
  qed (use True in simp_all)
next
  case False
  then show ?thesis using assms(2) mock_open_range [OF False] by (intro refused) auto
qed

interpretation mock: board_backend mock_open_session mock_leave_session mock_live mock_wf mock_send_data
proof (unfold_locales, goal_cases)
  case (1 b v s r b')
  then show ?case by (cases rule: mock_open_cases) (use 1 in auto)
next
  case (2 b v s x b')
  then show ?case by (cases rule: mock_open_cases) (auto simp: mock_live_def)
next
  case (3 b v s e b')
  then show ?case by (cases rule: mock_open_cases) auto
next
  case (4 b s q b')
  then show ?case by (auto simp: mock_leave_eq split: option.splits elim: mock_wf_drop)
next
  case (5 b s y b')
  then show ?case by (auto simp: mock_leave_eq mock_live_def split: option.splits)
next
  case (6 b s y b')
  then show ?case by (auto simp: mock_leave_eq mock_live_def split: option.splits if_splits)
next
  case (7 b s e b')
  then show ?case by (auto simp: mock_leave_eq split: option.splits)
next
  case (8 b v s x b')
  then show ?case by (cases rule: mock_open_cases) auto
next
  case (9 b s p t r b')
  from 9(2) show ?case
    by (cases rule: mock_send_cases) (use 9(1) in \<open>auto intro: mock_wf_same mock_wf_count split: if_splits\<close>)
next
  case (10 b s p t r b')
  from 10(2) show ?case by (cases rule: mock_send_cases) (auto simp: mock_live_def split: if_splits)
next
  case (11 b s p t i b')
  from 11(2) show ?case by (cases rule: mock_send_cases) (auto simp: mock_live_def)
next
  case (12 b s p i b')
  from 12(2) show ?case by (cases rule: mock_send_cases) auto
qed

section \<open>Session identifiers\<close>

text \<open>A session identifier carries its slot in the low 6 bits and the slot's generation, modulo
  \<open>2 ^ 22\<close>, in the next 22, and is a 32-bit number with the mark \<open>0x6\<close> on top.\<close>

theorem mock_sid_fields:
  assumes "0 \<le> slot" "slot < 64"
  shows "mock_sid g slot mod 64 = slot \<and> mock_sid g slot div 64 mod 2 ^ 22 = g mod 2 ^ 22 \<and>
    0 \<le> mock_sid g slot \<and> mock_sid g slot < 2 ^ 32"
proof -
  let ?s = "mock_sid g slot"
  have mask: "Bit_Operations.and g 0x003FFFFF = take_bit 22 g"
    using take_bit_eq_mask [of 22 g] by (simp add: mask_eq_exp_minus_1)
  have low: "take_bit 6 slot = slot" using assms by (simp add: take_bit_int_eq_self)
  have hi: "drop_bit 6 slot = 0" using assms by (simp add: drop_bit_eq_div)
  have "take_bit 6 ?s = slot"
    by (simp add: mock_sid_def take_bit_or take_bit_push_bit low)
  moreover have "take_bit 22 (drop_bit 6 ?s) = take_bit 22 g"
    by (simp add: mock_sid_def drop_bit_or mask take_bit_or hi drop_bit_push_bit)
  moreover have "take_bit 32 ?s = ?s"
    using assms by (simp add: mock_sid_def mask take_bit_or take_bit_push_bit take_bit_int_eq_self)
  moreover have "0 \<le> take_bit 32 ?s \<and> take_bit 32 ?s < 2 ^ 32"
    using take_bit_int_less_exp [of 32 ?s] by simp
  ultimately show ?thesis by (simp add: take_bit_eq_mod drop_bit_eq_div)
qed

theorem mock_sid_fields_witness:
  "(0 :: int) \<le> 17 \<and> (17 :: int) < 64 \<and> mock_sid 5 17 mod 64 = 17 \<and> mock_sid 5 17 div 64 mod 2 ^ 22 = 5"
  using mock_sid_fields [of 17 5] by simp

section \<open>What the mock board guarantees\<close>

text \<open>Opening a slot of a mock board: a slot outside \<open>0..63\<close> raises \<open>ValueError\<close> and changes
  nothing; otherwise the slot gets a session of its own number and vehicle, counters at zero and a
  measured time in \<open>530..578\<close>, no other slot changes, and the session id is not the one the slot had
  before, as long as the slot has been opened fewer than \<open>2 ^ 22\<close> times.\<close>

theorem mock_open_spec:
  assumes "mock_wf m" "mock_open_session v slot m = (r, m')"
  shows "if 0 \<le> slot \<and> slot < 64
    then \<exists>x. r = Inr x \<and> m_sessions m' = (m_sessions m)(slot \<mapsto> x) \<and> s_vehicle_id x = v \<and>
      s_slot x = slot \<and> s_tx_counter x = 0 \<and> s_rx_counter x = 0 \<and>
      530 \<le> s_kem_us x \<and> s_kem_us x \<le> 578 \<and>
      (\<forall>old. m_sessions m slot = Some old \<longrightarrow> m_generation m ! nat slot < 2 ^ 22 \<longrightarrow>
         s_sid x \<noteq> s_sid old)
    else r = Inl (ValueError ''slot must be 0..63'') \<and> m' = m"
proof (cases "0 \<le> slot \<and> slot < 64")
  case True
  have len: "length (m_generation m) = MAX_SESSIONS" and max: "slot < int MAX_SESSIONS"
    using assms(1) True by (simp_all add: mock_wf_def MAX_SESSIONS_def)
  let ?g = "m_generation m ! nat slot"
  have fresh: "mock_sid ?g slot \<noteq> s_sid old"
    if old: "m_sessions m slot = Some old" and few: "?g < 2 ^ 22" for old
  proof -
    obtain h where h: "0 \<le> h" "h < ?g" "s_sid old = mock_sid h slot"
      using assms(1) old by (auto simp: mock_wf_def)
    then have "h mod 2 ^ 22 \<noteq> ?g mod 2 ^ 22" using few by simp
    then show ?thesis using h(3) mock_sid_fields [of slot] True by metis
  qed
  show ?thesis
    using mock_open_fields [OF assms(2) len] True max fresh
    by (simp add: new_session_def) (metis (no_types, lifting) session.select_convs)
next
  case False
  then show ?thesis using mock_open_range [of slot v m] assms(2) by (simp add: MAX_SESSIONS_def)
qed

text \<open>Sending on a mock board: a tampered packet is blocked, never reported as delivered, and
  leaves every session as it was; an honest one is delivered and advances both counters of its own
  session only; without a session, or with more than 64 bytes, the call raises and changes
  nothing.\<close>

theorem mock_send_spec:
  "mock_send_data slot p tamper m = (r, m') \<Longrightarrow>
   (case m_sessions m slot of
      None \<Rightarrow> r = Inl (RuntimeError (''ERR NOSESSION '' @ str_int slot)) \<and> m' = m
    | Some x \<Rightarrow>
        if 64 < length p then r = Inl (ValueError ''payload exceeds 64 bytes'') \<and> m' = m
        else \<exists>i. r = Inr i \<and> i_ok i = (\<not> tamper) \<and> i_blocked i = tamper \<and>
          m_sessions m' = (if tamper then m_sessions m else (m_sessions m)(slot \<mapsto>
            x\<lparr>s_tx_counter := s_tx_counter x + 1, s_rx_counter := s_rx_counter x + 1\<rparr>)))"
  using mock_send_fields [of slot p tamper m r m'] mock_send_absent [of m slot p tamper]
    mock_send_long [of m slot _ p tamper]
  by (cases "m_sessions m slot") (auto simp: no_session_error_def)

theorem mock_open_spec_witness:
  "\<exists>x m'. mock_open_session 3 9 (new_mock ''A'' zero_draws) = (Inr x, m') \<and> s_slot x = 9 \<and>
     s_vehicle_id x = 3"
proof -
  have wf: "mock_wf (new_mock ''A'' zero_draws)" by (simp add: mock_wf_def new_mock_def)
  obtain r m' where o: "mock_open_session 3 9 (new_mock ''A'' zero_draws) = (r, m')" by fastforce
  show ?thesis using o mock_open_spec [OF wf o] by auto
qed

theorem mock_send_spec_witness:
  "\<exists>e. mock_send_data 9 [1] True (new_mock ''A'' zero_draws) = (Inl e, new_mock ''A'' zero_draws)"
proof -
  obtain r m' where o: "mock_send_data 9 [1] True (new_mock ''A'' zero_draws) = (r, m')" by fastforce
  show ?thesis using o mock_send_spec [OF o] by (auto simp: new_mock_def)
qed

end
