(* ===== verification/Worker.thy ===== *)
theory Worker
  imports SerialV2 MockBoard
begin

text \<open>
  \<open>BoardWorker\<close> of \<open>board_link.py\<close>: the thread that serves one board.  The main thread puts commands
  into a queue and polls results from another; the worker takes a command, executes it on its board
  object, updates the statistics and puts one result.  The board object is a parameter, as in the
  source: \<open>board_ops\<close> are the methods the worker calls on it, with an instance for the mock board and
  one for the serial link.

  Thread interleaving is explicit: taking a command, executing it and putting the result are three
  steps, between which the main thread may submit and poll.
\<close>

section \<open>State\<close>

record 'b board_ops =
  op_open :: "int \<Rightarrow> int \<Rightarrow> ('b, session) act"
  op_leave :: "int \<Rightarrow> ('b, session) act"
  op_send :: "int \<Rightarrow> bytes \<Rightarrow> bool \<Rightarrow> ('b, data_info) act"
  op_sw_kem :: "('b, (int \<times> bool) option) act option"   \<comment> \<open>\<open>getattr(board, "sw_kem", None)\<close>\<close>
  op_close :: "'b \<Rightarrow> 'b"

definition mock_ops :: "mock_board board_ops" where
  "mock_ops = \<lparr>op_open = mock_open_session, op_leave = mock_leave_session, op_send = mock_send_data,
     op_sw_kem = Some mock_sw_kem, op_close = (\<lambda>m. snd (mock_close m))\<rparr>"

definition v2_ops :: "'d env \<Rightarrow> 'd serial_v2 board_ops" where
  "v2_ops E = \<lparr>op_open = v2_open_session E, op_leave = v2_leave_session E, op_send = v2_send_data E,
     op_sw_kem = Some (v2_sw_kem E), op_close = v2_close E\<rparr>"

text \<open>Where the thread's loop is: waiting for a command, holding one, holding a result, or returned.\<close>

datatype worker_phase = Waiting | Holding board_command | Finished board_result | Stopped

record 'b worker =
  wk_board :: 'b
  wk_name :: board_id
  wk_commands :: "board_command option list"
  wk_results :: "board_result list"
  wk_stats :: board_stats
  wk_phase :: worker_phase

definition new_worker :: "board_id \<Rightarrow> 'b \<Rightarrow> 'b worker" where
  "new_worker name b = \<lparr>wk_board = b, wk_name = name, wk_commands = [], wk_results = [],
     wk_stats = new_stats name, wk_phase = Waiting\<rparr>"

section \<open>Calls from the main thread\<close>

definition pending_count :: "'b worker \<Rightarrow> nat" where
  "pending_count w = length (wk_commands w)"

definition submit :: "board_command \<Rightarrow> 'b worker \<Rightarrow> 'b worker" where
  "submit c w = w\<lparr>wk_commands := wk_commands w @ [Some c]\<rparr>"

definition poll :: "'b worker \<Rightarrow> board_result list \<times> 'b worker" where
  "poll w = (wk_results w, w\<lparr>wk_results := []\<rparr>)"

text \<open>\<open>stop()\<close> queues the end marker, waits up to two seconds for the thread and closes the board.  The wait
  need not be long enough: the thread may still be at work when the board is closed.\<close>

definition stop :: "'b worker \<Rightarrow> 'b worker" where
  "stop w = w\<lparr>wk_commands := wk_commands w @ [None]\<rparr>"

definition close_board :: "'b board_ops \<Rightarrow> 'b worker \<Rightarrow> 'b worker" where
  "close_board B w = w\<lparr>wk_board := op_close B (wk_board w)\<rparr>"

section \<open>Executing a command\<close>

text \<open>What a command works on: the board object and the statistics.\<close>

type_synonym 'b desk = "'b \<times> board_stats"

definition on_board :: "('b, 'a) act \<Rightarrow> ('b desk, 'a) act" where
  "on_board m d = (case m (fst d) of (r, b) \<Rightarrow> (r, (b, snd d)))"

definition on_stats :: "(board_stats \<Rightarrow> board_stats res) \<Rightarrow> ('b desk, unit) act" where
  "on_stats f d = (case f (snd d) of Inl e \<Rightarrow> (Inl e, d) | Inr st \<Rightarrow> (Inr (), (fst d, st)))"

text \<open>\<open>assert command.slot is not None\<close>\<close>

definition asserted_slot :: "board_command \<Rightarrow> int res" where
  "asserted_slot c = (case bc_slot c of None \<Rightarrow> Inl AssertionError | Some s \<Rightarrow> Inr s)"

text \<open>\<open>self.stats.slots[slot] = v\<close>\<close>

definition set_slot :: "int \<Rightarrow> int option \<Rightarrow> board_stats \<Rightarrow> board_stats res" where
  "set_slot s v st = bindR (py_set (slots st) s v) (\<lambda>xs. Inr (st\<lparr>slots := xs\<rparr>))"

definition result_for :: "board_id \<Rightarrow> board_command \<Rightarrow> bool \<Rightarrow> board_result" where
  "result_for name c ok = new_result (bc_command_id c) name (bc_kind c) (bc_vehicle_id c) ok"

definition run_open :: "'b board_ops \<Rightarrow> board_id \<Rightarrow> board_command \<Rightarrow> ('b desk, board_result) act" where
  "run_open B name c =
     bindA (liftR (asserted_slot c)) (\<lambda>slot.
     bindA (on_board (op_open B (bc_vehicle_id c) slot)) (\<lambda>session.
     bindA (on_stats (set_slot (s_slot session) (Some (bc_vehicle_id c)))) (\<lambda>_.
     bindA (on_stats (\<lambda>st. Inr (record_kem (s_kem_us session) st))) (\<lambda>_.
     bindA (on_stats (\<lambda>st. Inr (st\<lparr>opens := opens st + 1\<rparr>))) (\<lambda>_.
     retA ((result_for name c True)\<lparr>br_slot := Some (s_slot session), br_session := Some session,
       br_detail := ''READY sid='' @ fmt_hex 8 (s_sid session) @ '' kem='' @ str_int (s_kem_us session)
         @ ''us''\<rparr>))))))"

definition run_leave :: "'b board_ops \<Rightarrow> board_id \<Rightarrow> board_command \<Rightarrow> ('b desk, board_result) act" where
  "run_leave B name c =
     bindA (liftR (asserted_slot c)) (\<lambda>slot.
     bindA (on_board (op_leave B slot)) (\<lambda>_.
     bindA (on_stats (set_slot slot None)) (\<lambda>_.
     bindA (on_stats (\<lambda>st. Inr (st\<lparr>leaves := leaves st + 1\<rparr>))) (\<lambda>_.
     retA ((result_for name c True)\<lparr>br_slot := bc_slot c, br_detail := ''LEFT''\<rparr>)))))"

definition record_data :: "data_info \<Rightarrow> board_stats \<Rightarrow> board_stats" where
  "record_data info st =
     (let st = st\<lparr>last_rx_us := i_rx_us info, last_tx_us := i_tx_us info, last_rtt_ms := i_rtt_ms info\<rparr>;
          st = (if i_ok info then st\<lparr>data_ok := data_ok st + 1\<rparr> else st\<lparr>data_fail := data_fail st + 1\<rparr>)
      in if i_blocked info then st\<lparr>attacks_blocked := attacks_blocked st + 1\<rparr> else st)"

definition run_data :: "'b board_ops \<Rightarrow> board_id \<Rightarrow> board_command \<Rightarrow> ('b desk, board_result) act" where
  "run_data B name c =
     bindA (liftR (asserted_slot c)) (\<lambda>slot.
     bindA (on_board (op_send B slot (bc_payload c) (bc_tamper c))) (\<lambda>info.
     bindA (on_stats (\<lambda>st. Inr (record_data info st))) (\<lambda>_.
     retA ((result_for name c (i_ok info))\<lparr>br_slot := bc_slot c, br_detail := i_detail info,
       br_blocked := i_blocked info, br_rx_us := i_rx_us info, br_tx_us := i_tx_us info,
       br_rtt_ms := i_rtt_ms info\<rparr>))))"

text \<open>\<open>_run_swkem\<close>, which catches every exception of the probe.\<close>

definition probe_sw :: "'b board_ops \<Rightarrow> 'b \<Rightarrow> (int \<times> bool) option \<times> 'b" where
  "probe_sw B b =
     (case op_sw_kem B of
        None \<Rightarrow> (None, b)
      | Some probe \<Rightarrow> (case probe b of (Inl e, b') \<Rightarrow> (None, b') | (Inr info, b') \<Rightarrow> (info, b')))"

definition run_swkem :: "'b board_ops \<Rightarrow> board_id \<Rightarrow> board_command \<Rightarrow> 'b desk \<Rightarrow> board_result \<times> 'b desk" where
  "run_swkem B name c = (\<lambda>(b, st).
     case probe_sw B b of
       (None, b') \<Rightarrow>
         ((result_for name c False)\<lparr>br_detail := ''SWKEM unsupported''\<rparr>, (b', st\<lparr>sw_supported := Some False\<rparr>))
     | (Some (sw_us, ok), b') \<Rightarrow>
         ((result_for name c ok)\<lparr>br_sw_us := sw_us,
            br_detail := (if ok then ''SWKEM ok'' else ''SWKEM secret mismatch'')\<rparr>,
          (b', record_sw sw_us ok (st\<lparr>sw_supported := Some True\<rparr>))))"

text \<open>The \<open>try\<close> block, without the SWKEM branch, which leaves it by \<open>continue\<close>.\<close>

definition run_try :: "'b board_ops \<Rightarrow> board_id \<Rightarrow> board_command \<Rightarrow> ('b desk, board_result) act" where
  "run_try B name c =
     (case bc_kind c of
        KOpen \<Rightarrow> run_open B name c
      | KLeave \<Rightarrow> run_leave B name c
      | KData \<Rightarrow> run_data B name c
      | k \<Rightarrow> raiseA (ValueError (''unknown command: '' @ kind_str k)))"

definition run_command :: "'b board_ops \<Rightarrow> board_id \<Rightarrow> board_command \<Rightarrow> 'b desk \<Rightarrow> board_result \<times> 'b desk" where
  "run_command B name c d =
     (if bc_kind c = KSwkem then run_swkem B name c d
      else case run_try B name c d of
        (Inr result, (b, st)) \<Rightarrow> (result, (b, st\<lparr>bs_error := []\<rparr>))
      | (Inl exc, (b, st)) \<Rightarrow>
          ((result_for name c False)\<lparr>br_slot := bc_slot c, br_detail := str_exc exc\<rparr>,
           (b, st\<lparr>bs_error := str_exc exc\<rparr>)))"

section \<open>The loop of the thread\<close>

text \<open>One step of \<open>_run\<close>; a thread that waits for a command, or has returned, does nothing.\<close>

definition wk_step :: "'b board_ops \<Rightarrow> 'b worker \<Rightarrow> 'b worker" where
  "wk_step B w =
     (case wk_phase w of
        Waiting \<Rightarrow>
          (case wk_commands w of
             [] \<Rightarrow> w
           | None # cs \<Rightarrow> w\<lparr>wk_commands := cs, wk_phase := Stopped\<rparr>
           | Some c # cs \<Rightarrow> w\<lparr>wk_commands := cs, wk_phase := Holding c\<rparr>)
      | Holding c \<Rightarrow>
          (case run_command B (wk_name w) c (wk_board w, wk_stats w) of
             (result, (b, st)) \<Rightarrow> w\<lparr>wk_board := b, wk_stats := st, wk_phase := Finished result\<rparr>)
      | Finished result \<Rightarrow> w\<lparr>wk_results := wk_results w @ [result], wk_phase := Waiting\<rparr>
      | Stopped \<Rightarrow> w)"

text \<open>\<open>stop()\<close> as a whole, when the thread makes \<open>n\<close> steps during the wait.\<close>

definition stop_worker :: "'b board_ops \<Rightarrow> nat \<Rightarrow> 'b worker \<Rightarrow> 'b worker" where
  "stop_worker B n w = close_board B ((wk_step B ^^ n) (stop w))"

end
