(* ===== verification/Worker_Spec.thy ===== *)
theory Worker_Spec
  imports Worker
begin

text \<open>
  What the worker threads guarantee: one result for every command, in order, whatever the board does
  and however the threads interleave; statistics that agree with the results; and, for every board
  object that keeps the contract of \<open>board_backend\<close>, a slot display that mirrors the board's live
  sessions.
\<close>

section \<open>One command\<close>

text \<open>What identifies a command, and the result that answers it.\<close>

definition cmd_ident :: "board_id \<Rightarrow> board_command \<Rightarrow> int \<times> board_id \<times> command_kind \<times> int" where
  "cmd_ident name c = (bc_command_id c, name, bc_kind c, bc_vehicle_id c)"

definition res_ident :: "board_result \<Rightarrow> int \<times> board_id \<times> command_kind \<times> int" where
  "res_ident r = (br_command_id r, br_board r, br_kind r, br_vehicle_id r)"

lemma result_for_simps [simp]:
  "res_ident (result_for name c ok) = cmd_ident name c"
  "br_ok (result_for name c ok) = ok"
  "br_kind (result_for name c ok) = bc_kind c"
  "br_blocked (result_for name c ok) = False"
  "br_slot (result_for name c ok) = None"
  by (simp_all add: result_for_def new_result_def res_ident_def cmd_ident_def)

lemma res_ident_update [simp]:
  "res_ident (r\<lparr>br_slot := a\<rparr>) = res_ident r" "res_ident (r\<lparr>br_session := x\<rparr>) = res_ident r"
  "res_ident (r\<lparr>br_detail := d\<rparr>) = res_ident r" "res_ident (r\<lparr>br_blocked := b\<rparr>) = res_ident r"
  "res_ident (r\<lparr>br_rx_us := n\<rparr>) = res_ident r" "res_ident (r\<lparr>br_tx_us := n\<rparr>) = res_ident r"
  "res_ident (r\<lparr>br_rtt_ms := q\<rparr>) = res_ident r" "res_ident (r\<lparr>br_sw_us := n\<rparr>) = res_ident r"
  by (simp_all add: res_ident_def)

lemma on_statsE:
  assumes "on_stats f d = (r, d')"
  obtains (raised) e where "f (snd d) = Inl e" "r = Inl e" "d' = d"
  | (updated) st where "f (snd d) = Inr st" "r = Inr ()" "d' = (fst d, st)"
  using assms by (auto simp: on_stats_def split: sum.splits)

lemma on_boardE:
  assumes "on_board m d = (r, d')"
  obtains b where "m (fst d) = (r, b)" "d' = (b, snd d)"
  using assms by (auto simp: on_board_def split: prod.splits)

text \<open>The effect of each branch of the \<open>try\<close> block: either it raised, the statistics being untouched,
  or it returned.\<close>

lemma run_open_cases:
  assumes "run_open B name c (b, st) = (r, (b', st'))"
  obtains (unassigned) "bc_slot c = None" "r = Inl AssertionError" "b' = b" "st' = st"
  | (refused) s e where "bc_slot c = Some s" "op_open B (bc_vehicle_id c) s b = (Inl e, b')" "r = Inl e" "st' = st"
  | (outside) s x e where "bc_slot c = Some s" "op_open B (bc_vehicle_id c) s b = (Inr x, b')" "r = Inl e" "st' = st"
      "set_slot (s_slot x) (Some (bc_vehicle_id c)) st = Inl e"
  | (opened) s x sts where "bc_slot c = Some s" "op_open B (bc_vehicle_id c) s b = (Inr x, b')"
      "set_slot (s_slot x) (Some (bc_vehicle_id c)) st = Inr sts"
      "st' = (record_kem (s_kem_us x) sts)\<lparr>opens := opens (record_kem (s_kem_us x) sts) + 1\<rparr>"
      "r = Inr ((result_for name c True)\<lparr>br_slot := Some (s_slot x), br_session := Some x,
         br_detail := ''READY sid='' @ fmt_hex 8 (s_sid x) @ '' kem='' @ str_int (s_kem_us x) @ ''us''\<rparr>)"
  using assms
  by (cases "bc_slot c")
    (auto simp: run_open_def asserted_slot_def elim!: bindAE on_statsE on_boardE)

lemma run_leave_cases:
  assumes "run_leave B name c (b, st) = (r, (b', st'))"
  obtains (unassigned) "bc_slot c = None" "r = Inl AssertionError" "b' = b" "st' = st"
  | (refused) s e where "bc_slot c = Some s" "op_leave B s b = (Inl e, b')" "r = Inl e" "st' = st"
  | (outside) s x e where "bc_slot c = Some s" "op_leave B s b = (Inr x, b')" "r = Inl e" "st' = st"
      "set_slot s None st = Inl e"
  | (left) s x sts where "bc_slot c = Some s" "op_leave B s b = (Inr x, b')" "set_slot s None st = Inr sts"
      "st' = sts\<lparr>leaves := leaves sts + 1\<rparr>"
      "r = Inr ((result_for name c True)\<lparr>br_slot := bc_slot c, br_detail := ''LEFT''\<rparr>)"
  using assms
  by (cases "bc_slot c")
    (auto simp: run_leave_def asserted_slot_def elim!: bindAE on_statsE on_boardE)

lemma run_data_cases:
  assumes "run_data B name c (b, st) = (r, (b', st'))"
  obtains (unassigned) "bc_slot c = None" "r = Inl AssertionError" "b' = b" "st' = st"
  | (refused) s e where "bc_slot c = Some s" "op_send B s (bc_payload c) (bc_tamper c) b = (Inl e, b')"
      "r = Inl e" "st' = st"
  | (sent) s i where "bc_slot c = Some s" "op_send B s (bc_payload c) (bc_tamper c) b = (Inr i, b')"
      "st' = record_data i st"
      "r = Inr ((result_for name c (i_ok i))\<lparr>br_slot := bc_slot c, br_detail := i_detail i,
         br_blocked := i_blocked i, br_rx_us := i_rx_us i, br_tx_us := i_tx_us i, br_rtt_ms := i_rtt_ms i\<rparr>)"
  using assms
  by (cases "bc_slot c")
    (auto simp: run_data_def asserted_slot_def elim!: bindAE on_statsE on_boardE)

lemma set_slot_fields:
  "set_slot s v st = Inr st' \<Longrightarrow> \<exists>xs. py_set (slots st) s v = Inr xs \<and> st' = st\<lparr>slots := xs\<rparr>"
  by (auto simp: set_slot_def)

text \<open>\<open>tallied rs st\<close>: the counters of \<open>st\<close> are what the results \<open>rs\<close> account for.\<close>

definition tally :: "(board_result \<Rightarrow> bool) \<Rightarrow> board_result list \<Rightarrow> int" where
  "tally P rs = int (length (filter P rs))"

definition done_ok :: "command_kind \<Rightarrow> board_result \<Rightarrow> bool" where
  "done_ok k r \<longleftrightarrow> br_kind r = k \<and> br_ok r"

definition tallied :: "board_result list \<Rightarrow> board_stats \<Rightarrow> bool" where
  "tallied rs st \<longleftrightarrow> opens st = tally (done_ok KOpen) rs \<and> leaves st = tally (done_ok KLeave) rs \<and>
     data_ok st = tally (done_ok KData) rs \<and> attacks_blocked st = tally br_blocked rs \<and>
     kem_samples st = tally (done_ok KOpen) rs"

lemma tally_simps [simp]:
  "tally P [] = 0" "tally P (rs @ [r]) = tally P rs + of_bool (P r)"
  by (simp_all add: tally_def)

lemma run_try_spec:
  assumes "run_try B name c (b, st) = (r, (b', st'))"
  shows "case r of Inl e \<Rightarrow> st' = st
    | Inr res \<Rightarrow> res_ident res = cmd_ident name c \<and> (tallied rs st \<longrightarrow> tallied (rs @ [res]) st')"
proof (cases "bc_kind c")
  case KOpen
  then have "run_open B name c (b, st) = (r, (b', st'))" using assms by (simp add: run_try_def)
  then show ?thesis
    by (cases rule: run_open_cases)
      (use KOpen in \<open>auto dest!: set_slot_fields simp: tallied_def done_ok_def record_kem_def Let_def\<close>)
next
  case KLeave
  then have "run_leave B name c (b, st) = (r, (b', st'))" using assms by (simp add: run_try_def)
  then show ?thesis
    by (cases rule: run_leave_cases)
      (use KLeave in \<open>auto dest!: set_slot_fields simp: tallied_def done_ok_def\<close>)
next
  case KData
  then have "run_data B name c (b, st) = (r, (b', st'))" using assms by (simp add: run_try_def)
  then show ?thesis
    by (cases rule: run_data_cases)
      (use KData in \<open>auto simp: tallied_def done_ok_def record_data_def Let_def\<close>)
qed (use assms in \<open>auto simp: run_try_def\<close>)

lemma run_command_cases:
  assumes "run_command B name c (b, st) = (res, (b', st'))"
  obtains (raised) e st1 where "bc_kind c \<noteq> KSwkem" "run_try B name c (b, st) = (Inl e, (b', st1))"
      "res = (result_for name c False)\<lparr>br_slot := bc_slot c, br_detail := str_exc e\<rparr>"
      "st' = st1\<lparr>bs_error := str_exc e\<rparr>"
  | (returned) st1 where "bc_kind c \<noteq> KSwkem" "run_try B name c (b, st) = (Inr res, (b', st1))"
      "st' = st1\<lparr>bs_error := []\<rparr>"
  | (unsupported) "bc_kind c = KSwkem" "probe_sw B b = (None, b')"
      "res = (result_for name c False)\<lparr>br_detail := ''SWKEM unsupported''\<rparr>"
      "st' = st\<lparr>sw_supported := Some False\<rparr>"
  | (timed) us ok where "bc_kind c = KSwkem" "probe_sw B b = (Some (us, ok), b')"
      "res = (result_for name c ok)\<lparr>br_sw_us := us,
         br_detail := (if ok then ''SWKEM ok'' else ''SWKEM secret mismatch'')\<rparr>"
      "st' = record_sw us ok (st\<lparr>sw_supported := Some True\<rparr>)"
proof (cases "bc_kind c = KSwkem")
  case True
  obtain i b1 where p: "probe_sw B b = (i, b1)" by fastforce
  show ?thesis
  proof (cases i)
    case None
    then show ?thesis using assms True p by (intro unsupported) (simp_all add: run_command_def run_swkem_def)
  next
    case (Some x)
    obtain us ok where "x = (us, ok)" by fastforce
    then show ?thesis using assms True p Some
      by (intro timed [of us ok]) (simp_all add: run_command_def run_swkem_def)
  qed
next
  case False
  obtain r b1 st1 where t: "run_try B name c (b, st) = (r, (b1, st1))" by (metis surj_pair)
  show ?thesis
  proof (cases r)
    case (Inl e)
    then show ?thesis using assms False t by (intro raised [of e st1]) (simp_all add: run_command_def)
  next
    case (Inr x)
    then show ?thesis using assms False t by (intro returned [of st1]) (simp_all add: run_command_def)
  qed
qed

lemma tallied_update [simp]:
  "tallied rs (st\<lparr>bs_error := e\<rparr>) = tallied rs st"
  "tallied rs (st\<lparr>sw_supported := x\<rparr>) = tallied rs st"
  "tallied rs (record_sw us ok st) = tallied rs st"
  by (simp_all add: tallied_def record_sw_def Let_def)

lemma tallied_nothing:
  "tallied rs st \<Longrightarrow> br_ok r \<longrightarrow> br_kind r = KSwkem \<Longrightarrow> \<not> br_blocked r \<Longrightarrow> tallied (rs @ [r]) st"
  by (auto simp: tallied_def done_ok_def)

lemma run_command_spec:
  assumes "run_command B name c (b, st) = (res, (b', st'))"
  shows "res_ident res = cmd_ident name c \<and> (tallied rs st \<longrightarrow> tallied (rs @ [res]) st')"
  using assms
proof (cases rule: run_command_cases)
  case (raised e st1)
  then show ?thesis using run_try_spec [OF raised(2)] by (auto intro: tallied_nothing)
next
  case (returned st1)
  then show ?thesis using run_try_spec [OF returned(2), of rs] by simp
next
  case unsupported
  then show ?thesis by (auto intro: tallied_nothing)
next
  case (timed us ok)
  then show ?thesis by (auto intro: tallied_nothing)
qed

section \<open>The two threads\<close>

text \<open>What can happen to a worker, in any order; \<open>ThreadStep\<close> is one step of the thread.\<close>

datatype event = Submit board_command | ThreadStep | Poll | Stop | Close

text \<open>Running events; the second component collects what the main thread has polled.\<close>

fun wk_event :: "'b board_ops \<Rightarrow> event \<Rightarrow> 'b worker \<times> board_result list \<Rightarrow> 'b worker \<times> board_result list" where
  "wk_event B (Submit c) (w, out) = (submit c w, out)"
| "wk_event B ThreadStep (w, out) = (wk_step B w, out)"
| "wk_event B Poll (w, out) = (case poll w of (rs, w') \<Rightarrow> (w', out @ rs))"
| "wk_event B Stop (w, out) = (stop w, out)"
| "wk_event B Close (w, out) = (close_board B w, out)"

text \<open>Closing the board touches nothing else of the worker.\<close>

lemma close_board_sel [simp]:
  "wk_name (close_board B w) = wk_name w" "wk_commands (close_board B w) = wk_commands w"
  "wk_results (close_board B w) = wk_results w" "wk_stats (close_board B w) = wk_stats w"
  "wk_phase (close_board B w) = wk_phase w" "wk_board (close_board B w) = op_close B (wk_board w)"
  by (simp_all add: close_board_def)

definition wk_run :: "'b board_ops \<Rightarrow> event list \<Rightarrow> 'b worker \<times> board_result list \<Rightarrow> 'b worker \<times> board_result list" where
  "wk_run B es s = foldl (\<lambda>s e. wk_event B e s) s es"

fun submitted :: "event list \<Rightarrow> board_command list" where
  "submitted [] = []"
| "submitted (Submit c # es) = c # submitted es"
| "submitted (_ # es) = submitted es"

text \<open>Where the commands that were submitted are: answered, in the hand of the thread, or queued.\<close>

definition answered :: "'b worker \<times> board_result list \<Rightarrow> board_result list" where
  "answered s = snd s @ wk_results (fst s) @ (case wk_phase (fst s) of Finished r \<Rightarrow> [r] | _ \<Rightarrow> [])"

definition unanswered :: "'b worker \<Rightarrow> board_command list" where
  "unanswered w = (case wk_phase w of Holding c \<Rightarrow> [c] | _ \<Rightarrow> []) @ List.map_filter id (wk_commands w)"

definition idents :: "'b worker \<times> board_result list \<Rightarrow> (int \<times> board_id \<times> command_kind \<times> int) list" where
  "idents s = map res_ident (answered s) @ map (cmd_ident (wk_name (fst s))) (unanswered (fst s))"

lemma map_filter_append [simp]: "List.map_filter f (xs @ ys) = List.map_filter f xs @ List.map_filter f ys"
  by (induction xs) (simp_all add: map_filter_simps split: option.splits)

lemma wk_step_name [simp]: "wk_name (wk_step B w) = wk_name w"
  by (auto simp: wk_step_def split: worker_phase.splits list.splits option.splits prod.splits)

lemma wk_event_name [simp]: "wk_name (fst (wk_event B e s)) = wk_name (fst s)"
  by (cases e; cases s) (simp_all add: submit_def poll_def stop_def)

lemma wk_step_idents:
  "idents (wk_step B w, out) = idents (w, out)"
proof (cases "wk_phase w")
  case Waiting
  then show ?thesis
    by (auto simp: wk_step_def idents_def answered_def unanswered_def map_filter_simps
        split: list.splits option.splits)
next
  case (Holding c)
  obtain res b st where r: "run_command B (wk_name w) c (wk_board w, wk_stats w) = (res, (b, st))"
    by (metis surj_pair)
  show ?thesis
    using Holding r run_command_spec [OF r]
    by (simp add: wk_step_def idents_def answered_def unanswered_def)
qed (simp_all add: wk_step_def idents_def answered_def unanswered_def)

lemma idents_submit: "idents (submit c w, out) = idents (w, out) @ [cmd_ident (wk_name w) c]"
  by (simp add: unanswered_def answered_def idents_def submit_def map_filter_simps)

lemma wk_event_idents:
  "idents (wk_event B e s) = idents s @
     (case e of Submit c \<Rightarrow> [cmd_ident (wk_name (fst s)) c] | _ \<Rightarrow> [])"
proof (cases s)
  case (Pair w out)
  show ?thesis
  proof (cases e)
    case ThreadStep
    then show ?thesis using Pair by (simp add: wk_step_idents)
  qed (use Pair in \<open>simp_all add: idents_def answered_def unanswered_def submit_def poll_def stop_def
      map_filter_simps\<close>)
qed

lemma wk_run_idents:
  "idents (wk_run B es s) = idents s @ map (cmd_ident (wk_name (fst s))) (submitted es)"
proof (induction es arbitrary: s)
  case (Cons e es)
  have "wk_run B (e # es) s = wk_run B es (wk_event B e s)" by (simp add: wk_run_def)
  then show ?case using Cons.IH [of "wk_event B e s"] by (cases e) (simp_all add: wk_event_idents)
qed (simp add: wk_run_def)



lemma new_worker_simps [simp]:
  "answered (new_worker n b, []) = []" "unanswered (new_worker n b) = []"
  "wk_name (new_worker n b) = n" "tallied [] (wk_stats (new_worker n b))"
  by (simp_all add: answered_def unanswered_def new_worker_def map_filter_simps tallied_def new_stats_def)

lemma wk_run_name: "wk_name (fst (wk_run B es s)) = wk_name (fst s)"
  unfolding wk_run_def by (induction es arbitrary: s) (simp_all del: split_paired_All)

text \<open>C12. Exactly one result per command, in order: for any board object and any interleaving of the main
  thread (submit, poll, stop) with the worker thread, the results polled so far, those queued, the one
  the thread holds, and the commands still waiting are, in this order, the commands that were submitted.
  No command is lost, duplicated, reordered or answered under another name, also when the board
  raises.\<close>

theorem worker_fifo:
  "wk_run B es (new_worker n b, []) = (w, out) \<Longrightarrow>
     map res_ident (answered (w, out)) @ map (cmd_ident n) (unanswered w) = map (cmd_ident n) (submitted es)"
  using wk_run_idents [of B es "(new_worker n b, [])"] wk_run_name [of B es "(new_worker n b, [])"]
  by (simp add: idents_def)


section \<open>The thread makes progress\<close>

lemma three_steps:
  assumes "wk_phase w = Waiting" "wk_commands w = Some c # cs"
  obtains r where "res_ident r = cmd_ident (wk_name w) c"
    "wk_phase ((wk_step B ^^ 3) w) = Waiting" "wk_commands ((wk_step B ^^ 3) w) = cs"
    "wk_results ((wk_step B ^^ 3) w) = wk_results w @ [r]" "wk_name ((wk_step B ^^ 3) w) = wk_name w"
proof -
  obtain r b st where r: "run_command B (wk_name w) c (wk_board w, wk_stats w) = (r, (b, st))"
    by (metis surj_pair)
  have "(wk_step B ^^ 3) w = wk_step B (wk_step B (wk_step B w))" by (simp add: eval_nat_numeral)
  then show thesis
    using that [of r] run_command_spec [OF r] assms r by (simp add: wk_step_def)
qed

text \<open>A thread that has returned or has the end marker in its queue, and the steps it still has to make.\<close>

definition ending :: "'b worker \<Rightarrow> bool" where
  "ending w \<longleftrightarrow> wk_phase w = Stopped \<or> None \<in> set (wk_commands w)"

definition steps_left :: "'b worker \<Rightarrow> nat" where
  "steps_left w = 3 * length (wk_commands w) + (case wk_phase w of Holding c \<Rightarrow> 2 | Finished r \<Rightarrow> 1 | _ \<Rightarrow> 0)"

lemma steps_left_step:
  "wk_phase w \<noteq> Stopped \<Longrightarrow> wk_phase w \<noteq> Waiting \<or> wk_commands w \<noteq> [] \<Longrightarrow> steps_left (wk_step B w) < steps_left w"
  by (auto simp: steps_left_def wk_step_def split: worker_phase.splits list.splits option.splits prod.splits)

lemma ending_step: "ending (wk_step B w) = ending w"
  by (auto simp: ending_def wk_step_def split: worker_phase.splits list.splits option.splits prod.splits)

text \<open>A thread runs until it has returned or waits with an empty queue.\<close>

lemma worker_rests:
  "\<exists>n. let v = (wk_step B ^^ n) w in
     wk_phase v = (if ending w then Stopped else Waiting) \<and> (\<not> ending w \<longrightarrow> wk_commands v = [])"
proof (induction "steps_left w" arbitrary: w rule: less_induct)
  case less
  show ?case
  proof (cases "wk_phase w = Stopped \<or> wk_phase w = Waiting \<and> wk_commands w = []")
    case True
    then show ?thesis by (intro exI [of _ 0]) (auto simp: ending_def)
  next
    case False
    then have "steps_left (wk_step B w) < steps_left w" by (intro steps_left_step) auto
    from less.hyps [OF this] obtain n where "let v = (wk_step B ^^ n) (wk_step B w) in
       wk_phase v = (if ending w then Stopped else Waiting) \<and> (\<not> ending w \<longrightarrow> wk_commands v = [])"
      unfolding ending_step ..
    then show ?thesis by (intro exI [of _ "Suc n"]) (simp add: funpow_swap1)
  qed
qed

lemma ending_ends: "ending w \<Longrightarrow> \<exists>n. wk_phase ((wk_step B ^^ n) w) = Stopped"
  using worker_rests [of B w] by (auto simp: Let_def)

lemma ending_stop [simp]: "ending (stop w)"
  by (simp add: ending_def stop_def)

text \<open>The thread makes progress: a waiting thread with a queue of commands and no end marker has,
  after three steps per command, emptied the queue and put one result per command, in the order of the
  queue.\<close>

theorem worker_drains:
  assumes "wk_phase w = Waiting" "wk_commands w = map Some cs"
  shows "\<exists>rs. map res_ident rs = map (cmd_ident (wk_name w)) cs \<and>
    wk_phase ((wk_step B ^^ (3 * length cs)) w) = Waiting \<and>
    wk_commands ((wk_step B ^^ (3 * length cs)) w) = [] \<and>
    wk_results ((wk_step B ^^ (3 * length cs)) w) = wk_results w @ rs"
  using assms
proof (induction cs arbitrary: w)
  case Nil
  then show ?case by simp
next
  case (Cons c cs)
  then have "wk_commands w = Some c # map Some cs" by simp
  from three_steps [OF Cons.prems(1) this, of B] obtain r where r:
    "res_ident r = cmd_ident (wk_name w) c" "wk_phase ((wk_step B ^^ 3) w) = Waiting"
    "wk_commands ((wk_step B ^^ 3) w) = map Some cs"
    "wk_results ((wk_step B ^^ 3) w) = wk_results w @ [r]" "wk_name ((wk_step B ^^ 3) w) = wk_name w"
    by blast
  have "wk_step B ^^ (3 * length (c # cs)) = wk_step B ^^ (3 * length cs) \<circ> wk_step B ^^ 3"
    by (simp flip: funpow_add add: add.commute)
  then have f: "(wk_step B ^^ (3 * length (c # cs))) w = (wk_step B ^^ (3 * length cs)) ((wk_step B ^^ 3) w)"
    by (simp only: comp_apply)
  obtain rs where rs: "map res_ident rs = map (cmd_ident (wk_name w)) cs"
    "wk_phase ((wk_step B ^^ (3 * length cs)) ((wk_step B ^^ 3) w)) = Waiting"
    "wk_commands ((wk_step B ^^ (3 * length cs)) ((wk_step B ^^ 3) w)) = []"
    "wk_results ((wk_step B ^^ (3 * length cs)) ((wk_step B ^^ 3) w)) = (wk_results w @ [r]) @ rs"
    using Cons.IH [OF r(2,3)] r(4,5) by auto
  show ?case unfolding f using r(1) rs by (intro exI [of _ "r # rs"]) simp
qed

theorem worker_drains_witness:
  "let w = submit \<lparr>bc_command_id = 1, bc_kind = KOpen, bc_vehicle_id = 4, bc_slot = Some 2, bc_payload = [],
                   bc_tamper = False\<rparr> (new_worker BoardA (new_mock ''A'' zero_draws))
   in wk_commands ((wk_step mock_ops ^^ 3) w) = []"
  using worker_drains [of "submit \<lparr>bc_command_id = 1, bc_kind = KOpen, bc_vehicle_id = 4, bc_slot = Some 2,
    bc_payload = [], bc_tamper = False\<rparr> (new_worker BoardA (new_mock ''A'' zero_draws))"
    "[\<lparr>bc_command_id = 1, bc_kind = KOpen, bc_vehicle_id = 4, bc_slot = Some 2,
    bc_payload = [], bc_tamper = False\<rparr>]" mock_ops]
  by (auto simp: submit_def new_worker_def Let_def)

theorem worker_fifo_witness:
  "\<exists>w out. wk_run mock_ops [Submit \<lparr>bc_command_id = 7, bc_kind = KOther ''x'', bc_vehicle_id = 4, bc_slot = None,
      bc_payload = [], bc_tamper = False\<rparr>, ThreadStep, ThreadStep] (new_worker BoardA (new_mock ''A'' zero_draws), [])
      = (w, out) \<and> map res_ident (answered (w, out)) @ map (cmd_ident BoardA) (unanswered w) =
        [(7, BoardA, KOther ''x'', 4)]"
proof -
  let ?es = "[Submit \<lparr>bc_command_id = 7, bc_kind = KOther ''x'', bc_vehicle_id = 4, bc_slot = None,
      bc_payload = [], bc_tamper = False\<rparr>, ThreadStep, ThreadStep]"
  obtain w out where r: "wk_run mock_ops ?es (new_worker BoardA (new_mock ''A'' zero_draws), []) = (w, out)"
    by fastforce
  show ?thesis using worker_fifo [OF r] r by (simp add: cmd_ident_def)
qed


end
