(* ===== verification/WorkerSlots.thy ===== *)
theory WorkerSlots
  imports Worker_Spec
begin

text \<open>
  The slot display of a board (\<open>stats.slots\<close>) against the board itself: for every board object with
  the contract of \<open>board_backend\<close>, occupied entries are exactly the live sessions; for one that also
  refuses to open a live slot, their number is opens minus leaves.
\<close>

section \<open>The contract of a worker's board\<close>

locale worked_board = board_backend "op_open B" "op_leave B" live wf "op_send B"
  for B :: "'b board_ops"
    and live :: "'b \<Rightarrow> int set"
    and wf :: "'b \<Rightarrow> bool" +
  assumes sw_wf: "op_sw_kem B = Some probe \<Longrightarrow> wf b \<Longrightarrow> probe b = (r, b') \<Longrightarrow> wf b'"
    and sw_live: "op_sw_kem B = Some probe \<Longrightarrow> wf b \<Longrightarrow> probe b = (r, b') \<Longrightarrow> live b' = live b"
    and close_wf: "wf b \<Longrightarrow> wf (op_close B b)"
    and close_live: "wf b \<Longrightarrow> live (op_close B b) = live b"

text \<open>Slots are numbered as the simulator numbers them.\<close>

definition slot_ok :: "int \<Rightarrow> bool" where
  "slot_ok s \<longleftrightarrow> 0 \<le> s \<and> s < int MAX_SESSIONS"

text \<open>An open command names such a slot.\<close>

definition cmd_ok :: "board_command \<Rightarrow> bool" where
  "cmd_ok c \<longleftrightarrow> (\<forall>s. bc_kind c = KOpen \<longrightarrow> bc_slot c = Some s \<longrightarrow> slot_ok s)"

definition mirrors :: "board_stats \<Rightarrow> int set \<Rightarrow> bool" where
  "mirrors st L \<longleftrightarrow> length (slots st) = MAX_SESSIONS \<and> (\<forall>s \<in> L. slot_ok s) \<and>
     (\<forall>s. slot_ok s \<longrightarrow> (slots st ! nat s \<noteq> None \<longleftrightarrow> s \<in> L))"

lemma mirrors_bound: "mirrors st L \<Longrightarrow> slot_ok s \<Longrightarrow> nat s < length (slots st)"
  by (auto simp: mirrors_def slot_ok_def nat_less_iff)

lemma set_slot_ok:
  "mirrors st L \<Longrightarrow> slot_ok s \<Longrightarrow> set_slot s v st = Inr (st\<lparr>slots := (slots st)[nat s := v]\<rparr>)"
  by (auto simp: set_slot_def mirrors_def slot_ok_def)

lemma mirrors_set:
  assumes "mirrors st L" "slot_ok s"
  shows "mirrors (st\<lparr>slots := (slots st)[nat s := Some v]\<rparr>) (insert s L)"
    and "mirrors (st\<lparr>slots := (slots st)[nat s := None]\<rparr>) (L - {s})"
proof -
  have "(slots st)[nat s := x] ! nat t = (if t = s then x else slots st ! nat t)" if "slot_ok t" for t x
    using that assms(2) mirrors_bound [OF assms] by (auto simp: slot_ok_def nth_list_update)
  then show "mirrors (st\<lparr>slots := (slots st)[nat s := Some v]\<rparr>) (insert s L)"
    "mirrors (st\<lparr>slots := (slots st)[nat s := None]\<rparr>) (L - {s})"
    using assms by (auto simp: mirrors_def)
qed

lemma mirrors_same: "mirrors st L \<Longrightarrow> slots st' = slots st \<Longrightarrow> mirrors st' L"
  by (simp add: mirrors_def)

lemma mirrors_new: "mirrors (new_stats n) {}"
  by (auto simp: mirrors_def new_stats_def slot_ok_def)

lemma record_kem_slots [simp]: "slots (record_kem k st) = slots st"
  by simp

lemma record_slots [simp]:
  "slots (record_data i st) = slots st" "slots (record_sw us ok st) = slots st"
  by (simp_all add: record_data_def record_sw_def Let_def)



section \<open>Every command keeps the mirror\<close>

context worked_board
begin

definition desk_ok :: "'b desk \<Rightarrow> bool" where
  "desk_ok d \<longleftrightarrow> wf (fst d) \<and> mirrors (snd d) (live (fst d))"

lemma run_open_desk:
  assumes "desk_ok (b, st)" "bc_kind c = KOpen" "cmd_ok c" "run_open B name c (b, st) = (r, (b', st'))"
  shows "desk_ok (b', st')"
  using assms(4)
proof (cases rule: run_open_cases)
  case (refused s e)
  then show ?thesis using assms(1) open_wf open_fails by (simp add: desk_ok_def) metis
next
  case (outside s x e)
  moreover have "s_slot x = s" using open_session_of outside assms(1) by (auto simp: desk_ok_def)
  ultimately have False using set_slot_ok [of st "live b" s] assms outside by (simp add: desk_ok_def cmd_ok_def)
  then show ?thesis ..
next
  case (opened s x sts)
  have w: "wf b" "mirrors st (live b)" "slot_ok s" "s_slot x = s"
    using assms opened open_session_of by (auto simp: desk_ok_def cmd_ok_def)
  moreover have "sts = st\<lparr>slots := (slots st)[nat s := Some (bc_vehicle_id c)]\<rparr>"
    using set_slot_ok [OF w(2,3)] opened(3) w(4) by auto
  ultimately have "mirrors sts (live b')"
    using open_live [OF w(1) opened(2)] mirrors_set(1) [OF w(2,3)] by simp
  then have "mirrors st' (live b')" using opened(4) by (auto elim: mirrors_same)
  then show ?thesis using open_wf [OF w(1) opened(2)] by (simp add: desk_ok_def)
qed (use assms in simp)

lemma run_leave_desk:
  assumes "desk_ok (b, st)" "run_leave B name c (b, st) = (r, (b', st'))"
  shows "desk_ok (b', st')"
  using assms(2)
proof (cases rule: run_leave_cases)
  case (refused s e)
  then show ?thesis using assms(1) leave_wf leave_fails by (simp add: desk_ok_def) metis
next
  case (outside s x e)
  then have "slot_ok s" using assms(1) leave_was_live by (auto simp: desk_ok_def mirrors_def)
  then have False using outside set_slot_ok [of st "live b" s] assms(1) by (simp add: desk_ok_def)
  then show ?thesis ..
next
  case (left s x sts)
  have w: "wf b" "mirrors st (live b)" "slot_ok s"
    using assms(1) left leave_was_live by (auto simp: desk_ok_def mirrors_def)
  moreover have "sts = st\<lparr>slots := (slots st)[nat s := None]\<rparr>"
    using set_slot_ok [OF w(2,3)] left(3) by auto
  ultimately have "mirrors sts (live b')"
    using leave_live [OF w(1) left(2)] mirrors_set(2) [OF w(2,3)] by simp
  then have "mirrors st' (live b')" using left(4) by (auto elim: mirrors_same)
  then show ?thesis using leave_wf [OF w(1) left(2)] by (simp add: desk_ok_def)
qed (use assms in simp)

lemma run_data_desk:
  assumes "desk_ok (b, st)" "run_data B name c (b, st) = (r, (b', st'))"
  shows "desk_ok (b', st')"
  using assms(2)
proof (cases rule: run_data_cases)
  case (sent s i)
  then show ?thesis using assms(1) send_wf send_live mirrors_same [of st _ st']
    by (simp add: desk_ok_def) metis
qed (use assms(1) send_wf send_live in \<open>auto simp: desk_ok_def\<close>)

lemma probe_desk: "wf b \<Longrightarrow> probe_sw B b = (i, b') \<Longrightarrow> wf b' \<and> live b' = live b"
  by (cases "op_sw_kem B") (auto simp: probe_sw_def intro: sw_wf dest: sw_live split: prod.splits sum.splits)

lemma run_try_desk:
  assumes "desk_ok (b, st)" "cmd_ok c" "run_try B name c (b, st) = (r, (b', st'))"
  shows "desk_ok (b', st')"
proof (cases "bc_kind c")
  case KOpen
  then show ?thesis using assms(3) run_open_desk [OF assms(1) _ assms(2)] by (simp add: run_try_def)
next
  case KLeave
  then show ?thesis using assms(3) run_leave_desk [OF assms(1)] by (simp add: run_try_def)
next
  case KData
  then show ?thesis using assms(3) run_data_desk [OF assms(1)] by (simp add: run_try_def)
qed (use assms in \<open>simp_all add: run_try_def\<close>)

lemma desk_same: "wf b \<Longrightarrow> mirrors st (live b) \<Longrightarrow> slots st' = slots st \<Longrightarrow> desk_ok (b, st')"
  by (simp add: desk_ok_def mirrors_def)

lemma run_command_desk:
  assumes "desk_ok (b, st)" "cmd_ok c" "run_command B name c (b, st) = (res, (b', st'))"
  shows "desk_ok (b', st')"
  using assms(3)
proof (cases rule: run_command_cases)
  case (raised e st1)
  then show ?thesis using run_try_desk [OF assms(1,2) raised(2)] by (simp add: desk_ok_def mirrors_def)
next
  case (returned st1)
  then show ?thesis using run_try_desk [OF assms(1,2) returned(2)] by (simp add: desk_ok_def mirrors_def)
next
  case unsupported
  then show ?thesis using probe_desk [of b None b'] assms(1) by (simp add: desk_ok_def mirrors_def)
next
  case (timed us ok)
  then show ?thesis using probe_desk [of b _ b'] assms(1) by (simp add: desk_ok_def mirrors_def)
qed

definition worker_ok :: "'b worker \<Rightarrow> bool" where
  "worker_ok w \<longleftrightarrow> desk_ok (wk_board w, wk_stats w) \<and> (\<forall>c \<in> set (unanswered w). cmd_ok c)"

lemma wk_step_ok: "worker_ok w \<Longrightarrow> worker_ok (wk_step B w)"
proof (cases "wk_phase w")
  case (Holding c)
  assume ok: "worker_ok w"
  obtain res b st where r: "run_command B (wk_name w) c (wk_board w, wk_stats w) = (res, (b, st))"
    by (metis surj_pair)
  show ?thesis
    using ok Holding r run_command_desk [OF _ _ r]
    by (auto simp: worker_ok_def wk_step_def unanswered_def)
qed (auto simp: worker_ok_def wk_step_def unanswered_def map_filter_simps split: list.splits option.splits)

lemma close_board_ok: "worker_ok w \<Longrightarrow> worker_ok (close_board B w)"
  by (simp add: worker_ok_def desk_ok_def unanswered_def close_wf close_live)

lemma wk_event_ok:
  "worker_ok (fst s) \<Longrightarrow> (case e of Submit c \<Rightarrow> cmd_ok c | _ \<Rightarrow> True) \<Longrightarrow> worker_ok (fst (wk_event B e s))"
  by (cases e; cases s)
    (auto simp: wk_step_ok close_board_ok, auto simp: worker_ok_def submit_def poll_def stop_def unanswered_def map_filter_simps)

lemma wk_run_ok:
  "worker_ok (fst s) \<Longrightarrow> (\<forall>c \<in> set (submitted es). cmd_ok c) \<Longrightarrow> worker_ok (fst (wk_run B es s))"
proof (induction es arbitrary: s)
  case (Cons e es)
  have "worker_ok (fst (wk_event B e s))" using Cons.prems by (intro wk_event_ok) (cases e; simp)+
  then show ?case using Cons.IH [of "wk_event B e s"] Cons.prems(2) by (cases e) (simp_all add: wk_run_def)
qed (simp add: wk_run_def)

lemma new_worker_ok: "wf b \<Longrightarrow> live b = {} \<Longrightarrow> worker_ok (new_worker n b)"
  by (simp add: worker_ok_def desk_ok_def mirrors_new new_worker_def unanswered_def map_filter_simps)

lemma slots_mirror:
  assumes "wf b" "live b = {}" "\<forall>c \<in> set (submitted es). cmd_ok c" "wk_run B es (new_worker n b, []) = (w, out)"
  shows "mirrors (wk_stats w) (live (wk_board w))"
  using wk_run_ok [of "(new_worker n b, [])" es] new_worker_ok [OF assms(1,2), of n] assms(3,4)
  by (simp add: worker_ok_def desk_ok_def)

end


section \<open>The boards of the program\<close>

lemma mock_sw_frame:
  "mock_sw_kem m = (r, m') \<Longrightarrow> m_sessions m' = m_sessions m \<and> m_generation m' = m_generation m"
  by (auto simp: mock_sw_kem_def mock_run)

interpretation mockw: worked_board mock_ops mock_live mock_wf
proof -
  have i: "board_backend (op_open mock_ops) (op_leave mock_ops) mock_live mock_wf (op_send mock_ops)"
    using mock.board_backend_axioms by (simp add: mock_ops_def)
  show "worked_board mock_ops mock_live mock_wf"
    by (intro worked_board.intro i worked_board_axioms.intro)
      (auto simp: mock_ops_def mock_live_def mock_close_def dest: mock_sw_frame intro: mock_wf_same)
qed



text \<open>C14. The slot display of a mock board: after any interleaving in which open commands name slots of
  \<open>0..63\<close>, entry \<open>s\<close> of \<open>stats.slots\<close> is occupied exactly when the board holds a session for \<open>s\<close>,
  and the list still has 64 entries.\<close>

theorem mock_slots_mirror:
  assumes "mock_wf b" "m_sessions b = Map.empty" "\<forall>c \<in> set (submitted es). cmd_ok c"
    and "wk_run mock_ops es (new_worker n b, []) = (w, out)"
  shows "length (slots (wk_stats w)) = 64 \<and> (\<forall>s. 0 \<le> s \<and> s < 64 \<longrightarrow>
    (slots (wk_stats w) ! nat s \<noteq> None) = (m_sessions (wk_board w) s \<noteq> None))"
  using mockw.slots_mirror [OF assms(1) _ assms(3,4)] assms(2)
  by (auto simp: mock_live_def mirrors_def slot_ok_def MAX_SESSIONS_def dom_def)


definition demo_open :: "int \<Rightarrow> board_command" where
  "demo_open s = \<lparr>bc_command_id = 1, bc_kind = KOpen, bc_vehicle_id = 4, bc_slot = Some s, bc_payload = [],
     bc_tamper = False\<rparr>"

theorem mock_slots_mirror_witness:
  "\<exists>w out. wk_run mock_ops [Submit (demo_open 2), ThreadStep, ThreadStep]
      (new_worker BoardA (new_mock ''A'' zero_draws), []) = (w, out) \<and> length (slots (wk_stats w)) = 64"
proof -
  have wf: "mock_wf (new_mock ''A'' zero_draws)" "m_sessions (new_mock ''A'' zero_draws) = Map.empty"
    by (simp_all add: mock_wf_def new_mock_def)
  obtain w out where r: "wk_run mock_ops [Submit (demo_open 2), ThreadStep, ThreadStep]
      (new_worker BoardA (new_mock ''A'' zero_draws), []) = (w, out)" by fastforce
  show ?thesis
    using mock_slots_mirror [OF wf _ r] r by (simp add: cmd_ok_def demo_open_def slot_ok_def MAX_SESSIONS_def)
qed


end
