(* ===== verification/SimTypes.thy ===== *)
theory SimTypes
  imports WorkerSlots "HOL-Library.While_Combinator"
begin

text \<open>
  The data of \<open>simulator.py\<close>: vehicle kinds, vehicles, the controller's state, and the elementary
  operations on them (time, random choice, log, access to the two workers).

  Positions, speeds and times are real numbers; rounding of IEEE doubles is not modelled.  A vehicle
  object is identified by its index in the list of vehicles, whose membership never changes.  The
  worker threads run between any two accesses of the main thread to what they share: at every such
  point \<open>yield\<close> performs the worker steps that an arbitrary schedule prescribes.
\<close>

section \<open>Constants and vehicle kinds\<close>

definition ROAD_METERS :: real where "ROAD_METERS = 400"
definition BOUNDARY_METERS :: real where "BOUNDARY_METERS = 200"
definition ROAD_PIXELS :: real where "ROAD_PIXELS = 1400"
definition PX_PER_METER :: real where "PX_PER_METER = ROAD_PIXELS / ROAD_METERS"
definition MIN_GAP_METERS :: real where "MIN_GAP_METERS = 3"
definition MAX_LANES_PER_DIRECTION :: nat where "MAX_LANES_PER_DIRECTION = 3"
definition DEFAULT_PS_MLKEM_US :: real where "DEFAULT_PS_MLKEM_US = 1258523 / 1000"
definition KEM_HISTORY :: nat where "KEM_HISTORY = 120"
definition KEM_RATE_WINDOW_S :: real where "KEM_RATE_WINDOW_S = 10"
definition SWKEM_INTERVAL_S :: real where "SWKEM_INTERVAL_S = 2"

datatype vkind = Sedan | Suv | Truck | Bus | Bike | Ambulance

record vehicle_kind =
  vk_key :: string
  vk_title :: string
  length_px :: int
  height_px :: int
  speed_factor :: real
  weight :: int

fun VEHICLE_KINDS :: "vkind \<Rightarrow> vehicle_kind" where
  "VEHICLE_KINDS Sedan = \<lparr>vk_key = ''sedan'', vk_title = ''Sedan'', length_px = 50, height_px = 28,
     speed_factor = 1, weight = 34\<rparr>"
| "VEHICLE_KINDS Suv = \<lparr>vk_key = ''suv'', vk_title = ''SUV'', length_px = 54, height_px = 32,
     speed_factor = 95 / 100, weight = 20\<rparr>"
| "VEHICLE_KINDS Truck = \<lparr>vk_key = ''truck'', vk_title = ''Truck'', length_px = 80, height_px = 34,
     speed_factor = 75 / 100, weight = 12\<rparr>"
| "VEHICLE_KINDS Bus = \<lparr>vk_key = ''bus'', vk_title = ''Bus'', length_px = 92, height_px = 34,
     speed_factor = 70 / 100, weight = 10\<rparr>"
| "VEHICLE_KINDS Bike = \<lparr>vk_key = ''bike'', vk_title = ''Bike'', length_px = 32, height_px = 24,
     speed_factor = 115 / 100, weight = 14\<rparr>"
| "VEHICLE_KINDS Ambulance = \<lparr>vk_key = ''ambulance'', vk_title = ''Ambulance'', length_px = 58,
     height_px = 32, speed_factor = 125 / 100, weight = 10\<rparr>"

definition all_kinds :: "vkind list" where
  "all_kinds = [Sedan, Suv, Truck, Bus, Bike, Ambulance]"

section \<open>Vehicles and the controller\<close>

datatype vstate = Connecting | Connected | Handover | Exiting | Disconnected

record vehicle =
  v_id :: int
  v_lane :: int
  v_direction :: int
  v_position :: real
  v_speed :: real
  v_kind :: vkind
  v_board :: "board_id option"
  v_slot :: "int option"
  v_state :: vstate
  v_target :: "board_id option"
  v_old_board :: "board_id option"
  v_old_slot :: "int option"
  v_next_data :: real
  v_retry_at :: real
  v_attacked :: real
  v_retry_target :: "board_id option"

definition new_vehicle :: "int \<Rightarrow> int \<Rightarrow> int \<Rightarrow> real \<Rightarrow> real \<Rightarrow> vkind \<Rightarrow> vehicle" where
  "new_vehicle vehicle_id lane_no direction position speed kind =
     \<lparr>v_id = vehicle_id, v_lane = lane_no, v_direction = direction, v_position = position, v_speed = speed,
      v_kind = kind, v_board = None, v_slot = None, v_state = Connecting, v_target = None,
      v_old_board = None, v_old_slot = None, v_next_data = 0, v_retry_at = 0, v_attacked = 0,
      v_retry_target = None\<rparr>"

definition v_title :: "vehicle \<Rightarrow> string" where
  "v_title v = vk_title (VEHICLE_KINDS (v_kind v)) @ '' '' @ str_int (v_id v)"

text \<open>The context dictionary of a pending command, by its keys.\<close>

datatype reason = Entry | Retry | HandoverNew | HandoverOld | Exit

record cmd_context =
  ctx_reason :: "reason option"
  ctx_target :: "board_id option"
  ctx_attack :: bool
  ctx_board :: "board_id option"

definition no_context :: cmd_context where
  "no_context = \<lparr>ctx_reason = None, ctx_target = None, ctx_attack = False, ctx_board = None\<rparr>"

type_synonym pending = "int \<times> command_kind \<times> int \<times> cmd_context"

record 'b controller =
  ct_workers :: "board_id \<Rightarrow> 'b worker"
  ct_mock :: bool
  ct_sched :: "nat \<Rightarrow> board_id list"   \<comment> \<open>worker steps at the \<open>n\<close>-th access to shared state\<close>
  ct_yields :: nat
  ct_clk :: clock
  ct_ticks :: nat
  ct_rng :: rng
  ct_ps_ref :: real
  ct_kem_history :: "(real \<times> board_id \<times> int \<times> reason) list"
  ct_sw_history :: "(real \<times> board_id \<times> int) list"
  ct_next_swkem :: "board_id \<Rightarrow> real"
  ct_vehicle_count :: nat
  ct_speed :: real
  ct_lanes :: nat
  ct_running :: bool
  ct_sim_time :: real
  ct_handovers :: int
  ct_attempts :: int
  ct_blocked :: int
  ct_selected :: "int option"
  ct_events :: "(string \<times> string) list"
  ct_next_command :: int
  ct_next_vehicle :: int
  ct_pending :: "pending list"
  ct_reserved :: "board_id \<Rightarrow> int set"
  ct_vehicles :: "vehicle list"
  ct_stuck :: bool   \<comment> \<open>a loop of the main thread that never ends was entered\<close>

section \<open>Numbers as text\<close>

text \<open>Rounding to an integer, ties to even, and the formats \<open>:.0f\<close> and \<open>:05.1f\<close>.\<close>

definition round_even :: "real \<Rightarrow> int" where
  "round_even x =
     (let f = \<lfloor>x\<rfloor>; d = x - real_of_int f in
      if d < 1 / 2 then f else if d > 1 / 2 then f + 1 else if even f then f else f + 1)"

definition fmt_f0 :: "real \<Rightarrow> string" where
  "fmt_f0 x = (if x < 0 then ''-'' @ str_int (round_even (- x)) else str_int (round_even x))"

definition fmt_05_1f :: "real \<Rightarrow> string" where
  "fmt_05_1f x =
     (let digits = (\<lambda>y. let n = round_even (10 * y) in str_int (n div 10) @ ''.'' @ str_int (n mod 10))
      in if x < 0 then ''-'' @ pad0 4 (digits (- x)) else pad0 5 (digits x))"

section \<open>Elementary operations\<close>

definition ct_time :: "'b controller \<Rightarrow> real \<times> 'b controller" where
  "ct_time s = (reading (ct_clk s) (ct_ticks s), s\<lparr>ct_ticks := Suc (ct_ticks s)\<rparr>)"

definition ct_log :: "string \<Rightarrow> string \<Rightarrow> 'b controller \<Rightarrow> 'b controller" where
  "ct_log kind msg s = s\<lparr>ct_events := deque_appendleft 12 (ct_events s)
     (kind, fmt_05_1f (ct_sim_time s) @ ''s  ['' @ kind @ ''] '' @ msg)\<rparr>"

definition set_vehicle :: "nat \<Rightarrow> (vehicle \<Rightarrow> vehicle) \<Rightarrow> 'b controller \<Rightarrow> 'b controller" where
  "set_vehicle i f s = s\<lparr>ct_vehicles := (ct_vehicles s)[i := f (ct_vehicles s ! i)]\<rparr>"

definition the_vehicle :: "nat \<Rightarrow> 'b controller \<Rightarrow> vehicle" where
  "the_vehicle i s = ct_vehicles s ! i"

text \<open>\<open>vehicle_by_id\<close>: the first vehicle with that id.\<close>

fun find_vehicle :: "int \<Rightarrow> vehicle list \<Rightarrow> nat option" where
  "find_vehicle n [] = None"
| "find_vehicle n (v # vs) = (if v_id v = n then Some 0 else map_option Suc (find_vehicle n vs))"

definition vehicle_by_id :: "int \<Rightarrow> 'b controller \<Rightarrow> nat option" where
  "vehicle_by_id n s = find_vehicle n (ct_vehicles s)"

text \<open>Interference of the worker threads.\<close>

definition run_worker :: "'b board_ops \<Rightarrow> board_id \<Rightarrow> 'b controller \<Rightarrow> 'b controller" where
  "run_worker B b s = s\<lparr>ct_workers := (ct_workers s)(b := wk_step B (ct_workers s b))\<rparr>"

definition yield :: "'b board_ops \<Rightarrow> 'b controller \<Rightarrow> 'b controller" where
  "yield B s =
     (foldl (\<lambda>t b. run_worker B b t) s (ct_sched s (ct_yields s)))\<lparr>ct_yields := Suc (ct_yields s)\<rparr>"

text \<open>\<open>self._rng.choices(kinds, weights=...)[0]\<close>: the first kind whose cumulative weight exceeds the
  draw times the total.\<close>

fun pick_kind :: "real \<Rightarrow> vkind list \<Rightarrow> vkind \<Rightarrow> vkind" where
  "pick_kind x [] dflt = dflt"
| "pick_kind x (k # ks) dflt =
     (let w = real_of_int (weight (VEHICLE_KINDS k)) in
      if x < w then k else pick_kind (x - w) ks dflt)"

definition random_kind :: "rng \<Rightarrow> vkind \<times> rng" where
  "random_kind g = (case py_random g of (u, g') \<Rightarrow>
     (pick_kind (u * real_of_int (sum_list (map (weight \<circ> VEHICLE_KINDS) all_kinds))) all_kinds Ambulance, g'))"

definition speed_for :: "real \<Rightarrow> vkind \<Rightarrow> rng \<Rightarrow> real \<times> rng" where
  "speed_for speed_mps kind g = (case uniform (92 / 100) (108 / 100) g of (u, g') \<Rightarrow>
     (speed_mps * speed_factor (VEHICLE_KINDS kind) * u, g'))"

definition lanes_for :: "nat \<Rightarrow> int \<Rightarrow> int list" where
  "lanes_for n direction = (if direction > 0 then map int [0..<n] else map int [n..<2 * n])"

definition board_for_position :: "real \<Rightarrow> board_id" where
  "board_for_position position = (if position < BOUNDARY_METERS then BoardA else BoardB)"

section \<open>The ML-KEM analysis\<close>

definition all_boards :: "board_id list" where
  "all_boards = [BoardA, BoardB]"

definition sum_stats :: "(board_stats \<Rightarrow> int) \<Rightarrow> 'b controller \<Rightarrow> int" where
  "sum_stats f s = sum_list (map (\<lambda>b. f (wk_stats (ct_workers s b))) all_boards)"

definition ct_kem_samples :: "'b controller \<Rightarrow> int" where
  "ct_kem_samples s = sum_stats kem_samples s"

definition average_pl_kem_us :: "'b controller \<Rightarrow> real" where
  "average_pl_kem_us s =
     (if ct_kem_samples s = 0 then 0
      else real_of_int (sum_stats kem_total_us s) / real_of_int (ct_kem_samples s))"

definition ct_sw_samples :: "'b controller \<Rightarrow> int" where
  "ct_sw_samples s = sum_stats sw_samples s"

definition sw_live :: "'b controller \<Rightarrow> bool" where
  "sw_live s \<longleftrightarrow> 0 < ct_sw_samples s"

definition ps_kem_us :: "'b controller \<Rightarrow> real" where
  "ps_kem_us s =
     (if ct_sw_samples s = 0 then ct_ps_ref s
      else real_of_int (sum_stats sw_total_us s) / real_of_int (ct_sw_samples s))"

definition mlkem_speedup :: "'b controller \<Rightarrow> real" where
  "mlkem_speedup s = (if 0 < average_pl_kem_us s then ps_kem_us s / average_pl_kem_us s else 0)"

definition kem_min_max :: "'b controller \<Rightarrow> int \<times> int" where
  "kem_min_max s =
     (case filter (\<lambda>st. kem_samples st \<noteq> 0) (map (\<lambda>b. wk_stats (ct_workers s b)) all_boards) of
        [] \<Rightarrow> (0, 0)
      | st # sts \<Rightarrow> (foldl min (kem_min_us st) (map kem_min_us sts), foldl max (kem_max_us st) (map kem_max_us sts)))"

definition kem_rate_per_s :: "'b controller \<Rightarrow> real \<times> 'b controller" where
  "kem_rate_per_s s = (case ct_time s of (t, s') \<Rightarrow>
     (real (length (filter (\<lambda>(h, _). t - KEM_RATE_WINDOW_S \<le> h) (ct_kem_history s))) / KEM_RATE_WINDOW_S, s'))"

definition recent_jitter_us :: "'b controller \<Rightarrow> real" where
  "recent_jitter_us s =
     (let values = map (\<lambda>(_, _, k, _). real_of_int k) (ct_kem_history s); n = real (length values);
          mean = sum_list values / n
      in if length values < 2 then 0 else sqrt (sum_list (map (\<lambda>v. (v - mean) ^ 2) values) / (n - 1)))"

end
