(* ===== verification/Simulator.thy ===== *)
theory Simulator
  imports SimTypes
begin

text \<open>
  \<open>DemoController\<close> of \<open>simulator.py\<close>: motion, session requests, results and the update step, one
  function per method, in the order the later ones call the earlier ones.
\<close>

section \<open>Commands and slots\<close>

definition submit_command ::
    "'b board_ops \<Rightarrow> board_id \<Rightarrow> command_kind \<Rightarrow> int \<Rightarrow> int option \<Rightarrow> bytes \<Rightarrow> bool \<Rightarrow> cmd_context \<Rightarrow>
     'b controller \<Rightarrow> 'b controller" where
  "submit_command B board kind vehicle_id slot payload tamper ctx s =
     (let command_id = ct_next_command s;
          command = \<lparr>bc_command_id = command_id, bc_kind = kind, bc_vehicle_id = vehicle_id, bc_slot = slot,
                     bc_payload = payload, bc_tamper = tamper\<rparr>;
          s = s\<lparr>ct_next_command := command_id + 1,
                ct_pending := ct_pending s @ [(command_id, kind, vehicle_id, ctx)]\<rparr>;
          s = yield B s
      in s\<lparr>ct_workers := (ct_workers s)(board := submit command (ct_workers s board))\<rparr>)"

text \<open>\<open>_free_slot\<close>: the slots are looked at one after the other while the worker runs.\<close>

fun scan_slots :: "'b board_ops \<Rightarrow> board_id \<Rightarrow> nat list \<Rightarrow> 'b controller \<Rightarrow> int option \<times> 'b controller" where
  "scan_slots B board [] s = (None, s)"
| "scan_slots B board (slot # rest) s =
     (let s = yield B s in
      if slots (wk_stats (ct_workers s board)) ! slot = None \<and> int slot \<notin> ct_reserved s board
      then (Some (int slot), s) else scan_slots B board rest s)"

definition free_slot :: "'b board_ops \<Rightarrow> board_id \<Rightarrow> 'b controller \<Rightarrow> int option \<times> 'b controller" where
  "free_slot B board = scan_slots B board [0..<MAX_SESSIONS]"

definition open_context :: "reason \<Rightarrow> board_id \<Rightarrow> cmd_context" where
  "open_context reason target = no_context\<lparr>ctx_reason := Some reason, ctx_target := Some target\<rparr>"

definition leave_context :: "reason \<Rightarrow> cmd_context" where
  "leave_context reason = no_context\<lparr>ctx_reason := Some reason\<rparr>"

definition attack_context :: "bool \<Rightarrow> cmd_context" where
  "attack_context attack = no_context\<lparr>ctx_attack := attack\<rparr>"

fun board_text :: "board_id option \<Rightarrow> string" where
  "board_text None = ''None''"
| "board_text (Some b) = board_str b"

definition no_free_slot :: "nat \<Rightarrow> board_id \<Rightarrow> 'b controller \<Rightarrow> 'b controller" where
  "no_free_slot i target s =
     (case ct_time s of (t, s) \<Rightarrow>
       ct_log ''ERROR'' (''Board '' @ board_str target @ '' full; '' @ v_title (the_vehicle i s) @ '' waits'')
         (set_vehicle i (\<lambda>v. v\<lparr>v_state := Disconnected, v_retry_at := t + 1\<rparr>) s))"

definition start_open :: "'b board_ops \<Rightarrow> nat \<Rightarrow> board_id \<Rightarrow> reason \<Rightarrow> int \<Rightarrow> 'b controller \<Rightarrow> 'b controller" where
  "start_open B i target reason slot s =
     (let s = s\<lparr>ct_reserved := (ct_reserved s)(target := insert slot (ct_reserved s target))\<rparr>;
          s = set_vehicle i (\<lambda>v. v\<lparr>v_target := Some target, v_old_board := v_board v, v_old_slot := v_slot v,
                v_state := (if reason = HandoverNew then Handover else Connecting)\<rparr>) s;
          v = the_vehicle i s;
          s = submit_command B target KOpen (v_id v) (Some slot) [] False (open_context reason target) s
      in if reason = HandoverNew
         then ct_log ''HO'' (v_title v @ '' '' @ board_text (v_board v) @ ''->'' @ board_str target
                @ '': ML-KEM opening'') s
         else ct_log ''OPEN'' (v_title v @ '' requests board '' @ board_str target @ '', slot '' @ str_int slot) s)"

definition request_open :: "'b board_ops \<Rightarrow> nat \<Rightarrow> board_id \<Rightarrow> reason \<Rightarrow> 'b controller \<Rightarrow> 'b controller" where
  "request_open B i target reason s =
     (case free_slot B target s of
        (None, s) \<Rightarrow> no_free_slot i target s
      | (Some slot, s) \<Rightarrow> start_open B i target reason slot s)"

section \<open>Leaving and respawning\<close>

text \<open>\<open>_entry_lane\<close>: the lane with the largest distance from the entry point to its nearest vehicle.\<close>

definition lane_room :: "int \<Rightarrow> real \<Rightarrow> vehicle list \<Rightarrow> real" where
  "lane_room lane_no entry_m vs =
     (case map (\<lambda>v. \<bar>v_position v - entry_m\<bar>) (filter (\<lambda>v. v_lane v = lane_no) vs) of
        [] \<Rightarrow> ROAD_METERS | d # ds \<Rightarrow> foldl min d ds)"

definition entry_lane :: "nat \<Rightarrow> int \<Rightarrow> real \<Rightarrow> vehicle list \<Rightarrow> int option" where
  "entry_lane n direction entry_m vs =
     fst (foldl (\<lambda>(best, best_room) lane_no. let room = lane_room lane_no entry_m vs in
                  if room > best_room then (Some lane_no, room) else (best, best_room))
            (None, -1) (lanes_for n direction))"

text \<open>The loop that looks for an unused vehicle id; \<open>None\<close> when it never ends.\<close>

definition fresh_id :: "int set \<Rightarrow> int \<Rightarrow> int option" where
  "fresh_id used = while_option (\<lambda>n. n \<in> used) (\<lambda>n. (n + 1) mod int MAX_SESSIONS)"

definition used_ids :: "nat \<Rightarrow> vehicle list \<Rightarrow> int set" where
  "used_ids i vs = set (map v_id (take i vs @ drop (Suc i) vs))"

definition reset_vehicle :: "nat \<Rightarrow> 'b controller \<Rightarrow> 'b controller" where
  "reset_vehicle i s =
     (let v = the_vehicle i s;
          entry = (if v_direction v > 0 then 0 else ROAD_METERS);
          s = set_vehicle i (\<lambda>v. v\<lparr>v_position := ROAD_METERS * 2\<rparr>) s;
          s = (case entry_lane (ct_lanes s) (v_direction v) entry (ct_vehicles s) of
                 None \<Rightarrow> s | Some l \<Rightarrow> set_vehicle i (\<lambda>v. v\<lparr>v_lane := l\<rparr>) s);
          s = set_vehicle i (\<lambda>v. v\<lparr>v_position := entry\<rparr>) s;
          (kind, g) = random_kind (ct_rng s);
          (speed, g) = speed_for (ct_speed s) kind g;
          s = set_vehicle i (\<lambda>v. v\<lparr>v_kind := kind, v_speed := speed, v_board := None, v_slot := None,
                v_old_board := None, v_old_slot := None, v_state := Connecting, v_retry_at := 0,
                v_retry_target := None\<rparr>) (s\<lparr>ct_rng := g\<rparr>)
      in if ct_selected s \<in> Some ` set (map v_id (ct_vehicles s)) then s else s\<lparr>ct_selected := None\<rparr>)"

definition respawn :: "'b board_ops \<Rightarrow> nat \<Rightarrow> 'b controller \<Rightarrow> 'b controller" where
  "respawn B i s =
     (case fresh_id (used_ids i (ct_vehicles s)) (ct_next_vehicle s) of
        None \<Rightarrow> s\<lparr>ct_stuck := True\<rparr>
      | Some n \<Rightarrow>
          (let s = set_vehicle i (\<lambda>v. v\<lparr>v_id := n\<rparr>) (s\<lparr>ct_next_vehicle := (n + 1) mod int MAX_SESSIONS\<rparr>);
               s = reset_vehicle i s
           in request_open B i (if v_direction (the_vehicle i s) > 0 then BoardA else BoardB) Entry s))"

definition request_exit :: "'b board_ops \<Rightarrow> nat \<Rightarrow> 'b controller \<Rightarrow> 'b controller" where
  "request_exit B i s =
     (let v = the_vehicle i s in
      case (v_board v, v_slot v) of
        (Some board, Some slot) \<Rightarrow>
          submit_command B board KLeave (v_id v) (Some slot) [] False (leave_context Exit)
            (set_vehicle i (\<lambda>v. v\<lparr>v_state := Exiting\<rparr>) s)
      | _ \<Rightarrow> respawn B i s)"

section \<open>Motion\<close>

definition leader_of :: "nat \<Rightarrow> vehicle list \<Rightarrow> nat option" where
  "leader_of i vs =
     (let v = vs ! i in
      map_option fst (foldl (\<lambda>best j.
        let w = vs ! j; ahead = (v_position w - v_position v) * real_of_int (v_direction v) in
        if j = i \<or> v_lane w \<noteq> v_lane v \<or> ahead \<le> 0 then best
        else (case best of
                None \<Rightarrow> Some (j, ahead)
              | Some (_, d) \<Rightarrow> if ahead < d then Some (j, ahead) else best)) None [0..<length vs]))"

definition gap_m :: "vehicle \<Rightarrow> vehicle \<Rightarrow> real" where
  "gap_m leader follower =
     real_of_int (length_px (VEHICLE_KINDS (v_kind leader)) + length_px (VEHICLE_KINDS (v_kind follower))) / 2
       / PX_PER_METER + MIN_GAP_METERS"

text \<open>How far the vehicle moves in \<open>dt\<close> seconds behind its leader.\<close>

definition step_length :: "nat \<Rightarrow> real \<Rightarrow> vehicle list \<Rightarrow> real" where
  "step_length i dt vs =
     (let v = vs ! i; step = v_speed v * dt in
      case leader_of i vs of
        None \<Rightarrow> step
      | Some j \<Rightarrow>
          let room = \<bar>v_position (vs ! j) - v_position v\<bar> - gap_m (vs ! j) v
          in max 0 (min step room))"

definition crossed :: "int \<Rightarrow> real \<Rightarrow> real \<Rightarrow> bool" where
  "crossed direction previous position \<longleftrightarrow>
     (direction > 0 \<and> previous < BOUNDARY_METERS \<and> BOUNDARY_METERS \<le> position) \<or>
     (direction < 0 \<and> previous > BOUNDARY_METERS \<and> BOUNDARY_METERS \<ge> position)"

definition has_pending_data :: "int \<Rightarrow> 'b controller \<Rightarrow> bool" where
  "has_pending_data vid s = list_ex (\<lambda>(_, kind, v, _). kind = KData \<and> v = vid) (ct_pending s)"

definition telemetry :: "vehicle \<Rightarrow> string" where
  "telemetry v = vk_key (VEHICLE_KINDS (v_kind v)) @ ''-'' @ str_int (v_id v) @ '' pos-''
     @ fmt_f0 (v_position v) @ ''m''"

definition send_telemetry :: "'b board_ops \<Rightarrow> nat \<Rightarrow> real \<Rightarrow> 'b controller \<Rightarrow> 'b controller" where
  "send_telemetry B i t0 s =
     (let v = the_vehicle i s in
      case (v_board v, v_slot v) of
        (Some board, Some slot) \<Rightarrow>
          if t0 \<ge> v_next_data v \<and> \<not> has_pending_data (v_id v) s
          then set_vehicle i (\<lambda>v. v\<lparr>v_next_data := t0 + 3 + real_of_int (v_id v mod 5) * (12 / 100)\<rparr>)
                 (submit_command B board KData (v_id v) (Some slot) (encode_ascii (telemetry v)) False
                    (attack_context False) s)
          else s
      | _ \<Rightarrow> s)"

text \<open>What follows the movement: the road's end, or data.\<close>

definition after_move :: "'b board_ops \<Rightarrow> nat \<Rightarrow> real \<Rightarrow> 'b controller \<Rightarrow> 'b controller" where
  "after_move B i t0 s =
     (let v = the_vehicle i s in
      if v_position v < 0 \<or> v_position v > ROAD_METERS
      then request_exit B i (set_vehicle i (\<lambda>v. v\<lparr>v_position := max 0 (min ROAD_METERS (v_position v))\<rparr>) s)
      else send_telemetry B i t0 s)"

definition move_vehicle :: "'b board_ops \<Rightarrow> nat \<Rightarrow> real \<Rightarrow> real \<Rightarrow> 'b controller \<Rightarrow> 'b controller" where
  "move_vehicle B i dt t0 s =
     (let v = the_vehicle i s; previous = v_position v; d = v_direction v;
          s = set_vehicle i (\<lambda>v. v\<lparr>v_position := v_position v + real_of_int d * step_length i dt (ct_vehicles s)\<rparr>) s
      in if crossed d previous (v_position (the_vehicle i s)) \<and> v_board v \<noteq> None then
           (let s = set_vehicle i (\<lambda>v. v\<lparr>v_position := BOUNDARY_METERS\<rparr>) s;
                target = (if d > 0 then BoardB else BoardA)
            in if Some target \<noteq> v_board v then request_open B i target HandoverNew s
               else after_move B i t0 s)
         else after_move B i t0 s)"

definition step_vehicle :: "'b board_ops \<Rightarrow> real \<Rightarrow> real \<Rightarrow> nat \<Rightarrow> 'b controller \<Rightarrow> 'b controller" where
  "step_vehicle B dt t0 i s =
     (let v = the_vehicle i s in
      if v_state v \<in> {Connecting, Handover, Exiting} then s
      else if v_retry_at v \<noteq> 0 \<and> t0 \<ge> v_retry_at v then
        (let target = (case v_retry_target v of Some b \<Rightarrow> b | None \<Rightarrow> board_for_position (v_position v))
         in request_open B i target Retry
              (set_vehicle i (\<lambda>v. v\<lparr>v_retry_at := 0, v_retry_target := None\<rparr>) s))
      else move_vehicle B i dt t0 s)"

section \<open>Results\<close>

definition handle_swkem :: "board_result \<Rightarrow> 'b controller \<Rightarrow> 'b controller" where
  "handle_swkem r s =
     (if br_sw_us r \<noteq> 0 then
        (case ct_time s of (t, s) \<Rightarrow>
          let s = s\<lparr>ct_sw_history := deque_append KEM_HISTORY (ct_sw_history s) (t, br_board r, br_sw_us r)\<rparr>
          in if \<not> br_ok r
             then ct_log ''ERROR'' (''Board '' @ board_str (br_board r) @ '' SW ML-KEM secret mismatch'') s else s)
      else if \<not> ct_mock s
      then ct_log ''SYSTEM'' (''Board '' @ board_str (br_board r) @ '': no SWKEM in firmware, PS SW = reference'') s
      else s)"

definition record_setup :: "board_result \<Rightarrow> reason option \<Rightarrow> 'b controller \<Rightarrow> 'b controller" where
  "record_setup r reason s =
     (case br_session r of
        None \<Rightarrow> s
      | Some x \<Rightarrow> (case ct_time s of (t, s) \<Rightarrow>
          s\<lparr>ct_kem_history := deque_append KEM_HISTORY (ct_kem_history s)
              (t, br_board r, s_kem_us x, case reason of None \<Rightarrow> Entry | Some q \<Rightarrow> q)\<rparr>))"

fun slot_text :: "int option \<Rightarrow> string" where
  "slot_text None = ''None''"
| "slot_text (Some n) = str_int n"

definition handle_open :: "'b board_ops \<Rightarrow> nat \<Rightarrow> board_result \<Rightarrow> cmd_context \<Rightarrow> 'b controller \<Rightarrow> 'b controller" where
  "handle_open B i r ctx s =
     (let old_board = v_old_board (the_vehicle i s); old_slot = v_old_slot (the_vehicle i s);
          place = board_str (br_board r) @ ''/'' @ slot_text (br_slot r);
          (t, s) = ct_time s;
          s = set_vehicle i (\<lambda>v. v\<lparr>v_board := Some (br_board r), v_slot := br_slot r, v_target := None,
                v_state := Connected, v_next_data := t + 4 / 10\<rparr>) s;
          s = record_setup r (ctx_reason ctx) s;
          v = the_vehicle i s;
          s = (if ctx_reason ctx = Some HandoverNew then
                 (let s = ct_log ''HO'' (v_title v @ '' READY on '' @ place @ ''; switching'')
                        (s\<lparr>ct_handovers := ct_handovers s + 1\<rparr>)
                  in case (old_board, old_slot) of
                       (Some b, Some n) \<Rightarrow>
                         submit_command B b KLeave (v_id v) (Some n) [] False (leave_context HandoverOld) s
                     | _ \<Rightarrow> s)
               else ct_log ''OPEN'' (v_title v @ '' connected '' @ place @ '' (''
                      @ str_int (case br_session r of None \<Rightarrow> 0 | Some x \<Rightarrow> s_kem_us x) @ '' us)'') s)
      in set_vehicle i (\<lambda>v. v\<lparr>v_old_board := None, v_old_slot := None\<rparr>) s)"

definition handle_leave :: "'b board_ops \<Rightarrow> nat \<Rightarrow> board_result \<Rightarrow> cmd_context \<Rightarrow> 'b controller \<Rightarrow> 'b controller" where
  "handle_leave B i r ctx s =
     (let v = the_vehicle i s in
      if ctx_reason ctx = Some Exit
      then respawn B i (ct_log ''LEAVE'' (v_title v @ '' left board '' @ board_str (br_board r)) s)
      else ct_log ''LEAVE'' (v_title v @ '' released '' @ board_str (br_board r) @ ''/'' @ slot_text (br_slot r)) s)"

definition handle_data :: "nat \<Rightarrow> board_result \<Rightarrow> cmd_context \<Rightarrow> 'b controller \<Rightarrow> 'b controller" where
  "handle_data i r ctx s =
     (if ctx_attack ctx then
        (if br_blocked r
         then ct_log ''BLOCKED'' (''Board '' @ board_str (br_board r) @ '' rejected '' @ v_title (the_vehicle i s)
                @ '' (ERR AUTH)'') (s\<lparr>ct_blocked := ct_blocked s + 1\<rparr>)
         else ct_log ''ERROR'' (''Attack on '' @ v_title (the_vehicle i s) @ '' was not rejected'') s)
      else s)"

definition open_failed :: "nat \<Rightarrow> board_result \<Rightarrow> cmd_context \<Rightarrow> 'b controller \<Rightarrow> 'b controller" where
  "open_failed i r ctx s =
     (let old = v_old_board (the_vehicle i s);
          s = set_vehicle i (\<lambda>v. v\<lparr>v_state := (if old \<noteq> None then Connected else Disconnected)\<rparr>) s;
          s = (if old \<noteq> None
               then set_vehicle i (\<lambda>v. v\<lparr>v_board := v_old_board v, v_slot := v_old_slot v,
                      v_position := BOUNDARY_METERS + (if v_direction v > 0 then - (1 / 2) else 1 / 2)\<rparr>) s
               else s);
          (t, s) = ct_time s
      in set_vehicle i (\<lambda>v. v\<lparr>v_retry_at := t + 1,
           v_retry_target := Some (case ctx_target ctx of None \<Rightarrow> br_board r | Some b \<Rightarrow> b),
           v_target := None, v_old_board := None, v_old_slot := None\<rparr>) s)"

definition handle_error :: "'b board_ops \<Rightarrow> nat \<Rightarrow> board_result \<Rightarrow> cmd_context \<Rightarrow> 'b controller \<Rightarrow> 'b controller" where
  "handle_error B i r ctx s =
     (let s = ct_log ''ERROR'' (''Board '' @ board_str (br_board r) @ '' '' @ kind_str (br_kind r) @ '' ''
                @ v_title (the_vehicle i s) @ '': '' @ br_detail r) s
      in if br_kind r = KOpen then open_failed i r ctx s
         else if br_kind r = KLeave \<and> ctx_reason ctx = Some Exit then respawn B i s
         else s)"

fun pop_pending :: "int \<Rightarrow> pending list \<Rightarrow> (command_kind \<times> int \<times> cmd_context) option \<times> pending list" where
  "pop_pending n [] = (None, [])"
| "pop_pending n (p # ps) =
     (if fst p = n then (Some (snd p), ps)
      else case pop_pending n ps of (x, qs) \<Rightarrow> (x, p # qs))"

text \<open>The body of the loop of \<open>_collect_results\<close>: the entry leaves the pending table (\<open>ps\<close> is the rest),
  an open gives back its reservation, and the vehicle's handler runs.\<close>

definition settled :: "command_kind \<Rightarrow> board_result \<Rightarrow> pending list \<Rightarrow> 'b controller \<Rightarrow> 'b controller" where
  "settled kind r ps s =
     (let s = s\<lparr>ct_pending := ps\<rparr> in
      case br_slot r of
        Some slot \<Rightarrow> (if kind = KOpen
          then s\<lparr>ct_reserved := (ct_reserved s)(br_board r := ct_reserved s (br_board r) - {slot})\<rparr> else s)
      | None \<Rightarrow> s)"

definition dispatch :: "'b board_ops \<Rightarrow> command_kind \<Rightarrow> nat \<Rightarrow> board_result \<Rightarrow> cmd_context \<Rightarrow> 'b controller \<Rightarrow> 'b controller" where
  "dispatch B kind i r ctx s =
     (if \<not> br_ok r \<and> \<not> br_blocked r then handle_error B i r ctx s
      else if kind = KOpen then handle_open B i r ctx s
      else if kind = KLeave then handle_leave B i r ctx s
      else if kind = KData then handle_data i r ctx s
      else s)"

definition handle_result :: "'b board_ops \<Rightarrow> board_result \<Rightarrow> 'b controller \<Rightarrow> 'b controller" where
  "handle_result B r s =
     (case pop_pending (br_command_id r) (ct_pending s) of
        (None, _) \<Rightarrow> s
      | (Some (kind, vehicle_id, ctx), ps) \<Rightarrow>
          if kind = KSwkem then handle_swkem r (s\<lparr>ct_pending := ps\<rparr>)
          else case vehicle_by_id vehicle_id s of
                 None \<Rightarrow> settled kind r ps s
               | Some i \<Rightarrow> dispatch B kind i r ctx (settled kind r ps s))"

definition poll_worker :: "'b board_ops \<Rightarrow> board_id \<Rightarrow> 'b controller \<Rightarrow> board_result list \<times> 'b controller" where
  "poll_worker B b s =
     (let s = yield B s in
      case poll (ct_workers s b) of (rs, w) \<Rightarrow> (rs, s\<lparr>ct_workers := (ct_workers s)(b := w)\<rparr>))"

definition collect_from :: "'b board_ops \<Rightarrow> board_id \<Rightarrow> 'b controller \<Rightarrow> 'b controller" where
  "collect_from B b s = (case poll_worker B b s of (rs, s) \<Rightarrow> fold (handle_result B) rs s)"

definition collect_results :: "'b board_ops \<Rightarrow> 'b controller \<Rightarrow> 'b controller" where
  "collect_results B s = fold (collect_from B) all_boards s"

section \<open>The update step and the user's actions\<close>

definition schedule_swkem_on :: "'b board_ops \<Rightarrow> real \<Rightarrow> board_id \<Rightarrow> 'b controller \<Rightarrow> 'b controller" where
  "schedule_swkem_on B t0 b s =
     (let s = yield B s in
      if sw_supported (wk_stats (ct_workers s b)) = Some False \<or> t0 < ct_next_swkem s b then s
      else if list_ex (\<lambda>(_, kind, _, ctx). kind = KSwkem \<and> ctx_board ctx = Some b) (ct_pending s) then s
      else
        let s = submit_command B b KSwkem (-1) None [] False (no_context\<lparr>ctx_board := Some b\<rparr>) s
        in s\<lparr>ct_next_swkem := (ct_next_swkem s)(b := t0 + SWKEM_INTERVAL_S)\<rparr>)"

definition schedule_swkem :: "'b board_ops \<Rightarrow> real \<Rightarrow> 'b controller \<Rightarrow> 'b controller" where
  "schedule_swkem B t0 s = fold (schedule_swkem_on B t0) all_boards s"

definition step_order :: "vehicle list \<Rightarrow> nat list" where
  "step_order vs = sort_key (\<lambda>i. - real_of_int (v_direction (vs ! i)) * v_position (vs ! i)) [0..<length vs]"

definition update :: "'b board_ops \<Rightarrow> real \<Rightarrow> 'b controller \<Rightarrow> 'b controller" where
  "update B dt s =
     (let s = collect_results B s in
      if \<not> ct_running s then s
      else
        let dt = min dt (1 / 10);
            s = s\<lparr>ct_sim_time := ct_sim_time s + dt\<rparr>;
            (t0, s) = ct_time s;
            s = schedule_swkem B t0 s
        in fold (step_vehicle B dt t0) (step_order (ct_vehicles s)) s)"

definition toggle_running :: "'b controller \<Rightarrow> 'b controller" where
  "toggle_running s =
     (let s = s\<lparr>ct_running := \<not> ct_running s\<rparr>
      in ct_log ''SYSTEM'' (if ct_running s then ''Simulation resumed'' else ''Simulation paused'') s)"

definition select_vehicle :: "int option \<Rightarrow> 'b controller \<Rightarrow> 'b controller" where
  "select_vehicle n s = s\<lparr>ct_selected := n\<rparr>"

definition launch_attack :: "'b board_ops \<Rightarrow> nat \<Rightarrow> board_id \<Rightarrow> int \<Rightarrow> 'b controller \<Rightarrow> 'b controller" where
  "launch_attack B i board slot s =
     (let (t, s) = ct_time (s\<lparr>ct_attempts := ct_attempts s + 1\<rparr>);
          s = set_vehicle i (\<lambda>v. v\<lparr>v_attacked := t + 3 / 2\<rparr>) s;
          v = the_vehicle i s;
          payload = encode_ascii (vk_key (VEHICLE_KINDS (v_kind v)) @ ''-'' @ str_int (v_id v) @ '' telemetry'');
          s = submit_command B board KData (v_id v) (Some slot) payload True (attack_context True) s
      in ct_log ''ATTACK'' (v_title v @ '': ciphertext bit flipped'') s)"

definition attack_selected :: "'b board_ops \<Rightarrow> 'b controller \<Rightarrow> bool \<times> 'b controller" where
  "attack_selected B s =
     (case ct_selected s of
        None \<Rightarrow> (False, ct_log ''ERROR'' ''Select a connected vehicle first'' s)
      | Some n \<Rightarrow>
          (let no_session = (False, ct_log ''ERROR'' ''Selected vehicle has no active session'' s) in
           case vehicle_by_id n s of
             None \<Rightarrow> no_session
           | Some i \<Rightarrow>
               let v = the_vehicle i s in
               (case (v_board v, v_slot v) of
                  (Some board, Some slot) \<Rightarrow>
                    if v_state v \<notin> {Connected, Handover}
                    then (False, ct_log ''ERROR'' (v_title v @ '' is busy'') s)
                    else if has_pending_data (v_id v) s
                    then (False, ct_log ''ERROR'' (v_title v @ '' already has pending DATA'') s)
                    else (True, launch_attack B i board slot s)
                | _ \<Rightarrow> no_session)))"

text \<open>Each worker is stopped in turn; the second \<open>yield\<close> is the wait for its thread.\<close>

definition shutdown :: "'b board_ops \<Rightarrow> 'b controller \<Rightarrow> 'b controller" where
  "shutdown B s = fold (\<lambda>b s.
     let s = yield B s; s = s\<lparr>ct_workers := (ct_workers s)(b := stop (ct_workers s b))\<rparr>; s = yield B s
     in s\<lparr>ct_workers := (ct_workers s)(b := close_board B (ct_workers s b))\<rparr>) all_boards s"

section \<open>Construction\<close>

text \<open>\<open>_make_initial_vehicles\<close>, for one direction: vehicle \<open>index\<close> of \<open>count\<close>.\<close>

definition initial_position :: "nat \<Rightarrow> int \<Rightarrow> nat \<Rightarrow> nat \<Rightarrow> real" where
  "initial_position n direction count index =
     (let lane_pos = index mod n;
          order = index div n;
          in_lane = length (filter (\<lambda>j. j mod n = lane_pos) [0..<count]);
          position = (real order + real (lane_pos + 1) / real (n + 1)) * ROAD_METERS / real in_lane
      in if direction < 0 then ROAD_METERS - position else position)"

fun make_vehicles :: "nat \<Rightarrow> real \<Rightarrow> int \<Rightarrow> nat \<Rightarrow> int \<Rightarrow> nat list \<Rightarrow> rng \<Rightarrow> vehicle list \<times> rng" where
  "make_vehicles n speed direction count id_offset [] g = ([], g)"
| "make_vehicles n speed direction count id_offset (index # rest) g =
     (let (kind, g) = random_kind g;
          (pace, g) = speed_for speed kind g;
          v = new_vehicle (int index * 2 + id_offset) (lanes_for n direction ! (index mod n)) direction
                (initial_position n direction count index) pace kind;
          (vs, g) = make_vehicles n speed direction count id_offset rest g
      in (v # vs, g))"

definition make_initial_vehicles :: "nat \<Rightarrow> real \<Rightarrow> nat \<Rightarrow> rng \<Rightarrow> vehicle list \<times> rng" where
  "make_initial_vehicles n speed count g =
     (let (right, g) = make_vehicles n speed 1 ((count + 1) div 2) 0 [0..<(count + 1) div 2] g;
          (left, g) = make_vehicles n speed (-1) (count div 2) 1 [0..<count div 2] g
      in (right @ left, g))"

definition enter_all :: "'b board_ops \<Rightarrow> 'b controller \<Rightarrow> 'b controller" where
  "enter_all B s = fold (\<lambda>i s. request_open B i (board_for_position (v_position (the_vehicle i s))) Entry s)
     [0..<length (ct_vehicles s)] s"

text \<open>The attributes \<open>__init__\<close> sets before the vehicles ask for their first sessions.\<close>

definition blank_controller ::
    "'b worker \<Rightarrow> 'b worker \<Rightarrow> bool \<Rightarrow> (nat \<Rightarrow> board_id list) \<Rightarrow> clock \<Rightarrow> rng \<Rightarrow> nat \<Rightarrow> real \<Rightarrow> nat \<Rightarrow> real \<Rightarrow>
     vehicle list \<Rightarrow> 'b controller" where
  "blank_controller board_a board_b mock sched clk0 g vehicle_count speed_mps lanes_per_direction ps_us vs =
     \<lparr>ct_workers = (\<lambda>b. case b of BoardA \<Rightarrow> board_a | BoardB \<Rightarrow> board_b), ct_mock = mock,
      ct_sched = sched, ct_yields = 0, ct_clk = clk0, ct_ticks = 0, ct_rng = g, ct_ps_ref = ps_us,
      ct_kem_history = [], ct_sw_history = [],
      ct_next_swkem = (\<lambda>b. case b of BoardA \<Rightarrow> 0 | BoardB \<Rightarrow> 1),
      ct_vehicle_count = vehicle_count, ct_speed = speed_mps, ct_lanes = lanes_per_direction,
      ct_running = True, ct_sim_time = 0, ct_handovers = 0, ct_attempts = 0, ct_blocked = 0,
      ct_selected = None, ct_events = [], ct_next_command = 1, ct_next_vehicle = int vehicle_count,
      ct_pending = [], ct_reserved = (\<lambda>_. {}), ct_vehicles = vs, ct_stuck = False\<rparr>"

definition new_controller ::
    "'b board_ops \<Rightarrow> 'b worker \<Rightarrow> 'b worker \<Rightarrow> bool \<Rightarrow> (nat \<Rightarrow> board_id list) \<Rightarrow> clock \<Rightarrow> draws \<Rightarrow>
     nat \<Rightarrow> real \<Rightarrow> nat \<Rightarrow> real \<Rightarrow> 'b controller res" where
  "new_controller B board_a board_b mock sched clk0 seed vehicle_count speed_mps lanes_per_direction ps_us =
     bindR (guardR (1 \<le> vehicle_count \<and> vehicle_count \<le> MAX_SESSIONS) (ValueError ''vehicle count must be 1..64'')) (\<lambda>_.
     bindR (guardR (1 \<le> lanes_per_direction \<and> lanes_per_direction \<le> MAX_LANES_PER_DIRECTION)
        (ValueError ''lanes per direction must be 1..3'')) (\<lambda>_.
     bindR (guardR (0 < ps_us) (ValueError ''PS ML-KEM baseline must be positive'')) (\<lambda>_.
     let (vs, g) = make_initial_vehicles lanes_per_direction speed_mps vehicle_count
                     \<lparr>rng_draws = seed, rng_used = 0\<rparr>
     in Inr (enter_all B (ct_log ''SYSTEM'' (if mock then ''Simulation ready'' else ''Boards connected'')
          (blank_controller board_a board_b mock sched clk0 g vehicle_count speed_mps lanes_per_direction
             ps_us vs))))))"

section \<open>Runs\<close>

text \<open>What can happen to a controller: a step of a worker thread outside the main thread's own methods,
  a frame of the main loop, readings of the clock while a frame is drawn, or an action of the user.\<close>

datatype sim_event = WorkerStep board_id | Frame real | Drawing nat | Attack | Toggle | Select "int option" | Shutdown

fun sim_step :: "'b board_ops \<Rightarrow> sim_event \<Rightarrow> 'b controller \<Rightarrow> 'b controller" where
  "sim_step B (WorkerStep b) s = run_worker B b s"
| "sim_step B (Frame dt) s = update B dt s"
| "sim_step B (Drawing n) s = ((\<lambda>s. snd (ct_time s)) ^^ n) s"
| "sim_step B Attack s = snd (attack_selected B s)"
| "sim_step B Toggle s = toggle_running s"
| "sim_step B (Select n) s = select_vehicle n s"
| "sim_step B Shutdown s = shutdown B s"

text \<open>The states reachable from a construction over two boards that satisfy \<open>P\<close>, for any schedule of
  the worker threads, clock, seed and parameters.\<close>

inductive reachable :: "'b board_ops \<Rightarrow> ('b \<Rightarrow> bool) \<Rightarrow> 'b controller \<Rightarrow> bool" for B P where
  construct: "P a \<Longrightarrow> P b \<Longrightarrow> new_controller B (new_worker BoardA a) (new_worker BoardB b) mock sched clk0 seed
      vehicle_count speed_mps lanes_per_direction ps_us = Inr s \<Longrightarrow> reachable B P s"
| happen: "reachable B P s \<Longrightarrow> reachable B P (sim_step B e s)"

end
