(* ===== verification/SimInvariant.thy ===== *)
theory SimInvariant
  imports Simulator
begin

text \<open>
  How invariants of the controller are proved: \<open>step_invariant\<close> collects what an invariant must survive
  (worker steps, log entries, changes of single vehicles, submissions, the elementary parts of the
  handlers) and derives that every method of the controller, the update step and any sequence of
  events preserve it.  The invariant is a family \<open>J b rs\<close>: it may speak about the results \<open>rs\<close> of board
  \<open>b\<close> that were polled and not yet handled.
\<close>

section \<open>Frames\<close>

text \<open>States that agree on everything the invariants speak about.\<close>

definition quiet :: "'b controller \<Rightarrow> 'b controller \<Rightarrow> bool" where
  "quiet s s' \<longleftrightarrow> ct_workers s' = ct_workers s \<and> ct_pending s' = ct_pending s \<and>
     ct_reserved s' = ct_reserved s \<and> ct_vehicles s' = ct_vehicles s \<and> ct_next_command s' = ct_next_command s \<and>
     ct_next_vehicle s' = ct_next_vehicle s \<and> ct_stuck s' = ct_stuck s \<and> ct_attempts s' = ct_attempts s \<and>
     ct_blocked s' = ct_blocked s \<and> ct_lanes s' = ct_lanes s \<and> ct_events s' = ct_events s \<and>
     ct_kem_history s' = ct_kem_history s \<and> ct_sw_history s' = ct_sw_history s"

lemma quiet_refl [simp]: "quiet s s"
  by (simp add: quiet_def)

lemma quiet_updates [simp]:
  "quiet s (s\<lparr>ct_ticks := n\<rparr>)" "quiet s (s\<lparr>ct_yields := n\<rparr>)" "quiet s (s\<lparr>ct_rng := g\<rparr>)"
  "quiet s (s\<lparr>ct_next_swkem := f\<rparr>)" "quiet s (s\<lparr>ct_running := r\<rparr>)" "quiet s (s\<lparr>ct_sim_time := t\<rparr>)"
  "quiet s (s\<lparr>ct_handovers := h\<rparr>)" "quiet s (s\<lparr>ct_selected := x\<rparr>)"
  by (simp_all add: quiet_def)

lemma quiet_time: "ct_time s = (t, s') \<Longrightarrow> quiet s s'"
  by (auto simp: ct_time_def)

text \<open>The update of one vehicle that keeps its identity.\<close>

definition keeps_id :: "(vehicle \<Rightarrow> vehicle) \<Rightarrow> bool" where
  "keeps_id f \<longleftrightarrow> (\<forall>v. v_id (f v) = v_id v)"

lemma keeps_idI [intro]: "(\<And>v. v_id (f v) = v_id v) \<Longrightarrow> keeps_id f"
  by (simp add: keeps_id_def)

lemma find_vehicle_less: "find_vehicle n vs = Some i \<Longrightarrow> i < length vs \<and> v_id (vs ! i) = n"
  by (induction n vs arbitrary: i rule: find_vehicle.induct) (auto split: if_splits)

lemma set_vehicle_reserved:
  "set_vehicle i f (s\<lparr>ct_reserved := R\<rparr>) = (set_vehicle i f s)\<lparr>ct_reserved := R\<rparr>"
  by (cases s) (simp add: set_vehicle_def)

lemma set_vehicle_sel [simp]:
  "ct_workers (set_vehicle i f s) = ct_workers s" "ct_reserved (set_vehicle i f s) = ct_reserved s"
  "ct_pending (set_vehicle i f s) = ct_pending s" "ct_next_command (set_vehicle i f s) = ct_next_command s"
  "ct_attempts (set_vehicle i f s) = ct_attempts s" "ct_blocked (set_vehicle i f s) = ct_blocked s"
  "ct_events (set_vehicle i f s) = ct_events s" "ct_next_vehicle (set_vehicle i f s) = ct_next_vehicle s"
  "ct_stuck (set_vehicle i f s) = ct_stuck s" "ct_kem_history (set_vehicle i f s) = ct_kem_history s"
  "ct_sw_history (set_vehicle i f s) = ct_sw_history s" "ct_lanes (set_vehicle i f s) = ct_lanes s"
  by (simp_all add: set_vehicle_def)

lemma yield_sel [simp]:
  "ct_pending (yield B s) = ct_pending s" "ct_reserved (yield B s) = ct_reserved s"
  "ct_next_command (yield B s) = ct_next_command s" "ct_vehicles (yield B s) = ct_vehicles s"
  "ct_next_vehicle (yield B s) = ct_next_vehicle s" "ct_stuck (yield B s) = ct_stuck s"
  "ct_attempts (yield B s) = ct_attempts s" "ct_blocked (yield B s) = ct_blocked s"
  "ct_lanes (yield B s) = ct_lanes s" "ct_events (yield B s) = ct_events s"
  "ct_kem_history (yield B s) = ct_kem_history s" "ct_sw_history (yield B s) = ct_sw_history s"
proof -
  define run where "run cs t = foldl (\<lambda>t b. run_worker B b t) t cs" for cs and t :: "'a controller"
  have "ct_pending (run cs t) = ct_pending t \<and> ct_reserved (run cs t) = ct_reserved t \<and>
      ct_next_command (run cs t) = ct_next_command t \<and> ct_vehicles (run cs t) = ct_vehicles t \<and>
      ct_next_vehicle (run cs t) = ct_next_vehicle t \<and> ct_stuck (run cs t) = ct_stuck t \<and>
      ct_attempts (run cs t) = ct_attempts t \<and> ct_blocked (run cs t) = ct_blocked t \<and>
      ct_lanes (run cs t) = ct_lanes t \<and> ct_events (run cs t) = ct_events t \<and>
      ct_kem_history (run cs t) = ct_kem_history t \<and> ct_sw_history (run cs t) = ct_sw_history t" for cs t
    unfolding run_def by (induction cs arbitrary: t) (simp_all add: run_worker_def)
  then show "ct_pending (yield B s) = ct_pending s" "ct_reserved (yield B s) = ct_reserved s"
    "ct_next_command (yield B s) = ct_next_command s" "ct_vehicles (yield B s) = ct_vehicles s"
    "ct_next_vehicle (yield B s) = ct_next_vehicle s" "ct_stuck (yield B s) = ct_stuck s"
    "ct_attempts (yield B s) = ct_attempts s" "ct_blocked (yield B s) = ct_blocked s"
    "ct_lanes (yield B s) = ct_lanes s" "ct_events (yield B s) = ct_events s"
    "ct_kem_history (yield B s) = ct_kem_history s" "ct_sw_history (yield B s) = ct_sw_history s"
    by (simp_all add: yield_def run_def)
qed

lemma submit_command_vehicles:
  "ct_vehicles (submit_command B board kind vid sl p t ctx s) = ct_vehicles s"
  by (simp add: submit_command_def Let_def)

lemma make_vehicles_length: "make_vehicles n v d c off js g = (vs, g') \<Longrightarrow> length vs = length js"
  by (induction n v d c off js g arbitrary: vs g' rule: make_vehicles.induct)
    (auto simp: Let_def split: prod.splits)

lemma initial_length:
  assumes "make_initial_vehicles l v n g = (vs, g')"
  shows "length vs = n"
proof -
  obtain right g1 left g2 where r: "make_vehicles l v 1 ((n + 1) div 2) 0 [0..<(n + 1) div 2] g = (right, g1)"
    and l: "make_vehicles l v (- 1) (n div 2) 1 [0..<n div 2] g1 = (left, g2)" and "vs = right @ left"
    using assms by (auto simp: make_initial_vehicles_def Let_def split: prod.splits)
  then have "length vs = (n + 1) div 2 + n div 2"
    using make_vehicles_length [OF r] make_vehicles_length [OF l] by simp
  then show ?thesis by presburger
qed

section \<open>The invariant scheme\<close>

locale step_invariant =
  fixes B :: "'b board_ops"
    and J :: "nat \<Rightarrow> board_id \<Rightarrow> board_result list \<Rightarrow> 'b controller \<Rightarrow> bool"
  assumes sized: "J N b rs s \<Longrightarrow> length (ct_vehicles s) = N"
    and worker_runs: "J N b rs s \<Longrightarrow> J N b rs (run_worker B c s)"
    and quiet_change: "J N b rs s \<Longrightarrow> quiet s s' \<Longrightarrow> J N b rs s'"
    and logged: "J N b rs s \<Longrightarrow> J N b rs (ct_log k m s)"
    and setup_recorded: "J N b rs s \<Longrightarrow> J N b rs (s\<lparr>ct_kem_history := deque_append KEM_HISTORY (ct_kem_history s) h\<rparr>)"
    and sw_recorded: "J N b rs s \<Longrightarrow> J N b rs (s\<lparr>ct_sw_history := deque_append KEM_HISTORY (ct_sw_history s) q\<rparr>)"
    and vehicle_changed: "J N b rs s \<Longrightarrow> keeps_id f \<Longrightarrow> J N b rs (set_vehicle i f s)"
    and vehicle_reborn: "J N b rs s \<Longrightarrow> i < N \<Longrightarrow> fresh_id (used_ids i (ct_vehicles s)) (ct_next_vehicle s) = Some n \<Longrightarrow>
      J N b rs (set_vehicle i (\<lambda>v. v\<lparr>v_id := n\<rparr>) (s\<lparr>ct_next_vehicle := (n + 1) mod int MAX_SESSIONS\<rparr>))"
    and never_reborn: "J N b rs s \<Longrightarrow> i < N \<Longrightarrow> fresh_id (used_ids i (ct_vehicles s)) (ct_next_vehicle s) = None \<Longrightarrow>
      J N b rs (s\<lparr>ct_stuck := True\<rparr>)"
    and opens: "J N b rs s \<Longrightarrow> slot_ok slot \<Longrightarrow> slot \<notin> ct_reserved s target \<Longrightarrow>
      slots (wk_stats (ct_workers s target)) ! nat slot = None \<Longrightarrow>
      J N b rs (submit_command B target KOpen vid (Some slot) p t (open_context reason target)
        (s\<lparr>ct_reserved := (ct_reserved s)(target := insert slot (ct_reserved s target))\<rparr>))"
    and submits: "J N b rs s \<Longrightarrow> kind \<noteq> KOpen \<Longrightarrow> \<not> ctx_attack ctx \<Longrightarrow>
      (kind = KData \<longrightarrow> \<not> has_pending_data vid s) \<Longrightarrow>
      J N b rs (submit_command B board kind vid sl p t ctx s)"
    and attacks: "J N b rs s \<Longrightarrow> \<not> has_pending_data vid s \<Longrightarrow>
      J N b rs (submit_command B board KData vid sl p t (attack_context True)
        (s\<lparr>ct_attempts := ct_attempts s + 1\<rparr>))"
    and polls: "J N b [] s \<Longrightarrow> poll (ct_workers s c) = (rs, w) \<Longrightarrow> J N c rs (s\<lparr>ct_workers := (ct_workers s)(c := w)\<rparr>)"
    and stops: "J N b rs s \<Longrightarrow> J N b rs (s\<lparr>ct_workers := (ct_workers s)(c := stop (ct_workers s c))\<rparr>)"
    and settles: "J N b (r # rs) s \<Longrightarrow> pop_pending (br_command_id r) (ct_pending s) = (Some (kind, vid, ctx), ps) \<Longrightarrow>
      J N b rs (settled kind r ps s)"
    and blocks: "J N b (r # rs) s \<Longrightarrow> pop_pending (br_command_id r) (ct_pending s) = (Some (kind, vid, ctx), ps) \<Longrightarrow>
      kind = KData \<Longrightarrow> ctx_attack ctx \<Longrightarrow> J N b rs ((settled kind r ps s)\<lparr>ct_blocked := ct_blocked s + 1\<rparr>)"
    and drops: "J N b (r # rs) s \<Longrightarrow> fst (pop_pending (br_command_id r) (ct_pending s)) = None \<Longrightarrow> J N b rs s"
    and closes: "J N b rs s \<Longrightarrow> J N b rs (s\<lparr>ct_workers := (ct_workers s)(c := close_board B (ct_workers s c))\<rparr>)"
begin

lemma yield_J: "J N b rs s \<Longrightarrow> J N b rs (yield B s)"
proof -
  have "J N b rs t \<Longrightarrow> J N b rs (foldl (\<lambda>t b. run_worker B b t) t cs)" for t cs
    by (induction cs arbitrary: t) (auto intro: worker_runs)
  then show "J N b rs s \<Longrightarrow> J N b rs (yield B s)"
    unfolding yield_def using quiet_change quiet_updates(2) by blast
qed

lemma if_J: "J N b rs s \<Longrightarrow> J N b rs t \<Longrightarrow> J N b rs (if c then s else t)"
  by simp

lemma time_J: "J N b rs s \<Longrightarrow> ct_time s = (t, s') \<Longrightarrow> J N b rs s'"
  by (rule quiet_change [OF _ quiet_time])

lemma scan_J:
  "J N b rs s \<Longrightarrow> scan_slots B board ks s = (x, s') \<Longrightarrow> J N b rs s' \<and>
    (\<forall>k. x = Some k \<longrightarrow> k \<in> int ` set ks \<and> k \<notin> ct_reserved s' board \<and>
       slots (wk_stats (ct_workers s' board)) ! nat k = None)"
proof (induction ks arbitrary: s)
  case (Cons k ks)
  then show ?case using Cons.IH [OF yield_J [OF Cons.prems(1)]] yield_J [OF Cons.prems(1)]
    by (fastforce simp: Let_def split: if_splits)
qed simp

lemma free_slot_J:
  assumes "J N b rs s" "free_slot B board s = (x, s')"
  shows "J N b rs s'" and "x = Some k \<Longrightarrow> slot_ok k \<and> k \<notin> ct_reserved s' board \<and>
    slots (wk_stats (ct_workers s' board)) ! nat k = None"
  using scan_J [OF assms(1) assms(2) [unfolded free_slot_def]] by (auto simp: slot_ok_def)

lemma set_J: "J N b rs s \<Longrightarrow> (\<And>v. v_id (f v) = v_id v) \<Longrightarrow> J N b rs (set_vehicle i f s)"
  by (rule vehicle_changed) (auto simp: keeps_id_def)

lemma start_open_J:
  assumes "J N b rs s" "slot_ok slot" "slot \<notin> ct_reserved s target"
    and "slots (wk_stats (ct_workers s target)) ! nat slot = None"
  shows "J N b rs (start_open B i target reason slot s)"
proof -
  define f where "f = (\<lambda>v :: vehicle. v\<lparr>v_target := Some target, v_old_board := v_board v, v_old_slot := v_slot v,
    v_state := (if reason = HandoverNew then Handover else Connecting)\<rparr>)"
  have "J N b rs (set_vehicle i f s)" by (rule set_J [OF assms(1)]) (simp add: f_def)
  from opens [OF this assms(2), of target] assms(3,4)
  have o: "J N b rs (submit_command B target KOpen vid (Some slot) p t (open_context reason target)
      (set_vehicle i f (s\<lparr>ct_reserved := (ct_reserved s)(target := insert slot (ct_reserved s target))\<rparr>)))" for vid p t
    by (simp add: set_vehicle_reserved)
  show ?thesis
    unfolding start_open_def Let_def f_def [symmetric] by (intro if_J logged o)
qed

lemma request_open_J: "J N b rs s \<Longrightarrow> J N b rs (request_open B i target reason s)"
proof -
  assume j: "J N b rs s"
  obtain x s' where f: "free_slot B target s = (x, s')" by fastforce
  note s' = free_slot_J [OF j f]
  show ?thesis
  proof (cases x)
    case None
    obtain t s2 where t: "ct_time s' = (t, s2)" by fastforce
    have "J N b rs (no_free_slot i target s')"
      by (simp add: no_free_slot_def t logged set_J time_J [OF s'(1) t])
    then show ?thesis using f None by (simp add: request_open_def)
  next
    case (Some slot)
    then show ?thesis using f s'(2) start_open_J [OF s'(1)] by (simp add: request_open_def)
  qed
qed

lemma reset_J: "J N b rs s \<Longrightarrow> J N b rs (reset_vehicle i s)"
proof -
  assume j: "J N b rs s"
  have lane: "J N b rs t \<Longrightarrow> J N b rs (case x of None \<Rightarrow> t | Some l \<Rightarrow> set_vehicle i (\<lambda>v. v\<lparr>v_lane := l\<rparr>) t)" for x t
    by (cases x) (auto intro: set_J)
  have rng: "J N b rs t \<Longrightarrow> J N b rs (t\<lparr>ct_rng := g\<rparr>)" and sel: "J N b rs t \<Longrightarrow> J N b rs (t\<lparr>ct_selected := None\<rparr>)" for t g
    by (auto elim: quiet_change)
  show ?thesis
    unfolding reset_vehicle_def Let_def
    by (simp split: prod.split) (intro allI impI conjI sel set_J rng lane j; simp)
qed

lemma respawn_J:
  assumes "J N b rs s" "i < N"
  shows "J N b rs (respawn B i s)"
proof (cases "fresh_id (used_ids i (ct_vehicles s)) (ct_next_vehicle s)")
  case None
  then show ?thesis using never_reborn [OF assms] by (simp add: respawn_def)
next
  case (Some n)
  from vehicle_reborn [OF assms Some] show ?thesis
    by (simp add: respawn_def Some Let_def request_open_J reset_J)
qed

lemma request_exit_J: "J N b rs s \<Longrightarrow> i < N \<Longrightarrow> J N b rs (request_exit B i s)"
  by (auto simp: request_exit_def Let_def leave_context_def no_context_def
      intro!: respawn_J submits set_J split: option.split)

lemma attack_context_sel [simp]: "ctx_attack (attack_context a) = a"
  by (simp add: attack_context_def)

lemma send_telemetry_J: "J N b rs s \<Longrightarrow> J N b rs (send_telemetry B i t0 s)"
  by (auto simp: send_telemetry_def Let_def intro!: set_J submits split: option.split)

lemma after_move_J: "J N b rs s \<Longrightarrow> i < N \<Longrightarrow> J N b rs (after_move B i t0 s)"
  by (auto simp: after_move_def Let_def intro!: request_exit_J set_J send_telemetry_J)

lemma move_vehicle_J: "J N b rs s \<Longrightarrow> i < N \<Longrightarrow> J N b rs (move_vehicle B i dt t0 s)"
  unfolding move_vehicle_def Let_def by (auto intro!: request_open_J after_move_J set_J)

lemma step_vehicle_J: "J N b rs s \<Longrightarrow> i < N \<Longrightarrow> J N b rs (step_vehicle B dt t0 i s)"
  unfolding step_vehicle_def Let_def by (auto intro!: request_open_J move_vehicle_J set_J)

lemma handle_swkem_J: "J N b rs s \<Longrightarrow> J N b rs (handle_swkem r s)"
  unfolding handle_swkem_def Let_def
  by (auto intro!: logged sw_recorded elim: time_J split: prod.split)

lemma record_setup_J: "J N b rs s \<Longrightarrow> J N b rs (record_setup r reason s)"
  unfolding record_setup_def by (auto intro!: setup_recorded elim: time_J split: prod.split option.split)

lemma handle_open_J:
  assumes "J N b rs s"
  shows "J N b rs (handle_open B i r ctx s)"
proof -
  obtain t s1 where t: "ct_time s = (t, s1)" by fastforce
  note s1 = time_J [OF assms t]
  have up: "J N b rs u \<Longrightarrow> J N b rs (u\<lparr>ct_handovers := h\<rparr>)" for u h by (auto elim: quiet_change)
  have leave: "J N b rs u \<Longrightarrow> J N b rs (case x of None \<Rightarrow> u | Some c \<Rightarrow> (case y of None \<Rightarrow> u
      | Some n \<Rightarrow> submit_command B c KLeave vid (Some n) [] False (leave_context HandoverOld) u))" for x y vid u
    by (auto intro!: submits simp: leave_context_def no_context_def split: option.split)
  show ?thesis
    unfolding handle_open_def Let_def t prod.case
    by (simp, intro conjI impI; intro set_J logged record_setup_J up leave s1; simp)
qed

lemma handle_leave_J: "J N b rs s \<Longrightarrow> i < N \<Longrightarrow> J N b rs (handle_leave B i r ctx s)"
  unfolding handle_leave_def Let_def by (auto intro!: respawn_J logged)

lemma open_failed_J:
  assumes "J N b rs s"
  shows "J N b rs (open_failed i r ctx s)"
  unfolding open_failed_def Let_def
  by (auto intro!: set_J assms elim!: time_J [rotated] split: prod.split)

lemma handle_error_J: "J N b rs s \<Longrightarrow> i < N \<Longrightarrow> J N b rs (handle_error B i r ctx s)"
  unfolding handle_error_def Let_def by (auto intro!: respawn_J logged open_failed_J)

lemma handle_result_J:
  assumes "J N b (r # rs) s"
  shows "J N b rs (handle_result B r s)"
proof -
  obtain x ps where p: "pop_pending (br_command_id r) (ct_pending s) = (x, ps)" by fastforce
  show ?thesis
  proof (cases x)
    case None
    then show ?thesis using p drops [OF assms] by (simp add: handle_result_def)
  next
    case (Some y)
    obtain kind vid ctx where y: "y = (kind, vid, ctx)" by (metis surj_pair)
    note j = settles [OF assms p [unfolded Some y]]
    show ?thesis
    proof (cases "kind = KSwkem")
      case True
      have "settled kind r ps s = s\<lparr>ct_pending := ps\<rparr>" using True by (simp add: settled_def Let_def split: option.split)
      then show ?thesis using p Some y True j handle_swkem_J by (simp add: handle_result_def)
    next
      case False
      let ?t = "settled kind r ps s"
      have data: "J N b rs (handle_data i r ctx ?t)" if "kind = KData" for i
      proof (cases "ctx_attack ctx \<and> br_blocked r")
        case True
        have "ct_blocked ?t = ct_blocked s" by (simp add: settled_def Let_def split: option.split)
        then show ?thesis
          using True blocks [OF assms p [unfolded Some y] that] by (simp add: handle_data_def logged)
      qed (auto simp: handle_data_def intro: logged j)
      have "J N b rs (dispatch B kind i r ctx ?t)" if i: "i < N" for i
      proof -
        define t where "t = settled kind r ps s"
        have "J N b rs t" "kind = KData \<Longrightarrow> J N b rs (handle_data i r ctx t)" using j data by (simp_all add: t_def)
        then show ?thesis
          unfolding dispatch_def t_def [symmetric]
          using i by (auto intro: handle_error_J handle_open_J handle_leave_J)
      qed
      moreover have "i < N" if "vehicle_by_id vid s = Some i" for i
        using find_vehicle_less [of vid "ct_vehicles s" i] that sized [OF assms] by (simp add: vehicle_by_id_def)
      ultimately show ?thesis using p Some y False j by (simp add: handle_result_def split: option.split)
    qed
  qed
qed

lemma handle_results_J: "J N b rs s \<Longrightarrow> J N b [] (fold (handle_result B) rs s)"
  by (induction rs arbitrary: s) (auto dest: handle_result_J)

lemma collect_from_J: "J N b [] s \<Longrightarrow> J N c [] (collect_from B c s)"
proof -
  assume "J N b [] s"
  then have "J N b [] (yield B s)" by (rule yield_J)
  then show ?thesis
    by (auto simp: collect_from_def poll_worker_def Let_def intro: handle_results_J polls split: prod.split)
qed

lemma collect_J: "J N b [] s \<Longrightarrow> J N BoardB [] (collect_results B s)"
  by (auto simp: collect_results_def all_boards_def intro: collect_from_J)

lemma schedule_on_J: "J N b rs s \<Longrightarrow> J N b rs (schedule_swkem_on B t0 c s)"
proof -
  assume "J N b rs s"
  then have y: "J N b rs (yield B s)" by (rule yield_J)
  have n: "J N b rs u \<Longrightarrow> J N b rs (u\<lparr>ct_next_swkem := f\<rparr>)" for u f by (auto elim: quiet_change)
  show ?thesis
    unfolding schedule_swkem_on_def Let_def
    by (auto intro!: y n submits simp: no_context_def)
qed

lemma schedule_J: "J N b rs s \<Longrightarrow> J N b rs (schedule_swkem B t0 s)"
  by (auto simp: schedule_swkem_def all_boards_def intro: schedule_on_J)

lemma steps_J: "J N b rs s \<Longrightarrow> \<forall>i \<in> set js. i < N \<Longrightarrow> J N b rs (fold (step_vehicle B dt t0) js s)"
  by (induction js arbitrary: s) (auto intro: step_vehicle_J)

lemma after_collect_J:
  assumes c: "J N b [] s" and u: "collect_results B t = s"
  shows "J N b [] (update B dt t)"
proof -
  have st: "J N b [] (s\<lparr>ct_sim_time := x\<rparr>)" for x by (rule quiet_change [OF c]) simp
  obtain t0 s1 where t: "ct_time (s\<lparr>ct_sim_time := ct_sim_time s + min dt (1 / 10)\<rparr>) = (t0, s1)" by fastforce
  have j: "J N b [] (schedule_swkem B t0 s1)" by (rule schedule_J [OF time_J [OF st t]])
  then have "\<forall>i \<in> set (step_order (ct_vehicles (schedule_swkem B t0 s1))). i < N"
    using sized [OF j] by (simp add: step_order_def)
  then show ?thesis
    unfolding update_def Let_def using c u steps_J [OF j] t by simp
qed

lemma update_J: "J N b [] s \<Longrightarrow> J N BoardB [] (update B dt s)"
  by (rule after_collect_J [OF collect_J refl])

lemma attack_J: "J N b rs s \<Longrightarrow> J N b rs (snd (attack_selected B s))"
proof -
  assume j: "J N b rs s"
  have "J N b rs (launch_attack B i board slot s)" if d: "\<not> has_pending_data (v_id (the_vehicle i s)) s" for i board slot
  proof -
    define f where "f t = (\<lambda>v :: vehicle. v\<lparr>v_attacked := t + 3 / 2\<rparr>)" for t :: real
    obtain t s1 where t: "ct_time (s\<lparr>ct_attempts := ct_attempts s + 1\<rparr>) = (t, s1)" by fastforce
    let ?u = "set_vehicle i (f t) (s\<lparr>ct_ticks := Suc (ct_ticks s)\<rparr>)"
    have q: "J N b rs (s\<lparr>ct_ticks := Suc (ct_ticks s)\<rparr>)" by (rule quiet_change [OF j]) simp
    have u: "J N b rs ?u" by (rule set_J [OF q]) (simp add: f_def)
    have eq: "set_vehicle i (f t) s1 = ?u\<lparr>ct_attempts := ct_attempts ?u + 1\<rparr>"
      using t by (auto simp: ct_time_def set_vehicle_def)
    have vid: "v_id (the_vehicle i ?u) = v_id (the_vehicle i s)"
      by (cases "i < length (ct_vehicles s)") (auto simp: the_vehicle_def set_vehicle_def f_def list_update_beyond)
    have "\<not> has_pending_data (v_id (the_vehicle i ?u)) ?u"
      using d unfolding vid by (simp add: has_pending_data_def set_vehicle_def)
    then have "J N b rs (submit_command B board KData (v_id (the_vehicle i ?u)) (Some slot) p True
        (attack_context True) (?u\<lparr>ct_attempts := ct_attempts ?u + 1\<rparr>))" for p
      by (rule attacks [OF u])
    moreover have "the_vehicle i (?u\<lparr>ct_attempts := ct_attempts ?u + 1\<rparr>) = the_vehicle i ?u"
      by (simp add: the_vehicle_def)
    ultimately show ?thesis
      unfolding launch_attack_def Let_def t prod.case f_def [symmetric] eq by (simp add: logged)
  qed
  then show ?thesis
    unfolding attack_selected_def Let_def by (auto intro: logged j split: option.split)
qed

lemma toggle_J: "J N b rs s \<Longrightarrow> J N b rs (toggle_running s)"
  unfolding toggle_running_def Let_def by (rule logged, erule quiet_change) simp

lemma select_J: "J N b rs s \<Longrightarrow> J N b rs (select_vehicle n s)"
  unfolding select_vehicle_def by (erule quiet_change) simp

lemma shutdown_J: "J N b rs s \<Longrightarrow> J N b rs (shutdown B s)"
proof -
  define f where "f = (\<lambda>b s. let s = yield B s; s = s\<lparr>ct_workers := (ct_workers s)(b := stop (ct_workers s b))\<rparr>; s = yield B s
     in s\<lparr>ct_workers := (ct_workers s)(b := close_board B (ct_workers s b))\<rparr>)"
  have "J N b rs t \<Longrightarrow> J N b rs (f c t)" for c t unfolding f_def Let_def by (intro closes yield_J stops)
  moreover have "shutdown B s = fold f all_boards s" unfolding shutdown_def f_def ..
  ultimately show "J N b rs s \<Longrightarrow> J N b rs (shutdown B s)" by (simp add: all_boards_def)
qed

lemma enter_all_J: "J N b rs s \<Longrightarrow> J N b rs (enter_all B s)"
proof -
  have "J N b rs t \<Longrightarrow> J N b rs (fold (\<lambda>i s. request_open B i (board_for_position (v_position (the_vehicle i s))) Entry s) js t)" for js t
    by (induction js arbitrary: t) (auto intro: request_open_J)
  then show "J N b rs s \<Longrightarrow> J N b rs (enter_all B s)" by (simp add: enter_all_def)
qed

lemma drawing_J: "J N b rs s \<Longrightarrow> J N b rs (((\<lambda>s. snd (ct_time s)) ^^ n) s)"
  by (induction n) (auto intro: time_J surjective_pairing)

lemma sim_step_J: "J N BoardB [] s \<Longrightarrow> J N BoardB [] (sim_step B e s)"
  by (cases e) (auto intro: worker_runs update_J attack_J toggle_J select_J shutdown_J drawing_J)

lemma reachable_J:
  assumes "reachable B P s"
    and "\<And>a b mock sched clk0 g n v l ps vs seed. P a \<Longrightarrow> P b \<Longrightarrow> 1 \<le> n \<Longrightarrow> n \<le> MAX_SESSIONS \<Longrightarrow> 1 \<le> l \<Longrightarrow>
      make_initial_vehicles l v n \<lparr>rng_draws = seed, rng_used = 0\<rparr> = (vs, g) \<Longrightarrow>
      J n BoardB [] (blank_controller (new_worker BoardA a) (new_worker BoardB b) mock sched clk0 g n v l ps vs)"
  shows "\<exists>N. J N BoardB [] s"
  using assms(1)
proof (induction rule: reachable.induct)
  case (construct a b mock sched clk0 seed n v l ps s)
  obtain vs g where v: "make_initial_vehicles l v n \<lparr>rng_draws = seed, rng_used = 0\<rparr> = (vs, g)" by fastforce
  then show ?case
    using construct assms(2) [OF construct(1,2) _ _ _ v]
    by (auto simp: new_controller_def intro!: exI [of _ n] enter_all_J logged)
next
  case (happen s e)
  then show ?case using sim_step_J by blast
qed

end

text \<open>There are such states.\<close>

lemma reachable_exists:
  assumes "P a"
  shows "\<exists>s. reachable B P s"
proof -
  obtain vs g where "make_initial_vehicles 1 40 2 \<lparr>rng_draws = zero_draws, rng_used = 0\<rparr> = (vs, g)"
    by fastforce
  then have "\<exists>s. new_controller B (new_worker BoardA a) (new_worker BoardB a) True (\<lambda>_. [BoardA, BoardB])
      unit_clock zero_draws 2 40 1 1258 = Inr s"
    by (simp add: new_controller_def MAX_SESSIONS_def MAX_LANES_PER_DIRECTION_def)
  then obtain s where "new_controller B (new_worker BoardA a) (new_worker BoardB a) True (\<lambda>_. [BoardA, BoardB])
      unit_clock zero_draws 2 40 1 1258 = Inr s" by blast
  from reachable.construct [where P = P, OF assms assms this] show ?thesis by blast
qed

end
