(* ===== verification/SimBooking.thy ===== *)
theory SimBooking
  imports SimInvariant
begin

text \<open>
  No double booking: at any time, the slots of all opens under way on a board (queued, being executed,
  or answered and not yet handled) are pairwise different and reserved, and the slots of those not yet
  executed are free on the board.  So the controller never asks a board to open a slot in use, however
  the threads interleave.
\<close>

section \<open>Opens under way\<close>

definition open_cmds :: "board_command list \<Rightarrow> int list" where
  "open_cmds cs = List.map_filter (\<lambda>c. if bc_kind c = KOpen then bc_slot c else None) cs"

definition open_results :: "board_result list \<Rightarrow> int list" where
  "open_results rs = List.map_filter (\<lambda>r. if br_kind r = KOpen then br_slot r else None) rs"

lemma open_cmds_simps [simp]:
  "open_cmds [] = []" "open_cmds (cs @ ds) = open_cmds cs @ open_cmds ds"
  by (simp_all add: open_cmds_def map_filter_simps)

lemma open_cmds_Cons:
  "open_cmds (c # cs) = (if bc_kind c = KOpen then (case bc_slot c of None \<Rightarrow> [] | Some k \<Rightarrow> [k]) else []) @ open_cmds cs"
  by (simp add: open_cmds_def map_filter_simps split: option.split)

lemma open_results_simps [simp]:
  "open_results [] = []" "open_results (rs @ qs) = open_results rs @ open_results qs"
  by (simp_all add: open_results_def map_filter_simps)

lemma open_results_Cons:
  "open_results (r # rs) = (if br_kind r = KOpen then (case br_slot r of None \<Rightarrow> [] | Some k \<Rightarrow> [k]) else []) @ open_results rs"
  by (simp add: open_results_def map_filter_simps split: option.split)

definition claims :: "'b worker \<Rightarrow> board_result list \<Rightarrow> int list" where
  "claims w rs = open_cmds (unanswered w) @ open_results (answered (w, rs))"

lemma open_cmds_member: "k \<in> set (open_cmds cs) \<longleftrightarrow> (\<exists>c \<in> set cs. bc_kind c = KOpen \<and> bc_slot c = Some k)"
proof (induction cs)
  case (Cons c cs)
  then show ?case by (cases "bc_kind c = KOpen"; cases "bc_slot c") (auto simp: open_cmds_Cons)
qed simp

lemma open_cmds_single: "set (open_cmds [c]) = {k. bc_kind c = KOpen \<and> bc_slot c = Some k}"
  by (auto simp: open_cmds_member)

lemma pop_pending_Some:
  "pop_pending n ps = (Some x, qs) \<Longrightarrow> (n, x) \<in> set ps \<and> set qs \<subseteq> set ps"
  by (induction n ps arbitrary: qs rule: pop_pending.induct) (auto split: if_splits prod.splits)

section \<open>The pending table\<close>

text \<open>Results of board \<open>b\<close> that were polled and not yet handled; slots chosen and not yet queued.\<close>

definition only :: "board_id \<Rightarrow> 'a list \<Rightarrow> board_id \<Rightarrow> 'a list" where
  "only b xs c = (if c = b then xs else [])"

lemma only_simps [simp]: "only b [] c = []" "only b xs b = xs" "c \<noteq> b \<Longrightarrow> only b xs c = []"
  by (simp_all add: only_def)

text \<open>A command or result of board \<open>c\<close>, by its identity, fits the pending table: its number was given
  out, and the table has it under the same kind.\<close>

definition ident_ok :: "pending list \<Rightarrow> int \<Rightarrow> board_id \<Rightarrow> int \<times> board_id \<times> command_kind \<times> int \<Rightarrow> bool" where
  "ident_ok ps next_id c q \<longleftrightarrow> fst q < next_id \<and> fst (snd q) = c \<and>
     (\<forall>p \<in> set ps. fst p = fst q \<longrightarrow> fst (snd p) = fst (snd (snd q)))"

definition known :: "board_id \<Rightarrow> board_result list \<Rightarrow> 'b controller \<Rightarrow> bool" where
  "known b rs s \<longleftrightarrow> (\<forall>p \<in> set (ct_pending s). fst p < ct_next_command s) \<and>
     (\<forall>c. wk_name (ct_workers s c) = c \<and>
       Ball (set (idents (ct_workers s c, only b rs c))) (ident_ok (ct_pending s) (ct_next_command s) c))"

lemma ident_ok_mono:
  assumes "ident_ok ps m c q" "m \<le> m'" "\<forall>p \<in> set ps'. p \<in> set ps \<or> m \<le> fst p"
  shows "ident_ok ps' m' c q"
  using assms by (fastforce simp: ident_ok_def)

lemma known_mono:
  assumes "known b rs s" "ct_next_command s \<le> ct_next_command s'"
    and "\<forall>p \<in> set (ct_pending s'). p \<in> set (ct_pending s) \<or>
      (ct_next_command s \<le> fst p \<and> fst p < ct_next_command s')"
    and "\<And>c. wk_name (ct_workers s' c) = wk_name (ct_workers s c)"
    and "\<And>c. set (idents (ct_workers s' c, only b' rs' c)) \<subseteq> set (idents (ct_workers s c, only b rs c))"
  shows "known b' rs' s'"
proof -
  have "ident_ok (ct_pending s') (ct_next_command s') c q"
    if "q \<in> set (idents (ct_workers s' c, only b' rs' c))" for q c
  proof (rule ident_ok_mono)
    show "ident_ok (ct_pending s) (ct_next_command s) c q"
      using assms(1) assms(5) [of c] that by (auto simp: known_def)
  qed (use assms(2,3) in auto)
  moreover have "\<forall>p \<in> set (ct_pending s'). fst p < ct_next_command s'"
    using assms(1-3) by (fastforce simp: known_def)
  ultimately show ?thesis using assms(1,4) by (simp add: known_def)
qed

lemma known_put:
  assumes "known b rs s" "bc_command_id c < ct_next_command s"
    and "\<forall>p \<in> set (ct_pending s). fst p = bc_command_id c \<longrightarrow> fst (snd p) = bc_kind c"
  shows "known b rs (s\<lparr>ct_workers := (ct_workers s)(d := submit c (ct_workers s d))\<rparr>)"
proof -
  have "wk_name (submit c w) = wk_name w" for w :: "'a worker" by (simp add: submit_def)
  moreover have "ident_ok (ct_pending s) (ct_next_command s) d (cmd_ident d c)"
    using assms by (auto simp: ident_ok_def cmd_ident_def)
  ultimately show ?thesis using assms(1) by (simp add: known_def idents_submit)
qed

lemma known_kind:
  assumes "known b (r # rs) s" "(br_command_id r, kind, vid, ctx) \<in> set (ct_pending s)"
  shows "br_board r = b" "kind = br_kind r"
proof -
  have "res_ident r \<in> set (idents (ct_workers s b, only b (r # rs) b))"
    by (simp add: idents_def answered_def)
  then have "ident_ok (ct_pending s) (ct_next_command s) b (res_ident r)"
    using assms(1) unfolding known_def by blast
  then show "br_board r = b" "kind = br_kind r" using assms(2) by (auto simp: ident_ok_def res_ident_def)
qed

lemma known_pop:
  assumes "known b (r # rs) s" "set ps \<subseteq> set (ct_pending s)" "ct_workers s' = ct_workers s"
    and "ct_pending s' = ps" "ct_next_command s' = ct_next_command s"
  shows "known b rs s'"
proof (rule known_mono [OF assms(1)])
  show "set (idents (ct_workers s' c, only b rs c)) \<subseteq> set (idents (ct_workers s c, only b (r # rs) c))" for c
    unfolding assms(3) by (auto simp: idents_def answered_def only_def)
qed (use assms in auto)

section \<open>One step of a worker\<close>

context worked_board
begin

lemma run_command_live:
  assumes "desk_ok (b, st)" "run_command B name c (b, st) = (res, (b', st'))"
  shows "live b' \<subseteq> live b \<union> {k. bc_kind c = KOpen \<and> bc_slot c = Some k}"
proof -
  have wf: "wf b" using assms(1) by (simp add: desk_ok_def)
  have tried: "live b' \<subseteq> live b \<union> {k. bc_kind c = KOpen \<and> bc_slot c = Some k}"
    if t: "run_try B name c (b, st) = (r, (b', st1))" for r st1
  proof (cases "bc_kind c")
    case KOpen
    then have "run_open B name c (b, st) = (r, (b', st1))" using t by (simp add: run_try_def)
    then show ?thesis
      by (cases rule: run_open_cases) (use KOpen wf open_only_adds in \<open>auto dest!: open_only_adds [OF wf]\<close>)
  next
    case KLeave
    then have "run_leave B name c (b, st) = (r, (b', st1))" using t by (simp add: run_try_def)
    then show ?thesis
      by (cases rule: run_leave_cases) (auto dest!: leave_only_removes [OF wf])
  next
    case KData
    then have "run_data B name c (b, st) = (r, (b', st1))" using t by (simp add: run_try_def)
    then show ?thesis
      by (cases rule: run_data_cases) (auto dest!: send_live [OF wf])
  qed (use t in \<open>simp_all add: run_try_def\<close>)
  from assms(2) show ?thesis
    by (cases rule: run_command_cases) (use tried probe_desk [OF wf] in auto)
qed

lemma run_command_open_slot:
  assumes "desk_ok (b, st)" "bc_kind c = KOpen" "run_command B name c (b, st) = (res, (b', st'))"
  shows "br_kind res = KOpen \<and> br_slot res = bc_slot c"
  using assms(3)
proof (cases rule: run_command_cases)
  case (returned st1)
  then have "run_open B name c (b, st) = (Inr res, (b', st1))" using assms(2) by (simp add: run_try_def)
  then show ?thesis
    by (cases rule: run_open_cases)
      (use assms(1,2) open_session_of in \<open>auto simp: desk_ok_def\<close>)
qed (use assms(2) in simp_all)

lemma run_command_claims:
  assumes "desk_ok (b, st)" "run_command B name c (b, st) = (res, (b', st'))"
  shows "open_results [res] = open_cmds [c]"
proof (cases "bc_kind c = KOpen")
  case True
  then show ?thesis using run_command_open_slot [OF assms(1) True assms(2)] by (simp add: open_cmds_Cons open_results_Cons)
next
  case False
  have "br_kind res = bc_kind c"
    using run_command_spec [OF assms(2)] by (simp add: res_ident_def cmd_ident_def)
  then show ?thesis using False by (simp add: open_cmds_Cons open_results_Cons)
qed

text \<open>Free slots: those the display shows empty, that is, not live on the board.\<close>

definition free_on :: "'b worker \<Rightarrow> int \<Rightarrow> bool" where
  "free_on w k \<longleftrightarrow> slot_ok k \<and> slots (wk_stats w) ! nat k = None"

lemma free_on_live: "worker_ok w \<Longrightarrow> free_on w k \<longleftrightarrow> slot_ok k \<and> k \<notin> live (wk_board w)"
  by (auto simp: free_on_def worker_ok_def desk_ok_def mirrors_def)

text \<open>The booking of one worker: \<open>ks\<close> are slots chosen for opens that are not yet in its queue.\<close>

definition booked :: "int list \<Rightarrow> 'b worker \<Rightarrow> board_result list \<Rightarrow> bool" where
  "booked ks w rs \<longleftrightarrow> worker_ok w \<and> distinct (ks @ claims w rs) \<and>
     (\<forall>k \<in> set (ks @ open_cmds (unanswered w)). free_on w k)"

text \<open>Running a command moves its claim from the commands to the results.\<close>

lemma booked_run:
  assumes "booked ks w rs" "wk_phase w = Holding c"
  shows "booked ks (wk_step B w) rs \<and> set (claims (wk_step B w) rs) = set (claims w rs)"
proof -
  obtain res b st where r: "run_command B (wk_name w) c (wk_board w, wk_stats w) = (res, (b, st))"
    by (metis surj_pair)
  have ok: "worker_ok w" "worker_ok (wk_step B w)" using assms(1) wk_step_ok by (auto simp: booked_def)
  then have desk: "desk_ok (wk_board w, wk_stats w)" by (simp add: worker_ok_def)
  define w' where "w' = wk_step B w"
  have w': "wk_board w' = b" "unanswered w = [c] @ unanswered w'"
    "answered (w', rs) = answered (w, rs) @ [res]"
    using assms(2) r by (simp_all add: w'_def wk_step_def unanswered_def answered_def)
  note cl = run_command_claims [OF desk r]
  have d: "distinct (ks @ open_cmds [c] @ open_cmds (unanswered w') @ open_results (answered (w, rs)))"
    using assms(1) unfolding booked_def claims_def w'(2) open_cmds_simps(2) append_assoc by blast
  have free: "free_on w' k" if k: "k \<in> set (ks @ open_cmds (unanswered w'))" for k
  proof -
    have "k \<in> set (ks @ open_cmds (unanswered w))"
      using k unfolding w'(2) open_cmds_simps(2) set_append by blast
    then have "free_on w k" using assms(1) unfolding booked_def by blast
    moreover have "k \<notin> set (open_cmds [c])" using d k by (auto)
    moreover have "live b \<subseteq> live (wk_board w) \<union> set (open_cmds [c])"
      using run_command_live [OF desk r] open_cmds_single by blast
    ultimately show ?thesis
      using free_on_live [OF ok(1)] free_on_live [OF ok(2)] w'(1) unfolding w'_def [symmetric] by blast
  qed
  have "distinct (ks @ claims w' rs)" "set (claims w' rs) = set (claims w rs)"
  proof -
    define C where "C = open_cmds [c]"
    have "claims w rs = C @ open_cmds (unanswered w') @ open_results (answered (w, rs))"
      unfolding claims_def w'(2) open_cmds_simps(2) C_def by simp
    moreover have "claims w' rs = open_cmds (unanswered w') @ open_results (answered (w, rs)) @ C"
      unfolding claims_def w'(3) open_results_simps(2) cl C_def by simp
    ultimately show "distinct (ks @ claims w' rs)" "set (claims w' rs) = set (claims w rs)"
      using d unfolding C_def [symmetric] by auto
  qed
  then show ?thesis using ok(2) free unfolding booked_def w'_def by blast
qed

lemma booked_step:
  assumes "booked ks w rs"
  shows "booked ks (wk_step B w) rs \<and> set (claims (wk_step B w) rs) = set (claims w rs)"
proof (cases "wk_phase w")
  case (Holding c)
  then show ?thesis by (rule booked_run [OF assms])
next
  case Waiting
  have "worker_ok (wk_step B w)" using assms wk_step_ok by (auto simp: booked_def)
  moreover have "claims (wk_step B w) rs = claims w rs" "unanswered (wk_step B w) = unanswered w"
    "wk_stats (wk_step B w) = wk_stats w"
    using Waiting by (auto simp: wk_step_def claims_def unanswered_def answered_def map_filter_simps
        open_cmds_Cons split: list.splits option.splits)
  ultimately show ?thesis using assms by (simp add: booked_def free_on_def)
next
  case (Finished r)
  have "worker_ok (wk_step B w)" using assms wk_step_ok by (auto simp: booked_def)
  moreover have "claims (wk_step B w) rs = claims w rs" "unanswered (wk_step B w) = unanswered w"
    "wk_stats (wk_step B w) = wk_stats w"
    using Finished by (auto simp: wk_step_def claims_def unanswered_def answered_def)
  ultimately show ?thesis using assms by (simp add: booked_def free_on_def)
next
  case Stopped
  then show ?thesis using assms by (simp add: wk_step_def)
qed

lemma booked_more:
  assumes "booked ks w rs" "unanswered w' = unanswered w @ cs" "answered (w', rs') = answered (w, rs)"
    and "wk_board w' = wk_board w" "wk_stats w' = wk_stats w" "\<forall>c \<in> set cs. cmd_ok c"
    and "set (open_cmds cs) \<subseteq> set ks" "distinct (open_cmds cs)" "ks' = filter (\<lambda>k. k \<notin> set (open_cmds cs)) ks"
  shows "booked ks' w' rs'"
proof -
  have "worker_ok w'" using assms(1-6) by (auto simp: booked_def worker_ok_def)
  moreover have "claims w' rs' = open_cmds (unanswered w) @ open_cmds cs @ open_results (answered (w, rs))"
    using assms(2,3) by (simp add: claims_def)
  ultimately show ?thesis
    using assms by (fastforce simp: booked_def claims_def free_on_def)
qed

definition board_booked :: "int list \<Rightarrow> 'b worker \<Rightarrow> board_result list \<Rightarrow> int set \<Rightarrow> bool" where
  "board_booked ks w rs R \<longleftrightarrow> booked ks w rs \<and> set (ks @ claims w rs) \<subseteq> R"

lemma board_booked_step: "board_booked ks w rs R \<Longrightarrow> board_booked ks (wk_step B w) rs R"
  using booked_step [of ks w rs] by (simp add: board_booked_def)

lemma board_booked_put:
  assumes "board_booked ks w rs R" "cmd_ok c" "open_cmds [c] = ks"
  shows "board_booked [] (submit c w) rs R"
proof -
  have u: "unanswered (submit c w) = unanswered w @ [c]" "answered (submit c w, rs) = answered (w, rs)"
    by (simp_all add: unanswered_def answered_def submit_def map_filter_simps)
  have "claims (submit c w) rs = open_cmds (unanswered w) @ ks @ open_results (answered (w, rs))"
    unfolding claims_def u open_cmds_simps(2) assms(3) by simp
  then have "set (claims (submit c w) rs) = set (ks @ claims w rs)" by (auto simp: claims_def)
  moreover have b: "booked ks w rs" "set (ks @ claims w rs) \<subseteq> R"
    using assms(1) unfolding board_booked_def by blast+
  then have "distinct ks" by (simp add: booked_def)
  then have "booked [] (submit c w) rs"
    using assms(2,3) by (intro booked_more [OF b(1) u]) (simp_all add: submit_def)
  ultimately show ?thesis using b(2) unfolding board_booked_def by simp
qed

lemma board_booked_claim:
  assumes "board_booked [] w rs R" "slot_ok k" "k \<notin> R" "slots (wk_stats w) ! nat k = None"
  shows "board_booked [k] w rs (insert k R)"
  using assms by (auto simp: board_booked_def booked_def free_on_def)

lemma board_booked_settle:
  assumes "board_booked [] w (r # rs) R"
  shows "board_booked [] w rs (R - set (open_results [r]))"
proof -
  define C where "C = open_results [r]"
  have "claims w (r # rs) = open_cmds (unanswered w) @ C @ open_results (answered (w, rs))"
    unfolding claims_def C_def open_results_simps(2) [symmetric] by (simp add: answered_def)
  then show ?thesis
    using assms unfolding C_def [symmetric] by (auto simp: board_booked_def booked_def claims_def)
qed

lemma board_booked_mono: "board_booked ks w rs R \<Longrightarrow> R \<subseteq> R' \<Longrightarrow> board_booked ks w rs R'"
  by (auto simp: board_booked_def)

lemma board_booked_cong:
  "board_booked ks w rs R \<Longrightarrow> unanswered w' = unanswered w \<Longrightarrow> answered (w', rs') = answered (w, rs) \<Longrightarrow>
    (worker_ok w \<Longrightarrow> worker_ok w') \<Longrightarrow> wk_stats w' = wk_stats w \<Longrightarrow> board_booked ks w' rs' R"
  by (simp add: board_booked_def booked_def claims_def free_on_def)

section \<open>The controller\<close>

definition booking_with :: "board_id \<Rightarrow> int list \<Rightarrow> board_id \<Rightarrow> board_result list \<Rightarrow> 'b controller \<Rightarrow> bool" where
  "booking_with d ks b rs s \<longleftrightarrow> known b rs s \<and>
     (\<forall>c. board_booked (only d ks c) (ct_workers s c) (only b rs c) (ct_reserved s c))"

definition booking :: "board_id \<Rightarrow> board_result list \<Rightarrow> 'b controller \<Rightarrow> bool" where
  "booking = booking_with BoardA []"

lemma booking_eq: "booking b rs s \<longleftrightarrow> known b rs s \<and>
    (\<forall>c. board_booked [] (ct_workers s c) (only b rs c) (ct_reserved s c))"
  by (simp add: booking_def booking_with_def)

lemma booking_with_same:
  assumes "booking_with d ks b rs s" "ct_workers s' = ct_workers s" "ct_pending s' = ct_pending s"
    and "ct_reserved s' = ct_reserved s" "ct_next_command s' = ct_next_command s"
  shows "booking_with d ks b rs s'"
  using assms by (simp add: booking_with_def known_def)

lemma booking_with_worker:
  assumes "booking_with d ks b rs s"
  shows "booking_with d ks b rs (run_worker B e s)"
proof -
  have b: "known b rs s" "board_booked (only d ks c) (ct_workers s c) (only b rs c) (ct_reserved s c)" for c
    using assms by (simp_all add: booking_with_def)
  have w: "ct_workers (run_worker B e s) c = (if c = e then wk_step B (ct_workers s c) else ct_workers s c)" for c
    by (simp add: run_worker_def)
  have "known b rs (run_worker B e s)"
  proof (rule known_mono [OF b(1)])
    show "set (idents (ct_workers (run_worker B e s) c, only b rs c)) \<subseteq> set (idents (ct_workers s c, only b rs c))" for c
      unfolding w by (simp add: wk_step_idents)
    show "wk_name (ct_workers (run_worker B e s) c) = wk_name (ct_workers s c)" for c
      unfolding w by simp
  qed (simp_all add: run_worker_def)
  moreover have "board_booked (only d ks c) (ct_workers (run_worker B e s) c) (only b rs c) (ct_reserved s c)" for c
    unfolding w using b(2) [of c] board_booked_step [OF b(2) [of c]] by (cases "c = e") auto
  ultimately show ?thesis unfolding booking_with_def by (simp add: run_worker_def)
qed

lemma booking_with_yield:
  assumes "booking_with d ks b rs s"
  shows "booking_with d ks b rs (yield B s)"
proof -
  have "booking_with d ks b rs (foldl (\<lambda>t b. run_worker B b t) t cs)" if "booking_with d ks b rs t" for t cs
    using that by (induction cs arbitrary: t) (auto intro: booking_with_worker)
  from this [OF assms] show ?thesis unfolding yield_def by (rule booking_with_same) simp_all
qed

lemma booking_put:
  assumes "booking_with d ks b rs s" "cmd_ok c" "open_cmds [c] = ks" "bc_command_id c < ct_next_command s"
    and "\<forall>p \<in> set (ct_pending s). fst p = bc_command_id c \<longrightarrow> fst (snd p) = bc_kind c"
  shows "booking b rs (s\<lparr>ct_workers := (ct_workers s)(d := submit c (ct_workers s d))\<rparr>)"
proof -
  have b: "known b rs s" "board_booked (only d ks e) (ct_workers s e) (only b rs e) (ct_reserved s e)" for e
    using assms(1) by (simp_all add: booking_with_def)
  have "board_booked [] (if e = d then submit c (ct_workers s d) else ct_workers s e) (only b rs e) (ct_reserved s e)" for e
  proof (cases "e = d")
    case True
    have "board_booked ks (ct_workers s d) (only b rs d) (ct_reserved s d)" using b(2) [of d] by simp
    from board_booked_put [OF this assms(2,3)] True show ?thesis by simp
  next
    case False
    then show ?thesis using b(2) [of e] by simp
  qed
  then show ?thesis using known_put [OF b(1) assms(4,5)] by (simp add: booking_eq)
qed

lemma booking_submit:
  assumes "booking_with d ks b rs s" "kind = KOpen \<longrightarrow> (\<forall>k. sl = Some k \<longrightarrow> slot_ok k)"
    and "ks = (if kind = KOpen then (case sl of None \<Rightarrow> [] | Some k \<Rightarrow> [k]) else [])"
  shows "booking b rs (submit_command B d kind vid sl p t ctx s)"
proof -
  define n where "n = ct_next_command s"
  define c where "c = \<lparr>bc_command_id = n, bc_kind = kind, bc_vehicle_id = vid, bc_slot = sl, bc_payload = p,
    bc_tamper = t\<rparr>"
  define s1 where "s1 = s\<lparr>ct_next_command := n + 1, ct_pending := ct_pending s @ [(n, kind, vid, ctx)]\<rparr>"
  have "known b rs s" using assms(1) by (simp add: booking_with_def)
  then have "known b rs s1" by (rule known_mono) (simp_all add: s1_def n_def)
  then have "booking_with d ks b rs s1" using assms(1) by (simp add: booking_with_def s1_def)
  then have y: "booking_with d ks b rs (yield B s1)" by (rule booking_with_yield)
  have "cmd_ok c" "open_cmds [c] = ks" using assms(2,3) by (auto simp: cmd_ok_def c_def open_cmds_Cons)
  moreover have "\<forall>q \<in> set (ct_pending s). fst q < n"
    using assms(1) by (simp add: booking_with_def known_def n_def)
  ultimately have "booking b rs ((yield B s1)\<lparr>ct_workers := (ct_workers (yield B s1))(d := submit c (ct_workers (yield B s1) d))\<rparr>)"
    by (intro booking_put [OF y]) (auto simp: s1_def c_def)
  then show ?thesis by (simp add: submit_command_def Let_def c_def s1_def n_def)
qed

lemma booking_cong:
  "booking b rs s \<Longrightarrow> ct_workers s' = ct_workers s \<Longrightarrow> ct_pending s' = ct_pending s \<Longrightarrow>
    ct_reserved s' = ct_reserved s \<Longrightarrow> ct_next_command s' = ct_next_command s \<Longrightarrow> booking b rs s'"
  unfolding booking_def by (rule booking_with_same)

lemma booking_opens:
  assumes "booking b rs s" "slot_ok slot" "slot \<notin> ct_reserved s target"
    and "slots (wk_stats (ct_workers s target)) ! nat slot = None"
  shows "booking b rs (submit_command B target KOpen vid (Some slot) p t ctx
    (s\<lparr>ct_reserved := (ct_reserved s)(target := insert slot (ct_reserved s target))\<rparr>))"
proof -
  let ?s = "s\<lparr>ct_reserved := (ct_reserved s)(target := insert slot (ct_reserved s target))\<rparr>"
  have b: "known b rs s" "board_booked [] (ct_workers s c) (only b rs c) (ct_reserved s c)" for c
    using assms(1) by (auto simp: booking_eq)
  have "board_booked (only target [slot] c) (ct_workers s c) (only b rs c) (ct_reserved ?s c)" for c
    using b(2) [of c] board_booked_claim [OF b(2) [of target] assms(2-4)] by (cases "c = target") auto
  moreover have "known b rs ?s" using b(1) by (simp add: known_def)
  ultimately have "booking_with target [slot] b rs ?s" by (simp add: booking_with_def)
  then show ?thesis using assms(2) by (intro booking_submit) auto
qed

lemma booking_settled:
  assumes "booking b (r # rs) s" "pop_pending (br_command_id r) (ct_pending s) = (Some (kind, vid, ctx), ps)"
  shows "booking b rs (settled kind r ps s)"
proof -
  have pop: "(br_command_id r, kind, vid, ctx) \<in> set (ct_pending s)" "set ps \<subseteq> set (ct_pending s)"
    using pop_pending_Some [OF assms(2)] by auto
  have b: "known b (r # rs) s" "board_booked [] (ct_workers s c) (only b (r # rs) c) (ct_reserved s c)" for c
    using assms(1) by (auto simp: booking_eq)
  note r = known_kind [OF b(1) pop(1)]
  let ?s = "settled kind r ps s"
  have sel: "ct_workers ?s = ct_workers s" "ct_pending ?s = ps" "ct_next_command ?s = ct_next_command s"
    "ct_reserved ?s c = (if c = b then ct_reserved s c - set (open_results [r]) else ct_reserved s c)" for c
    using r by (cases "br_slot r"; cases "kind = KOpen"; simp add: settled_def Let_def open_results_Cons)+
  have "known b rs ?s"
    by (rule known_pop [OF b(1) pop(2)]) (simp_all add: sel)
  moreover have "board_booked [] (ct_workers s c) (only b rs c) (ct_reserved ?s c)" for c
    unfolding sel(4) using b(2) [of c] board_booked_settle [of "ct_workers s b" r rs "ct_reserved s b"]
    by (cases "c = b") simp_all
  ultimately show ?thesis by (simp add: booking_eq sel(1))
qed

lemma booking_drop:
  assumes "booking b (r # rs) s"
  shows "booking b rs s"
proof -
  have b: "known b (r # rs) s" "board_booked [] (ct_workers s c) (only b (r # rs) c) (ct_reserved s c)" for c
    using assms by (auto simp: booking_eq)
  have "known b rs s" by (rule known_pop [OF b(1) subset_refl]) simp_all
  moreover have "board_booked [] (ct_workers s c) (only b rs c) (ct_reserved s c)" for c
  proof (cases "c = b")
    case True
    have "board_booked [] (ct_workers s b) (r # rs) (ct_reserved s b)" using b(2) [of b] by simp
    from board_booked_mono [OF board_booked_settle [OF this], of "ct_reserved s b"] True show ?thesis by auto
  next
    case False
    then show ?thesis using b(2) [of c] by simp
  qed
  ultimately show ?thesis by (simp add: booking_eq)
qed

lemma booking_poll:
  assumes "booking b [] s" "poll (ct_workers s c) = (rs, w)"
  shows "booking c rs (s\<lparr>ct_workers := (ct_workers s)(c := w)\<rparr>)"
proof -
  let ?w = "ct_workers s c"
  have w: "rs = wk_results ?w" "w = ?w\<lparr>wk_results := []\<rparr>" using assms(2) by (auto simp: poll_def)
  have same: "unanswered w = unanswered ?w" "answered (w, rs) = answered (?w, [])" "wk_name w = wk_name ?w"
    "wk_board w = wk_board ?w" "wk_stats w = wk_stats ?w"
    by (simp_all add: w unanswered_def answered_def)
  have b: "known b [] s" "board_booked [] (ct_workers s e) [] (ct_reserved s e)" for e
    using assms(1) by (auto simp: booking_eq)
  have "idents (w, rs) = idents (?w, [])" using same by (simp add: idents_def)
  then have "known c rs (s\<lparr>ct_workers := (ct_workers s)(c := w)\<rparr>)"
    using same(3) by (intro known_mono [OF b(1)]) (auto simp: only_def)
  moreover have "board_booked [] w rs (ct_reserved s c)"
    using b(2) [of c] by (rule board_booked_cong) (simp_all add: same worker_ok_def)
  ultimately show ?thesis using b(2) by (simp add: booking_eq only_def)
qed

text \<open>Stopping a worker and closing its board change nothing the booking speaks about.\<close>

lemma booking_same:
  assumes "booking b rs s" "unanswered w = unanswered (ct_workers s c)" "\<And>out. answered (w, out) = answered (ct_workers s c, out)"
    and "wk_name w = wk_name (ct_workers s c)" "wk_stats w = wk_stats (ct_workers s c)"
    and "worker_ok (ct_workers s c) \<Longrightarrow> worker_ok w"
  shows "booking b rs (s\<lparr>ct_workers := (ct_workers s)(c := w)\<rparr>)"
proof -
  have b: "known b rs s" "board_booked [] (ct_workers s e) (only b rs e) (ct_reserved s e)" for e
    using assms by (auto simp: booking_eq)
  have "idents (w, out) = idents (ct_workers s c, out)" for out using assms by (simp add: idents_def)
  then have "known b rs (s\<lparr>ct_workers := (ct_workers s)(c := w)\<rparr>)"
    using assms(4) by (intro known_mono [OF b(1)]) auto
  moreover have "board_booked [] w (only b rs c) (ct_reserved s c)"
    using b(2) [of c] by (rule board_booked_cong) (simp_all add: assms)
  ultimately show ?thesis using b(2) by (simp add: booking_eq)
qed

lemma booking_stop:
  "booking b rs s \<Longrightarrow> booking b rs (s\<lparr>ct_workers := (ct_workers s)(c := stop (ct_workers s c))\<rparr>)"
  by (rule booking_same) (simp_all add: stop_def unanswered_def answered_def map_filter_simps worker_ok_def)

lemma booking_close:
  "booking b rs s \<Longrightarrow> booking b rs (s\<lparr>ct_workers := (ct_workers s)(c := close_board B (ct_workers s c))\<rparr>)"
  by (rule booking_same) (simp_all add: unanswered_def answered_def close_board_ok)

end

context worked_board
begin

definition sized_booking :: "nat \<Rightarrow> board_id \<Rightarrow> board_result list \<Rightarrow> 'b controller \<Rightarrow> bool" where
  "sized_booking N b rs s \<longleftrightarrow> booking b rs s \<and> length (ct_vehicles s) = N"

lemma sized_booking_cong:
  "sized_booking N b rs s \<Longrightarrow> ct_workers s' = ct_workers s \<Longrightarrow> ct_pending s' = ct_pending s \<Longrightarrow>
    ct_reserved s' = ct_reserved s \<Longrightarrow> ct_next_command s' = ct_next_command s \<Longrightarrow>
    length (ct_vehicles s') = length (ct_vehicles s) \<Longrightarrow> sized_booking N b rs s'"
  unfolding sized_booking_def using booking_cong by metis

end

sublocale worked_board < book: step_invariant B sized_booking
proof (unfold_locales, goal_cases)
  case (1 N b rs s)
  then show ?case by (simp add: sized_booking_def)
next
  case (2 N b rs s c)
  then show ?case using booking_with_worker [of BoardA "[]" b rs s c]
    by (simp add: sized_booking_def booking_def run_worker_def)
next
  case (3 N b rs s s')
  then show ?case by (auto simp: quiet_def elim: sized_booking_cong)
next
  case (4 N b rs s k m)
  then show ?case by (rule sized_booking_cong) (simp_all add: ct_log_def)
next
  case (5 N b rs s h)
  then show ?case by (rule sized_booking_cong) simp_all
next
  case (6 N b rs s q)
  then show ?case by (rule sized_booking_cong) simp_all
next
  case (7 N b rs s f i)
  show ?case by (rule sized_booking_cong [OF 7(1)]) (simp_all add: set_vehicle_def)
next
  case (8 N b rs s i n)
  show ?case by (rule sized_booking_cong [OF 8(1)]) (simp_all add: set_vehicle_def)
next
  case (9 N b rs s i)
  show ?case by (rule sized_booking_cong [OF 9(1)]) simp_all
next
  case (10 N b rs s slot target vid p t reason)
  then show ?case using booking_opens by (simp add: sized_booking_def submit_command_vehicles)
next
  case (11 N b rs s kind ctx vid board sl p t)
  then have "booking_with board [] b rs s" by (simp add: sized_booking_def booking_eq booking_with_def)
  from booking_submit [OF this, of kind sl] show ?case
    using 11 by (simp add: sized_booking_def submit_command_vehicles)
next
  case (12 N b rs s vid board sl p t)
  have "sized_booking N b rs (s\<lparr>ct_attempts := ct_attempts s + 1\<rparr>)"
    by (rule sized_booking_cong [OF 12(1)]) simp_all
  then have "booking_with board [] b rs (s\<lparr>ct_attempts := ct_attempts s + 1\<rparr>)"
    by (simp add: sized_booking_def booking_eq booking_with_def)
  from booking_submit [OF this, of KData sl] show ?case
    using 12(1) by (simp add: sized_booking_def submit_command_vehicles)
next
  case (13 N b s c rs w)
  then show ?case using booking_poll [of b s c rs w] by (simp add: sized_booking_def)
next
  case (14 N b rs s c)
  then show ?case using booking_stop by (simp add: sized_booking_def)
next
  case (15 N b r rs s kind vid ctx ps)
  then have "booking b rs (settled kind r ps s)" by (intro booking_settled) (simp_all add: sized_booking_def)
  moreover have "ct_vehicles (settled kind r ps s) = ct_vehicles s"
    by (simp add: settled_def Let_def split: option.split)
  ultimately show ?case using 15(1) by (simp add: sized_booking_def)
next
  case (16 N b r rs s kind vid ctx ps)
  then have "booking b rs (settled kind r ps s)" by (intro booking_settled) (simp_all add: sized_booking_def)
  then have "booking b rs ((settled kind r ps s)\<lparr>ct_blocked := ct_blocked s + 1\<rparr>)" by (rule booking_cong) simp_all
  moreover have "ct_vehicles (settled kind r ps s) = ct_vehicles s"
    by (simp add: settled_def Let_def split: option.split)
  ultimately show ?case using 16(1) by (simp add: sized_booking_def)
next
  case (17 N b r rs s)
  then show ?case using booking_drop [of b r rs s] by (simp add: sized_booking_def)
next
  case (18 N b rs s c)
  then show ?case using booking_close by (simp add: sized_booking_def)
qed

context worked_board
begin

lemma booking_blank:
  assumes "wf a" "live a = {}" "wf b" "live b = {}"
  shows "sized_booking (length vs) BoardB [] (blank_controller (new_worker BoardA a) (new_worker BoardB b) mock sched clk0 g n v l ps vs)"
proof -
  have "board_booked [] (new_worker c x) [] {}" if "wf x" "live x = {}" for c x
    using new_worker_ok [OF that, of c] by (simp add: board_booked_def booked_def claims_def)
  then show ?thesis
    using assms by (auto simp: sized_booking_def booking_eq known_def blank_controller_def idents_def split: board_id.split)
qed

lemma reachable_booking:
  assumes "reachable B (\<lambda>b. wf b \<and> live b = {}) s"
  shows "booking BoardB [] s"
proof -
  have "\<exists>N. sized_booking N BoardB [] s"
  proof (rule book.reachable_J [OF assms])
    fix a b mock sched clk0 g n v l ps vs seed
    assume ab: "wf a \<and> live a = {}" "wf b \<and> live b = {}"
      and vs: "make_initial_vehicles l v n \<lparr>rng_draws = seed, rng_used = 0\<rparr> = (vs, g)"
    show "sized_booking n BoardB [] (blank_controller (new_worker BoardA a) (new_worker BoardB b) mock sched clk0 g n v l ps vs)"
      using booking_blank [of a b vs] ab initial_length [OF vs] by simp
  qed
  then show ?thesis by (auto simp: sized_booking_def)
qed

text \<open>What the booking says of one board.\<close>

lemma no_double_booking:
  assumes "reachable B (\<lambda>b. wf b \<and> live b = {}) s"
  shows "distinct (claims (ct_workers s b) []) \<and> set (claims (ct_workers s b) []) \<subseteq> ct_reserved s b \<and>
    (\<forall>k \<in> set (open_cmds (unanswered (ct_workers s b))). 0 \<le> k \<and> k < 64 \<and> k \<notin> live (wk_board (ct_workers s b)))"
proof -
  have b: "board_booked [] (ct_workers s b) [] (ct_reserved s b)"
    using reachable_booking [OF assms] by (simp add: booking_eq only_def)
  then have "worker_ok (ct_workers s b)" by (simp add: board_booked_def booked_def)
  from free_on_live [OF this] b show ?thesis
    by (auto simp: board_booked_def booked_def slot_ok_def MAX_SESSIONS_def)
qed

end

section \<open>The boards of the program\<close>

lemma mock_start: "(\<lambda>m. mock_wf m \<and> m_sessions m = Map.empty) = (\<lambda>m. mock_wf m \<and> mock_live m = {})"
  by (simp add: mock_live_def)


text \<open>C16. No double booking on mock boards: in every reachable state of the demo, for every interleaving of
  the worker threads with the main loop and the user, the slots of all opens under way on a board are
  pairwise different, reserved and in \<open>0..63\<close>, and an open that the board has not executed yet names a
  slot for which the board holds no session: no session is ever overwritten.\<close>

theorem mock_no_double_booking:
  "reachable mock_ops (\<lambda>m. mock_wf m \<and> m_sessions m = Map.empty) s \<Longrightarrow>
    distinct (claims (ct_workers s b) []) \<and> set (claims (ct_workers s b) []) \<subseteq> ct_reserved s b \<and>
    (\<forall>k \<in> set (open_cmds (unanswered (ct_workers s b))).
       0 \<le> k \<and> k < 64 \<and> m_sessions (wk_board (ct_workers s b)) k = None)"
proof -
  assume "reachable mock_ops (\<lambda>m. mock_wf m \<and> m_sessions m = Map.empty) s"
  from mockw.no_double_booking [OF this [unfolded mock_start], of b] show ?thesis
    unfolding mock_live_def domIff by simp
qed


theorem mock_no_double_booking_witness:
  "\<exists>s. reachable mock_ops (\<lambda>m. mock_wf m \<and> m_sessions m = Map.empty) s \<and>
     distinct (claims (ct_workers s BoardA) [])"
proof -
  have "mock_wf (new_mock ''A'' zero_draws) \<and> m_sessions (new_mock ''A'' zero_draws) = Map.empty"
    by (simp add: mock_wf_def new_mock_def)
  then obtain s where s: "reachable mock_ops (\<lambda>m. mock_wf m \<and> m_sessions m = Map.empty) s"
    using reachable_exists [of "\<lambda>m. mock_wf m \<and> m_sessions m = Map.empty"] by blast
  then show ?thesis using mock_no_double_booking [OF s, of BoardA] by blast
qed


end
