(* ===== verification/SimIds.thy ===== *)
theory SimIds
  imports SimInvariant
begin

text \<open>
  Vehicle ids: the loop of \<open>_respawn\<close> that looks for an unused id always ends, and at any time the ids
  of the vehicles are pairwise different and in \<open>0..64\<close>.
\<close>

section \<open>The search for an unused id\<close>

definition succ_id :: "int \<Rightarrow> int" where
  "succ_id n = (n + 1) mod int MAX_SESSIONS"

lemma succ_id_pow: "(succ_id ^^ Suc k) n = (n + int (Suc k)) mod int MAX_SESSIONS"
proof (induction k)
  case (Suc k)
  have "(succ_id ^^ Suc (Suc k)) n = succ_id ((succ_id ^^ Suc k) n)" by simp
  also have "\<dots> = ((n + int (Suc k)) mod int MAX_SESSIONS + 1) mod int MAX_SESSIONS"
    unfolding Suc.IH succ_id_def ..
  also have "\<dots> = (n + int (Suc (Suc k))) mod int MAX_SESSIONS"
    unfolding mod_add_left_eq by (simp add: algebra_simps)
  finally show ?case .
qed (simp add: succ_id_def)

text \<open>Every id in \<open>0..63\<close> is tried, so the loop ends when fewer than 64 ids are in use.\<close>

lemma ids_tried:
  assumes "0 \<le> m" "m < int MAX_SESSIONS"
  shows "\<exists>k. (succ_id ^^ k) n = m"
proof -
  define d where "d = (m - n - 1) mod int MAX_SESSIONS"
  have d: "0 \<le> d" by (simp add: d_def MAX_SESSIONS_def)
  have "(succ_id ^^ Suc (nat d)) n = (n + int (Suc (nat d))) mod int MAX_SESSIONS" by (rule succ_id_pow)
  also have "n + int (Suc (nat d)) = (n + 1) + d" using d by simp
  also have "((n + 1) + d) mod int MAX_SESSIONS = ((n + 1) + (m - n - 1)) mod int MAX_SESSIONS"
    unfolding d_def by (rule mod_add_right_eq)
  also have "\<dots> = m" using assms by simp
  finally show ?thesis by blast
qed

lemma fresh_id_unfold: "fresh_id used n = (if n \<in> used then fresh_id used (succ_id n) else Some n)"
  unfolding fresh_id_def succ_id_def by (subst while_option_unfold) simp

lemma fresh_id_found:
  assumes "finite used" "card used < MAX_SESSIONS"
  shows "\<exists>m. fresh_id used n = Some m"
proof -
  have "\<exists>k. (succ_id ^^ k) n \<notin> used"
  proof (rule ccontr)
    assume "\<nexists>k. (succ_id ^^ k) n \<notin> used"
    then have "{0..<int MAX_SESSIONS} \<subseteq> used" using ids_tried [of _ n] by force
    then have "card {0..<int MAX_SESSIONS} \<le> card used" by (rule card_mono [OF assms(1)])
    then show False using assms(2) by simp
  qed
  moreover have "succ_id = (\<lambda>n. (n + 1) mod int MAX_SESSIONS)" by (simp add: fun_eq_iff succ_id_def)
  ultimately show ?thesis by (simp add: fresh_id_def while_option_def)
qed

lemma fresh_id_Some:
  assumes "fresh_id used n = Some m"
  shows "m \<notin> used" and "m = n \<or> (0 \<le> m \<and> m < int MAX_SESSIONS)"
proof -
  show "m \<notin> used" using while_option_stop [OF assms [unfolded fresh_id_def]] by simp
  show "m = n \<or> (0 \<le> m \<and> m < int MAX_SESSIONS)"
    by (rule while_option_rule [where P = "\<lambda>m. m = n \<or> (0 \<le> m \<and> m < int MAX_SESSIONS)",
          OF _ assms [unfolded fresh_id_def]]) (auto simp: MAX_SESSIONS_def)
qed

lemma used_ids_card: "i < length vs \<Longrightarrow> card (used_ids i vs) < length vs"
  using card_length [of "map v_id (take i vs @ drop (Suc i) vs)"] by (simp add: used_ids_def)

section \<open>The ids of the first vehicles\<close>

lemma make_vehicles_ids:
  "make_vehicles n v d c off js g = (vs, g') \<Longrightarrow> map v_id vs = map (\<lambda>j. int j * 2 + off) js"
  by (induction n v d c off js g arbitrary: vs g' rule: make_vehicles.induct)
    (auto simp: Let_def new_vehicle_def split: prod.splits)

lemma initial_ids:
  assumes "make_initial_vehicles l v n g = (vs, g')"
  shows "distinct (map v_id vs)" and "set (map v_id vs) \<subseteq> {0..<int n}"
proof -
  obtain right g1 left g2 where r: "make_vehicles l v 1 ((n + 1) div 2) 0 [0..<(n + 1) div 2] g = (right, g1)"
    and l: "make_vehicles l v (- 1) (n div 2) 1 [0..<n div 2] g1 = (left, g2)" and vs: "vs = right @ left"
    using assms by (auto simp: make_initial_vehicles_def Let_def split: prod.splits)
  note r = make_vehicles_ids [OF r] and l = make_vehicles_ids [OF l]
  have "distinct (map v_id right)" "distinct (map v_id left)"
    unfolding r l by (auto simp: distinct_map inj_on_def)
  moreover have "set (map v_id right) \<inter> set (map v_id left) = {}"
    unfolding r l by (auto, presburger)
  ultimately show "distinct (map v_id vs)" by (simp add: vs)
  have "x \<in> set (map v_id right) \<Longrightarrow> 0 \<le> x \<and> x < int n" "x \<in> set (map v_id left) \<Longrightarrow> 0 \<le> x \<and> x < int n" for x
    unfolding r l by auto
  then show "set (map v_id vs) \<subseteq> {0..<int n}" by (force simp: vs)
qed

section \<open>The invariant\<close>

text \<open>Only the ids, the next id to try and whether the loop ran away matter.\<close>

definition id_view :: "'b controller \<Rightarrow> int list \<times> int \<times> bool" where
  "id_view s = (map v_id (ct_vehicles s), ct_next_vehicle s, ct_stuck s)"

definition good_ids :: "nat \<Rightarrow> int list \<times> int \<times> bool \<Rightarrow> bool" where
  "good_ids N = (\<lambda>(ids, next_id, stuck). length ids = N \<and> N \<le> MAX_SESSIONS \<and> distinct ids \<and>
     set ids \<subseteq> {0..int MAX_SESSIONS} \<and> 0 \<le> next_id \<and> next_id \<le> int MAX_SESSIONS \<and> \<not> stuck)"

definition ids_inv :: "nat \<Rightarrow> board_id \<Rightarrow> board_result list \<Rightarrow> 'b controller \<Rightarrow> bool" where
  "ids_inv N b rs s = good_ids N (id_view s)"

lemma map_id_set_vehicle: "map v_id (ct_vehicles (set_vehicle i f s)) = (map v_id (ct_vehicles s))[i := v_id (f (ct_vehicles s ! i))]"
  by (simp add: set_vehicle_def map_update)

lemma id_view_set: "keeps_id f \<Longrightarrow> id_view (set_vehicle i f s) = id_view s"
  by (cases "i < length (ct_vehicles s)")
    (auto simp: id_view_def set_vehicle_def keeps_id_def list_update_beyond intro!: nth_equalityI simp: nth_list_update)

lemma id_view_submit [simp]: "id_view (submit_command B c k v sl p t x s) = id_view s"
  by (simp add: id_view_def submit_command_def Let_def)

lemma id_view_settled [simp]: "id_view (settled k r ps s) = id_view s"
  by (simp add: id_view_def settled_def Let_def split: option.split)

lemma id_view_updates [simp]:
  "id_view (s\<lparr>ct_pending := p\<rparr>) = id_view s" "id_view (s\<lparr>ct_reserved := r\<rparr>) = id_view s"
  "id_view (s\<lparr>ct_workers := w\<rparr>) = id_view s" "id_view (s\<lparr>ct_blocked := n\<rparr>) = id_view s"
  "id_view (s\<lparr>ct_attempts := n\<rparr>) = id_view s" "id_view (s\<lparr>ct_kem_history := h\<rparr>) = id_view s"
  "id_view (s\<lparr>ct_sw_history := q\<rparr>) = id_view s" "id_view (ct_log k m s) = id_view s"
  "id_view (yield B s) = id_view s"
  by (simp_all add: id_view_def ct_log_def)

lemma used_ids_member: "i < length vs \<Longrightarrow> n \<notin> used_ids i vs \<longleftrightarrow> n \<notin> set (take i (map v_id vs) @ drop (Suc i) (map v_id vs))"
  by (simp add: used_ids_def take_map drop_map)

lemma distinct_update:
  assumes "distinct xs" "i < length xs" "y \<notin> set (take i xs @ drop (Suc i) xs)"
  shows "distinct (xs[i := y])"
proof -
  have "distinct (take i xs @ xs ! i # drop (Suc i) xs)" using assms(1) id_take_nth_drop [OF assms(2)] by metis
  then show ?thesis using assms(2,3) by (auto simp: upd_conv_take_nth_drop)
qed

lemma reborn_good:
  assumes "ids_inv N b rs s" "i < N" "fresh_id (used_ids i (ct_vehicles s)) (ct_next_vehicle s) = Some n"
  shows "ids_inv N b rs (set_vehicle i (\<lambda>v. v\<lparr>v_id := n\<rparr>) (s\<lparr>ct_next_vehicle := (n + 1) mod int MAX_SESSIONS\<rparr>))"
proof -
  let ?ids = "map v_id (ct_vehicles s)"
  have i: "i < length ?ids" and d: "distinct ?ids" "set ?ids \<subseteq> {0..int MAX_SESSIONS}"
    using assms(1,2) by (auto simp: ids_inv_def good_ids_def id_view_def)
  have "n \<notin> set (take i ?ids @ drop (Suc i) ?ids)"
    using fresh_id_Some(1) [OF assms(3)] i used_ids_member by simp
  from distinct_update [OF d(1) i this] have "distinct (?ids[i := n])" .
  moreover have "n \<in> {0..int MAX_SESSIONS}"
    using fresh_id_Some(2) [OF assms(3)] assms(1) by (auto simp: ids_inv_def good_ids_def id_view_def)
  then have "set (?ids[i := n]) \<subseteq> {0..int MAX_SESSIONS}" by (rule set_update_subsetI [OF d(2)])
  moreover have "0 \<le> (n + 1) mod int MAX_SESSIONS" "(n + 1) mod int MAX_SESSIONS \<le> int MAX_SESSIONS"
    by (auto simp: MAX_SESSIONS_def less_imp_le)
  moreover have "length ?ids = N" "N \<le> MAX_SESSIONS" "\<not> ct_stuck s"
    using assms(1) by (auto simp: ids_inv_def good_ids_def id_view_def)
  moreover have "id_view (set_vehicle i (\<lambda>v. v\<lparr>v_id := n\<rparr>) (s\<lparr>ct_next_vehicle := (n + 1) mod int MAX_SESSIONS\<rparr>)) =
      (?ids[i := n], (n + 1) mod int MAX_SESSIONS, ct_stuck s)"
    by (simp add: id_view_def map_id_set_vehicle)
  ultimately show ?thesis
    unfolding ids_inv_def good_ids_def by (simp only: prod.case length_list_update simp_thms)
qed

lemma never_stuck:
  assumes "ids_inv N b rs s" "i < N"
  shows "fresh_id (used_ids i (ct_vehicles s)) (ct_next_vehicle s) \<noteq> None"
proof -
  have "i < length (ct_vehicles s)" and "length (ct_vehicles s) \<le> MAX_SESSIONS"
    using assms by (auto simp: ids_inv_def good_ids_def id_view_def)
  then have "card (used_ids i (ct_vehicles s)) < MAX_SESSIONS" using used_ids_card by fastforce
  moreover have "finite (used_ids i (ct_vehicles s))" by (simp add: used_ids_def)
  ultimately show ?thesis using fresh_id_found by blast
qed

interpretation ids: step_invariant B ids_inv for B :: "'b board_ops"
proof unfold_locales
  show "ids_inv N b rs s \<Longrightarrow> length (ct_vehicles s) = N" for N b rs and s :: "'b controller"
    by (simp add: ids_inv_def good_ids_def id_view_def)
  show "ids_inv N b rs s \<Longrightarrow> ids_inv N b rs (run_worker B c s)" for N b rs c s
    by (simp add: ids_inv_def id_view_def run_worker_def)
  show "ids_inv N b rs s \<Longrightarrow> quiet s s' \<Longrightarrow> ids_inv N b rs s'" for N b rs and s s' :: "'b controller"
    by (simp add: ids_inv_def id_view_def quiet_def)
  show "ids_inv N b rs s \<Longrightarrow> ids_inv N b rs (ct_log k m s)" for N b rs k m and s :: "'b controller"
    by (simp add: ids_inv_def id_view_def ct_log_def)
  show "ids_inv N b rs s \<Longrightarrow> keeps_id f \<Longrightarrow> ids_inv N b rs (set_vehicle i f s)" for N b rs f i and s :: "'b controller"
    by (simp add: ids_inv_def id_view_set)
  show "ids_inv N b rs s \<Longrightarrow> i < N \<Longrightarrow> fresh_id (used_ids i (ct_vehicles s)) (ct_next_vehicle s) = None \<Longrightarrow>
      ids_inv N b rs (s\<lparr>ct_stuck := True\<rparr>)" for N b rs i and s :: "'b controller"
    using never_stuck by blast
qed (simp_all add: reborn_good, simp_all add: ids_inv_def)

lemma ids_reachable:
  assumes "reachable B P s"
  shows "\<exists>N. ids_inv N BoardB [] s"
proof (rule ids.reachable_J [OF assms])
  fix a b mock sched clk0 g and n l :: nat and v ps vs seed
  assume n: "1 \<le> n" "n \<le> MAX_SESSIONS"
    and vs: "make_initial_vehicles l v n \<lparr>rng_draws = seed, rng_used = 0\<rparr> = (vs, g)"
  from initial_ids [OF vs] initial_length [OF vs] n
  show "ids_inv n BoardB [] (blank_controller (new_worker BoardA a) (new_worker BoardB b) mock sched clk0 g n v l ps vs)"
    by (auto simp: ids_inv_def good_ids_def id_view_def blank_controller_def)
qed

text \<open>Asking for a session changes no id.\<close>

lemma scan_view: "scan_slots B c ks s = (x, s') \<Longrightarrow> id_view s' = id_view s"
  by (induction ks arbitrary: s) (auto simp: Let_def split: if_splits)

lemma request_open_view: "id_view (request_open B i target reason s) = id_view s"
proof -
  obtain x s' where f: "free_slot B target s = (x, s')" by fastforce
  then have "id_view s' = id_view s" by (simp add: free_slot_def scan_view)
  moreover have "id_view (no_free_slot i target s') = id_view s'"
    by (simp add: no_free_slot_def ct_time_def id_view_set keeps_idI) (simp add: id_view_def)
  moreover have "id_view (start_open B i target reason k s') = id_view s'" for k
    unfolding start_open_def Let_def by (simp add: id_view_set keeps_idI)
  ultimately show ?thesis using f by (simp add: request_open_def split: option.split)
qed

lemma id_view_blank:
  "id_view (blank_controller wa wb mock sched clk0 g count speed n ps vs) = (map v_id vs, int count, False)"
  by (simp add: id_view_def blank_controller_def)

lemma enter_all_view: "id_view (enter_all B s) = id_view s"
proof -
  have "id_view (fold (\<lambda>i s. request_open B i (board_for_position (v_position (the_vehicle i s))) Entry s) js t) =
      id_view t" for js t
    by (induction js arbitrary: t) (simp_all add: request_open_view)
  then show ?thesis by (simp add: enter_all_def)
qed

section \<open>The properties\<close>

text \<open>C18. Respawning terminates: for every reachable state of the demo (any boards, any interleaving, any
  number of vehicles) and every vehicle, the loop of \<open>_respawn\<close> ends with an id that no other vehicle
  has, and no loop of the main thread has run away on the way there.\<close>

theorem respawn_terminates:
  "reachable B P s \<Longrightarrow> i < length (ct_vehicles s) \<Longrightarrow>
    (\<exists>n. fresh_id (used_ids i (ct_vehicles s)) (ct_next_vehicle s) = Some n \<and>
       n \<notin> v_id ` set (take i (ct_vehicles s) @ drop (Suc i) (ct_vehicles s)) \<and> 0 \<le> n \<and> n \<le> 64) \<and>
    \<not> ct_stuck s"
proof -
  assume r: "reachable B P s" and i: "i < length (ct_vehicles s)"
  from ids_reachable [OF r] obtain N where inv: "ids_inv N BoardB [] s" by blast
  then have "i < N" "\<not> ct_stuck s" and nx: "0 \<le> ct_next_vehicle s" "ct_next_vehicle s \<le> 64"
    using i by (auto simp: ids_inv_def good_ids_def id_view_def MAX_SESSIONS_def)
  moreover obtain n where n: "fresh_id (used_ids i (ct_vehicles s)) (ct_next_vehicle s) = Some n"
    using never_stuck [OF inv \<open>i < N\<close>] by blast
  ultimately show ?thesis
    using fresh_id_Some [OF n] by (auto simp: used_ids_def MAX_SESSIONS_def)
qed

text \<open>C19. Vehicle ids: in every reachable state the ids of the vehicles are pairwise different and in
  \<open>0..64\<close>, there are at most 64 vehicles, and looking a vehicle up by its id finds that vehicle.\<close>

theorem vehicle_ids_distinct:
  "reachable B P s \<Longrightarrow> distinct (map v_id (ct_vehicles s)) \<and> set (map v_id (ct_vehicles s)) \<subseteq> {0..64} \<and>
    length (ct_vehicles s) \<le> 64 \<and>
    (\<forall>i < length (ct_vehicles s). vehicle_by_id (v_id (the_vehicle i s)) s = Some i)"
proof -
  assume r: "reachable B P s"
  from ids_reachable [OF r] obtain N where inv: "ids_inv N BoardB [] s" by blast
  have found: "distinct (map v_id vs) \<Longrightarrow> i < length vs \<Longrightarrow> find_vehicle (v_id (vs ! i)) vs = Some i" for vs i
  proof (induction vs arbitrary: i)
    case (Cons v vs)
    then show ?case by (cases i) (auto dest: nth_mem)
  qed simp
  show ?thesis
    using inv found by (auto simp: ids_inv_def good_ids_def id_view_def MAX_SESSIONS_def vehicle_by_id_def the_vehicle_def)
qed

text \<open>The first respawn among 64 vehicles takes the id 64, which lies outside the range \<open>0..63\<close> of ids
  the simulation starts with (and of the vehicle ids \<open>board_link_v2.py\<close> accepts).\<close>

theorem first_respawn_takes_64:
  "new_controller B wa wb mock sched clk0 seed MAX_SESSIONS speed n ps = Inr s \<Longrightarrow>
    i < length (ct_vehicles s) \<Longrightarrow>
    fresh_id (used_ids i (ct_vehicles s)) (ct_next_vehicle s) = Some 64"
proof -
  assume new: "new_controller B wa wb mock sched clk0 seed MAX_SESSIONS speed n ps = Inr s"
    and i: "i < length (ct_vehicles s)"
  obtain vs g where vs: "make_initial_vehicles n speed MAX_SESSIONS \<lparr>rng_draws = seed, rng_used = 0\<rparr> = (vs, g)"
    by fastforce
  have "id_view s = (map v_id vs, int MAX_SESSIONS, False)"
    using new vs by (cases mock) (auto simp: new_controller_def enter_all_view guardR_def id_view_blank split: if_splits)
  then have ids: "map v_id (ct_vehicles s) = map v_id vs" and nx: "ct_next_vehicle s = int MAX_SESSIONS"
    by (simp_all add: id_view_def)
  have "set (map v_id (ct_vehicles s)) \<subseteq> {0..<int MAX_SESSIONS}"
    unfolding ids by (rule initial_ids(2) [OF vs])
  then have "int MAX_SESSIONS \<notin> used_ids i (ct_vehicles s)"
    by (auto simp: used_ids_def dest!: in_set_takeD in_set_dropD)
  then show ?thesis by (simp add: nx fresh_id_unfold MAX_SESSIONS_def)
qed

text \<open>Witnesses: a demo of 64 vehicles on two mock boards.\<close>

definition mock_demo :: "mock_board controller res" where
  "mock_demo = new_controller mock_ops (new_worker BoardA (new_mock ''A'' zero_draws))
     (new_worker BoardB (new_mock ''B'' zero_draws)) True (\<lambda>_. [BoardA, BoardB]) unit_clock zero_draws
     MAX_SESSIONS 40 1 1258"

lemma mock_demo:
  obtains s where "mock_demo = Inr s" "reachable mock_ops (\<lambda>_. True) s" "length (ct_vehicles s) = 64"
proof -
  obtain vs g where vs: "make_initial_vehicles 1 40 MAX_SESSIONS \<lparr>rng_draws = zero_draws, rng_used = 0\<rparr> = (vs, g)"
    by fastforce
  define s where "s = enter_all mock_ops (ct_log ''SYSTEM'' ''Simulation ready''
     (blank_controller (new_worker BoardA (new_mock ''A'' zero_draws)) (new_worker BoardB (new_mock ''B'' zero_draws))
        True (\<lambda>_. [BoardA, BoardB]) unit_clock g MAX_SESSIONS 40 1 1258 vs))"
  have n: "mock_demo = Inr s"
    using vs by (auto simp: mock_demo_def new_controller_def MAX_LANES_PER_DIRECTION_def s_def MAX_SESSIONS_def)
  have "map v_id (ct_vehicles s) = map v_id vs"
    using enter_all_view [of mock_ops] by (simp add: s_def id_view_def blank_controller_def ct_log_def)
  then have "length (ct_vehicles s) = 64"
    using initial_length [OF vs] by (metis MAX_SESSIONS_def length_map)
  moreover have "reachable mock_ops (\<lambda>_. True) s"
    by (rule reachable.construct [OF _ _ n [unfolded mock_demo_def]]) simp_all
  ultimately show ?thesis using n that by blast
qed

theorem first_respawn_takes_64_witness:
  "\<exists>s :: mock_board controller. length (ct_vehicles s) = 64 \<and> fresh_id (used_ids 5 (ct_vehicles s)) (ct_next_vehicle s) = Some 64"
proof -
  from mock_demo obtain s where s: "mock_demo = Inr s" "length (ct_vehicles s) = 64" by blast
  from first_respawn_takes_64 [OF s(1) [unfolded mock_demo_def], of 5] s(2) show ?thesis by auto
qed

theorem respawn_terminates_witness:
  "\<exists>s :: mock_board controller. length (ct_vehicles s) = 64 \<and>
     (\<exists>n. fresh_id (used_ids 63 (ct_vehicles s)) (ct_next_vehicle s) = Some n)"
proof -
  from mock_demo obtain s :: "mock_board controller" where s: "reachable mock_ops (\<lambda>_. True) s" "length (ct_vehicles s) = 64" by blast
  from respawn_terminates [OF s(1), of 63] s(2) show ?thesis by auto
qed

theorem vehicle_ids_distinct_witness:
  "\<exists>s :: mock_board controller. length (ct_vehicles s) = 64 \<and> distinct (map v_id (ct_vehicles s))"
proof -
  from mock_demo obtain s :: "mock_board controller" where s: "reachable mock_ops (\<lambda>_. True) s" "length (ct_vehicles s) = 64" by blast
  from vehicle_ids_distinct [OF s(1)] s(2) show ?thesis by blast
qed

end
