(* ===== verification/SimLedger.thy ===== *)
theory SimLedger
  imports SimBooking SimIds "HOL-Library.Multiset"
begin

text \<open>
  The ledger of commands: the pending table of the controller lists exactly the commands that the
  workers have queued, are executing or have answered, each once.  So no answer is lost, none is for a
  command that nobody asked for, and every command is handled once its worker has run.
\<close>

section \<open>What is under way\<close>

text \<open>A pending entry or the identity of a command, by number, kind and vehicle.\<close>

fun entry_key :: "pending \<Rightarrow> int \<times> command_kind \<times> int" where
  "entry_key (n, k, v, ctx) = (n, k, v)"

fun ident_key :: "int \<times> board_id \<times> command_kind \<times> int \<Rightarrow> int \<times> command_kind \<times> int" where
  "ident_key (n, b, k, v) = (n, k, v)"

lemma fst_keys [simp]: "fst (entry_key p) = fst p" "fst (ident_key q) = fst q"
  by (cases p; simp) (cases q; simp)

text \<open>The commands of a board: \<open>rs\<close> are results of board \<open>b\<close> that were polled and not yet handled.\<close>

definition carried :: "board_id \<Rightarrow> board_result list \<Rightarrow> 'b controller \<Rightarrow> board_id \<Rightarrow> (int \<times> command_kind \<times> int) multiset" where
  "carried b rs s c = image_mset ident_key (mset (idents (ct_workers s c, only b rs c)))"

definition outstanding :: "board_id \<Rightarrow> board_result list \<Rightarrow> 'b controller \<Rightarrow> (int \<times> command_kind \<times> int) multiset" where
  "outstanding b rs s = carried b rs s BoardA + carried b rs s BoardB"

text \<open>\<open>E\<close> are commands entered into the table and not yet queued.\<close>

definition ledger :: "(int \<times> command_kind \<times> int) multiset \<Rightarrow> board_id \<Rightarrow> board_result list \<Rightarrow> 'b controller \<Rightarrow> bool" where
  "ledger E b rs s \<longleftrightarrow> image_mset entry_key (mset (ct_pending s)) = outstanding b rs s + E \<and>
     distinct (map fst (ct_pending s)) \<and> (\<forall>p \<in> set (ct_pending s). fst p < ct_next_command s)"

lemma outstanding_cong:
  "(\<And>c. idents (ct_workers s' c, only b' rs' c) = idents (ct_workers s c, only b rs c)) \<Longrightarrow>
    outstanding b' rs' s' = outstanding b rs s"
  by (simp add: outstanding_def carried_def)

lemma ledger_cong:
  assumes "ledger E b rs s" "ct_pending s' = ct_pending s" "ct_next_command s' = ct_next_command s"
    and "\<And>c. idents (ct_workers s' c, only b' rs' c) = idents (ct_workers s c, only b rs c)"
  shows "ledger E b' rs' s'"
  using assms outstanding_cong [of s' b' rs' s b rs] by (simp add: ledger_def)

lemma ledger_run: "ledger E b rs s \<Longrightarrow> ledger E b rs (run_worker B c s)"
  by (erule ledger_cong) (simp_all add: run_worker_def wk_step_idents)

lemma ledger_yield: "ledger E b rs s \<Longrightarrow> ledger E b rs (yield B s)"
proof -
  have "ledger E b rs t \<Longrightarrow> ledger E b rs (foldl (\<lambda>t b. run_worker B b t) t cs)" for t cs
    by (induction cs arbitrary: t) (auto intro: ledger_run)
  then show "ledger E b rs s \<Longrightarrow> ?thesis"
    unfolding yield_def by (rule ledger_cong) auto
qed

lemma ledger_put:
  assumes "ledger (add_mset (bc_command_id c, bc_kind c, bc_vehicle_id c) E) b rs s"
  shows "ledger E b rs (s\<lparr>ct_workers := (ct_workers s)(d := submit c (ct_workers s d))\<rparr>)"
  using assms by (cases d) (simp_all add: ledger_def outstanding_def carried_def idents_submit cmd_ident_def)

lemma ledger_submit:
  assumes "ledger {#} b rs s"
  shows "ledger {#} b rs (submit_command B d kind vid sl p t ctx s)"
proof -
  define n c where "n = ct_next_command s" and "c = \<lparr>bc_command_id = n, bc_kind = kind, bc_vehicle_id = vid,
      bc_slot = sl, bc_payload = p, bc_tamper = t\<rparr>"
  define s1 where "s1 = s\<lparr>ct_next_command := n + 1, ct_pending := ct_pending s @ [(n, kind, vid, ctx)]\<rparr>"
  have "outstanding b rs s1 = outstanding b rs s" by (rule outstanding_cong) (simp add: s1_def)
  then have "ledger {#(bc_command_id c, bc_kind c, bc_vehicle_id c)#} b rs s1"
    using assms by (auto simp: ledger_def s1_def n_def c_def)
  from ledger_put [OF ledger_yield [OF this]]
  have "ledger {#} b rs ((yield B s1)\<lparr>ct_workers := (ct_workers (yield B s1))(d := submit c (ct_workers (yield B s1) d))\<rparr>)" .
  then show ?thesis
    unfolding submit_command_def Let_def n_def [symmetric] c_def [symmetric] s1_def [symmetric] by simp
qed

lemma ledger_poll:
  assumes "ledger {#} b [] s" "poll (ct_workers s c) = (rs, w)"
  shows "ledger {#} c rs (s\<lparr>ct_workers := (ct_workers s)(c := w)\<rparr>)"
proof (rule ledger_cong [OF assms(1)])
  show "idents (ct_workers (s\<lparr>ct_workers := (ct_workers s)(c := w)\<rparr>) d, only c rs d) = idents (ct_workers s d, only b [] d)" for d
    using assms(2) by (auto simp: poll_def only_def idents_def answered_def unanswered_def)
qed simp_all

lemma pop_distinct:
  assumes "distinct (map fst ps)" "(n, x) \<in> set ps"
  shows "\<exists>qs. pop_pending n ps = (Some x, qs) \<and> mset ps = add_mset (n, x) (mset qs) \<and>
    distinct (map fst qs) \<and> set qs \<subseteq> set ps"
  using assms
proof (induction ps)
  case (Cons p ps)
  show ?case
  proof (cases "fst p = n")
    case True
    then have "p = (n, x)" using Cons.prems by (force simp: image_iff)
    then show ?thesis using Cons.prems by auto
  next
    case False
    then obtain qs where q: "pop_pending n ps = (Some x, qs)" "mset ps = add_mset (n, x) (mset qs)"
      "distinct (map fst qs)" "set qs \<subseteq> set ps" using Cons by auto
    then have "fst p \<notin> fst ` set qs" using Cons.prems(1) by auto
    then show ?thesis using False q by auto
  qed
qed simp

text \<open>The entry that is popped for an answer is that of its command.\<close>

lemma ledger_pop:
  assumes "ledger {#} b (r # rs) s"
  obtains ctx qs where "pop_pending (br_command_id r) (ct_pending s) = (Some (br_kind r, br_vehicle_id r, ctx), qs)"
    "ledger {#} b rs (s\<lparr>ct_pending := qs\<rparr>)"
proof -
  let ?q = "(br_command_id r, br_kind r, br_vehicle_id r)"
  have out: "outstanding b (r # rs) s = add_mset ?q (outstanding b rs s)"
    by (cases b) (simp_all add: outstanding_def carried_def idents_def answered_def res_ident_def)
  have m: "image_mset entry_key (mset (ct_pending s)) = add_mset ?q (outstanding b rs s)"
    and d: "distinct (map fst (ct_pending s))" and n: "\<forall>p \<in> set (ct_pending s). fst p < ct_next_command s"
    using assms by (simp_all add: ledger_def out)
  have "?q \<in># image_mset entry_key (mset (ct_pending s))" unfolding m by simp
  then obtain ctx where c: "(br_command_id r, br_kind r, br_vehicle_id r, ctx) \<in> set (ct_pending s)"
    by (auto elim: entry_key.elims)
  from pop_distinct [OF d this] obtain qs where p: "pop_pending (br_command_id r) (ct_pending s) = (Some (br_kind r, br_vehicle_id r, ctx), qs)"
    and mq: "mset (ct_pending s) = add_mset (br_command_id r, br_kind r, br_vehicle_id r, ctx) (mset qs)"
    and dq: "distinct (map fst qs)" "set qs \<subseteq> set (ct_pending s)" by auto
  have "outstanding b rs (s\<lparr>ct_pending := qs\<rparr>) = outstanding b rs s" by (rule outstanding_cong) simp
  moreover have "image_mset entry_key (mset qs) = outstanding b rs s" using m mq by simp
  ultimately have "ledger {#} b rs (s\<lparr>ct_pending := qs\<rparr>)" using n dq by (auto simp: ledger_def)
  with p show thesis by (rule that)
qed

section \<open>The invariant\<close>

definition ledger_inv :: "nat \<Rightarrow> board_id \<Rightarrow> board_result list \<Rightarrow> 'b controller \<Rightarrow> bool" where
  "ledger_inv N b rs s \<longleftrightarrow> length (ct_vehicles s) = N \<and> ledger {#} b rs s"

lemma ledger_inv_cong:
  assumes "ledger_inv N b rs s" "ct_workers s' = ct_workers s" "ct_pending s' = ct_pending s"
    and "ct_next_command s' = ct_next_command s" "length (ct_vehicles s') = length (ct_vehicles s)"
  shows "ledger_inv N b rs s'"
  using assms ledger_cong [of "{#}" b rs s s' b rs] by (simp add: ledger_inv_def)

lemma settled_fields [simp]:
  "ct_workers (settled k r ps s) = ct_workers s" "ct_next_command (settled k r ps s) = ct_next_command s"
  "ct_pending (settled k r ps s) = ps" "ct_vehicles (settled k r ps s) = ct_vehicles s"
  by (simp_all add: settled_def Let_def split: option.split)

lemma ledger_inv_settled:
  assumes "ledger_inv N b (r # rs) s" "pop_pending (br_command_id r) (ct_pending s) = (Some x, ps)"
  shows "ledger_inv N b rs (settled kind r ps s)"
proof -
  have "ledger {#} b (r # rs) s" using assms(1) by (simp add: ledger_inv_def)
  then show ?thesis
  proof (rule ledger_pop)
    fix ctx qs assume "pop_pending (br_command_id r) (ct_pending s) = (Some (br_kind r, br_vehicle_id r, ctx), qs)"
      and l: "ledger {#} b rs (s\<lparr>ct_pending := qs\<rparr>)"
    then have "qs = ps" using assms(2) by simp
    then have "ledger_inv N b rs (s\<lparr>ct_pending := ps\<rparr>)" using l assms(1) by (simp add: ledger_inv_def)
    then show ?thesis by (rule ledger_inv_cong) simp_all
  qed
qed

interpretation led: step_invariant B ledger_inv for B :: "'b board_ops"
proof (unfold_locales, goal_cases)
  case (2 N b rs s c)
  then show ?case using ledger_run [of "{#}" b rs s B c] by (simp add: ledger_inv_def run_worker_def)
next
  case (10 N b rs s slot target vid p t reason)
  have "ledger_inv N b rs (s\<lparr>ct_reserved := (ct_reserved s)(target := insert slot (ct_reserved s target))\<rparr>)"
    by (rule ledger_inv_cong [OF 10(1)]) simp_all
  then show ?case by (auto simp: ledger_inv_def submit_command_vehicles intro: ledger_submit)
next
  case (11 N b rs s kind ctx vid board sl p t)
  then show ?case by (auto simp: ledger_inv_def submit_command_vehicles intro: ledger_submit)
next
  case (12 N b rs s vid board sl p t)
  have "ledger_inv N b rs (s\<lparr>ct_attempts := ct_attempts s + 1\<rparr>)" by (rule ledger_inv_cong [OF 12(1)]) simp_all
  then show ?case by (auto simp: ledger_inv_def submit_command_vehicles intro: ledger_submit)
next
  case (13 N b s c rs w)
  then show ?case by (auto simp: ledger_inv_def intro: ledger_poll)
next
  case (14 N b rs s c)
  have "ledger {#} b rs (s\<lparr>ct_workers := (ct_workers s)(c := stop (ct_workers s c))\<rparr>)"
    by (rule ledger_cong [where b = b and rs = rs and s = s])
      (use 14 in \<open>simp_all add: ledger_inv_def stop_def idents_def answered_def unanswered_def map_filter_simps\<close>)
  then show ?case using 14 by (simp add: ledger_inv_def)
next
  case (15 N b r rs s kind vid ctx ps)
  then show ?case by (intro ledger_inv_settled)
next
  case (16 N b r rs s kind vid ctx ps)
  then have "ledger_inv N b rs (settled kind r ps s)" by (intro ledger_inv_settled)
  then show ?case by (rule ledger_inv_cong) simp_all
next
  case (17 N b r rs s)
  then have "ledger {#} b (r # rs) s" by (simp add: ledger_inv_def)
  then show ?case by (rule ledger_pop) (use 17(2) in simp)
next
  case (18 N b rs s c)
  have "ledger {#} b rs (s\<lparr>ct_workers := (ct_workers s)(c := close_board B (ct_workers s c))\<rparr>)"
    by (rule ledger_cong [where b = b and rs = rs and s = s])
      (use 18 in \<open>simp_all add: ledger_inv_def idents_def answered_def unanswered_def\<close>)
  then show ?case using 18 by (simp add: ledger_inv_def)
qed (erule ledger_inv_cong; simp add: quiet_def ct_log_def set_vehicle_def | simp add: ledger_inv_def)+

lemma reachable_ledger:
  assumes "reachable B P s"
  shows "ledger {#} BoardB [] s"
proof -
  have "\<exists>N. ledger_inv N BoardB [] s"
  proof (rule led.reachable_J [OF assms])
    fix a b mock sched clk0 g n v and l :: nat and ps vs seed
    assume "make_initial_vehicles l v n \<lparr>rng_draws = seed, rng_used = 0\<rparr> = (vs, g)"
    then show "ledger_inv n BoardB [] (blank_controller (new_worker BoardA a) (new_worker BoardB b) mock sched clk0 g n v l ps vs)"
      by (simp add: ledger_inv_def ledger_def outstanding_def carried_def blank_controller_def new_worker_def
          idents_def answered_def unanswered_def map_filter_simps initial_length)
  qed
  then show ?thesis by (auto simp: ledger_inv_def)
qed

section \<open>Every command is handled\<close>

text \<open>The numbers of the commands a thread still has to answer, and of the answers it has put.\<close>

definition waiting :: "'b worker \<Rightarrow> int set" where
  "waiting w = bc_command_id ` set (unanswered w) \<union> (case wk_phase w of Finished r \<Rightarrow> {br_command_id r} | _ \<Rightarrow> {})"

definition ready :: "'b worker \<Rightarrow> int set" where
  "ready w = br_command_id ` set (wk_results w)"

lemma waiting_step: "waiting (wk_step B w) \<subseteq> waiting w" "ready (wk_step B w) \<subseteq> ready w \<union> waiting w"
proof -
  have "br_command_id r = bc_command_id c" if "run_command B (wk_name w) c d = (r, d')" for r c d d'
    using run_command_spec [of B "wk_name w" c "fst d" "snd d" r "fst d'" "snd d'"] that
    by (auto simp: res_ident_def cmd_ident_def)
  then show "waiting (wk_step B w) \<subseteq> waiting w" "ready (wk_step B w) \<subseteq> ready w \<union> waiting w"
    by (auto simp: waiting_def ready_def unanswered_def wk_step_def map_filter_simps
        split: worker_phase.splits list.splits option.splits prod.splits)
qed

lemma waiting_calls [simp]:
  "waiting (submit c w) = insert (bc_command_id c) (waiting w)" "ready (submit c w) = ready w"
  "waiting (stop w) = waiting w" "ready (stop w) = ready w"
  "waiting (close_board B w) = waiting w" "ready (close_board B w) = ready w"
  by (auto simp: waiting_def ready_def unanswered_def submit_def stop_def map_filter_simps split: worker_phase.splits)

text \<open>The commands \<open>D\<close> wait for no thread any more, and their answers wait at most at the boards \<open>T\<close>.\<close>

definition settled_on :: "int set \<Rightarrow> board_id set \<Rightarrow> 'b controller \<Rightarrow> bool" where
  "settled_on D T s \<longleftrightarrow> (\<forall>d \<in> D. d < ct_next_command s \<and>
     (\<forall>c. d \<notin> waiting (ct_workers s c) \<and> (c \<in> T \<or> d \<notin> ready (ct_workers s c))))"

lemma settled_on_cong:
  "settled_on D T s \<Longrightarrow> ct_workers s' = ct_workers s \<Longrightarrow> ct_next_command s' = ct_next_command s \<Longrightarrow> settled_on D T s'"
  by (simp add: settled_on_def)

lemma settled_on_simps [simp]:
  "settled_on D T (ct_log k m s) = settled_on D T s" "settled_on D T (set_vehicle i f s) = settled_on D T s"
  by (simp_all add: settled_on_def ct_log_def)

lemma settled_on_mono: "settled_on D T s \<Longrightarrow> T \<subseteq> T' \<Longrightarrow> settled_on D T' s"
  unfolding settled_on_def by blast

lemma settled_on_run: "settled_on D T s \<Longrightarrow> settled_on D T (run_worker B c s)"
  unfolding settled_on_def run_worker_def using waiting_step [of B "ct_workers s c"] by auto

lemma settled_on_yield: "settled_on D T s \<Longrightarrow> settled_on D T (yield B s)"
proof -
  have "settled_on D T t \<Longrightarrow> settled_on D T (foldl (\<lambda>t b. run_worker B b t) t cs)" for t cs
    by (induction cs arbitrary: t) (auto intro: settled_on_run)
  then show "settled_on D T s \<Longrightarrow> ?thesis"
    unfolding yield_def by (rule settled_on_cong) auto
qed

lemma settled_on_submit:
  assumes "settled_on D T s"
  shows "settled_on D T (submit_command B d kind vid sl p t ctx s)"
proof -
  define n where "n = ct_next_command s"
  define s1 where "s1 = s\<lparr>ct_next_command := n + 1, ct_pending := ct_pending s @ [(n, kind, vid, ctx)]\<rparr>"
  have "n \<notin> D" "settled_on D T s1" using assms by (auto simp: settled_on_def n_def s1_def)
  then have "n \<notin> D" "settled_on D T (yield B s1)" by (auto intro: settled_on_yield)
  then show ?thesis
    unfolding submit_command_def Let_def n_def [symmetric] s1_def [symmetric]
    by (auto simp: settled_on_def)
qed

lemma settled_on_poll:
  assumes "settled_on D T s" "poll (ct_workers s c) = (rs, w)"
  shows "settled_on D (T - {c}) (s\<lparr>ct_workers := (ct_workers s)(c := w)\<rparr>)"
proof -
  have "waiting w = waiting (ct_workers s c)" "ready w = {}"
    using assms(2) by (auto simp: poll_def waiting_def ready_def unanswered_def)
  then show ?thesis using assms(1) by (simp add: settled_on_def)
qed

definition settled_inv :: "int set \<Rightarrow> board_id set \<Rightarrow> nat \<Rightarrow> board_id \<Rightarrow> board_result list \<Rightarrow> 'b controller \<Rightarrow> bool" where
  "settled_inv D T N b rs s \<longleftrightarrow> ledger_inv N b rs s \<and> settled_on D T s"

interpretation sett: step_invariant B "settled_inv D T" for B :: "'b board_ops" and D T
proof (unfold_locales, goal_cases)
  case (2 N b rs s c)
  then show ?case by (simp add: settled_inv_def led.worker_runs settled_on_run)
next
  case (3 N b rs s s')
  then show ?case using led.quiet_change [of N b rs s s']
    by (auto simp: settled_inv_def quiet_def elim: settled_on_cong)
next
  case (10 N b rs s slot target vid p t reason)
  have "settled_on D T (s\<lparr>ct_reserved := (ct_reserved s)(target := insert slot (ct_reserved s target))\<rparr>)"
    using 10(1) by (auto simp: settled_inv_def elim: settled_on_cong)
  then show ?case using 10 by (auto simp: settled_inv_def intro: led.opens settled_on_submit)
next
  case (11 N b rs s kind ctx vid board sl p t)
  then show ?case by (auto simp: settled_inv_def intro: led.submits settled_on_submit)
next
  case (12 N b rs s vid board sl p t)
  have "settled_on D T (s\<lparr>ct_attempts := ct_attempts s + 1\<rparr>)"
    using 12(1) by (auto simp: settled_inv_def elim: settled_on_cong)
  then show ?case using 12 by (auto simp: settled_inv_def intro: led.attacks settled_on_submit)
next
  case (13 N b s c rs w)
  then have "settled_on D T (s\<lparr>ct_workers := (ct_workers s)(c := w)\<rparr>)"
    using settled_on_poll [of D T s c rs w] by (auto simp: settled_inv_def intro: settled_on_mono)
  then show ?case using 13 by (auto simp: settled_inv_def intro: led.polls)
next
  case (14 N b rs s c)
  then show ?case by (auto simp: settled_inv_def settled_on_def intro: led.stops)
next
  case (15 N b r rs s kind vid ctx ps)
  then show ?case by (auto simp: settled_inv_def intro: led.settles elim: settled_on_cong)
next
  case (16 N b r rs s kind vid ctx ps)
  then show ?case by (auto simp: settled_inv_def intro: led.blocks elim: settled_on_cong)
next
  case (17 N b r rs s)
  then show ?case by (auto simp: settled_inv_def intro: led.drops)
next
  case (18 N b rs s c)
  then show ?case by (auto simp: settled_inv_def settled_on_def intro: led.closes)
qed (auto simp: settled_inv_def intro: led.sized led.logged led.vehicle_reborn led.never_reborn
    led.setup_recorded led.sw_recorded led.vehicle_changed elim: settled_on_cong)

lemma settled_collect_from:
  assumes "settled_inv D T N b [] s"
  shows "settled_inv D (T - {c}) N c [] (collect_from B c s)"
proof -
  obtain rs w where p: "poll (ct_workers (yield B s) c) = (rs, w)" by fastforce
  have y: "settled_inv D T N b [] (yield B s)" by (rule sett.yield_J [OF assms])
  have "settled_inv D (T - {c}) N c rs ((yield B s)\<lparr>ct_workers := (ct_workers (yield B s))(c := w)\<rparr>)"
    using y led.polls [OF _ p] settled_on_poll [OF _ p] by (auto simp: settled_inv_def)
  from sett.handle_results_J [OF this] show ?thesis
    by (simp add: collect_from_def poll_worker_def Let_def p)
qed

lemma settled_update:
  assumes "settled_inv D UNIV N b [] s"
  shows "settled_inv D {} N BoardB [] (update B dt s)"
proof (rule sett.after_collect_J [OF _ refl])
  have "UNIV - {BoardA} - {BoardB} = {}" by (auto intro: board_id.exhaust)
  from settled_collect_from [OF settled_collect_from [OF assms, of BoardA B], of BoardB B, unfolded this]
  show "settled_inv D {} N BoardB [] (collect_results B s)"
    by (simp add: collect_results_def all_boards_def)
qed

text \<open>With no answer left anywhere, the ledger says that nothing of \<open>D\<close> is pending.\<close>

lemma settled_not_pending:
  assumes "settled_inv D {} N b [] s" "d \<in> D"
  shows "d \<notin> fst ` set (ct_pending s)"
proof
  assume "d \<in> fst ` set (ct_pending s)"
  then obtain p where "p \<in> set (ct_pending s)" "fst p = d" by blast
  then have "entry_key p \<in># outstanding b [] s"
    using assms(1) unfolding settled_inv_def ledger_inv_def ledger_def by (metis add.right_neutral image_mset.comp image_eqI set_image_mset set_mset_mset)
  then obtain c q where q: "q \<in> set (idents (ct_workers s c, []))" and k: "entry_key p = ident_key q"
    by (auto simp: outstanding_def carried_def only_def)
  have "fst q = d" using arg_cong [OF k, of fst] \<open>fst p = d\<close> by simp
  with q have "\<exists>q \<in> set (idents (ct_workers s c, [])). fst q = d" by blast
  then have "d \<in> waiting (ct_workers s c) \<union> ready (ct_workers s c)"
    by (auto simp: idents_def answered_def waiting_def ready_def res_ident_def cmd_ident_def split: worker_phase.splits)
  then show False using assms by (auto simp: settled_inv_def settled_on_def)
qed

text \<open>Running one worker until it rests.\<close>

lemma run_worker_pow: "(run_worker B c ^^ n) s = s\<lparr>ct_workers := (ct_workers s)(c := (wk_step B ^^ n) (ct_workers s c))\<rparr>"
  by (induction n) (simp_all add: run_worker_def fun_upd_def cong: if_cong)

lemma workers_rest:
  assumes "\<forall>c. \<not> ending (ct_workers s c)"
  shows "\<exists>m n. let s' = (run_worker B BoardA ^^ m) ((run_worker B BoardB ^^ n) s) in
    \<forall>c. waiting (ct_workers s' c) = {}"
proof -
  have "\<exists>n. waiting ((wk_step B ^^ n) (ct_workers s c)) = {}" for c
  proof -
    obtain n where "wk_phase ((wk_step B ^^ n) (ct_workers s c)) = Waiting" "wk_commands ((wk_step B ^^ n) (ct_workers s c)) = []"
      using worker_rests [of B "ct_workers s c"] assms by (auto simp: Let_def)
    then show ?thesis by (intro exI [of _ n]) (simp add: waiting_def unanswered_def map_filter_simps)
  qed
  then obtain m n where "waiting ((wk_step B ^^ m) (ct_workers s BoardA)) = {}" "waiting ((wk_step B ^^ n) (ct_workers s BoardB)) = {}"
    by blast
  then have "\<forall>c. waiting (ct_workers ((run_worker B BoardA ^^ m) ((run_worker B BoardB ^^ n) s)) c) = {}"
    by (auto simp: run_worker_pow intro: board_id.exhaust)
  then show ?thesis unfolding Let_def by blast
qed

lemma reachable_runs: "reachable B P s \<Longrightarrow> reachable B P ((run_worker B c ^^ n) s)"
  by (induction n) (auto dest: reachable.happen [where e = "WorkerStep c"])

section \<open>The properties\<close>

text \<open>C22. The ledger: in every reachable state the pending table lists exactly the commands that the two workers
  have queued, hold, or have answered without the answer having been handled, each once, with its kind
  and vehicle.  No answer is lost or duplicated, and none is unexpected.\<close>

theorem commands_accounted:
  assumes "reachable B P s"
  shows "mset (map entry_key (ct_pending s)) =
      mset (concat (map (\<lambda>b. map ident_key (idents (ct_workers s b, []))) all_boards)) \<and>
    distinct (map fst (ct_pending s))"
  using reachable_ledger [OF assms] by (simp add: ledger_def outstanding_def carried_def all_boards_def)

text \<open>C23. Every command is handled: as long as no stop was requested, after finitely many steps of the two
  threads the next frame, whatever its length and whether the simulation is paused or not, removes
  from the pending table every command that is pending now.\<close>

theorem commands_handled:
  assumes "reachable B P s" "\<And>b. wk_phase (ct_workers s b) \<noteq> Stopped" "\<And>b. None \<notin> set (wk_commands (ct_workers s b))"
  shows "\<exists>m n. \<forall>dt. fst ` set (ct_pending s) \<inter>
    fst ` set (ct_pending (update B dt ((run_worker B BoardA ^^ m) ((run_worker B BoardB ^^ n) s)))) = {}"
proof -
  have "\<forall>c. \<not> ending (ct_workers s c)" using assms(2,3) by (auto simp: ending_def)
  from workers_rest [OF this, of B] obtain m n where w: "\<forall>c. waiting (ct_workers ((run_worker B BoardA ^^ m) ((run_worker B BoardB ^^ n) s)) c) = {}"
    unfolding Let_def by blast
  define s' where "s' = (run_worker B BoardA ^^ m) ((run_worker B BoardB ^^ n) s)"
  have p: "ct_pending s' = ct_pending s" by (simp add: s'_def run_worker_pow)
  have "reachable B P s'" unfolding s'_def by (intro reachable_runs assms(1))
  from reachable_ledger [OF this] have l: "ledger_inv (length (ct_vehicles s')) BoardB [] s'" by (simp add: ledger_inv_def)
  then have "settled_inv (fst ` set (ct_pending s)) UNIV (length (ct_vehicles s')) BoardB [] s'"
    using w by (auto simp: settled_inv_def settled_on_def s'_def [symmetric] ledger_inv_def ledger_def p)
  from settled_not_pending [OF settled_update [OF this]] show ?thesis
    unfolding s'_def [symmetric] by (intro exI [of _ m] exI [of _ n]) (auto simp: s'_def)
qed

section \<open>Witnesses\<close>

definition alive :: "'b controller \<Rightarrow> bool" where
  "alive s \<longleftrightarrow> (\<forall>b. \<not> ending (ct_workers s b))"

lemma alive_simps [simp]: "alive (ct_log k m s) = alive s" "alive (set_vehicle i f s) = alive s"
  "alive (s\<lparr>ct_reserved := r\<rparr>) = alive s" "alive (s\<lparr>ct_next_command := c\<rparr>) = alive s" "alive (s\<lparr>ct_pending := q\<rparr>) = alive s"
  "alive (s\<lparr>ct_ticks := n\<rparr>) = alive s"
  by (simp_all add: alive_def ct_log_def)

lemma alive_put:
  assumes "ending w = ending (ct_workers s c)"
  shows "alive (s\<lparr>ct_workers := (ct_workers s)(c := w)\<rparr>) = alive s"
  unfolding alive_def using assms by simp metis

lemma alive_yield [simp]: "alive (yield B s) = alive s"
proof -
  have "alive (foldl (\<lambda>t b. run_worker B b t) t cs) = alive t" for t cs
    by (induction cs arbitrary: t) (simp_all add: run_worker_def alive_put ending_step)
  then show ?thesis by (simp add: yield_def alive_def)
qed

lemma alive_submit [simp]: "alive (submit_command B d kind vid sl p t ctx s) = alive s"
proof -
  have "ending (submit c w) = ending w" for c and w :: "'a worker" by (auto simp: ending_def submit_def)
  note this [simp]
  have "alive (u\<lparr>ct_workers := (ct_workers u)(d := submit c (ct_workers u d))\<rparr>) = alive u" for c and u :: "'a controller"
    by (simp add: alive_put)
  then show ?thesis by (simp add: submit_command_def Let_def)
qed

lemma alive_request_open: "alive s \<Longrightarrow> alive (request_open B i target reason s)"
proof -
  assume s: "alive s"
  have "scan_slots B target ks t = (x, t') \<Longrightarrow> alive t \<Longrightarrow> alive t'" for ks t x t'
    by (induction ks arbitrary: t) (auto simp: Let_def split: if_splits)
  then have "free_slot B target s = (x, t) \<Longrightarrow> alive t" for x t using s by (simp add: free_slot_def)
  then show ?thesis
    by (auto simp: request_open_def no_free_slot_def start_open_def Let_def ct_time_def split: prod.split option.split)
qed

lemma alive_enter_all: "alive s \<Longrightarrow> alive (enter_all B s)"
proof -
  have "alive t \<Longrightarrow> alive (fold (\<lambda>i s. request_open B i (board_for_position (v_position (the_vehicle i s))) Entry s) js t)" for js t
    by (induction js arbitrary: t) (auto intro: alive_request_open)
  then show "alive s \<Longrightarrow> ?thesis" by (simp add: enter_all_def)
qed

lemma alive_blank: "alive (blank_controller (new_worker BoardA a) (new_worker BoardB b) mock sched clk0 g n v l ps vs)"
  by (auto simp: alive_def blank_controller_def ending_def new_worker_def split: board_id.split)

lemma demo_alive: "mock_demo = Inr s \<Longrightarrow> alive s"
  by (auto simp: mock_demo_def new_controller_def alive_enter_all alive_blank split: prod.splits)

theorem commands_accounted_witness:
  "\<exists>s :: mock_board controller. length (ct_vehicles s) = 64 \<and> distinct (map fst (ct_pending s))"
proof -
  from mock_demo obtain s :: "mock_board controller" where s: "reachable mock_ops (\<lambda>_. True) s" "length (ct_vehicles s) = 64" by blast
  from commands_accounted [OF s(1)] s(2) show ?thesis by blast
qed

theorem commands_handled_witness:
  "\<exists>(s :: mock_board controller) m n. length (ct_vehicles s) = 64 \<and> fst ` set (ct_pending s) \<inter>
    fst ` set (ct_pending (update mock_ops (1 / 60) ((run_worker mock_ops BoardA ^^ m) ((run_worker mock_ops BoardB ^^ n) s)))) = {}"
proof -
  from mock_demo obtain s :: "mock_board controller" where s: "mock_demo = Inr s" "reachable mock_ops (\<lambda>_. True) s" "length (ct_vehicles s) = 64" by blast
  have "wk_phase (ct_workers s b) \<noteq> Stopped" "None \<notin> set (wk_commands (ct_workers s b))" for b
    using demo_alive [OF s(1)] by (auto simp: alive_def ending_def)
  from commands_handled [OF s(2) this] s(3) show ?thesis by blast
qed

end
