(* ===== verification/SimCounters.thy ===== *)
theory SimCounters
  imports SimIds
begin

text \<open>
  The controller's counters and buffers: no attack is counted as blocked more than once, a vehicle never
  has two DATA commands under way, and the event log and the two histories stay within their bounds.
\<close>

section \<open>The pending table\<close>

definition data_vids :: "pending list \<Rightarrow> int list" where
  "data_vids ps = map (\<lambda>(_, _, v, _). v) (filter (\<lambda>(_, k, _, _). k = KData) ps)"

definition open_attacks :: "pending list \<Rightarrow> int" where
  "open_attacks ps = int (length (filter (\<lambda>(_, k, _, ctx). k = KData \<and> ctx_attack ctx) ps))"

lemma pending_simps [simp]:
  "data_vids [] = []" "data_vids (ps @ qs) = data_vids ps @ data_vids qs"
  "data_vids ((n, k, v, ctx) # ps) = (if k = KData then [v] else []) @ data_vids ps"
  "open_attacks [] = 0" "open_attacks (ps @ qs) = open_attacks ps + open_attacks qs"
  "open_attacks ((n, k, v, ctx) # ps) = (if k = KData \<and> ctx_attack ctx then 1 else 0) + open_attacks ps"
  by (simp_all add: data_vids_def open_attacks_def)

lemma has_pending_data_vids: "has_pending_data v s \<longleftrightarrow> v \<in> set (data_vids (ct_pending s))"
  by (auto simp: has_pending_data_def data_vids_def list_ex_iff image_iff)

text \<open>Popping removes one entry.\<close>

lemma pop_pending_split:
  "pop_pending n ps = (Some x, qs) \<Longrightarrow> \<exists>as bs. ps = as @ (n, x) # bs \<and> qs = as @ bs"
proof (induction n ps arbitrary: qs rule: pop_pending.induct)
  case (2 n p ps)
  show ?case
  proof (cases "fst p = n")
    case True
    then have "p # ps = [] @ (n, x) # ps \<and> qs = [] @ ps" using "2.prems" by (auto simp: prod_eq_iff)
    then show ?thesis by blast
  next
    case False
    then obtain rest where r: "pop_pending n ps = (Some x, rest)" and q: "qs = p # rest"
      using "2.prems" by (auto split: prod.splits)
    from "2.IH" [OF False r] obtain as bs where "ps = as @ (n, x) # bs" "rest = as @ bs" by blast
    then have "p # ps = (p # as) @ (n, x) # bs \<and> qs = (p # as) @ bs" using q by simp
    then show ?thesis by blast
  qed
qed simp

section \<open>The invariant\<close>

definition counted :: "pending list \<Rightarrow> int \<Rightarrow> int \<Rightarrow> bool" where
  "counted ps blocked attempts \<longleftrightarrow> distinct (data_vids ps) \<and> 0 \<le> blocked \<and> blocked + open_attacks ps \<le> attempts"

lemma counted_pop:
  assumes "counted ps blk att" "pop_pending n ps = (Some (kind, vid, ctx), qs)"
  shows "counted qs blk att" and "kind = KData \<Longrightarrow> ctx_attack ctx \<Longrightarrow> counted qs (blk + 1) att"
proof -
  from pop_pending_split [OF assms(2)] obtain as bs where "ps = as @ (n, kind, vid, ctx) # bs" "qs = as @ bs" by blast
  then show "counted qs blk att" "kind = KData \<Longrightarrow> ctx_attack ctx \<Longrightarrow> counted qs (blk + 1) att"
    using assms(1) by (auto simp: counted_def split: if_splits)
qed

definition counters_inv :: "nat \<Rightarrow> board_id \<Rightarrow> board_result list \<Rightarrow> 'b controller \<Rightarrow> bool" where
  "counters_inv N b rs s \<longleftrightarrow> length (ct_vehicles s) = N \<and> counted (ct_pending s) (ct_blocked s) (ct_attempts s) \<and>
     length (ct_events s) \<le> 12 \<and> length (ct_kem_history s) \<le> KEM_HISTORY \<and> length (ct_sw_history s) \<le> KEM_HISTORY"

lemma submit_command_sel [simp]:
  "ct_vehicles (submit_command B c k v sl p t x s) = ct_vehicles s"
  "ct_pending (submit_command B c k v sl p t x s) = ct_pending s @ [(ct_next_command s, k, v, x)]"
  "ct_attempts (submit_command B c k v sl p t x s) = ct_attempts s"
  "ct_blocked (submit_command B c k v sl p t x s) = ct_blocked s"
  "ct_events (submit_command B c k v sl p t x s) = ct_events s"
  "ct_kem_history (submit_command B c k v sl p t x s) = ct_kem_history s"
  "ct_sw_history (submit_command B c k v sl p t x s) = ct_sw_history s"
  by (simp_all add: submit_command_def Let_def)

lemma settled_sel [simp]:
  "ct_vehicles (settled k r ps s) = ct_vehicles s" "ct_pending (settled k r ps s) = ps"
  "ct_attempts (settled k r ps s) = ct_attempts s" "ct_blocked (settled k r ps s) = ct_blocked s"
  "ct_events (settled k r ps s) = ct_events s" "ct_kem_history (settled k r ps s) = ct_kem_history s"
  "ct_sw_history (settled k r ps s) = ct_sw_history s"
  by (simp_all add: settled_def Let_def split: option.split)

lemma counters_submit:
  assumes "counters_inv N b rs s" "kind = KData \<Longrightarrow> \<not> has_pending_data vid s" "ct_attempts s' = ct_attempts s + a"
    and "\<And>f. ct_vehicles s' = ct_vehicles s" "ct_pending s' = ct_pending s" "ct_blocked s' = ct_blocked s"
    and "ct_events s' = ct_events s" "ct_kem_history s' = ct_kem_history s" "ct_sw_history s' = ct_sw_history s"
    and "(if kind = KData \<and> ctx_attack ctx then 1 else 0) \<le> a"
  shows "counters_inv N b rs (submit_command B c kind vid sl p t ctx s')"
  using assms by (auto simp: counters_inv_def counted_def has_pending_data_vids split: if_splits)

interpretation counters: step_invariant B counters_inv for B :: "'b board_ops"
proof unfold_locales
  fix N b rs vid board sl p t and s :: "'b controller"
  assume "counters_inv N b rs s" "\<not> has_pending_data vid s"
  then show "counters_inv N b rs (submit_command B board KData vid sl p t (attack_context True)
      (s\<lparr>ct_attempts := ct_attempts s + 1\<rparr>))"
    by (rule counters_submit [where a = 1]) (simp_all)
next
  fix N b rs kind vid board sl p t and ctx :: cmd_context and s :: "'b controller"
  assume "counters_inv N b rs s" "kind \<noteq> KOpen" "\<not> ctx_attack ctx" "kind = KData \<longrightarrow> \<not> has_pending_data vid s"
  then show "counters_inv N b rs (submit_command B board kind vid sl p t ctx s)"
    by (intro counters_submit [where a = 0]) simp_all
next
  fix N b rs slot target vid p t reason and s :: "'b controller"
  assume "counters_inv N b rs s"
  then show "counters_inv N b rs (submit_command B target KOpen vid (Some slot) p t (open_context reason target)
        (s\<lparr>ct_reserved := (ct_reserved s)(target := insert slot (ct_reserved s target))\<rparr>))"
    by (rule counters_submit [where a = 0]) simp_all
next
  fix N b r rs kind vid ps and ctx :: cmd_context and s :: "'b controller"
  assume "counters_inv N b (r # rs) s" "pop_pending (br_command_id r) (ct_pending s) = (Some (kind, vid, ctx), ps)"
  then show "counters_inv N b rs (settled kind r ps s)"
    by (auto simp: counters_inv_def dest: counted_pop)
next
  fix N b r rs kind vid ps and ctx :: cmd_context and s :: "'b controller"
  assume "counters_inv N b (r # rs) s" "pop_pending (br_command_id r) (ct_pending s) = (Some (kind, vid, ctx), ps)"
    "kind = KData" "ctx_attack ctx"
  then show "counters_inv N b rs ((settled kind r ps s)\<lparr>ct_blocked := ct_blocked s + 1\<rparr>)"
    by (auto simp: counters_inv_def dest: counted_pop)
qed (auto simp: counters_inv_def quiet_def ct_log_def set_vehicle_def run_worker_def deque_append_def deque_appendleft_def)

lemma counters_reachable:
  assumes "reachable B P s"
  shows "\<exists>N. counters_inv N BoardB [] s"
proof (rule counters.reachable_J [OF assms])
  fix a b mock sched clk0 g and n l :: nat and v ps vs seed
  assume vs: "make_initial_vehicles l v n \<lparr>rng_draws = seed, rng_used = 0\<rparr> = (vs, g)"
  from initial_length [OF vs]
  show "counters_inv n BoardB [] (blank_controller (new_worker BoardA a) (new_worker BoardB b) mock sched clk0 g n v l ps vs)"
    by (simp add: counters_inv_def counted_def blank_controller_def)
qed

section \<open>The properties\<close>

text \<open>C20. Counters and buffers: in every reachable state the number of attacks counted as blocked plus the attacks
  still under way is at most the number of attacks launched, the DATA commands under way belong to
  pairwise different vehicle ids, and the event log and the two histories hold at most 12 and 120 entries.\<close>

theorem controller_counters:
  "reachable B P s \<Longrightarrow> 0 \<le> ct_blocked s \<and> ct_blocked s + open_attacks (ct_pending s) \<le> ct_attempts s \<and>
    distinct (data_vids (ct_pending s)) \<and> length (ct_events s) \<le> 12 \<and>
    length (ct_kem_history s) \<le> 120 \<and> length (ct_sw_history s) \<le> 120"
  using counters_reachable by (fastforce simp: counters_inv_def counted_def KEM_HISTORY_def)

theorem controller_counters_witness:
  "\<exists>s :: mock_board controller. length (ct_vehicles s) = 64 \<and>
     ct_blocked s + open_attacks (ct_pending s) \<le> ct_attempts s \<and> length (ct_events s) \<le> 12"
proof -
  from mock_demo obtain s :: "mock_board controller" where s: "reachable mock_ops (\<lambda>_. True) s" "length (ct_vehicles s) = 64" by blast
  from controller_counters [OF s(1)] s(2) show ?thesis by blast
qed

end
