(* ===== verification/SimShape.thy ===== *)
theory SimShape
  imports SimCounters
begin

text \<open>
  Well-formed vehicles: on the road, in a lane of their direction, with a board whenever their state says
  so, and still on the old board while a handover is under way.
\<close>

section \<open>Well-formedness\<close>

definition shape :: "nat \<Rightarrow> vehicle \<Rightarrow> bool" where
  "shape n v \<longleftrightarrow> v_direction v \<in> {1, -1} \<and> v_lane v \<in> set (lanes_for n (v_direction v)) \<and>
     0 \<le> v_position v \<and> v_position v \<le> ROAD_METERS \<and>
     (v_state v \<in> {Connected, Handover, Exiting} \<longrightarrow> v_board v \<noteq> None) \<and>
     (v_state v = Exiting \<longrightarrow> v_slot v \<noteq> None) \<and>
     (v_state v = Handover \<longrightarrow> v_old_board v = v_board v \<and> v_old_slot v = v_slot v \<and>
        v_target v \<noteq> None \<and> v_target v \<noteq> v_board v)"

definition shaped :: "'b controller \<Rightarrow> bool" where
  "shaped s \<longleftrightarrow> 1 \<le> ct_lanes s \<and> (\<forall>i < length (ct_vehicles s). shape (ct_lanes s) (ct_vehicles s ! i))"

text \<open>The fields the well-formedness does not read.\<close>

lemma shape_updates [simp]:
  "shape n (v\<lparr>v_next_data := x\<rparr>) = shape n v" "shape n (v\<lparr>v_retry_at := x\<rparr>) = shape n v"
  "shape n (v\<lparr>v_attacked := x\<rparr>) = shape n v" "shape n (v\<lparr>v_retry_target := t\<rparr>) = shape n v"
  "shape n (v\<lparr>v_id := k\<rparr>) = shape n v" "shape n (v\<lparr>v_kind := q\<rparr>) = shape n v" "shape n (v\<lparr>v_speed := x\<rparr>) = shape n v"
  by (simp_all add: shape_def)

text \<open>Two states with the same vehicles.\<close>

definition same_traffic :: "'b controller \<Rightarrow> 'b controller \<Rightarrow> bool" where
  "same_traffic s s' \<longleftrightarrow> ct_vehicles s' = ct_vehicles s \<and> ct_lanes s' = ct_lanes s"

lemma same_traffic_refl [simp]: "same_traffic s s"
  by (simp add: same_traffic_def)

lemma same_traffic_trans [trans]: "same_traffic s t \<Longrightarrow> same_traffic t u \<Longrightarrow> same_traffic s u"
  by (simp add: same_traffic_def)

lemma same_trafficD: "same_traffic s s' \<Longrightarrow> shaped s' = shaped s" "same_traffic s s' \<Longrightarrow> the_vehicle i s' = the_vehicle i s"
  by (simp_all add: same_traffic_def shaped_def the_vehicle_def)

lemma submit_lanes [simp]: "ct_lanes (submit_command B c k v sl p t x s) = ct_lanes s"
  by (simp add: submit_command_def Let_def)

lemma shaped_simps [simp]:
  "shaped (submit_command B c k v sl p t x s) = shaped s" "shaped (ct_log k' m s) = shaped s"
  "shaped (yield B s) = shaped s" "shaped (s\<lparr>ct_reserved := r\<rparr>) = shaped s" "shaped (s\<lparr>ct_handovers := h\<rparr>) = shaped s"
  "shaped (s\<lparr>ct_next_vehicle := h\<rparr>) = shaped s" "shaped (s\<lparr>ct_rng := g\<rparr>) = shaped s" "shaped (s\<lparr>ct_selected := sel\<rparr>) = shaped s"
  "shaped (s\<lparr>ct_stuck := run\<rparr>) = shaped s" "shaped (s\<lparr>ct_blocked := h\<rparr>) = shaped s" "shaped (s\<lparr>ct_attempts := h\<rparr>) = shaped s"
  "shaped (s\<lparr>ct_pending := ps\<rparr>) = shaped s" "shaped (s\<lparr>ct_workers := w\<rparr>) = shaped s" "shaped (s\<lparr>ct_next_swkem := f\<rparr>) = shaped s"
  "shaped (s\<lparr>ct_kem_history := kh\<rparr>) = shaped s" "shaped (s\<lparr>ct_sw_history := sh\<rparr>) = shaped s"
  "shaped (s\<lparr>ct_running := run\<rparr>) = shaped s" "shaped (s\<lparr>ct_sim_time := y\<rparr>) = shaped s"
  "shaped (settled kind res ps s) = shaped s"
  by (simp_all add: shaped_def ct_log_def settled_def Let_def split: option.split)

lemma ct_log_vehicles [simp]: "ct_vehicles (ct_log k m s) = ct_vehicles s"
  by (simp add: ct_log_def)

lemma shaped_time: "ct_time s = (t, s') \<Longrightarrow> shaped s' = shaped s \<and> the_vehicle i s' = the_vehicle i s"
  by (auto simp: ct_time_def shaped_def the_vehicle_def)

text \<open>Changing one vehicle.\<close>

lemma shaped_set:
  assumes "shaped s" "i < length (ct_vehicles s) \<Longrightarrow> shape (ct_lanes s) (the_vehicle i s) \<Longrightarrow> shape (ct_lanes s) (f (the_vehicle i s))"
  shows "shaped (set_vehicle i f s)"
  using assms
  by (cases "i < length (ct_vehicles s)")
    (auto simp: shaped_def set_vehicle_def the_vehicle_def nth_list_update list_update_beyond)

lemma shaped_same_shape: "shaped s \<Longrightarrow> (\<And>n v. shape n (f v) = shape n v) \<Longrightarrow> shaped (set_vehicle i f s)"
  by (simp add: shaped_set)

lemma set_vehicle_twice: "set_vehicle i g (set_vehicle i f s) = set_vehicle i (\<lambda>v. g (f v)) s"
  by (cases "i < length (ct_vehicles s)") (simp_all add: set_vehicle_def list_update_beyond)

lemma set_vehicle_ext: "f (the_vehicle i s) = g (the_vehicle i s) \<Longrightarrow> set_vehicle i f s = set_vehicle i g s"
  by (simp add: set_vehicle_def the_vehicle_def)

lemma the_vehicle_set: "i < length (ct_vehicles s) \<Longrightarrow> the_vehicle i (set_vehicle i f s) = f (the_vehicle i s)"
  by (simp add: the_vehicle_def set_vehicle_def)

lemma set_vehicle_length [simp]: "length (ct_vehicles (set_vehicle i f s)) = length (ct_vehicles s)"
  by (simp add: set_vehicle_def)

lemma set_vehicle_more [simp]:
  "ct_rng (set_vehicle i f s) = ct_rng s" "ct_speed (set_vehicle i f s) = ct_speed s"
  "ct_selected (set_vehicle i f s) = ct_selected s"
  by (simp_all add: set_vehicle_def)

lemma the_vehicle_simps [simp]:
  "the_vehicle i (submit_command B c k v sl p t x s) = the_vehicle i s" "the_vehicle i (ct_log k' m s) = the_vehicle i s"
  "the_vehicle i (yield B s) = the_vehicle i s" "the_vehicle i (s\<lparr>ct_reserved := r\<rparr>) = the_vehicle i s"
  "the_vehicle i (s\<lparr>ct_handovers := h\<rparr>) = the_vehicle i s" "the_vehicle i (s\<lparr>ct_rng := g\<rparr>) = the_vehicle i s"
  "the_vehicle i (s\<lparr>ct_next_vehicle := h\<rparr>) = the_vehicle i s" "the_vehicle i (s\<lparr>ct_attempts := h\<rparr>) = the_vehicle i s"
  by (simp_all add: the_vehicle_def ct_log_def)

section \<open>Preservation by the methods\<close>

lemma scan_traffic: "scan_slots B c ks s = (x, s') \<Longrightarrow> same_traffic s s'"
  by (induction ks arbitrary: s)
    (auto simp: Let_def same_traffic_def split: if_splits)

lemma free_slot_shaped: "free_slot B c s = (x, s') \<Longrightarrow> shaped s' = shaped s \<and> the_vehicle i s' = the_vehicle i s"
  using scan_traffic same_trafficD by (metis free_slot_def)

lemma request_open_shaped:
  assumes "shaped s" "reason = HandoverNew \<Longrightarrow> v_board (the_vehicle i s) \<noteq> None \<and> v_board (the_vehicle i s) \<noteq> Some target"
  shows "shaped (request_open B i target reason s)"
proof -
  obtain x s' where f: "free_slot B target s = (x, s')" by fastforce
  note s' = free_slot_shaped [OF f, of i]
  have "shaped (no_free_slot i target s')"
    unfolding no_free_slot_def using s' assms(1)
    by (auto split: prod.split dest!: shaped_time [of _ _ _ i] intro!: shaped_set) (auto simp: shape_def)
  moreover have "shaped (start_open B i target reason k s')" for k
    unfolding start_open_def Let_def using s' assms
    by (auto intro!: shaped_set) (auto simp: shape_def)
  ultimately show ?thesis using f by (simp add: request_open_def split: option.split)
qed

text \<open>The lane picked for a vehicle that enters belongs to its direction.\<close>

lemma lane_room_nonneg: "0 \<le> lane_room l e vs"
proof -
  have "0 \<le> d \<Longrightarrow> \<forall>x \<in> set ds. 0 \<le> x \<Longrightarrow> 0 \<le> foldl min d ds" for d :: real and ds
    by (induction ds arbitrary: d) auto
  then show ?thesis
    by (auto simp: lane_room_def ROAD_METERS_def split: list.split)
qed

lemma entry_lane_Some:
  assumes "lanes_for n d \<noteq> []"
  shows "\<exists>l \<in> set (lanes_for n d). entry_lane n d e vs = Some l"
proof -
  define pick where "pick = (\<lambda>(best, best_room) lane_no. let room = lane_room lane_no e vs in
    if room > best_room then (Some lane_no, room) else (best :: int option, best_room))"
  have keep: "a \<noteq> None \<Longrightarrow> set_option a \<subseteq> L \<Longrightarrow> set ls \<subseteq> L \<Longrightarrow> \<exists>l \<in> L. fst (foldl pick (a, r) ls) = Some l" for a r ls L
    by (induction ls arbitrary: a r) (auto simp: pick_def Let_def)
  obtain l ls where ls: "lanes_for n d = l # ls" using assms by (cases "lanes_for n d") auto
  have "pick (None, -1) l = (Some l, lane_room l e vs)"
    using lane_room_nonneg [of l e vs] by (simp add: pick_def Let_def)
  with keep [of "Some l" "set (l # ls)" ls] show ?thesis
    unfolding entry_lane_def pick_def [symmetric] ls by auto
qed

lemma lanes_for_nonempty: "1 \<le> n \<Longrightarrow> lanes_for n d \<noteq> []"
  by (simp add: lanes_for_def)

lemma set_vehicle_rng: "set_vehicle i f (s\<lparr>ct_rng := g\<rparr>) = (set_vehicle i f s)\<lparr>ct_rng := g\<rparr>"
  by (cases s) (simp add: set_vehicle_def)

lemma reset_shaped:
  assumes "shaped s" "i < length (ct_vehicles s)"
  shows "shaped (reset_vehicle i s) \<and> i < length (ct_vehicles (reset_vehicle i s))"
proof -
  let ?v = "the_vehicle i s"
  define e where "e = (if v_direction ?v > 0 then 0 else ROAD_METERS)"
  have n: "1 \<le> ct_lanes s" and sh: "shape (ct_lanes s) ?v" using assms by (auto simp: shaped_def the_vehicle_def)
  let ?s1 = "set_vehicle i (\<lambda>v. v\<lparr>v_position := ROAD_METERS * 2\<rparr>) s"
  obtain l where l: "l \<in> set (lanes_for (ct_lanes s) (v_direction ?v))"
    and el: "entry_lane (ct_lanes s) (v_direction ?v) e (ct_vehicles ?s1) = Some l"
    using entry_lane_Some [OF lanes_for_nonempty [OF n]] by blast
  obtain kind g where k: "random_kind (ct_rng s) = (kind, g)" by fastforce
  obtain speed g' where sp: "speed_for (ct_speed s) kind g = (speed, g')" by fastforce
  define F where "F = (\<lambda>v :: vehicle. v\<lparr>v_lane := l, v_position := e, v_kind := kind, v_speed := speed, v_board := None,
    v_slot := None, v_old_board := None, v_old_slot := None, v_state := Connecting, v_retry_at := 0,
    v_retry_target := None\<rparr>)"
  have eq: "reset_vehicle i s =
      (let t = (set_vehicle i F s)\<lparr>ct_rng := g'\<rparr> in
       if ct_selected t \<in> Some ` set (map v_id (ct_vehicles t)) then t else t\<lparr>ct_selected := None\<rparr>)"
    unfolding reset_vehicle_def Let_def e_def [symmetric]
    by (simp add: el k sp set_vehicle_twice set_vehicle_rng F_def split: prod.split)
  have "shape (ct_lanes s) (F ?v)"
    using sh l by (auto simp: shape_def F_def e_def ROAD_METERS_def)
  then have "shaped (set_vehicle i F s)" by (intro shaped_set assms(1))
  then show ?thesis unfolding eq using assms(2) by (simp add: Let_def)
qed

lemma respawn_shaped:
  assumes "shaped s" "i < length (ct_vehicles s)"
  shows "shaped (respawn B i s)"
proof (cases "fresh_id (used_ids i (ct_vehicles s)) (ct_next_vehicle s)")
  case (Some n)
  define t where "t = set_vehicle i (\<lambda>v. v\<lparr>v_id := n\<rparr>) (s\<lparr>ct_next_vehicle := (n + 1) mod int MAX_SESSIONS\<rparr>)"
  have "shaped t" "i < length (ct_vehicles t)"
    using assms by (auto simp: t_def intro: shaped_same_shape)
  from reset_shaped [OF this] show ?thesis
    by (auto simp: respawn_def Some Let_def t_def intro: request_open_shaped)
qed (use assms in \<open>simp add: respawn_def\<close>)

lemma request_exit_shaped:
  assumes "shaped s" "i < length (ct_vehicles s)"
  shows "shaped (request_exit B i s)"
  unfolding request_exit_def Let_def using assms
  by (auto simp: shape_def intro!: respawn_shaped shaped_set split: option.split)

lemma send_telemetry_shaped: "shaped s \<Longrightarrow> shaped (send_telemetry B i t0 s)"
  unfolding send_telemetry_def Let_def by (auto intro: shaped_same_shape split: option.split)

text \<open>A vehicle that moved off the road, or to a place on it.\<close>

abbreviation moved :: "nat \<Rightarrow> real \<Rightarrow> 'b controller \<Rightarrow> 'b controller" where
  "moved i p s \<equiv> set_vehicle i (\<lambda>v. v\<lparr>v_position := p\<rparr>) s"

lemma shaped_moved: "shaped s \<Longrightarrow> 0 \<le> p \<Longrightarrow> p \<le> ROAD_METERS \<Longrightarrow> shaped (moved i p s)"
  by (rule shaped_set) (auto simp: shape_def)

lemma after_move_shaped:
  assumes "shaped s" "i < length (ct_vehicles s)"
  shows "shaped (after_move B i t0 (moved i p s))"
proof (cases "p < 0 \<or> p > ROAD_METERS")
  case True
  have "set_vehicle i (\<lambda>v. v\<lparr>v_position := max 0 (min ROAD_METERS (v_position v))\<rparr>) (moved i p s) =
      moved i (max 0 (min ROAD_METERS p)) s"
    by (simp add: set_vehicle_twice)
  moreover have "shaped (moved i (max 0 (min ROAD_METERS p)) s)"
    by (rule shaped_moved [OF assms(1)]) (auto simp: ROAD_METERS_def)
  ultimately show ?thesis
    using True assms(2) by (simp add: after_move_def the_vehicle_set request_exit_shaped)
next
  case False
  then show ?thesis
    using assms by (simp add: after_move_def the_vehicle_set shaped_moved send_telemetry_shaped)
qed

lemma move_vehicle_shaped:
  assumes "shaped s" "i < length (ct_vehicles s)"
  shows "shaped (move_vehicle B i dt t0 s)"
proof -
  let ?v = "the_vehicle i s"
  define p where "p = v_position ?v + real_of_int (v_direction ?v) * step_length i dt (ct_vehicles s)"
  have first: "set_vehicle i (\<lambda>v. v\<lparr>v_position := v_position v + real_of_int (v_direction ?v) * step_length i dt (ct_vehicles s)\<rparr>) s
      = moved i p s"
    by (rule set_vehicle_ext) (simp add: p_def)
  have bd: "0 \<le> BOUNDARY_METERS" "BOUNDARY_METERS \<le> ROAD_METERS" by (simp_all add: BOUNDARY_METERS_def ROAD_METERS_def)
  have at_boundary: "shaped (moved i BOUNDARY_METERS s)" by (rule shaped_moved [OF assms(1) bd])
  show ?thesis
    unfolding move_vehicle_def Let_def first set_vehicle_twice
    using assms at_boundary
    by (auto simp: the_vehicle_set intro!: after_move_shaped request_open_shaped)
qed

lemma step_vehicle_shaped:
  assumes "shaped s" "i < length (ct_vehicles s)"
  shows "shaped (step_vehicle B dt t0 i s)"
  unfolding step_vehicle_def Let_def using assms
  by (auto intro!: move_vehicle_shaped request_open_shaped shaped_same_shape)

section \<open>Results\<close>

lemma handle_swkem_shaped: "shaped s \<Longrightarrow> shaped (handle_swkem r s)"
  by (auto simp: handle_swkem_def Let_def split: prod.split dest!: shaped_time [of _ _ _ 0])

lemma record_setup_shaped: "shaped (record_setup r q s) = shaped s"
  by (auto simp: record_setup_def split: option.split prod.split dest!: shaped_time [of _ _ _ 0])

lemma record_setup_traffic: "same_traffic s (record_setup r q s)"
  by (auto simp: record_setup_def same_traffic_def ct_time_def split: option.split)

lemma handle_open_shaped:
  assumes "shaped s" "i < length (ct_vehicles s)"
  shows "shaped (handle_open B i r ctx s)"
proof -
  obtain t s1 where t: "ct_time s = (t, s1)" by fastforce
  have i1: "i < length (ct_vehicles s1)" using t assms(2) by (auto simp: ct_time_def)
  note s1 = shaped_time [OF t, of i]
  define G where "G = (\<lambda>v :: vehicle. v\<lparr>v_board := Some (br_board r), v_slot := br_slot r, v_target := None,
    v_state := Connected, v_next_data := t + 4 / 10\<rparr>)"
  define u where "u = record_setup r (ctx_reason ctx) (set_vehicle i G s1)"
  have u: "shaped u" "the_vehicle i u = G (the_vehicle i s)"
    using s1 assms i1 same_trafficD(2) [OF record_setup_traffic, of i r "ctx_reason ctx" "set_vehicle i G s1"]
    by (auto simp: u_def record_setup_shaped G_def shape_def the_vehicle_set intro!: shaped_set)
  have cleared: "shaped (set_vehicle i (\<lambda>v. v\<lparr>v_old_board := None, v_old_slot := None\<rparr>) w)"
    if "shaped w" "the_vehicle i w = G (the_vehicle i s)" for w :: "'a controller"
    using that by (intro shaped_set) (auto simp: shape_def G_def)
  show ?thesis
    unfolding handle_open_def Let_def t prod.case G_def [symmetric] u_def [symmetric]
    using u by (auto intro!: cleared split: option.split)
qed

lemma handle_leave_shaped: "shaped s \<Longrightarrow> i < length (ct_vehicles s) \<Longrightarrow> shaped (handle_leave B i r ctx s)"
  unfolding handle_leave_def Let_def by (auto intro: respawn_shaped)

lemma handle_data_shaped: "shaped s \<Longrightarrow> shaped (handle_data i r ctx s)"
  by (simp add: handle_data_def)

lemma open_failed_shaped:
  assumes "shaped s" "i < length (ct_vehicles s)"
  shows "shaped (open_failed i r ctx s)"
proof -
  let ?v = "the_vehicle i s"
  define F where "F = (\<lambda>v :: vehicle. v\<lparr>v_state := (if v_old_board v \<noteq> None then Connected else Disconnected)\<rparr>)"
  define G where "G = (\<lambda>v :: vehicle. v\<lparr>v_board := v_old_board v, v_slot := v_old_slot v,
    v_position := BOUNDARY_METERS + (if v_direction v > 0 then - (1 / 2) else 1 / 2)\<rparr>)"
  define K where "K = (\<lambda>v. if v_old_board ?v \<noteq> None then G (F v) else F v)"
  define H where "H t = (\<lambda>v :: vehicle. v\<lparr>v_retry_at := t + 1,
    v_retry_target := Some (case ctx_target ctx of None \<Rightarrow> br_board r | Some b \<Rightarrow> b),
    v_target := None, v_old_board := None, v_old_slot := None\<rparr>)" for t :: real
  obtain t s1 where t: "ct_time (set_vehicle i K s) = (t, s1)" by fastforce
  have changed: "(if v_old_board ?v \<noteq> None
      then set_vehicle i G (set_vehicle i (\<lambda>v. v\<lparr>v_state := (if v_old_board ?v \<noteq> None then Connected else Disconnected)\<rparr>) s)
      else set_vehicle i (\<lambda>v. v\<lparr>v_state := (if v_old_board ?v \<noteq> None then Connected else Disconnected)\<rparr>) s)
    = set_vehicle i K s"
    by (cases "v_old_board ?v = None") (auto simp: set_vehicle_twice K_def F_def intro: set_vehicle_ext)
  have eq: "open_failed i r ctx s = set_vehicle i (H t) s1"
    unfolding open_failed_def Let_def G_def [symmetric] changed t prod.case H_def ..
  have K: "shape n ?v \<Longrightarrow> shape n (K ?v)" "v_state (K ?v) \<in> {Connected, Disconnected}" for n
    by (auto simp: K_def F_def G_def shape_def BOUNDARY_METERS_def ROAD_METERS_def)
  have "shaped (set_vehicle i K s)" by (rule shaped_set [OF assms(1)]) (rule K(1))
  then show ?thesis
    unfolding eq using shaped_time [OF t, of i] K(2) assms(2)
    by (auto simp: the_vehicle_set H_def shape_def intro!: shaped_set)
qed

lemma handle_error_shaped: "shaped s \<Longrightarrow> i < length (ct_vehicles s) \<Longrightarrow> shaped (handle_error B i r ctx s)"
  unfolding handle_error_def Let_def by (auto intro: respawn_shaped open_failed_shaped)

lemma handle_result_shaped:
  assumes "shaped s"
  shows "shaped (handle_result B r s)"
  using assms find_vehicle_less
  by (auto simp: handle_result_def dispatch_def vehicle_by_id_def handle_swkem_shaped handle_data_shaped
      intro!: handle_error_shaped handle_open_shaped handle_leave_shaped split: option.split prod.split)

lemma collect_results_shaped: "shaped s \<Longrightarrow> shaped (collect_results B s)"
proof -
  have handled: "shaped t \<Longrightarrow> shaped (fold (handle_result B) rs t)" for rs t
    by (induction rs arbitrary: t) (auto intro: handle_result_shaped)
  have "shaped t \<Longrightarrow> shaped (collect_from B b t)" for b t
    by (auto simp: collect_from_def poll_worker_def Let_def intro!: handled split: prod.split)
  then show "shaped s \<Longrightarrow> shaped (collect_results B s)" by (simp add: collect_results_def all_boards_def)
qed

lemma schedule_swkem_shaped: "shaped s \<Longrightarrow> shaped (schedule_swkem B t0 s)"
  by (simp add: schedule_swkem_def schedule_swkem_on_def all_boards_def Let_def)

text \<open>The number of vehicles never changes, so the indices of a frame stay valid.\<close>

definition traffic_size :: "nat \<Rightarrow> board_id \<Rightarrow> board_result list \<Rightarrow> 'b controller \<Rightarrow> bool" where
  "traffic_size N b rs s \<longleftrightarrow> length (ct_vehicles s) = N"

interpretation sizes: step_invariant B traffic_size for B :: "'b board_ops"
  by unfold_locales
    (simp_all add: traffic_size_def run_worker_def quiet_def)

lemma step_vehicle_length:
  "i < length (ct_vehicles s) \<Longrightarrow> length (ct_vehicles (step_vehicle B dt t0 i s)) = length (ct_vehicles s)"
  using sizes.step_vehicle_J [of "length (ct_vehicles s)" BoardB "[]" s i B dt t0] by (simp add: traffic_size_def)

lemma steps_shaped:
  "shaped s \<Longrightarrow> \<forall>i \<in> set js. i < length (ct_vehicles s) \<Longrightarrow> shaped (fold (step_vehicle B dt t0) js s)"
  by (induction js arbitrary: s) (simp_all add: step_vehicle_length step_vehicle_shaped)

lemma update_shaped:
  assumes "shaped s"
  shows "shaped (update B dt s)"
proof -
  let ?s = "collect_results B s"
  have c: "shaped ?s" by (rule collect_results_shaped [OF assms])
  obtain t s1 where t: "ct_time (?s\<lparr>ct_sim_time := ct_sim_time ?s + min dt (1 / 10)\<rparr>) = (t, s1)" by fastforce
  have "shaped s1" using shaped_time [OF t, of 0] c by simp
  then have "shaped (schedule_swkem B t s1)" by (rule schedule_swkem_shaped)
  then show ?thesis
    unfolding update_def Let_def using c t by (auto simp: step_order_def intro: steps_shaped)
qed

lemma attack_shaped:
  assumes "shaped s"
  shows "shaped (snd (attack_selected B s))"
proof -
  have "shaped (launch_attack B i board slot s)" for i board slot
  proof -
    obtain t s1 where t: "ct_time (s\<lparr>ct_attempts := ct_attempts s + 1\<rparr>) = (t, s1)" by fastforce
    have "shaped s1" using shaped_time [OF t, of 0] assms by simp
    then show ?thesis unfolding launch_attack_def Let_def t by (simp add: shaped_same_shape)
  qed
  then show ?thesis
    unfolding attack_selected_def Let_def using assms by (auto split: option.split)
qed

lemma sim_step_shaped: "shaped s \<Longrightarrow> shaped (sim_step B e s)"
proof (cases e)
  case (WorkerStep b)
  then show "shaped s \<Longrightarrow> ?thesis" by (simp add: run_worker_def)
next
  case (Drawing n)
  have "shaped (((\<lambda>s. snd (ct_time s)) ^^ n) s) = shaped s"
    using shaped_time [OF surjective_pairing] by (induction n) auto
  with Drawing show "shaped s \<Longrightarrow> ?thesis" by simp
next
  case Toggle
  then show "shaped s \<Longrightarrow> ?thesis" by (simp add: toggle_running_def Let_def)
next
  case Shutdown
  then show "shaped s \<Longrightarrow> ?thesis" by (simp add: shutdown_def all_boards_def Let_def)
qed (simp_all add: update_shaped attack_shaped select_vehicle_def)

section \<open>The first vehicles\<close>

lemma initial_position_bounds:
  assumes "1 \<le> n" "index < count"
  shows "0 \<le> initial_position n d count index \<and> initial_position n d count index \<le> ROAD_METERS"
proof -
  define lane_pos where "lane_pos = index mod n"
  define ord where "ord = index div n"
  define in_lane where "in_lane = length (filter (\<lambda>j. j mod n = lane_pos) [0..<count])"
  define frac where "frac = real (lane_pos + 1) / real (n + 1)"
  have lp: "lane_pos < n" using assms(1) by (simp add: lane_pos_def)
  have "(\<lambda>k. k * n + lane_pos) ` {0..ord} \<subseteq> {j. j < count \<and> j mod n = lane_pos}"
  proof (rule image_subsetI)
    fix k assume "k \<in> {0..ord}"
    then have "k * n + lane_pos \<le> ord * n + lane_pos" by simp
    also have "\<dots> = index" unfolding ord_def lane_pos_def by (rule div_mult_mod_eq)
    finally show "k * n + lane_pos \<in> {j. j < count \<and> j mod n = lane_pos}"
      using assms(2) lp by simp
  qed
  then have "card ((\<lambda>k. k * n + lane_pos) ` {0..ord}) \<le> card {j. j < count \<and> j mod n = lane_pos}"
    by (rule card_mono [rotated]) simp
  moreover have "inj_on (\<lambda>k. k * n + lane_pos) {0..ord}" using assms(1) by (auto simp: inj_on_def)
  moreover have "in_lane = card {j. j < count \<and> j mod n = lane_pos}"
    unfolding in_lane_def by (subst distinct_length_filter) (auto intro: arg_cong [where f = card])
  ultimately have il: "ord + 1 \<le> in_lane" by (simp add: card_image)
  have f: "0 \<le> frac" "frac \<le> 1" using lp by (simp_all add: frac_def)
  let ?p = "(real ord + frac) * ROAD_METERS / real in_lane"
  have "real ord + frac \<le> real in_lane" using il f by linarith
  then have "?p \<le> ROAD_METERS" using il by (simp add: pos_divide_le_eq ROAD_METERS_def)
  moreover have "0 \<le> ?p" using f by (simp add: ROAD_METERS_def)
  ultimately have p: "0 \<le> ?p" "?p \<le> ROAD_METERS" by blast+
  have "initial_position n d count index = (if d < 0 then ROAD_METERS - ?p else ?p)"
    unfolding initial_position_def Let_def lane_pos_def [symmetric] ord_def [symmetric] in_lane_def [symmetric]
      frac_def [symmetric] ..
  then show ?thesis using p by simp
qed

lemma make_vehicles_shape:
  "make_vehicles n speed d count off js g = (vs, g') \<Longrightarrow> 1 \<le> n \<Longrightarrow> d = 1 \<or> d = -1 \<Longrightarrow> \<forall>j \<in> set js. j < count \<Longrightarrow>
    \<forall>v \<in> set vs. shape n v"
proof (induction n speed d count off js g arbitrary: vs g' rule: make_vehicles.induct)
  case (2 n speed d count off index rest g)
  have lanes: "lanes_for n d ! (index mod n) \<in> set (lanes_for n d)"
    using "2.prems"(2) by (intro nth_mem) (auto simp: lanes_for_def)
  have new: "shape n (new_vehicle k (lanes_for n d ! (index mod n)) d (initial_position n d count index) pace kind)" for k pace kind
    using initial_position_bounds [of n index count d] "2.prems"(2-4) lanes by (auto simp: shape_def new_vehicle_def)
  obtain kind g1 where k: "random_kind g = (kind, g1)" by fastforce
  obtain pace g2 where p: "speed_for speed kind g1 = (pace, g2)" by fastforce
  obtain ws g3 where w: "make_vehicles n speed d count off rest g2 = (ws, g3)" by fastforce
  from "2.IH" [OF k [symmetric] refl p [symmetric] refl refl w] "2.prems"(2-4)
  have "\<forall>v \<in> set ws. shape n v" by simp
  then show ?case using "2.prems"(1) new by (auto simp: k p w)
qed simp

lemma initial_shape:
  assumes "make_initial_vehicles n speed count g = (vs, g')" "1 \<le> n"
  shows "\<forall>v \<in> set vs. shape n v"
proof -
  obtain right g1 left g2 where r: "make_vehicles n speed 1 ((count + 1) div 2) 0 [0..<(count + 1) div 2] g = (right, g1)"
    and l: "make_vehicles n speed (- 1) (count div 2) 1 [0..<count div 2] g1 = (left, g2)" and vs: "vs = right @ left"
    using assms by (auto simp: make_initial_vehicles_def Let_def split: prod.splits)
  from make_vehicles_shape [OF r assms(2)] make_vehicles_shape [OF l assms(2)] show ?thesis by (auto simp: vs)
qed

lemma enter_all_shaped: "shaped s \<Longrightarrow> shaped (enter_all B s)"
proof -
  have "shaped t \<Longrightarrow> shaped (fold (\<lambda>i s. request_open B i (board_for_position (v_position (the_vehicle i s))) Entry s) js t)" for js t
    by (induction js arbitrary: t) (auto intro: request_open_shaped)
  then show "shaped s \<Longrightarrow> shaped (enter_all B s)" by (simp add: enter_all_def)
qed

lemma reachable_shaped: "reachable B P s \<Longrightarrow> shaped s"
proof (induction rule: reachable.induct)
  case (construct a b mock sched clk0 seed n v l ps s)
  obtain vs g where vs: "make_initial_vehicles l v n \<lparr>rng_draws = seed, rng_used = 0\<rparr> = (vs, g)" by fastforce
  have "shaped (blank_controller (new_worker BoardA a) (new_worker BoardB b) mock sched clk0 g n v l ps vs)" if "1 \<le> l"
    using initial_shape [OF vs that] that by (auto simp: shaped_def blank_controller_def)
  then show ?case
    using construct vs by (auto simp: new_controller_def intro!: enter_all_shaped)
qed (simp add: sim_step_shaped)

section \<open>The properties\<close>

text \<open>C21. Every vehicle is well formed in every reachable state: on the road (0 to 400 m), in a lane of its own
  direction, with a board whenever it is connected, handing over or leaving, with a slot when leaving, and
  while it hands over it is still registered with its old board and slot and heads for another board.\<close>

theorem vehicles_well_formed:
  "reachable B P s \<Longrightarrow> \<forall>v \<in> set (ct_vehicles s).
    v_direction v \<in> {1, -1} \<and> v_lane v \<in> set (lanes_for (ct_lanes s) (v_direction v)) \<and>
    0 \<le> v_position v \<and> v_position v \<le> ROAD_METERS \<and>
    (v_state v \<in> {Connected, Handover, Exiting} \<longrightarrow> v_board v \<noteq> None) \<and>
    (v_state v = Exiting \<longrightarrow> v_slot v \<noteq> None) \<and>
    (v_state v = Handover \<longrightarrow> v_old_board v = v_board v \<and> v_old_slot v = v_slot v \<and>
       v_target v \<noteq> None \<and> v_target v \<noteq> v_board v)"
  using reachable_shaped [of B P s] unfolding shaped_def shape_def by (auto simp: in_set_conv_nth)

theorem vehicles_well_formed_witness:
  "\<exists>s :: mock_board controller. length (ct_vehicles s) = 64 \<and> (\<forall>v \<in> set (ct_vehicles s). v_position v \<le> ROAD_METERS)"
proof -
  from mock_demo obtain s :: "mock_board controller" where s: "reachable mock_ops (\<lambda>_. True) s" "length (ct_vehicles s) = 64" by blast
  from vehicles_well_formed [OF s(1)] s(2) show ?thesis by blast
qed

end
