(* ===== verification/SimHandover.thy ===== *)
theory SimHandover
  imports SimMotion
begin

text \<open>
  The make-before-break handover, step by step: the request keeps the old session, success switches the
  vehicle and asks the old board to let go, failure restores the old session.  And a session that is
  opened by the retry after a failed handover leaves the old one behind for good.
\<close>

section \<open>What the steps leave alone\<close>

text \<open>The commands for the boards, and the book-keeping of what was asked.\<close>

definition same_requests :: "'b controller \<Rightarrow> 'b controller \<Rightarrow> bool" where
  "same_requests s s' \<longleftrightarrow> ct_pending s' = ct_pending s \<and> ct_workers s' = ct_workers s \<and>
     ct_next_command s' = ct_next_command s \<and> ct_reserved s' = ct_reserved s"

lemma record_setup_sel [simp]:
  "ct_pending (record_setup r q s) = ct_pending s" "ct_workers (record_setup r q s) = ct_workers s"
  "ct_next_command (record_setup r q s) = ct_next_command s" "ct_reserved (record_setup r q s) = ct_reserved s"
  "ct_handovers (record_setup r q s) = ct_handovers s" "ct_vehicles (record_setup r q s) = ct_vehicles s"
  by (auto simp: record_setup_def ct_time_def split: option.split)

lemma ct_log_sel [simp]:
  "ct_pending (ct_log k m s) = ct_pending s" "ct_workers (ct_log k m s) = ct_workers s"
  "ct_next_command (ct_log k m s) = ct_next_command s" "ct_reserved (ct_log k m s) = ct_reserved s"
  "ct_handovers (ct_log k m s) = ct_handovers s" "ct_clk (ct_log k m s) = ct_clk s" "ct_ticks (ct_log k m s) = ct_ticks s"
  by (simp_all add: ct_log_def)

lemma set_vehicle_handovers [simp]: "ct_handovers (set_vehicle i f s) = ct_handovers s"
  by (simp add: set_vehicle_def)

lemma yield_handovers [simp]: "ct_handovers (yield B s) = ct_handovers s"
proof -
  have "ct_handovers (foldl (\<lambda>t b. run_worker B b t) t cs) = ct_handovers t" for cs and t :: "'a controller"
    by (induction cs arbitrary: t) (simp_all add: run_worker_def)
  then show ?thesis by (simp add: yield_def)
qed

lemma submit_handovers [simp]: "ct_handovers (submit_command B c k v sl p t x s) = ct_handovers s"
  by (simp add: submit_command_def Let_def)

text \<open>A submitted command is the last in its board's queue.\<close>

lemma submit_queued:
  "last (wk_commands (ct_workers (submit_command B c k v sl p t x s) c)) =
     Some \<lparr>bc_command_id = ct_next_command s, bc_kind = k, bc_vehicle_id = v, bc_slot = sl, bc_payload = p, bc_tamper = t\<rparr>"
  by (simp add: submit_command_def Let_def submit_def)

text \<open>What each step does to the vehicle it is about; the others keep everything.\<close>

definition becomes :: "nat \<Rightarrow> vehicle \<Rightarrow> 'b controller \<Rightarrow> 'b controller \<Rightarrow> bool" where
  "becomes i v s s' \<longleftrightarrow> ct_vehicles s' = (ct_vehicles s)[i := v]"

lemma becomesI: "ct_vehicles s' = (ct_vehicles s)[i := v] \<Longrightarrow> becomes i v s s'"
  by (simp add: becomes_def)

lemma becomesD:
  assumes "becomes i v s s'"
  shows "i < length (ct_vehicles s) \<Longrightarrow> the_vehicle i s' = v" and "k \<noteq> i \<Longrightarrow> the_vehicle k s' = the_vehicle k s"
  using assms by (simp_all add: becomes_def the_vehicle_def)

lemma set_vehicle_vehicles: "ct_vehicles (set_vehicle i f s) = (ct_vehicles s)[i := f (the_vehicle i s)]"
  by (simp add: set_vehicle_def the_vehicle_def)

section \<open>The steps\<close>

lemma handle_open_effect:
  assumes "i < length (ct_vehicles s)"
  shows "becomes i ((the_vehicle i s)\<lparr>v_board := Some (br_board r), v_slot := br_slot r, v_target := None, v_state := Connected,
      v_next_data := reading (ct_clk s) (ct_ticks s) + 4 / 10, v_old_board := None, v_old_slot := None\<rparr>) s (handle_open B i r ctx s)"
    and "ctx_reason ctx \<noteq> Some HandoverNew \<Longrightarrow> same_requests s (handle_open B i r ctx s)"
    and "ctx_reason ctx = Some HandoverNew \<Longrightarrow> v_old_board (the_vehicle i s) = Some b0 \<Longrightarrow> v_old_slot (the_vehicle i s) = Some n0 \<Longrightarrow>
      ct_pending (handle_open B i r ctx s) = ct_pending s @ [(ct_next_command s, KLeave, v_id (the_vehicle i s), leave_context HandoverOld)] \<and>
      last (wk_commands (ct_workers (handle_open B i r ctx s) b0)) =
        Some \<lparr>bc_command_id = ct_next_command s, bc_kind = KLeave, bc_vehicle_id = v_id (the_vehicle i s), bc_slot = Some n0,
              bc_payload = [], bc_tamper = False\<rparr> \<and>
      ct_handovers (handle_open B i r ctx s) = ct_handovers s + 1"
proof -
  define t where "t = reading (ct_clk s) (ct_ticks s)"
  define G where "G = (\<lambda>v :: vehicle. v\<lparr>v_board := Some (br_board r), v_slot := br_slot r, v_target := None,
    v_state := Connected, v_next_data := t + 4 / 10\<rparr>)"
  define u where "u = record_setup r (ctx_reason ctx) (set_vehicle i G (s\<lparr>ct_ticks := Suc (ct_ticks s)\<rparr>))"
  define w where "w = (if ctx_reason ctx = Some HandoverNew then
      (let u = ct_log ''HO'' (v_title (the_vehicle i u) @ '' READY on '' @ board_str (br_board r) @ ''/'' @ slot_text (br_slot r)
             @ ''; switching'') (u\<lparr>ct_handovers := ct_handovers u + 1\<rparr>)
       in case (v_old_board (the_vehicle i s), v_old_slot (the_vehicle i s)) of
            (Some b, Some n) \<Rightarrow> submit_command B b KLeave (v_id (the_vehicle i u)) (Some n) [] False (leave_context HandoverOld) u
          | _ \<Rightarrow> u)
     else ct_log ''OPEN'' (v_title (the_vehicle i u) @ '' connected '' @ (board_str (br_board r) @ ''/'' @ slot_text (br_slot r))
            @ '' ('' @ str_int (case br_session r of None \<Rightarrow> 0 | Some x \<Rightarrow> s_kem_us x) @ '' us)'') u)"
  have eq: "handle_open B i r ctx s = set_vehicle i (\<lambda>v. v\<lparr>v_old_board := None, v_old_slot := None\<rparr>) w"
    by (simp add: handle_open_def Let_def ct_time_def w_def u_def G_def t_def split: option.split)
  have u: "ct_vehicles u = (ct_vehicles s)[i := G (the_vehicle i s)]" "ct_pending u = ct_pending s" "ct_workers u = ct_workers s"
    "ct_next_command u = ct_next_command s" "ct_reserved u = ct_reserved s" "ct_handovers u = ct_handovers s"
    by (simp_all add: u_def set_vehicle_vehicles the_vehicle_def)
  have id: "v_id (the_vehicle i u) = v_id (the_vehicle i s)"
    using assms by (simp add: the_vehicle_def u G_def)
  have w: "ct_vehicles w = ct_vehicles u" by (simp add: w_def Let_def split: option.split)
  show "becomes i ((the_vehicle i s)\<lparr>v_board := Some (br_board r), v_slot := br_slot r, v_target := None, v_state := Connected,
      v_next_data := reading (ct_clk s) (ct_ticks s) + 4 / 10, v_old_board := None, v_old_slot := None\<rparr>) s (handle_open B i r ctx s)"
    unfolding eq t_def [symmetric] using assms
    by (simp add: becomes_def set_vehicle_def w u G_def)
  show "ctx_reason ctx \<noteq> Some HandoverNew \<Longrightarrow> same_requests s (handle_open B i r ctx s)"
    unfolding eq by (simp add: same_requests_def w_def u)
  assume "ctx_reason ctx = Some HandoverNew" "v_old_board (the_vehicle i s) = Some b0" "v_old_slot (the_vehicle i s) = Some n0"
  then have "w = submit_command B b0 KLeave (v_id (the_vehicle i s)) (Some n0) [] False (leave_context HandoverOld)
      (ct_log ''HO'' (v_title (the_vehicle i u) @ '' READY on '' @ board_str (br_board r) @ ''/'' @ slot_text (br_slot r)
             @ ''; switching'') (u\<lparr>ct_handovers := ct_handovers u + 1\<rparr>))"
    by (simp add: w_def Let_def id)
  then show "ct_pending (handle_open B i r ctx s) = ct_pending s @ [(ct_next_command s, KLeave, v_id (the_vehicle i s), leave_context HandoverOld)] \<and>
      last (wk_commands (ct_workers (handle_open B i r ctx s) b0)) =
        Some \<lparr>bc_command_id = ct_next_command s, bc_kind = KLeave, bc_vehicle_id = v_id (the_vehicle i s), bc_slot = Some n0,
              bc_payload = [], bc_tamper = False\<rparr> \<and>
      ct_handovers (handle_open B i r ctx s) = ct_handovers s + 1"
    unfolding eq by (simp add: submit_queued u)
qed

lemma open_failed_effect:
  assumes "i < length (ct_vehicles s)"
  shows "becomes i ((the_vehicle i s)\<lparr>
      v_state := (if v_old_board (the_vehicle i s) \<noteq> None then Connected else Disconnected),
      v_board := (if v_old_board (the_vehicle i s) \<noteq> None then v_old_board (the_vehicle i s) else v_board (the_vehicle i s)),
      v_slot := (if v_old_board (the_vehicle i s) \<noteq> None then v_old_slot (the_vehicle i s) else v_slot (the_vehicle i s)),
      v_position := (if v_old_board (the_vehicle i s) \<noteq> None
        then BOUNDARY_METERS + (if v_direction (the_vehicle i s) > 0 then - (1 / 2) else 1 / 2) else v_position (the_vehicle i s)),
      v_retry_at := reading (ct_clk s) (ct_ticks s) + 1,
      v_retry_target := Some (case ctx_target ctx of None \<Rightarrow> br_board r | Some b \<Rightarrow> b),
      v_target := None, v_old_board := None, v_old_slot := None\<rparr>) s (open_failed i r ctx s)"
    and "same_requests s (open_failed i r ctx s)"
  using assms
  by (auto simp: open_failed_def Let_def ct_time_def becomes_def same_requests_def set_vehicle_def the_vehicle_def)

section \<open>The properties\<close>

text \<open>C26. Make before break, the switch: when the OPEN of a handover succeeds, the vehicle is switched to the new
  board and slot, and exactly one command is issued, a LEAVE for the old slot, put at the end of the old
  board's queue; no other vehicle changes.\<close>

theorem handover_switches:
  "i < length (ct_vehicles s) \<Longrightarrow> v_old_board (the_vehicle i s) = Some b0 \<Longrightarrow> v_old_slot (the_vehicle i s) = Some n0 \<Longrightarrow>
    ctx_reason ctx = Some HandoverNew \<Longrightarrow> s' = handle_open B i r ctx s \<Longrightarrow>
    v_board (the_vehicle i s') = Some (br_board r) \<and> v_slot (the_vehicle i s') = br_slot r \<and>
    v_state (the_vehicle i s') = Connected \<and> v_old_board (the_vehicle i s') = None \<and>
    (\<forall>k. k \<noteq> i \<longrightarrow> the_vehicle k s' = the_vehicle k s) \<and>
    ct_pending s' = ct_pending s @ [(ct_next_command s, KLeave, v_id (the_vehicle i s), leave_context HandoverOld)] \<and>
    (\<exists>c. last (wk_commands (ct_workers s' b0)) = Some c \<and> bc_kind c = KLeave \<and> bc_slot c = Some n0 \<and>
       bc_vehicle_id c = v_id (the_vehicle i s)) \<and>
    ct_handovers s' = ct_handovers s + 1"
  using becomesD [OF handle_open_effect(1) [of i s r B ctx]] handle_open_effect(3) [of i s ctx b0 n0 B r] by simp

text \<open>C27. Failed handover: when the OPEN of a handover fails, the vehicle is back on its old board and slot, in
  state connected, half a metre before the boundary, it will retry the same target one second later,
  and no command is issued.\<close>

theorem handover_failure_restores:
  "i < length (ct_vehicles s) \<Longrightarrow> v_old_board (the_vehicle i s) = Some b0 \<Longrightarrow> v_old_slot (the_vehicle i s) = Some n0 \<Longrightarrow>
    ctx_target ctx = Some target \<Longrightarrow> br_kind r = KOpen \<Longrightarrow> s' = handle_error B i r ctx s \<Longrightarrow>
    v_board (the_vehicle i s') = Some b0 \<and> v_slot (the_vehicle i s') = Some n0 \<and> v_state (the_vehicle i s') = Connected \<and>
    v_position (the_vehicle i s') = (if v_direction (the_vehicle i s) > 0 then 399 / 2 else 401 / 2) \<and>
    v_retry_target (the_vehicle i s') = Some target \<and>
    v_retry_at (the_vehicle i s') = reading (ct_clk s) (ct_ticks s) + 1 \<and>
    (\<forall>k. k \<noteq> i \<longrightarrow> the_vehicle k s' = the_vehicle k s) \<and> same_requests s s'"
proof -
  assume i: "i < length (ct_vehicles s)" and old: "v_old_board (the_vehicle i s) = Some b0" "v_old_slot (the_vehicle i s) = Some n0"
    and ctx: "ctx_target ctx = Some target" and k: "br_kind r = KOpen" and s': "s' = handle_error B i r ctx s"
  define t where "t = ct_log ''ERROR'' (''Board '' @ board_str (br_board r) @ '' '' @ kind_str (br_kind r) @ '' ''
                @ v_title (the_vehicle i s) @ '': '' @ br_detail r) s"
  have t: "the_vehicle j t = the_vehicle j s" "ct_clk t = ct_clk s" "ct_ticks t = ct_ticks s" "ct_vehicles t = ct_vehicles s" for j
    by (simp_all add: t_def)
  have "s' = open_failed i r ctx t" unfolding s' handle_error_def Let_def t_def [symmetric] using k by simp
  moreover have "same_requests s t" by (simp add: t_def same_requests_def)
  ultimately show ?thesis
    using becomesD [OF open_failed_effect(1) [of i t r ctx]] open_failed_effect(2) [of i t r ctx] i old ctx
    by (simp add: t BOUNDARY_METERS_def same_requests_def)
qed


text \<open>Witnesses: the first vehicle of the demo, as it stands when a handover from board A succeeds or fails.\<close>

definition handing_over :: "'b controller \<Rightarrow> 'b controller" where
  "handing_over s = set_vehicle 0 (\<lambda>v. v\<lparr>v_state := Handover, v_board := Some BoardA, v_slot := Some 7,
     v_old_board := Some BoardA, v_old_slot := Some 7, v_target := Some BoardB\<rparr>) s"

definition open_answer :: "bool \<Rightarrow> board_result" where
  "open_answer success = (result_for BoardB \<lparr>bc_command_id = 1, bc_kind = KOpen, bc_vehicle_id = 0, bc_slot = Some 3,
     bc_payload = [], bc_tamper = False\<rparr> success)"

lemma handing_over_simps:
  assumes "length (ct_vehicles s) = 64"
  shows "0 < length (ct_vehicles (handing_over s))" "v_old_board (the_vehicle 0 (handing_over s)) = Some BoardA"
    "v_old_slot (the_vehicle 0 (handing_over s)) = Some 7"
  using assms by (auto simp: handing_over_def the_vehicle_set)

theorem handover_switches_witness:
  "\<exists>s :: mock_board controller. length (ct_vehicles s) = 64 \<and>
     v_board (the_vehicle 0 (handle_open mock_ops 0 (open_answer True) (open_context HandoverNew BoardB) (handing_over s))) = Some BoardB"
proof -
  from mock_demo obtain s :: "mock_board controller" where s: "length (ct_vehicles s) = 64" by blast
  have "ctx_reason (open_context HandoverNew BoardB) = Some HandoverNew" by (simp add: open_context_def)
  from handover_switches [OF handing_over_simps [OF s] this refl, of mock_ops "open_answer True"] s
  show ?thesis by (auto simp: open_answer_def result_for_def new_result_def)
qed

theorem handover_failure_restores_witness:
  "\<exists>s :: mock_board controller. length (ct_vehicles s) = 64 \<and>
     v_board (the_vehicle 0 (handle_error mock_ops 0 (open_answer False) (open_context HandoverNew BoardB) (handing_over s))) = Some BoardA"
proof -
  from mock_demo obtain s :: "mock_board controller" where s: "length (ct_vehicles s) = 64" by blast
  have "ctx_target (open_context HandoverNew BoardB) = Some BoardB" "br_kind (open_answer False) = KOpen"
    by (simp_all add: open_context_def open_answer_def)
  from handover_failure_restores [OF handing_over_simps [OF s] this refl, of mock_ops] s
  show ?thesis by blast
qed


end
