(* ===== verification/SerialV1.thy ===== *)
theory SerialV1
  imports SerialV2 Worker
begin

text \<open>
  \<open>SerialBoardLink\<close> of \<open>board_link.py\<close>, the link to the single-board firmware: \<open>OPEN slot\<close> without a
  ciphertext, session keys derived from the fixed shared secret and the vector files, one table.
  \<open>public_key.bin\<close> and \<open>kem_ciphertext.bin\<close> enter as their contents.
\<close>

section \<open>State\<close>

record 'd serial_v1 =
  s1_name :: string
  s1_timeout :: real
  s1_sessions :: "int \<rightharpoonup> session"
  s1_public_key :: bytes
  s1_kem_ciphertext :: bytes
  s1_world :: "'d world"

definition S1_PREFIXES :: "string list" where
  "S1_PREFIXES = [''READY '', ''RESP '', ''ERR '', ''BYE'', ''LEFT '', ''STATUS '']"

definition s1_io :: "('d world, 'a) act \<Rightarrow> ('d serial_v1, 'a) act" where
  "s1_io m L = (case m (s1_world L) of (r, w) \<Rightarrow> (r, L\<lparr>s1_world := w\<rparr>))"

section \<open>Keys and packets\<close>

definition s1_nonce :: "bytes \<Rightarrow> int \<Rightarrow> bytes res" where
  "s1_nonce pfx counter = bindR (to_bytes_be 8 counter) (\<lambda>c. Inr (pfx @ c))"

definition s1_aad :: "int \<Rightarrow> int \<Rightarrow> int \<Rightarrow> bytes res" where
  "s1_aad sid counter len =
     bindR (to_bytes_be 4 sid) (\<lambda>s.
     bindR (to_bytes_be 8 counter) (\<lambda>c.
     bindR (bytes_of_ints [len, 0, 0, 0]) (\<lambda>l. Inr (s @ c @ l))))"

definition s1_material :: "bytes \<Rightarrow> bytes \<Rightarrow> bytes \<Rightarrow> bytes" where
  "s1_material public_key kem_ciphertext sid_bytes =
     (let transcript = sha3_256 (public_key @ kem_ciphertext @ sid_bytes)
      in shake_256 (KDF_DOMAIN @ SHARED_SECRET @ transcript) 72)"

definition s1_derive :: "'d serial_v1 \<Rightarrow> int \<Rightarrow> int \<Rightarrow> int \<Rightarrow> int \<Rightarrow> session res" where
  "s1_derive L vehicle_id slot sid kem_us =
     bindR (to_bytes_be 4 sid) (\<lambda>sid_bytes.
     let material = s1_material (s1_public_key L) (s1_kem_ciphertext L) sid_bytes
     in Inr ((new_session vehicle_id slot sid kem_us)\<lparr>s_tx_key := slice 0 32 material,
          s_tx_prefix := slice 32 36 material, s_rx_key := slice 36 68 material,
          s_rx_prefix := slice 68 72 material\<rparr>))"

section \<open>Operations\<close>

definition s1_read_protocol_line :: "'d env \<Rightarrow> ('d serial_v1, string) act" where
  "s1_read_protocol_line E L =
     s1_io (read_line E S1_PREFIXES (TimeoutError (''Board '' @ s1_name L @ '' response timeout'')) (s1_timeout L)) L"

definition s1_send :: "'d env \<Rightarrow> string \<Rightarrow> ('d serial_v1, string) act" where
  "s1_send E text = bindA (s1_io (serial_write E text)) (\<lambda>_. s1_read_protocol_line E)"

definition s1_status :: "'d env \<Rightarrow> ('d serial_v1, int \<times> int) act" where
  "s1_status E =
     bindA (s1_send E ''STATUS'') (\<lambda>line.
       let fields = py_split line in
       if length fields \<noteq> 4 \<or> fields ! 0 \<noteq> ''STATUS'' then raiseA (RuntimeError line)
       else liftR (bindR (py_int 10 (fields ! 1)) (\<lambda>count.
                   bindR (py_int 16 (fields ! 2)) (\<lambda>hi.
                   bindR (py_int 16 (fields ! 3)) (\<lambda>lo.
                   Inr (count, Bit_Operations.or (push_bit 32 hi) lo))))))"

text \<open>\<open>__init__\<close>, given the contents of the two vector files.\<close>

definition s1_init :: "'d env \<Rightarrow> string \<Rightarrow> real \<Rightarrow> bytes \<Rightarrow> bytes \<Rightarrow> 'd world \<Rightarrow> unit res \<times> 'd serial_v1" where
  "s1_init E name timeout public_key kem_ciphertext w =
     (let L = \<lparr>s1_name = name, s1_timeout = timeout, s1_sessions = Map.empty, s1_public_key = public_key,
               s1_kem_ciphertext = kem_ciphertext, s1_world = w\<rparr>
      in if length public_key \<noteq> 800 \<or> length kem_ciphertext \<noteq> 768
         then (Inl (ValueError ''expected ML-KEM-512 public_key.bin and kem_ciphertext.bin''), L)
         else bindA (s1_status E) (\<lambda>_. retA ()) L)"

definition s1_check_ready :: "int \<Rightarrow> string \<Rightarrow> (int \<times> int) res" where
  "s1_check_ready slot line =
     bindR (guardR (\<not> prefix ''ERR '' line) (RuntimeError line)) (\<lambda>_.
     let fields = py_split line; malformed = RuntimeError (''malformed READY: '' @ line) in
     bindR (guardR (length fields = 4 \<and> fields ! 0 = ''READY'') malformed) (\<lambda>_.
     bindR (py_int 10 (fields ! 1)) (\<lambda>s. bindR (guardR (s = slot) malformed) (\<lambda>_.
     bindR (py_int 16 (fields ! 2)) (\<lambda>sid.
     bindR (py_int 10 (fields ! 3)) (\<lambda>kem_us. Inr (sid, kem_us)))))))"

definition s1_store :: "int \<Rightarrow> session \<Rightarrow> ('d serial_v1, session) act" where
  "s1_store slot x L = (Inr x, L\<lparr>s1_sessions := (s1_sessions L)(slot \<mapsto> x)\<rparr>)"

definition s1_open_session :: "'d env \<Rightarrow> int \<Rightarrow> int \<Rightarrow> ('d serial_v1, session) act" where
  "s1_open_session E vehicle_id slot =
     bindA (s1_send E (''OPEN '' @ str_int slot)) (\<lambda>line.
     bindA (liftR (s1_check_ready slot line)) (\<lambda>(sid, kem_us) L.
     bindA (liftR (s1_derive L vehicle_id slot sid kem_us)) (s1_store slot) L))"

definition s1_check_left :: "int \<Rightarrow> int \<Rightarrow> string \<Rightarrow> unit res" where
  "s1_check_left slot old_sid line =
     (let fields = py_split line in
     bindR (guardR (length fields = 3 \<and> fields ! 0 = ''LEFT'') (RuntimeError line)) (\<lambda>_.
     bindR (py_int 10 (fields ! 1)) (\<lambda>s. bindR (guardR (s = slot) (RuntimeError line)) (\<lambda>_.
     bindR (py_int 16 (fields ! 2)) (\<lambda>sid. guardR (sid = old_sid) (RuntimeError line))))))"

definition s1_leave_session :: "'d env \<Rightarrow> int \<Rightarrow> ('d serial_v1, session) act" where
  "s1_leave_session E slot L =
     (case s1_sessions L slot of
        None \<Rightarrow> (Inl (RuntimeError (''no local session for slot '' @ str_int slot)), L)
      | Some old \<Rightarrow>
          bindA (s1_send E (''LEAVE '' @ str_int slot)) (\<lambda>line.
          bindA (liftR (s1_check_left slot (s_sid old) line)) (\<lambda>_ L.
          (Inr old, L\<lparr>s1_sessions := (s1_sessions L)(slot := None)\<rparr>))) L)"

text \<open>Sealing a payload under a session: ciphertext and tag.\<close>

definition s1_seal :: "'d env \<Rightarrow> session \<Rightarrow> bytes \<Rightarrow> (bytes \<times> bytes) res" where
  "s1_seal E x payload =
     bindR (s1_nonce (s_tx_prefix x) (s_tx_counter x)) (\<lambda>n.
     bindR (s1_aad (s_sid x) (s_tx_counter x) (int (length payload))) (\<lambda>a.
     bindR (aead_encrypt E (s_tx_key x) n (zero_pad PACKET_BYTES payload) a) (\<lambda>request.
     Inr (drop_last 16 request, take_last 16 request))))"

definition s1_command :: "int \<Rightarrow> int \<Rightarrow> int \<Rightarrow> bytes \<Rightarrow> bytes \<Rightarrow> string" where
  "s1_command slot counter len ciphertext tag =
     ''DATA '' @ str_int slot @ '' '' @ fmt_hex 16 counter @ '' '' @ str_int len @ '' ''
     @ bytes_hex ciphertext @ '' '' @ bytes_hex tag"

definition s1_exchange :: "'d env \<Rightarrow> string \<Rightarrow> ('d serial_v1, string \<times> real) act" where
  "s1_exchange E command =
     bindA (s1_io read_perf) (\<lambda>started.
     bindA (s1_send E command) (\<lambda>line.
     bindA (s1_io read_perf) (\<lambda>stopped.
     retA (line, (perf_seconds stopped - perf_seconds started) * 1000))))"

definition s1_tamper_reply :: "string \<Rightarrow> real \<Rightarrow> data_info res" where
  "s1_tamper_reply line rtt_ms =
     (let fields = py_split line; blocked = (2 \<le> length fields \<and> take 2 fields = [''ERR'', ''AUTH'']) in
      bindR (if blocked \<and> 4 \<le> length fields then py_int 10 (fields ! 3) else Inr 0) (\<lambda>rx.
      Inr \<lparr>i_ok = False, i_blocked = blocked, i_detail = line, i_rx_us = rx, i_tx_us = 0, i_rtt_ms = rtt_ms\<rparr>))"

text \<open>Decrypting the response: \<open>decrypt(...)[:response_length]\<close>; a negative length has been refused by
  \<open>bytes((length, 0, 0, 0))\<close>.\<close>

definition s1_open_response :: "'d env \<Rightarrow> session \<Rightarrow> int \<Rightarrow> int \<Rightarrow> string \<Rightarrow> string \<Rightarrow> bytes res" where
  "s1_open_response E x counter len ct_hex tag_hex =
     bindR (s1_nonce (s_rx_prefix x) counter) (\<lambda>n.
     bindR (bytes_fromhex ct_hex) (\<lambda>ct. bindR (bytes_fromhex tag_hex) (\<lambda>tag.
     bindR (s1_aad (s_sid x) counter len) (\<lambda>a.
     bindR (aead_decrypt E (s_rx_key x) n (ct @ tag) a) (\<lambda>plain. Inr (take (nat len) plain))))))"

definition s1_check_resp :: "'d env \<Rightarrow> session \<Rightarrow> int \<Rightarrow> bytes \<Rightarrow> string \<Rightarrow> unit res" where
  "s1_check_resp E x slot payload line =
     bindR (guardR (\<not> prefix ''ERR '' line) (RuntimeError line)) (\<lambda>_.
     let fields = py_split line in
     bindR (guardR (length fields = 8 \<and> fields ! 0 = ''RESP'') (RuntimeError (''malformed RESP: '' @ line))) (\<lambda>_.
     bindR (py_int 10 (fields ! 1)) (\<lambda>response_slot.
     bindR (py_int 16 (fields ! 2)) (\<lambda>response_counter.
     bindR (py_int 10 (fields ! 3)) (\<lambda>response_length.
     bindR (guardR (response_slot = slot \<and> response_counter = s_rx_counter x)
        (RuntimeError ''response slot/counter mismatch'')) (\<lambda>_.
     bindR (s1_open_response E x response_counter response_length (fields ! 6) (fields ! 7)) (\<lambda>response.
     guardR (response = payload) (RuntimeError ''secure echo plaintext mismatch''))))))))"

definition s1_advance :: "session \<Rightarrow> session" where
  "s1_advance x = x\<lparr>s_tx_counter := s_tx_counter x + 1, s_rx_counter := s_rx_counter x + 1\<rparr>"

definition s1_finish_data ::
    "'d env \<Rightarrow> session \<Rightarrow> int \<Rightarrow> bytes \<Rightarrow> bool \<Rightarrow> string \<times> real \<Rightarrow> ('d serial_v1, data_info) act" where
  "s1_finish_data E x slot payload tamper = (\<lambda>(line, rtt_ms).
     if tamper then liftR (s1_tamper_reply line rtt_ms)
     else
       bindA (liftR (s1_check_resp E x slot payload line)) (\<lambda>_.
       bindA (\<lambda>L. (Inr (), L\<lparr>s1_sessions := (s1_sessions L)(slot \<mapsto> s1_advance x)\<rparr>)) (\<lambda>_.
       let fields = py_split line in
       liftR (bindR (py_int 10 (fields ! 4)) (\<lambda>rx. bindR (py_int 10 (fields ! 5)) (\<lambda>tx.
         Inr \<lparr>i_ok = True, i_blocked = False, i_detail = ''secure echo verified'', i_rx_us = rx,
              i_tx_us = tx, i_rtt_ms = rtt_ms\<rparr>))))))"

definition s1_send_data :: "'d env \<Rightarrow> int \<Rightarrow> bytes \<Rightarrow> bool \<Rightarrow> ('d serial_v1, data_info) act" where
  "s1_send_data E slot payload tamper L =
     (if PACKET_BYTES < length payload then (Inl (ValueError ''payload exceeds 64 bytes''), L)
      else case s1_sessions L slot of
        None \<Rightarrow> (Inl (RuntimeError (''no local session for slot '' @ str_int slot)), L)
      | Some x \<Rightarrow>
          bindA (liftR (s1_seal E x payload)) (\<lambda>(sealed, tag).
          bindA (liftR (if tamper then flip_first_bit sealed else Inr sealed)) (\<lambda>ciphertext.
          bindA (s1_exchange E (s1_command slot (s_tx_counter x) (int (length payload)) ciphertext tag))
            (s1_finish_data E x slot payload tamper))) L)"

definition s1_close :: "'d env \<Rightarrow> 'd serial_v1 \<Rightarrow> 'd serial_v1" where
  "s1_close E L = L\<lparr>s1_world := serial_close E (s1_world L)\<rparr>"

text \<open>The operations \<open>BoardWorker\<close> finds on this link; there is no \<open>sw_kem\<close>.\<close>

definition s1_ops :: "'d env \<Rightarrow> 'd serial_v1 board_ops" where
  "s1_ops E = \<lparr>op_open = s1_open_session E, op_leave = s1_leave_session E, op_send = s1_send_data E,
     op_sw_kem = None, op_close = s1_close E\<rparr>"

section \<open>Frames\<close>

definition s1_same :: "'d serial_v1 \<Rightarrow> 'd serial_v1 \<Rightarrow> bool" where
  "s1_same L L' \<longleftrightarrow> L' = L\<lparr>s1_world := s1_world L'\<rparr>"

lemma s1_same_refl [simp]: "s1_same L L"
  by (simp add: s1_same_def)

lemma s1_same_trans: "s1_same L M \<Longrightarrow> s1_same M N \<Longrightarrow> s1_same L N"
  unfolding s1_same_def by (cases L; cases M; cases N) simp

lemma s1_same_sel: "s1_same L L' \<Longrightarrow> s1_sessions L' = s1_sessions L \<and> s1_public_key L' = s1_public_key L \<and>
    s1_kem_ciphertext L' = s1_kem_ciphertext L"
  unfolding s1_same_def by (cases L; cases L') simp

lemma s1_io_same: "s1_io m L = (r, L') \<Longrightarrow> s1_same L L'"
  by (auto simp: s1_io_def s1_same_def split: prod.splits)

lemma s1_send_same: "s1_send E c L = (r, L') \<Longrightarrow> s1_same L L'"
  unfolding s1_send_def
  by (erule bindA_state) (auto simp: s1_read_protocol_line_def dest: s1_io_same intro: s1_same_trans)

lemma s1_exchange_same: "s1_exchange E c L = (r, L') \<Longrightarrow> s1_same L L'"
  unfolding s1_exchange_def
  by (auto elim!: bindAE dest!: s1_io_same s1_send_same simp: retA_def intro: s1_same_trans)

lemma s1_send_eq:
  "s1_send E c L = s1_io (send_line E S1_PREFIXES
     (TimeoutError (''Board '' @ s1_name L @ '' response timeout'')) (s1_timeout L) c) L"
  by (simp add: s1_send_def s1_read_protocol_line_def s1_io_def send_line_def bindA_def split: prod.splits sum.splits)

section \<open>Outcomes\<close>

text \<open>A session as \<open>_derive\<close> makes it: four key parts of the right sizes and counters that agree.\<close>

definition s1_session_ok :: "int \<Rightarrow> session \<Rightarrow> bool" where
  "s1_session_ok slot x \<longleftrightarrow> s_slot x = slot \<and> 0 \<le> s_sid x \<and> s_sid x < 2 ^ 32 \<and>
     length (s_tx_key x) = 32 \<and> length (s_tx_prefix x) = 4 \<and> length (s_rx_key x) = 32 \<and> length (s_rx_prefix x) = 4 \<and>
     s_tx_counter x = s_rx_counter x \<and> 0 \<le> s_rx_counter x"

lemma length_s1_material [simp]: "length (s1_material pk ct s) = 72"
  by (simp add: s1_material_def Let_def)

lemma s1_derive_ok:
  "s1_derive L v s sid us = Inr x \<Longrightarrow> s1_session_ok s x \<and> s_vehicle_id x = v \<and> s_sid x = sid \<and> s_kem_us x = us"
  by (auto simp: s1_derive_def s1_session_ok_def Let_def new_session_def to_bytes_be_Inr slice_def)

lemma s1_open_cases:
  assumes "s1_open_session E v s L = (r, L')"
  obtains (failed) e where "r = Inl e" "s1_same L L'"
  | (opened) x sid us M where "r = Inr x" "s1_same L M" "L' = M\<lparr>s1_sessions := (s1_sessions L)(s \<mapsto> x)\<rparr>"
      "s1_derive M v s sid us = Inr x"
proof -
  from assms consider (early) e where "r = Inl e" "s1_same L L'"
    | (late) M sid us x where "s1_same L M" "s1_derive M v s sid us = Inr x" "s1_store s x M = (r, L')"
    unfolding s1_open_session_def
    by (auto elim!: bindAE liftRE dest!: s1_send_same split: prod.splits)
  then show ?thesis
  proof cases
    case late
    then show ?thesis by (intro opened) (auto simp: s1_store_def s1_same_sel)
  qed (rule failed)
qed

lemma s1_leave_cases:
  assumes "s1_leave_session E s L = (r, L')"
  obtains (failed) e where "r = Inl e" "s1_same L L'"
  | (left) x M where "r = Inr x" "s1_sessions L s = Some x" "s1_same L M" "L' = M\<lparr>s1_sessions := (s1_sessions L)(s := None)\<rparr>"
proof (cases "s1_sessions L s")
  case None
  then show ?thesis using assms
    by (intro failed [of "RuntimeError (''no local session for slot '' @ str_int s)"]) (auto simp: s1_leave_session_def)
next
  case (Some old)
  from assms Some have "bindA (s1_send E (''LEAVE '' @ str_int s)) (\<lambda>line.
      bindA (liftR (s1_check_left s (s_sid old) line)) (\<lambda>_ L.
      (Inr old, L\<lparr>s1_sessions := (s1_sessions L)(s := None)\<rparr>))) L = (r, L')"
    by (simp add: s1_leave_session_def)
  then show ?thesis using Some failed left
    by (auto elim!: bindAE liftRE dest!: s1_send_same simp: s1_same_sel)
qed

lemma s1_finish_cases:
  assumes "s1_finish_data E x s p tamper y M = (r, L')"
  shows "(L' = M \<and> (\<forall>i. r = Inr i \<longrightarrow> tamper \<and> \<not> i_ok i)) \<or>
    (\<not> tamper \<and> L' = M\<lparr>s1_sessions := (s1_sessions M)(s \<mapsto> s1_advance x)\<rparr> \<and>
       s1_check_resp E x s p (fst y) = Inr () \<and> (\<forall>i. r = Inr i \<longrightarrow> i_ok i))"
proof -
  obtain line rtt where y: "y = (line, rtt)" by fastforce
  show ?thesis
    using assms by (cases "s1_check_resp E x s p line")
      (auto simp: s1_finish_data_def s1_tamper_reply_def y bindA_def Let_def split: if_splits)
qed

lemma s1_send_cases:
  assumes "s1_send_data E s p tamper L = (r, L')"
  obtains (kept) "s1_same L L'" "\<forall>i. r = Inr i \<longrightarrow> tamper \<and> \<not> i_ok i \<and> s1_sessions L s \<noteq> None"
  | (echoed) x line M where "\<not> tamper" "s1_sessions L s = Some x" "s1_same L M"
      "L' = M\<lparr>s1_sessions := (s1_sessions L)(s \<mapsto> s1_advance x)\<rparr>" "s1_check_resp E x s p line = Inr ()"
      "\<forall>i. r = Inr i \<longrightarrow> i_ok i"
proof (cases "PACKET_BYTES < length p \<or> s1_sessions L s = None")
  case True
  then show ?thesis using assms by (intro kept) (auto simp: s1_send_data_def split: if_splits)
next
  case False
  then obtain x where x: "s1_sessions L s = Some x" and p: "\<not> PACKET_BYTES < length p" by auto
  then have "bindA (liftR (s1_seal E x p)) (\<lambda>(sealed, tag).
      bindA (liftR (if tamper then flip_first_bit sealed else Inr sealed)) (\<lambda>ct.
      bindA (s1_exchange E (s1_command s (s_tx_counter x) (int (length p)) ct tag))
        (s1_finish_data E x s p tamper))) L = (r, L')"
    using assms by (simp add: s1_send_data_def)
  then consider (early) e where "r = Inl e" "s1_same L L'"
    | (late) y M where "s1_same L M" "s1_finish_data E x s p tamper y M = (r, L')"
    by (auto elim!: bindAE dest!: s1_exchange_same)
  then show ?thesis
  proof cases
    case early
    then show ?thesis by (intro kept) auto
  next
    case late
    from s1_finish_cases [OF late(2)] show ?thesis
    proof
      assume "L' = M \<and> (\<forall>i. r = Inr i \<longrightarrow> tamper \<and> \<not> i_ok i)"
      then show ?thesis using late(1) x by (intro kept) auto
    next
      assume "\<not> tamper \<and> L' = M\<lparr>s1_sessions := (s1_sessions M)(s \<mapsto> s1_advance x)\<rparr> \<and>
        s1_check_resp E x s p (fst y) = Inr () \<and> (\<forall>i. r = Inr i \<longrightarrow> i_ok i)"
      then show ?thesis using late(1) x by (intro echoed) (auto simp: s1_same_sel)
    qed
  qed
qed

section \<open>Interface\<close>

definition s1_live :: "'d serial_v1 \<Rightarrow> int set" where
  "s1_live L = dom (s1_sessions L)"

definition s1_wf :: "'d serial_v1 \<Rightarrow> bool" where
  "s1_wf L \<longleftrightarrow> (\<forall>s x. s1_sessions L s = Some x \<longrightarrow> s1_session_ok s x)"

lemma s1_wf_same: "s1_wf L \<Longrightarrow> s1_same L L' \<Longrightarrow> s1_wf L'"
  using s1_same_sel by (fastforce simp: s1_wf_def)

interpretation s1: board_backend "s1_open_session E" "s1_leave_session E" s1_live s1_wf "s1_send_data E"
  for E :: "'d env"
proof (unfold_locales, goal_cases)
  case (1 b v s r b')
  from 1(2) show ?case
  proof (cases rule: s1_open_cases)
    case (opened x sid us M)
    then show ?thesis using 1(1) s1_derive_ok [OF opened(4)] by (auto simp: s1_wf_def)
  qed (rule s1_wf_same [OF 1(1)])
next
  case (2 b v s x b')
  from 2(2) show ?case by (cases rule: s1_open_cases) (auto simp: s1_live_def)
next
  case (3 b v s e b')
  from 3(2) show ?case by (cases rule: s1_open_cases) (auto simp: s1_live_def s1_same_sel)
next
  case (4 b s q b')
  from 4(2) show ?case
    by (cases rule: s1_leave_cases) (use 4(1) in \<open>auto simp: s1_wf_def s1_same_sel\<close>)
next
  case (5 b s y b')
  from 5(2) show ?case by (cases rule: s1_leave_cases) (auto simp: s1_live_def)
next
  case (6 b s y b')
  from 6(2) show ?case by (cases rule: s1_leave_cases) (auto simp: s1_live_def)
next
  case (7 b s e b')
  from 7(2) show ?case by (cases rule: s1_leave_cases) (auto simp: s1_live_def s1_same_sel)
next
  case (8 b v s x b')
  from 8(2) show ?case
  proof (cases rule: s1_open_cases)
    case (opened x sid us M)
    then show ?thesis using s1_derive_ok [OF opened(4)] by (simp add: s1_session_ok_def)
  qed simp
next
  case (9 b s p t r b')
  from 9(2) show ?case
  proof (cases rule: s1_send_cases)
    case (echoed x line M)
    then show ?thesis using 9(1) by (auto simp: s1_wf_def s1_session_ok_def s1_advance_def)
  qed (rule s1_wf_same [OF 9(1)])
next
  case (10 b s p t r b')
  from 10(2) show ?case by (cases rule: s1_send_cases) (auto simp: s1_live_def s1_same_sel)
next
  case (11 b s p t i b')
  from 11(2) show ?case by (cases rule: s1_send_cases) (auto simp: s1_live_def)
next
  case (12 b s p i b')
  from 12(2) show ?case by (cases rule: s1_send_cases) auto
qed

end
