(* ===== verification/UartClient.thy ===== *)
theory UartClient
  imports SerialV1
begin

text \<open>
  \<open>uart_secure_client.py\<close>, the interactive client for the single-board firmware: 64 session slots kept in
  a list of dictionaries, join, leave, echo, rounds, and the loop over the user's commands.  The lines
  the user types are the input (taken to be ASCII); the table of \<open>/stats\<close> is a value,
  other texts printed for the user are not modelled.  The program closes the port and ends with an exit
  status or a traceback.
\<close>

section \<open>Sessions\<close>

text \<open>The dictionary of a slot.  The entries of an empty slot have no key parts.\<close>

record uart_keys =
  uk_tx_key :: bytes
  uk_tx_prefix :: bytes
  uk_rx_key :: bytes
  uk_rx_prefix :: bytes

record uart_session =
  us_active :: bool
  us_sid :: int
  us_user :: "int option"
  us_keys :: "uart_keys option"
  us_tx_counter :: int
  us_rx_counter :: int
  us_kem_us :: int
  us_rtt_ms :: "real list"
  us_hw_rx_us :: "int list"
  us_hw_tx_us :: "int list"

definition empty_session :: uart_session where
  "empty_session = \<lparr>us_active = False, us_sid = 0, us_user = None, us_keys = None, us_tx_counter = 0,
     us_rx_counter = 0, us_kem_us = 0, us_rtt_ms = [], us_hw_rx_us = [], us_hw_tx_us = []\<rparr>"

definition make_empty_sessions :: "uart_session list" where
  "make_empty_sessions = replicate MAX_SESSIONS empty_session"

text \<open>The client: the port, the vector files and the variables of \<open>main\<close>.\<close>

record 'd client =
  uc_world :: "'d world"
  uc_public_key :: bytes
  uc_kem_ciphertext :: bytes
  uc_sessions :: "uart_session list"
  uc_joins :: "int list"
  uc_leaves :: int
  uc_next_user :: int
  uc_selected :: "int option"

definition uc_io :: "('d world, 'a) act \<Rightarrow> ('d client, 'a) act" where
  "uc_io m C = (case m (uc_world C) of (r, w) \<Rightarrow> (r, C\<lparr>uc_world := w\<rparr>))"

definition load_vectors :: "bytes \<Rightarrow> bytes \<Rightarrow> (bytes \<times> bytes) res" where
  "load_vectors public_key kem_ciphertext =
     bindR (guardR (length public_key = 800 \<and> length kem_ciphertext = 768)
        (ValueError ''expected ML-KEM-512 public_key.bin and kem_ciphertext.bin'')) (\<lambda>_.
     Inr (public_key, kem_ciphertext))"

definition uc_derive_session :: "int \<Rightarrow> bytes \<Rightarrow> bytes \<Rightarrow> uart_session res" where
  "uc_derive_session session_id public_key kem_ciphertext =
     bindR (to_bytes_be 4 session_id) (\<lambda>sid_bytes.
     let transcript = sha3_256 (public_key @ kem_ciphertext @ sid_bytes);
         material = shake_256 (KDF_DOMAIN @ SHARED_SECRET @ transcript) 72
     in Inr (empty_session\<lparr>us_active := True, us_sid := session_id,
          us_keys := Some \<lparr>uk_tx_key = slice 0 32 material, uk_tx_prefix = slice 32 36 material,
                           uk_rx_key = slice 36 68 material, uk_rx_prefix = slice 68 72 material\<rparr>\<rparr>))"

definition build_nonce :: "bytes \<Rightarrow> int \<Rightarrow> bytes res" where
  "build_nonce pfx counter = bindR (to_bytes_be 8 counter) (\<lambda>c. Inr (pfx @ c))"

definition build_aad :: "int \<Rightarrow> int \<Rightarrow> int \<Rightarrow> bytes res" where
  "build_aad session_id counter len =
     bindR (to_bytes_be 4 session_id) (\<lambda>s.
     bindR (to_bytes_be 8 counter) (\<lambda>c.
     bindR (bytes_of_ints [len, 0, 0, 0]) (\<lambda>l. Inr (s @ c @ l))))"

section \<open>The protocol\<close>

definition UC_PREFIXES :: "string list" where
  "UC_PREFIXES = [''READY '', ''RESP '', ''ERR '', ''BYE'', ''LEFT '', ''STATUS '']"

definition uc_send_line :: "'d env \<Rightarrow> string \<Rightarrow> ('d client, string) act" where
  "uc_send_line E text = uc_io (send_line E UC_PREFIXES (TimeoutError ''ZedBoard response timeout'') 60 text)"

definition reject_err :: "string \<Rightarrow> unit res" where
  "reject_err line = guardR (\<not> prefix ''ERR '' line) (RuntimeError line)"

definition in_range :: "int \<Rightarrow> bool" where
  "in_range slot \<longleftrightarrow> 0 \<le> slot \<and> slot < int MAX_SESSIONS"

definition slot_active :: "int \<Rightarrow> 'd client \<Rightarrow> bool" where
  "slot_active slot C \<longleftrightarrow> in_range slot \<and> us_active (uc_sessions C ! nat slot)"

definition active_slots :: "uart_session list \<Rightarrow> int list" where
  "active_slots ss = map int (filter (\<lambda>i. us_active (ss ! i)) [0..<length ss])"

definition uc_check_ready :: "int \<Rightarrow> string \<Rightarrow> (int \<times> int) res" where
  "uc_check_ready slot line =
     bindR (reject_err line) (\<lambda>_.
     let fields = py_split line in
     bindR (guardR (length fields = 4 \<and> fields ! 0 = ''READY'') (RuntimeError (''malformed READY: '' @ line))) (\<lambda>_.
     bindR (py_int 10 (fields ! 1)) (\<lambda>returned_slot.
     bindR (py_int 16 (fields ! 2)) (\<lambda>session_id.
     bindR (py_int 10 (fields ! 3)) (\<lambda>kem_us.
     bindR (guardR (returned_slot = slot) (RuntimeError (''slot mismatch: '' @ line))) (\<lambda>_.
     Inr (session_id, kem_us)))))))"

definition uc_file_session :: "int \<Rightarrow> int \<Rightarrow> int \<times> int \<Rightarrow> ('d client, unit) act" where
  "uc_file_session slot user_id = (\<lambda>(session_id, kem_us) C.
     case bindR (uc_derive_session session_id (uc_public_key C) (uc_kem_ciphertext C)) (\<lambda>state.
          py_set (uc_sessions C) slot (state\<lparr>us_kem_us := kem_us, us_user := Some user_id\<rparr>)) of
       Inl e \<Rightarrow> (Inl e, C)
     | Inr ss \<Rightarrow> (Inr (), C\<lparr>uc_sessions := ss, uc_joins := uc_joins C @ [kem_us]\<rparr>))"

definition join_session :: "'d env \<Rightarrow> int \<Rightarrow> int \<Rightarrow> ('d client, unit) act" where
  "join_session E slot user_id =
     bindA (liftR (guardR (in_range slot) (ValueError ''slot must be 0..63''))) (\<lambda>_.
     bindA (uc_send_line E (''OPEN '' @ str_int slot)) (\<lambda>line.
     bindA (liftR (uc_check_ready slot line)) (uc_file_session slot user_id)))"

definition uc_check_left :: "int \<Rightarrow> int \<Rightarrow> string \<Rightarrow> unit res" where
  "uc_check_left slot old_sid line =
     bindR (reject_err line) (\<lambda>_.
     let fields = py_split line; malformed = RuntimeError (''malformed LEFT: '' @ line) in
     bindR (guardR (length fields = 3 \<and> fields ! 0 = ''LEFT'') malformed) (\<lambda>_.
     bindR (py_int 10 (fields ! 1)) (\<lambda>s. bindR (guardR (s = slot) malformed) (\<lambda>_.
     bindR (py_int 16 (fields ! 2)) (\<lambda>sid. guardR (sid = old_sid) (RuntimeError (''session mismatch: '' @ line)))))))"

definition leave_session :: "'d env \<Rightarrow> int \<Rightarrow> ('d client, unit) act" where
  "leave_session E slot C =
     (if \<not> slot_active slot C then (Inl (ValueError ''slot is not active''), C)
      else bindA (uc_send_line E (''LEAVE '' @ str_int slot)) (\<lambda>line.
        bindA (liftR (uc_check_left slot (us_sid (uc_sessions C ! nat slot)) line)) (\<lambda>_ C.
        (Inr (), C\<lparr>uc_sessions := (uc_sessions C)[nat slot := empty_session]\<rparr>))) C)"

definition board_status :: "'d env \<Rightarrow> ('d client, int \<times> int) act" where
  "board_status E =
     bindA (uc_send_line E ''STATUS'') (\<lambda>line.
     liftR (bindR (reject_err line) (\<lambda>_.
       let fields = py_split line in
       bindR (guardR (length fields = 4 \<and> fields ! 0 = ''STATUS'') (RuntimeError (''malformed STATUS: '' @ line))) (\<lambda>_.
       bindR (py_int 10 (fields ! 1)) (\<lambda>count.
       bindR (py_int 16 (fields ! 2)) (\<lambda>hi.
       bindR (py_int 16 (fields ! 3)) (\<lambda>lo.
       Inr (count, Bit_Operations.or (push_bit 32 hi) lo))))))))"

text \<open>Sealing a message: the command line, ciphertext and tag.  The dictionary of an empty slot has no
  key; looking it up raises \<open>KeyError\<close>.\<close>

definition build_data_command :: "'d env \<Rightarrow> uart_session \<Rightarrow> int \<Rightarrow> bytes \<Rightarrow> (string \<times> bytes \<times> bytes) res" where
  "build_data_command E state slot plaintext =
     bindR (guardR (length plaintext \<le> PACKET_BYTES) (ValueError ''message must be at most 64 UTF-8 bytes'')) (\<lambda>_.
     case us_keys state of
       None \<Rightarrow> Inl (MissingKey ''tx_key'')
     | Some k \<Rightarrow>
         bindR (build_nonce (uk_tx_prefix k) (us_tx_counter state)) (\<lambda>n.
         bindR (build_aad (us_sid state) (us_tx_counter state) (int (length plaintext))) (\<lambda>a.
         bindR (aead_encrypt E (uk_tx_key k) n (zero_pad PACKET_BYTES plaintext) a) (\<lambda>request.
         let ciphertext = drop_last 16 request; tag = take_last 16 request in
         Inr (''DATA '' @ str_int slot @ '' '' @ fmt_hex 16 (us_tx_counter state) @ '' '' @ str_int (int (length plaintext))
              @ '' '' @ bytes_hex ciphertext @ '' '' @ bytes_hex tag, ciphertext, tag)))))"

definition expect_rejected_packet :: "'d env \<Rightarrow> uart_session \<Rightarrow> int \<Rightarrow> string \<Rightarrow> ('d client, unit) act" where
  "expect_rejected_packet E state slot expected_error =
     bindA (liftR (build_data_command E state slot (encode_ascii ''stale-user-packet''))) (\<lambda>(command, _, _).
     bindA (uc_send_line E command) (\<lambda>line.
     liftR (guardR (prefix expected_error line) (RuntimeError (''expected '' @ py_repr expected_error
        @ '' for stale packet, got: '' @ line)))))"

text \<open>The checks on a RESP line; the result is the two measured times.\<close>

definition uc_check_resp :: "'d env \<Rightarrow> uart_session \<Rightarrow> int \<Rightarrow> bytes \<Rightarrow> string \<Rightarrow> (int \<times> int) res" where
  "uc_check_resp E state slot plaintext line =
     bindR (reject_err line) (\<lambda>_.
     let fields = py_split line in
     bindR (guardR (length fields = 8 \<and> fields ! 0 = ''RESP'') (RuntimeError (''malformed response: '' @ line))) (\<lambda>_.
     bindR (py_int 10 (fields ! 1)) (\<lambda>response_slot.
     bindR (py_int 16 (fields ! 2)) (\<lambda>response_counter.
     bindR (py_int 10 (fields ! 3)) (\<lambda>response_length.
     bindR (py_int 10 (fields ! 4)) (\<lambda>hw_rx_us. bindR (py_int 10 (fields ! 5)) (\<lambda>hw_tx_us.
     bindR (bytes_fromhex (fields ! 6)) (\<lambda>ct. bindR (bytes_fromhex (fields ! 7)) (\<lambda>tag.
     bindR (guardR (response_slot = slot \<and> response_counter = us_rx_counter state)
        (RuntimeError ''response slot/counter mismatch'')) (\<lambda>_.
     case us_keys state of
       None \<Rightarrow> Inl (MissingKey ''rx_key'')
     | Some k \<Rightarrow>
         bindR (build_nonce (uk_rx_prefix k) response_counter) (\<lambda>n.
         bindR (build_aad (us_sid state) response_counter response_length) (\<lambda>a.
         bindR (aead_decrypt E (uk_rx_key k) n (ct @ tag) a) (\<lambda>padded.
         bindR (guardR (take (nat response_length) padded = plaintext) (RuntimeError ''secure echo plaintext mismatch'')) (\<lambda>_.
         Inr (hw_rx_us, hw_tx_us)))))))))))))))"

definition uc_acknowledge :: "int \<Rightarrow> uart_session \<Rightarrow> real \<Rightarrow> int \<times> int \<Rightarrow> ('d client, unit) act" where
  "uc_acknowledge slot state rtt_ms = (\<lambda>(hw_rx_us, hw_tx_us) C.
     (Inr (), C\<lparr>uc_sessions := (uc_sessions C)[nat slot := state\<lparr>us_tx_counter := us_tx_counter state + 1,
        us_rx_counter := us_rx_counter state + 1, us_rtt_ms := us_rtt_ms state @ [rtt_ms],
        us_hw_rx_us := us_hw_rx_us state @ [hw_rx_us], us_hw_tx_us := us_hw_tx_us state @ [hw_tx_us]\<rparr>]\<rparr>))"

definition secure_echo :: "'d env \<Rightarrow> int \<Rightarrow> bytes \<Rightarrow> ('d client, unit) act" where
  "secure_echo E slot plaintext C =
     (if PACKET_BYTES < length plaintext then (Inl (ValueError ''message must be at most 64 UTF-8 bytes''), C)
      else if \<not> slot_active slot C then (Inl (ValueError ''selected slot is not active''), C)
      else
        let state = uc_sessions C ! nat slot in
        bindA (liftR (build_data_command E state slot plaintext)) (\<lambda>(command, _, _).
        bindA (uc_io read_perf) (\<lambda>began.
        bindA (uc_send_line E command) (\<lambda>line.
        bindA (uc_io read_perf) (\<lambda>ended.
        bindA (liftR (uc_check_resp E state slot plaintext line))
          (uc_acknowledge slot state ((perf_seconds ended - perf_seconds began) * 1000)))))) C)"

section \<open>Commands\<close>

definition first_free :: "uart_session list \<Rightarrow> int option" where
  "first_free ss = map_option int (List.find (\<lambda>i. \<not> us_active (ss ! i)) [0..<length ss])"

text \<open>Joining with the next user id, as every command does, and selecting the slot.\<close>

definition join_next :: "'d env \<Rightarrow> int \<Rightarrow> ('d client, unit) act" where
  "join_next E slot C =
     bindA (join_session E slot (uc_next_user C)) (\<lambda>_ C. (Inr (), C\<lparr>uc_next_user := uc_next_user C + 1\<rparr>)) C"

definition select_slot :: "int \<Rightarrow> ('d client, unit) act" where
  "select_slot slot C = (Inr (), C\<lparr>uc_selected := Some slot\<rparr>)"

definition cmd_join :: "'d env \<Rightarrow> string \<Rightarrow> ('d client, unit) act" where
  "cmd_join E text C =
     (let fields = py_split text in
      case (if length fields = 2 then py_int 10 (fields ! 1)
            else case first_free (uc_sessions C) of
              None \<Rightarrow> Inl (ValueError ''all 64 slots are active'')
            | Some slot \<Rightarrow> Inr slot) of
        Inl e \<Rightarrow> (Inl e, C)
      | Inr slot \<Rightarrow> bindA (join_next E slot) (\<lambda>_. select_slot slot) C)"

definition count_leave :: "int \<Rightarrow> ('d client, unit) act" where
  "count_leave slot C =
     (let C = C\<lparr>uc_leaves := uc_leaves C + 1\<rparr> in
      if uc_selected C = Some slot
      then (Inr (), C\<lparr>uc_selected := (case active_slots (uc_sessions C) of [] \<Rightarrow> None | s # _ \<Rightarrow> Some s)\<rparr>)
      else (Inr (), C))"

text \<open>\<open>int(text.split()[1])\<close>.\<close>

definition int_argument :: "string \<Rightarrow> int res" where
  "int_argument text = bindR (py_get (py_split text) 1) (py_int 10)"

definition cmd_leave :: "'d env \<Rightarrow> string \<Rightarrow> ('d client, unit) act" where
  "cmd_leave E text =
     bindA (liftR (int_argument text)) (\<lambda>slot.
     bindA (leave_session E slot) (\<lambda>_. count_leave slot))"

text \<open>The loop of \<open>/fill\<close> ends because every join makes one more slot active.\<close>

lemma length_active: "length (active_slots ss) = card {j. j < length ss \<and> us_active (ss ! j)}"
  unfolding active_slots_def length_map
  by (subst distinct_length_filter) (auto intro: arg_cong [where f = card])

lemma active_slots_update:
  assumes "i < length ss" "\<not> us_active (ss ! i)" "us_active x"
  shows "length (active_slots (ss[i := x])) = Suc (length (active_slots ss))"
proof -
  have "{j. j < length (ss[i := x]) \<and> us_active (ss[i := x] ! j)} = insert i {j. j < length ss \<and> us_active (ss ! j)}"
    using assms by (auto simp: nth_list_update)
  then show ?thesis using assms(2) by (simp add: length_active)
qed

lemma uc_derive_active: "uc_derive_session sid pk ct = Inr x \<Longrightarrow> us_active x"
  by (auto simp: uc_derive_session_def Let_def)

lemma uc_io_same: "uc_io m C = (r, C') \<Longrightarrow> C' = C\<lparr>uc_world := uc_world C'\<rparr>"
  by (auto simp: uc_io_def split: prod.splits)

lemma uc_send_same: "uc_send_line E t C = (r, C') \<Longrightarrow> C' = C\<lparr>uc_world := uc_world C'\<rparr>"
  unfolding uc_send_line_def by (rule uc_io_same)

lemma join_session_cases:
  assumes "join_session E slot user C = (Inr u, C')"
  obtains sid us x M where "in_range slot" "uc_derive_session sid (uc_public_key C) (uc_kem_ciphertext C) = Inr x"
    "nat slot < length (uc_sessions C)"
    "C' = C\<lparr>uc_world := M, uc_sessions := (uc_sessions C)[nat slot := x\<lparr>us_kem_us := us, us_user := Some user\<rparr>],
       uc_joins := uc_joins C @ [us]\<rparr>"
proof -
  from assms obtain line sid us M where r: "in_range slot" and m: "uc_send_line E (''OPEN '' @ str_int slot) C = (Inr line, M)"
    and f: "uc_file_session slot user (sid, us) M = (Inr u, C')"
    by (auto simp: join_session_def bindA_eq_Inr liftR_def)
  have M: "M = C\<lparr>uc_world := uc_world M\<rparr>" by (rule uc_send_same [OF m])
  obtain x ss where x: "uc_derive_session sid (uc_public_key M) (uc_kem_ciphertext M) = Inr x"
    and s: "py_set (uc_sessions M) slot (x\<lparr>us_kem_us := us, us_user := Some user\<rparr>) = Inr ss"
    and C': "C' = M\<lparr>uc_sessions := ss, uc_joins := uc_joins M @ [us]\<rparr>"
    using f by (auto simp: uc_file_session_def split: sum.splits)
  have "0 \<le> slot" using r by (simp add: in_range_def)
  then have n: "nat slot < length (uc_sessions M)" "ss = (uc_sessions M)[nat slot := x\<lparr>us_kem_us := us, us_user := Some user\<rparr>]"
    using s by (auto simp: py_set_def py_index_def Let_def split: if_splits)
  have same: "uc_public_key M = uc_public_key C" "uc_kem_ciphertext M = uc_kem_ciphertext C"
    "uc_sessions M = uc_sessions C" "uc_joins M = uc_joins C"
    by (subst M, simp)+
  have "C' = C\<lparr>uc_world := uc_world M, uc_sessions := ss, uc_joins := uc_joins C @ [us]\<rparr>"
    using M C' same by (cases C; cases M) simp
  then show ?thesis using that r x n by (simp add: same)
qed

lemma first_free_Some: "first_free ss = Some s \<Longrightarrow> 0 \<le> s \<and> nat s < length ss \<and> \<not> us_active (ss ! nat s)"
  by (auto simp: first_free_def find_Some_iff)

function cmd_fill_to :: "'d env \<Rightarrow> int \<Rightarrow> ('d client, unit) act" where
  "cmd_fill_to E target C =
     (if int (length (active_slots (uc_sessions C))) < target then
        (case first_free (uc_sessions C) of
           None \<Rightarrow> (Inl (RuntimeError ''StopIteration''), C)
         | Some slot \<Rightarrow>
             (case bindA (join_next E slot) (\<lambda>_. select_slot slot) C of
                (Inl e, C) \<Rightarrow> (Inl e, C)
              | (Inr _, C) \<Rightarrow> cmd_fill_to E target C))
      else (Inr (), C))"
  by pat_completeness auto

termination
proof (relation "measure (\<lambda>(E, target, C). nat (target - int (length (active_slots (uc_sessions C)))))", simp)
  fix E and target and C C' :: "'d client" and slot r u
  assume more: "int (length (active_slots (uc_sessions C))) < target" and free: "first_free (uc_sessions C) = Some slot"
    and run: "(r, C') = bindA (join_next E slot) (\<lambda>_. select_slot slot) C" and ok: "r = Inr u"
  from run ok obtain M where j: "join_session E slot (uc_next_user C) C = (Inr (), M)"
    and C': "C' = M\<lparr>uc_next_user := uc_next_user M + 1, uc_selected := Some slot\<rparr>"
    by (auto simp: join_next_def select_slot_def bindA_eq_Inr dest!: sym [of "(_, _)"])
  from j obtain sid us x W where "uc_derive_session sid (uc_public_key C) (uc_kem_ciphertext C) = Inr x"
    "uc_sessions M = (uc_sessions C)[nat slot := x\<lparr>us_kem_us := us, us_user := Some (uc_next_user C)\<rparr>]"
    by (rule join_session_cases) auto
  then have "length (active_slots (uc_sessions C')) = Suc (length (active_slots (uc_sessions C)))"
    using active_slots_update first_free_Some [OF free] uc_derive_active by (simp add: C')
  then show "((E, target, C'), (E, target, C)) \<in> measure (\<lambda>(E, target, C). nat (target - int (length (active_slots (uc_sessions C)))))"
    using more by simp
qed

declare cmd_fill_to.simps [simp del]

definition cmd_fill :: "'d env \<Rightarrow> string \<Rightarrow> ('d client, unit) act" where
  "cmd_fill E text =
     bindA (liftR (int_argument text)) (\<lambda>target.
     bindA (liftR (guardR (0 \<le> target \<and> target \<le> int MAX_SESSIONS) (ValueError ''fill count must be 0..64''))) (\<lambda>_.
     bindA (cmd_fill_to E target) (\<lambda>_.
     bindA (board_status E) (\<lambda>_. retA ()))))"

text \<open>One pass of \<open>/churn\<close>: the user of a slot leaves, is refused with the old keys, a new user joins, the old
  keys are refused again, and the new user sends a message.  The result is the slot.\<close>

definition add_leave :: "('d client, unit) act" where
  "add_leave C = (Inr (), C\<lparr>uc_leaves := uc_leaves C + 1\<rparr>)"

definition new_user_message :: "int \<Rightarrow> bytes" where
  "new_user_message next_user = encode_ascii (''new-user-'' @ str_int next_user)"

definition replace_user :: "'d env \<Rightarrow> uart_session \<Rightarrow> int \<Rightarrow> ('d client, int option) act" where
  "replace_user E old_state slot =
     bindA (leave_session E slot) (\<lambda>_.
     bindA add_leave (\<lambda>_.
     bindA (expect_rejected_packet E old_state slot ''ERR NOSESSION'') (\<lambda>_.
     bindA (join_next E slot) (\<lambda>_.
     bindA (expect_rejected_packet E old_state slot ''ERR AUTH'') (\<lambda>_.
     bindA (\<lambda>C. secure_echo E slot (new_user_message (uc_next_user C)) C) (\<lambda>_.
     retA (Some slot)))))))"

definition churn_once :: "'d env \<Rightarrow> int \<Rightarrow> ('d client, int option) act" where
  "churn_once E index C =
     (let slots = active_slots (uc_sessions C) in
      if slots = [] then (Inl (ZeroDivisionError ''integer modulo by zero''), C)
      else let slot = slots ! nat (index mod int (length slots))
           in replace_user E (uc_sessions C ! nat slot) slot C)"

fun churn_loop :: "'d env \<Rightarrow> int \<Rightarrow> nat \<Rightarrow> int option \<Rightarrow> ('d client, int option) act" where
  "churn_loop E index 0 slot = retA slot"
| "churn_loop E index (Suc n) slot = bindA (churn_once E index) (churn_loop E (index + 1) n)"

definition check_elapsed :: "int \<Rightarrow> int \<Rightarrow> unit res" where
  "check_elapsed began ended = guardR (began \<noteq> ended) (ZeroDivisionError ''float division by zero'')"

definition cmd_churn :: "'d env \<Rightarrow> string \<Rightarrow> ('d client, unit) act" where
  "cmd_churn E text =
     bindA (liftR (int_argument text)) (\<lambda>count.
     bindA (liftR (guardR (0 < count) (ValueError ''churn count must be positive''))) (\<lambda>_.
     bindA (\<lambda>C. if active_slots (uc_sessions C) = [] then join_next E 0 C else retA () C) (\<lambda>_.
     bindA (uc_io read_perf) (\<lambda>began.
     bindA (churn_loop E 0 (nat count) None) (\<lambda>slot.
     bindA (uc_io read_perf) (\<lambda>ended.
     bindA (liftR (check_elapsed began ended)) (\<lambda>_ C.
     (Inr (), C\<lparr>uc_selected := slot\<rparr>))))))))"

definition cmd_user :: "string \<Rightarrow> ('d client, unit) act" where
  "cmd_user text =
     bindA (liftR (int_argument text)) (\<lambda>slot.
     bindA (\<lambda>C. (guardR (slot_active slot C) (ValueError ''slot must be an active slot in 0..63''), C)) (\<lambda>_.
     select_slot slot))"

definition round_message :: "int \<Rightarrow> nat \<Rightarrow> bytes" where
  "round_message slot round_index = encode_ascii (''slot-'' @ str_int slot @ '' round-'' @ str_int (int round_index))"

fun round_over :: "'d env \<Rightarrow> nat \<Rightarrow> int list \<Rightarrow> ('d client, unit) act" where
  "round_over E r [] = retA ()"
| "round_over E r (slot # rest) =
     bindA (secure_echo E slot (round_message slot r)) (\<lambda>_. round_over E r rest)"

fun rounds_over :: "'d env \<Rightarrow> nat list \<Rightarrow> int list \<Rightarrow> ('d client, unit) act" where
  "rounds_over E [] ss = retA ()"
| "rounds_over E (r # rs) ss = bindA (round_over E r ss) (\<lambda>_. rounds_over E rs ss)"

definition run_rounds :: "'d env \<Rightarrow> int \<Rightarrow> ('d client, unit) act" where
  "run_rounds E rounds C =
     (let slots = active_slots (uc_sessions C) in
      if rounds \<le> 0 \<or> slots = []
      then (Inl (ValueError ''round count must be positive and a session must be active''), C)
      else
        bindA (uc_io read_perf) (\<lambda>began.
        bindA (rounds_over E [0..<nat rounds] slots) (\<lambda>_.
        bindA (uc_io read_perf) (\<lambda>ended.
        liftR (check_elapsed began ended)))) C)"

text \<open>\<open>show_stats\<close> computes its table and prints it; the table is the value here.  A row has the slot, the
  user, the session id, the packets, the KEM time and the averages, absent when no packet was sent.\<close>

definition mean :: "real list \<Rightarrow> real" where
  "mean xs = sum_list xs / real (length xs)"

definition stats_row :: "uart_session list \<Rightarrow> int \<Rightarrow> int \<times> int option \<times> int \<times> nat \<times> int \<times> (real \<times> real \<times> real) option" where
  "stats_row ss slot =
     (let state = ss ! nat slot; count = length (us_rtt_ms state) in
      (slot, us_user state, us_sid state, count, us_kem_us state,
       if count = 0 then None
       else Some (mean (map real_of_int (us_hw_rx_us state)), mean (map real_of_int (us_hw_tx_us state)), mean (us_rtt_ms state))))"

definition show_stats :: "'d client \<Rightarrow>
    (nat \<times> nat \<times> int \<times> nat) \<times> (real \<times> int \<times> int) option \<times>
    (int \<times> int option \<times> int \<times> nat \<times> int \<times> (real \<times> real \<times> real) option) list" where
  "show_stats C =
     (let slots = active_slots (uc_sessions C);
          packets = sum_list (map (\<lambda>x. length (us_rtt_ms x)) (uc_sessions C));
          joins = uc_joins C
      in ((length slots, length joins, uc_leaves C, packets),
          if joins = [] then None else Some (mean (map real_of_int joins), Min (set joins), Max (set joins)),
          map (stats_row (uc_sessions C)) slots))"

section \<open>The command loop\<close>

definition send_message :: "'d env \<Rightarrow> string \<Rightarrow> ('d client, unit) act" where
  "send_message E text C =
     (case uc_selected C of
        None \<Rightarrow> (Inr (), C)
      | Some slot \<Rightarrow>
          if PACKET_BYTES < length (encode_ascii text) then (Inr (), C)
          else secure_echo E slot (encode_ascii text) C)"

text \<open>One line of input, already stripped; the result says whether the loop is left.\<close>

definition going_on :: "('d client, unit) act \<Rightarrow> ('d client, bool) act" where
  "going_on m = bindA m (\<lambda>_. retA False)"

definition client_command :: "'d env \<Rightarrow> string \<Rightarrow> ('d client, bool) act" where
  "client_command E text =
     (if text = ''/quit'' then bindA (uc_io (serial_write E ''QUIT'')) (\<lambda>_. retA True)
      else going_on
       (if text = ''/status'' then bindA (board_status E) (\<lambda>_. retA ())
        else if text = ''/stats'' then retA ()
        else if prefix ''/join'' text then cmd_join E text
        else if prefix ''/leave '' text then cmd_leave E text
        else if prefix ''/fill '' text then cmd_fill E text
        else if prefix ''/churn '' text then cmd_churn E text
        else if prefix ''/user '' text then cmd_user text
        else if prefix ''/round '' text then bindA (liftR (int_argument text)) (run_rounds E)
        else send_message E text))"

fun client_loop :: "'d env \<Rightarrow> string list \<Rightarrow> ('d client, bool) act" where
  "client_loop E [] = retA False"
| "client_loop E (text # texts) =
     bindA (client_command E (py_strip text)) (\<lambda>quit. if quit then retA True else client_loop E texts)"

text \<open>\<open>main\<close> up to the loop, given the contents of the vector files, and all of it on a list of input lines; the
  result is whether the client was left by \<open>/quit\<close>.\<close>

definition start_client :: "'d world \<Rightarrow> bytes \<times> bytes \<Rightarrow> 'd client" where
  "start_client w = (\<lambda>(public_key, kem_ciphertext).
     \<lparr>uc_world = w, uc_public_key = public_key, uc_kem_ciphertext = kem_ciphertext,
      uc_sessions = make_empty_sessions, uc_joins = [], uc_leaves = 0, uc_next_user = 0, uc_selected = None\<rparr>)"

definition client_main :: "'d env \<Rightarrow> bytes \<Rightarrow> bytes \<Rightarrow> string list \<Rightarrow> 'd world \<Rightarrow> bool res \<times> 'd client" where
  "client_main E public_key kem_ciphertext texts w =
     (case load_vectors public_key kem_ciphertext of
        Inl e \<Rightarrow> (Inl e, start_client w (public_key, kem_ciphertext))
      | Inr vectors \<Rightarrow> bindA (board_status E) (\<lambda>_. client_loop E texts) (start_client w vectors))"

text \<open>
  The program: \<open>port\<close> is what \<open>serial.Serial(...)\<close> returns, the world behind the port or the exception.  The
  \<open>with\<close> block closes the port however it is left.  The \<open>except\<close> clause at the end of the file turns five
  classes of exceptions, with their subclasses, into exit status 1; any other ends in a traceback.  There
  is no outcome while the client waits for more lines.
\<close>

fun handled_error :: "py_error \<Rightarrow> bool" where
  "handled_error (OSError m) = True"
| "handled_error (RuntimeError m) = True"
| "handled_error (BoardError m) = True"
| "handled_error (TimeoutError m) = True"
| "handled_error (ValueError m) = True"
| "handled_error (IndexError m) = True"
| "handled_error e = False"

datatype outcome = Exit int | Traceback py_error

definition outcome_of :: "'a res \<Rightarrow> outcome" where
  "outcome_of r = (case r of
     Inr _ \<Rightarrow> Exit 0
   | Inl e \<Rightarrow> if handled_error e then Exit 1 else Traceback e)"

definition close_client :: "'d env \<Rightarrow> 'd client \<Rightarrow> 'd client" where
  "close_client E C = C\<lparr>uc_world := serial_close E (uc_world C)\<rparr>"

definition client_program :: "'d env \<Rightarrow> bytes \<Rightarrow> bytes \<Rightarrow> 'd world res \<Rightarrow> string list \<Rightarrow> outcome option \<times> 'd client option" where
  "client_program E public_key kem_ciphertext port texts =
     (case bindR (load_vectors public_key kem_ciphertext) (\<lambda>_. port) of
        Inl e \<Rightarrow> (Some (outcome_of (Inl e :: unit res)), None)
      | Inr w \<Rightarrow>
          (case client_main E public_key kem_ciphertext texts w of
             (Inr False, C) \<Rightarrow> (None, Some C)
           | (r, C) \<Rightarrow> (Some (outcome_of r), Some (close_client E C))))"

end
