(* ===== verification/UartClient_Spec.thy ===== *)
theory UartClient_Spec
  imports UartClient DemoEnv
begin

text \<open>
  Properties of the interactive UART client: the invariant of its slot list and counters under every
  list of commands and every behaviour of the board, what \<open>/fill\<close> and \<open>/churn\<close> do, and its agreement
  with \<open>SerialBoardLink\<close> of \<open>board_link.py\<close>, which speaks the same protocol.
\<close>

section \<open>Outcomes of the operations\<close>

text \<open>Everything but the port is as before.\<close>

definition uc_same :: "'d client \<Rightarrow> 'd client \<Rightarrow> bool" where
  "uc_same C C' \<longleftrightarrow> (\<exists>w. C' = C\<lparr>uc_world := w\<rparr>)"

lemma uc_same_refl [simp]: "uc_same C C"
  unfolding uc_same_def by (rule exI [of _ "uc_world C"]) simp

lemma uc_same_world [simp]: "uc_same C (C\<lparr>uc_world := w\<rparr>)"
  by (auto simp: uc_same_def)

lemma uc_same_trans: "uc_same C M \<Longrightarrow> uc_same M N \<Longrightarrow> uc_same C N"
  by (auto simp: uc_same_def)

lemma uc_io_frame: "uc_io m C = (r, C') \<Longrightarrow> uc_same C C'"
  by (auto simp: uc_io_def uc_same_def split: prod.splits)

lemma uc_send_frame: "uc_send_line E t C = (r, C') \<Longrightarrow> uc_same C C'"
  unfolding uc_send_line_def by (rule uc_io_frame)

lemma uc_same_sel: "uc_same C C' \<Longrightarrow> uc_sessions C' = uc_sessions C \<and> uc_joins C' = uc_joins C \<and>
    uc_leaves C' = uc_leaves C \<and> uc_next_user C' = uc_next_user C \<and> uc_selected C' = uc_selected C \<and>
    uc_public_key C' = uc_public_key C \<and> uc_kem_ciphertext C' = uc_kem_ciphertext C"
  by (auto simp: uc_same_def)

lemma leave_session_cases:
  assumes "leave_session E slot C = (r, C')"
  obtains (failed) e where "r = Inl e" "uc_same C C'"
  | (left) M where "r = Inr ()" "slot_active slot C" "uc_same C M"
      "C' = M\<lparr>uc_sessions := (uc_sessions C)[nat slot := empty_session]\<rparr>"
proof (cases "slot_active slot C")
  case False
  then show ?thesis using assms failed by (auto simp: leave_session_def)
next
  case True
  from assms True have "bindA (uc_send_line E (''LEAVE '' @ str_int slot)) (\<lambda>line.
      bindA (liftR (uc_check_left slot (us_sid (uc_sessions C ! nat slot)) line)) (\<lambda>_ C.
      (Inr (), C\<lparr>uc_sessions := (uc_sessions C)[nat slot := empty_session]\<rparr>))) C = (r, C')"
    by (simp add: leave_session_def)
  then show ?thesis using True failed left
    by (auto elim!: bindAE liftRE dest!: uc_send_frame simp: uc_same_sel)
qed

lemma join_session_frame:
  assumes "join_session E slot user C = (Inl e, C')"
  shows "uc_same C C'"
proof -
  have f: "uc_file_session slot user y M = (Inl e, N) \<Longrightarrow> N = M" for y M N
    by (cases y) (auto simp: uc_file_session_def split: sum.splits)
  from assms show ?thesis
    unfolding join_session_def by (auto elim!: bindAE liftRE dest!: uc_send_frame f)
qed

lemma join_next_cases:
  assumes "join_next E slot C = (r, C')"
  obtains (failed) e where "r = Inl e" "uc_same C C'"
  | (joined) sid us x M where "r = Inr ()" "in_range slot"
      "uc_derive_session sid (uc_public_key C) (uc_kem_ciphertext C) = Inr x" "nat slot < length (uc_sessions C)"
      "C' = C\<lparr>uc_world := M, uc_sessions := (uc_sessions C)[nat slot := x\<lparr>us_kem_us := us, us_user := Some (uc_next_user C)\<rparr>],
         uc_joins := uc_joins C @ [us], uc_next_user := uc_next_user C + 1\<rparr>"
proof -
  obtain q M where j: "join_session E slot (uc_next_user C) C = (q, M)" by fastforce
  show ?thesis
  proof (cases q)
    case (Inl e)
    then have "uc_same C M" using j join_session_frame by blast
    then show ?thesis using assms j Inl failed by (auto simp: join_next_def bindA_def)
  next
    case (Inr u)
    then have "join_session E slot (uc_next_user C) C = (Inr u, M)" using j by simp
    then obtain sid us x w where "in_range slot" "uc_derive_session sid (uc_public_key C) (uc_kem_ciphertext C) = Inr x"
      "nat slot < length (uc_sessions C)"
      "M = C\<lparr>uc_world := w, uc_sessions := (uc_sessions C)[nat slot := x\<lparr>us_kem_us := us, us_user := Some (uc_next_user C)\<rparr>],
         uc_joins := uc_joins C @ [us]\<rparr>"
      by (rule join_session_cases)
    then show ?thesis using assms j Inr joined by (auto simp: join_next_def bindA_def)
  qed
qed

lemma secure_echo_cases:
  assumes "secure_echo E slot p C = (r, C')"
  obtains (failed) e where "r = Inl e" "uc_same C C'"
  | (echoed) rtt ts M where "r = Inr ()" "slot_active slot C" "length p \<le> PACKET_BYTES" "uc_same C M"
      "uc_acknowledge slot (uc_sessions C ! nat slot) rtt ts M = (Inr (), C')"
proof (cases "PACKET_BYTES < length p \<or> \<not> slot_active slot C")
  case True
  then show ?thesis using assms failed by (auto simp: secure_echo_def split: if_splits)
next
  case False
  define state where "state = uc_sessions C ! nat slot"
  from False assms have "bindA (liftR (build_data_command E state slot p)) (\<lambda>(command, _, _).
        bindA (uc_io read_perf) (\<lambda>began.
        bindA (uc_send_line E command) (\<lambda>line.
        bindA (uc_io read_perf) (\<lambda>ended.
        bindA (liftR (uc_check_resp E state slot p line))
          (uc_acknowledge slot state ((perf_seconds ended - perf_seconds began) * 1000)))))) C = (r, C')"
    by (simp add: secure_echo_def state_def Let_def)
  then consider (early) e where "r = Inl e" "uc_same C C'"
    | (late) rtt ts M where "uc_same C M" "uc_acknowledge slot state rtt ts M = (r, C')"
    by (auto elim!: bindAE liftRE dest!: uc_io_frame uc_send_frame) (blast intro: uc_same_trans)+
  then show ?thesis
  proof cases
    case early
    then show ?thesis by (rule failed)
  next
    case late
    then have "r = Inr ()" by (cases ts) (auto simp: uc_acknowledge_def)
    then show ?thesis using late False by (intro echoed) (auto simp: state_def)
  qed
qed

lemma expect_rejected_frame: "expect_rejected_packet E state slot e C = (r, C') \<Longrightarrow> uc_same C C'"
  unfolding expect_rejected_packet_def
  by (auto elim!: bindAE liftRE dest!: uc_send_frame simp: liftR_def)

lemma board_status_frame: "board_status E C = (r, C') \<Longrightarrow> uc_same C C'"
  unfolding board_status_def by (auto elim!: bindAE dest!: uc_send_frame simp: liftR_def)

section \<open>Invariants of the command loop\<close>

text \<open>
  Every command is a sequence of elementary updates: what the port does, a join with the next user id, a
  leave that is counted, an acknowledged echo and a selection.  What these keep, every command keeps,
  whatever the board answers and wherever an exception ends the command.
\<close>

locale client_invariant =
  fixes P :: "'d client \<Rightarrow> bool"
  assumes P_same: "P C \<Longrightarrow> uc_same C C' \<Longrightarrow> P C'"
    and P_select: "P C \<Longrightarrow> P (C\<lparr>uc_selected := s\<rparr>)"
    and P_join: "P C \<Longrightarrow> in_range slot \<Longrightarrow> uc_derive_session sid (uc_public_key C) (uc_kem_ciphertext C) = Inr x \<Longrightarrow>
      nat slot < length (uc_sessions C) \<Longrightarrow>
      P (C\<lparr>uc_sessions := (uc_sessions C)[nat slot := x\<lparr>us_kem_us := us, us_user := Some (uc_next_user C)\<rparr>],
         uc_joins := uc_joins C @ [us], uc_next_user := uc_next_user C + 1\<rparr>)"
    and P_leave: "P C \<Longrightarrow> slot_active slot C \<Longrightarrow>
      P (C\<lparr>uc_sessions := (uc_sessions C)[nat slot := empty_session], uc_leaves := uc_leaves C + 1\<rparr>)"
    and P_echo: "P C \<Longrightarrow> slot_active slot C \<Longrightarrow>
      uc_acknowledge slot (uc_sessions C ! nat slot) rtt ts C = (Inr (), C') \<Longrightarrow> P C'"
begin

lemma P_frame: "(\<And>C r C'. m C = (r, C') \<Longrightarrow> uc_same C C') \<Longrightarrow> keeps P m"
  by (rule keeps_result) (use P_same in blast)

lemma keeps_frames [keeps_intros]:
  "keeps P (uc_io m)" "keeps P (board_status E)" "keeps P (expect_rejected_packet E state slot e)"
  by (rule P_frame, blast dest: uc_io_frame board_status_frame expect_rejected_frame)+

lemma keeps_select [keeps_intros]: "keeps P (select_slot s)"
  by (rule keepsI) (simp add: select_slot_def P_select)

lemma keeps_join [keeps_intros]: "keeps P (join_next E slot)"
proof (rule keeps_result)
  fix C r C' assume C: "P C" and "join_next E slot C = (r, C')"
  from this(2) show "P C'"
  proof (cases rule: join_next_cases)
    case (joined sid us x M)
    have s: "uc_same C (C\<lparr>uc_world := M\<rparr>)" by (auto simp: uc_same_def)
    show ?thesis using P_join [OF P_same [OF C s] joined(2), of sid x us] joined by simp
  qed (rule P_same [OF C])
qed

lemma keeps_echo [keeps_intros]: "keeps P (secure_echo E slot p)"
proof (rule keeps_result)
  fix C r C' assume C: "P C" and "secure_echo E slot p C = (r, C')"
  from this(2) show "P C'"
  proof (cases rule: secure_echo_cases)
    case (echoed rtt ts M)
    have "uc_sessions M = uc_sessions C" using echoed(4) by (simp add: uc_same_sel)
    then show ?thesis using P_echo [of M slot rtt ts C'] P_same [OF C echoed(4)] echoed by (simp add: slot_active_def)
  qed (rule P_same [OF C])
qed

lemma keeps_leave:
  assumes "\<And>M q N. f () M = (q, N) \<Longrightarrow> P (M\<lparr>uc_leaves := uc_leaves M + 1\<rparr>) \<Longrightarrow> P N"
  shows "keeps P (bindA (leave_session E slot) f)"
proof (rule keeps_result)
  fix C r C' assume C: "P C" and "bindA (leave_session E slot) f C = (r, C')"
  from this(2) show "P C'"
  proof (cases rule: bindAE)
    case (raised e)
    from raised(1) show ?thesis by (cases rule: leave_session_cases) (auto intro: P_same C)
  next
    case (returned u M)
    from returned(1) show ?thesis
    proof (cases rule: leave_session_cases)
      case (left N)
      have "P N" by (rule P_same [OF C left(3)])
      moreover have "slot_active slot N" using left by (simp add: slot_active_def uc_same_sel)
      ultimately have "P (M\<lparr>uc_leaves := uc_leaves M + 1\<rparr>)"
        using P_leave [of N slot] left(3,4) uc_same_sel [OF left(3)] by simp
      then show ?thesis using assms returned(2) by simp
    qed simp
  qed
qed

lemma keeps_join_select [keeps_intros]: "keeps P (bindA (join_next E slot) (\<lambda>_. select_slot slot))"
  by (intro keeps_intros)

lemma keeps_cmd_join [keeps_intros]: "keeps P (cmd_join E text)"
proof (rule keepsI)
  fix C assume C: "P C"
  have "P (snd (bindA (join_next E slot) (\<lambda>_. select_slot slot) C))" for slot
    by (rule keeps_snd [where P = P, OF keeps_join_select C])
  then show "P (snd (cmd_join E text C))"
    using C by (simp add: cmd_join_def Let_def split: sum.split)
qed

lemma keeps_cmd_leave [keeps_intros]: "keeps P (cmd_leave E text)"
  unfolding cmd_leave_def
  by (intro keeps_intros keeps_leave) (auto simp: count_leave_def Let_def split: if_splits dest: P_select)

lemma keeps_fill_to [keeps_intros]: "keeps P (cmd_fill_to E target)"
proof -
  have "cmd_fill_to E target C = (r, C') \<Longrightarrow> P C \<Longrightarrow> P C'" for C r C'
  proof (induction E target C rule: cmd_fill_to.induct)
    case (1 E target C)
    have P: "bindA (join_next E slot) (\<lambda>_. select_slot slot) C = (q, M) \<Longrightarrow> P M" for slot q M
      by (rule keepsD [where P = P, OF keeps_join_select "1.prems"(2)])
    show ?case using "1.prems" "1.IH" P
      by (subst (asm) cmd_fill_to.simps) (auto split: if_splits option.splits prod.splits sum.splits)
  qed
  then show ?thesis by (blast intro: keeps_result)
qed

lemma keeps_replace_user [keeps_intros]: "keeps P (replace_user E old slot)"
  unfolding replace_user_def
proof (rule keeps_leave, goal_cases)
  case (1 M q N)
  have e: "keeps P (\<lambda>C. secure_echo E slot (new_user_message (uc_next_user C)) C)"
    by (rule keepsI) (rule keeps_snd [OF keeps_echo])
  have k: "keeps P (bindA (expect_rejected_packet E old slot ''ERR NOSESSION'') (\<lambda>_.
     bindA (join_next E slot) (\<lambda>_.
     bindA (expect_rejected_packet E old slot ''ERR AUTH'') (\<lambda>_.
     bindA (\<lambda>C. secure_echo E slot (new_user_message (uc_next_user C)) C) (\<lambda>_.
     retA (Some slot))))))"
    by (intro keeps_intros e)
  from 1(1) have "bindA (expect_rejected_packet E old slot ''ERR NOSESSION'') (\<lambda>_.
     bindA (join_next E slot) (\<lambda>_.
     bindA (expect_rejected_packet E old slot ''ERR AUTH'') (\<lambda>_.
     bindA (\<lambda>C. secure_echo E slot (new_user_message (uc_next_user C)) C) (\<lambda>_.
     retA (Some slot))))) (M\<lparr>uc_leaves := uc_leaves M + 1\<rparr>) = (q, N)"
    by (simp add: add_leave_def bindA_def)
  then show ?case by (rule keepsD [where P = P, OF k 1(2)])
qed

lemma keeps_churn_loop [keeps_intros]: "keeps P (churn_loop E index n slot)"
proof (induction n arbitrary: index slot)
  case (Suc n)
  have "keeps P (churn_once E index)" for index
    by (rule keepsI) (auto simp: churn_once_def Let_def intro: keeps_snd keeps_replace_user)
  then show ?case using Suc by (simp add: keeps_bind)
qed (simp add: keeps_intros)

lemma keeps_cmd_churn [keeps_intros]: "keeps P (cmd_churn E text)"
proof -
  have "keeps P (\<lambda>C. if active_slots (uc_sessions C) = [] then join_next E 0 C else retA () C)"
    by (rule keepsI) (auto intro: keeps_snd keeps_join)
  moreover have "keeps P (\<lambda>C. (Inr (), C\<lparr>uc_selected := s\<rparr>))" for s
    by (rule keepsI) (simp add: P_select)
  ultimately show ?thesis unfolding cmd_churn_def by (intro keeps_intros)
qed

lemma keeps_rounds [keeps_intros]: "keeps P (rounds_over E rs ss)"
proof -
  have "keeps P (round_over E r ss)" for r
    by (induction ss) (simp_all add: keeps_intros)
  then show ?thesis by (induction rs) (simp_all add: keeps_intros)
qed

lemma keeps_run_rounds [keeps_intros]: "keeps P (run_rounds E n)"
  by (rule keepsI) (auto simp: run_rounds_def Let_def intro!: keeps_snd [where m = "bindA _ _"] keeps_intros)

lemma keeps_command [keeps_intros]: "keeps P (client_command E text)"
proof -
  have f: "keeps P (cmd_fill E text)" unfolding cmd_fill_def by (intro keeps_intros)
  have u: "keeps P (cmd_user text)" unfolding cmd_user_def by (intro keeps_intros)
  have m: "keeps P (send_message E text)"
    by (rule keepsI) (auto simp: send_message_def intro: keeps_snd keeps_echo split: option.splits)
  show ?thesis
    unfolding client_command_def going_on_def by (auto intro!: keeps_intros f u m)
qed

lemma keeps_loop: "keeps P (client_loop E texts)"
  by (induction texts) (auto intro!: keeps_intros)

lemma client_main_P:
  "client_main E pk ct texts w = (r, C') \<Longrightarrow> P (start_client w (pk, ct)) \<Longrightarrow> P C'"
  unfolding client_main_def load_vectors_def
  by (cases "length pk = 800 \<and> length ct = 768")
    (auto dest: keepsD [OF keeps_bind [OF keeps_frames(2) keeps_loop], rotated])

end

section \<open>The slot list\<close>

definition uk_ok :: "uart_keys \<Rightarrow> bool" where
  "uk_ok k \<longleftrightarrow> length (uk_tx_key k) = 32 \<and> length (uk_tx_prefix k) = 4 \<and>
     length (uk_rx_key k) = 32 \<and> length (uk_rx_prefix k) = 4"

text \<open>An active entry has a user, keys of the right sizes and one round trip per counter value; an inactive
  entry is empty.\<close>

definition us_ok :: "uart_session \<Rightarrow> bool" where
  "us_ok x \<longleftrightarrow>
     (if us_active x then
        us_user x \<noteq> None \<and> (\<exists>k. us_keys x = Some k \<and> uk_ok k) \<and> 0 \<le> us_sid x \<and> us_sid x < 2 ^ 32 \<and>
        us_tx_counter x = int (length (us_rtt_ms x)) \<and> us_rx_counter x = us_tx_counter x \<and>
        length (us_hw_rx_us x) = length (us_rtt_ms x) \<and> length (us_hw_tx_us x) = length (us_rtt_ms x)
      else x = empty_session)"

text \<open>User ids below \<open>n\<close>, no two slots with the same one.\<close>

definition users_ok :: "uart_session list \<Rightarrow> int \<Rightarrow> bool" where
  "users_ok ss n \<longleftrightarrow> (\<forall>i < length ss. \<forall>u. us_user (ss ! i) = Some u \<longrightarrow>
     0 \<le> u \<and> u < n \<and> (\<forall>j < length ss. us_user (ss ! j) = Some u \<longrightarrow> j = i))"

definition uc_ok :: "'d client \<Rightarrow> bool" where
  "uc_ok C \<longleftrightarrow> length (uc_sessions C) = MAX_SESSIONS \<and> list_all us_ok (uc_sessions C) \<and>
     users_ok (uc_sessions C) (int (length (uc_joins C))) \<and>
     uc_next_user C = int (length (uc_joins C)) \<and> 0 \<le> uc_leaves C \<and>
     int (length (active_slots (uc_sessions C))) + uc_leaves C \<le> int (length (uc_joins C))"

definition selection_ok :: "'d client \<Rightarrow> bool" where
  "selection_ok C \<longleftrightarrow> (case uc_selected C of None \<Rightarrow> active_slots (uc_sessions C) = [] | Some s \<Rightarrow> slot_active s C)"

lemma us_ok_derived:
  assumes "uc_derive_session sid pk ct = Inr x"
  shows "us_ok (x\<lparr>us_kem_us := us, us_user := Some u\<rparr>)"
  using assms by (auto simp: uc_derive_session_def Let_def us_ok_def uk_ok_def to_bytes_be_Inr slice_def empty_session_def)

lemma us_ok_empty [simp]: "us_ok empty_session" "us_user empty_session = None" "\<not> us_active empty_session"
  by (simp_all add: us_ok_def empty_session_def)

lemma nth_update_if: "xs[i := x] ! j = (if j = i \<and> i < length xs then x else xs ! j)"
  by (cases "j = i"; cases "i < length xs") (auto simp: list_update_beyond)

lemma list_all_update: "list_all p xs \<Longrightarrow> p x \<Longrightarrow> list_all p (xs[i := x])"
  by (auto simp: list_all_length nth_update_if split: if_splits)

lemma users_ok_fresh: "users_ok ss n \<Longrightarrow> us_user x = Some n \<Longrightarrow> 0 \<le> n \<Longrightarrow> users_ok (ss[i := x]) (n + 1)"
  unfolding users_ok_def nth_update_if length_list_update by (smt (verit) option.inject)

lemma users_ok_same: "users_ok ss n \<Longrightarrow> us_user x = None \<or> us_user x = us_user (ss ! i) \<Longrightarrow> users_ok (ss[i := x]) n"
  unfolding users_ok_def nth_update_if length_list_update by (smt (verit) option.distinct(1))

lemma set_active: "s \<in> set (active_slots ss) \<longleftrightarrow> 0 \<le> s \<and> nat s < length ss \<and> us_active (ss ! nat s)"
  unfolding active_slots_def by (auto intro: image_eqI [of _ _ "nat s"])

lemma length_active_le: "length (active_slots (ss[i := x])) \<le> Suc (length (active_slots ss))"
proof -
  have "card {j. j < length (ss[i := x]) \<and> us_active (ss[i := x] ! j)} \<le> card (insert i {j. j < length ss \<and> us_active (ss ! j)})"
    by (rule card_mono) (auto simp: nth_update_if split: if_splits)
  also have "\<dots> \<le> Suc (card {j. j < length ss \<and> us_active (ss ! j)})" by (rule card_insert_le_m1) simp_all
  finally show ?thesis by (simp add: length_active)
qed

lemma length_active_leave:
  assumes "i < length ss" "us_active (ss ! i)" "\<not> us_active x"
  shows "Suc (length (active_slots (ss[i := x]))) = length (active_slots ss)"
proof -
  have "length (active_slots (ss[i := x, i := ss ! i])) = Suc (length (active_slots (ss[i := x])))"
    using assms by (intro active_slots_update) simp_all
  then show ?thesis by simp
qed

lemma length_active_same:
  assumes "us_active x = us_active (ss ! i)"
  shows "active_slots (ss[i := x]) = active_slots ss"
proof -
  have "filter (\<lambda>j. us_active (ss[i := x] ! j)) [0..<length ss] = filter (\<lambda>j. us_active (ss ! j)) [0..<length ss]"
    by (rule filter_cong [OF refl]) (use assms in \<open>auto simp: nth_update_if split: if_splits\<close>)
  then show ?thesis by (simp add: active_slots_def)
qed

interpretation uc: client_invariant "uc_ok :: 'd client \<Rightarrow> bool"
proof (unfold_locales, goal_cases)
  case (1 C C')
  then show ?case using uc_same_sel [OF 1(2)] by (auto simp: uc_ok_def)
next
  case (2 C s)
  then show ?case by (simp add: uc_ok_def)
next
  case (3 C slot sid x us)
  let ?y = "x\<lparr>us_kem_us := us, us_user := Some (uc_next_user C)\<rparr>"
  have "list_all us_ok ((uc_sessions C)[nat slot := ?y])"
    using 3(1) us_ok_derived [OF 3(3)] by (intro list_all_update) (simp_all add: uc_ok_def)
  moreover have "int (length (active_slots ((uc_sessions C)[nat slot := ?y]))) + uc_leaves C \<le> int (length (uc_joins C)) + 1"
    using 3(1) length_active_le [of "uc_sessions C" "nat slot" ?y] by (simp add: uc_ok_def)
  moreover have "users_ok ((uc_sessions C)[nat slot := ?y]) (int (length (uc_joins C)) + 1)"
    using 3(1) by (intro users_ok_fresh) (simp_all add: uc_ok_def)
  ultimately show ?case using 3(1) by (simp add: uc_ok_def add.commute)
next
  case (4 C slot)
  have s: "nat slot < length (uc_sessions C)" "us_active (uc_sessions C ! nat slot)"
    using 4 by (auto simp: slot_active_def in_range_def uc_ok_def)
  have "list_all us_ok ((uc_sessions C)[nat slot := empty_session])"
    using 4(1) by (intro list_all_update) (simp_all add: uc_ok_def)
  moreover have "Suc (length (active_slots ((uc_sessions C)[nat slot := empty_session]))) = length (active_slots (uc_sessions C))"
    using s by (intro length_active_leave) simp_all
  ultimately show ?case using 4(1) by (auto simp: uc_ok_def users_ok_same)
next
  case (5 C slot rtt ts C')
  obtain a b where ts: "ts = (a, b)" by fastforce
  let ?x = "uc_sessions C ! nat slot"
  define y where "y = ?x\<lparr>us_tx_counter := us_tx_counter ?x + 1, us_rx_counter := us_rx_counter ?x + 1,
     us_rtt_ms := us_rtt_ms ?x @ [rtt], us_hw_rx_us := us_hw_rx_us ?x @ [a], us_hw_tx_us := us_hw_tx_us ?x @ [b]\<rparr>"
  have C': "C' = C\<lparr>uc_sessions := (uc_sessions C)[nat slot := y]\<rparr>"
    using 5(3) by (simp add: uc_acknowledge_def ts y_def)
  have s: "nat slot < length (uc_sessions C)" "us_active ?x"
    using 5 by (auto simp: slot_active_def in_range_def uc_ok_def)
  then have "us_ok ?x" using 5(1) by (simp add: uc_ok_def list_all_length)
  then have "us_ok y" using s by (simp add: us_ok_def y_def)
  then have "list_all us_ok ((uc_sessions C)[nat slot := y])"
    using 5(1) by (intro list_all_update) (simp_all add: uc_ok_def)
  moreover have "active_slots ((uc_sessions C)[nat slot := y]) = active_slots (uc_sessions C)"
    by (rule length_active_same) (simp add: y_def)
  moreover have "users_ok ((uc_sessions C)[nat slot := y]) (int (length (uc_joins C)))"
    using 5(1) by (intro users_ok_same) (simp_all add: uc_ok_def y_def)
  ultimately show ?case using 5(1) by (simp add: uc_ok_def C')
qed

section \<open>The selected slot\<close>

text \<open>What the selection depends on.\<close>

definition activity :: "'d client \<Rightarrow> bool list \<times> int option" where
  "activity C = (map us_active (uc_sessions C), uc_selected C)"

lemma active_slots_map: "active_slots ss = map int (filter (\<lambda>i. map us_active ss ! i) [0..<length (map us_active ss)])"
  unfolding active_slots_def by (rule arg_cong [where f = "map int"]) (auto intro: filter_cong)

lemma selection_activity:
  assumes "activity C' = activity C" "uc_ok C" "uc_ok C'"
  shows "selection_ok C' = selection_ok C"
proof -
  have m: "map us_active (uc_sessions C') = map us_active (uc_sessions C)" and s: "uc_selected C' = uc_selected C"
    using assms(1) by (simp_all add: activity_def)
  have "active_slots (uc_sessions C') = active_slots (uc_sessions C)"
    by (simp only: active_slots_map m)
  moreover have "us_active (uc_sessions C' ! i) = us_active (uc_sessions C ! i)" if "i < MAX_SESSIONS" for i
    using m that assms(2,3) by (metis nth_map uc_ok_def)
  ultimately show ?thesis
    unfolding selection_ok_def s by (auto simp: slot_active_def in_range_def split: option.splits)
qed

lemma activity_same: "uc_same C C' \<Longrightarrow> activity C' = activity C"
  using uc_same_sel [of C C'] by (simp add: activity_def)

lemma activity_echo: "secure_echo E slot p C = (r, C') \<Longrightarrow> activity C' = activity C"
proof (erule secure_echo_cases)
  fix rtt ts M assume "uc_same C M" and a: "uc_acknowledge slot (uc_sessions C ! nat slot) rtt ts M = (Inr (), C')"
  obtain x y where "ts = (x, y)" by fastforce
  then show "activity C' = activity C"
    using a uc_same_sel [OF \<open>uc_same C M\<close>]
    by (auto simp: uc_acknowledge_def activity_def nth_update_if intro!: nth_equalityI split: if_splits)
qed (rule activity_same)

lemma keeps_activity [keeps_intros]:
  "keeps (\<lambda>C. activity C = F) (uc_io m)" "keeps (\<lambda>C. activity C = F) (board_status E)"
  "keeps (\<lambda>C. activity C = F) (secure_echo E slot p)"
  by (rule keeps_result, use activity_same activity_echo uc_io_frame board_status_frame in metis)+

lemma activity_rounds: "keeps (\<lambda>C. activity C = F) (run_rounds E n)"
proof -
  have "keeps (\<lambda>C. activity C = F) (round_over E r ss)" for r ss
    by (induction ss) (simp_all add: keeps_intros)
  then have o: "keeps (\<lambda>C. activity C = F) (rounds_over E rs ss)" for rs ss
    by (induction rs) (simp_all add: keeps_intros)
  have "keeps (\<lambda>C. activity C = F) (bindA (uc_io read_perf) (\<lambda>began. bindA (rounds_over E [0..<nat n] ss) (\<lambda>_.
        bindA (uc_io read_perf) (\<lambda>ended. liftR (check_elapsed began ended)))))" for ss
    by (intro keeps_intros o)
  then show ?thesis
    by (intro keepsI) (auto simp: run_rounds_def Let_def dest: keeps_snd)
qed

lemma join_selects:
  assumes "bindA (join_next E slot) (\<lambda>_. select_slot slot) C = (Inr u, C')"
  shows "selection_ok C'"
proof -
  from assms obtain M where j: "join_next E slot C = (Inr (), M)" and C': "C' = M\<lparr>uc_selected := Some slot\<rparr>"
    by (auto simp: bindA_eq_Inr select_slot_def)
  from j show ?thesis
  proof (cases rule: join_next_cases)
    case (joined sid us x W)
    then show ?thesis
      using uc_derive_active [OF joined(3)] by (simp add: C' selection_ok_def slot_active_def)
  qed simp
qed

lemma leave_selects:
  assumes "bindA (leave_session E slot) (\<lambda>_. count_leave slot) C = (Inr u, C')" "uc_ok C" "selection_ok C"
  shows "selection_ok C'"
proof -
  from assms(1) obtain M where l: "leave_session E slot C = (Inr (), M)" and c: "count_leave slot M = (Inr u, C')"
    by (auto simp: bindA_eq_Inr)
  have len: "length (uc_sessions C) = MAX_SESSIONS" using assms(2) by (simp add: uc_ok_def)
  from l obtain N where a: "slot_active slot C" and N: "uc_same C N"
    and M: "M = N\<lparr>uc_sessions := (uc_sessions C)[nat slot := empty_session]\<rparr>"
    by (cases rule: leave_session_cases) auto
  have r: "nat slot < length (uc_sessions C)" "us_active (uc_sessions C ! nat slot)" "0 \<le> slot"
    using a len by (auto simp: slot_active_def in_range_def)
  then have "slot \<in> set (active_slots (uc_sessions C))" by (simp add: set_active)
  then obtain t where t: "uc_selected C = Some t" "slot_active t C"
    using assms(3) by (auto simp: selection_ok_def split: option.splits)
  have sel: "uc_selected M = Some t" using t N by (simp add: M uc_same_sel)
  show ?thesis
  proof (cases "t = slot")
    case True
    have "active_slots ((uc_sessions C)[nat slot := empty_session]) = x # xs \<Longrightarrow>
        in_range x \<and> us_active ((uc_sessions C)[nat slot := empty_session] ! nat x)" for x xs
      using set_active [of x "(uc_sessions C)[nat slot := empty_session]"] len by (auto simp: in_range_def nat_less_iff)
    then show ?thesis using c sel True
      by (auto simp: count_leave_def selection_ok_def slot_active_def M split: list.splits)
  next
    case False
    then have "nat t \<noteq> nat slot" using t(2) r(3) by (auto simp: slot_active_def in_range_def)
    then show ?thesis using c sel False t(2)
      by (auto simp: count_leave_def selection_ok_def slot_active_def M)
  qed
qed

lemma fill_selects:
  assumes "cmd_fill_to E target C = (Inr u, C')" "selection_ok C"
  shows "selection_ok C'"
  using assms
proof (induction E target C rule: cmd_fill_to.induct)
  case (1 E target C)
  show ?case
    using "1.prems" "1.IH" join_selects
    by (subst (asm) cmd_fill_to.simps) (fastforce split: if_splits option.splits prod.splits sum.splits)
qed

lemma echo_slot_active: "secure_echo E slot p C = (Inr u, C') \<Longrightarrow> slot_active slot C'"
  by (erule secure_echo_cases)
    (auto simp: uc_acknowledge_def slot_active_def nth_update_if uc_same_sel split: prod.splits)

lemma churn_loop_selects:
  assumes "churn_loop E i (Suc n) s0 C = (Inr s, C')"
  shows "\<exists>t. s = Some t \<and> slot_active t C'"
  using assms
proof (induction n arbitrary: i s0 C)
  case 0
  then obtain slot M where e: "secure_echo E slot (new_user_message (uc_next_user M)) M = (Inr (), C')" "s = Some slot"
    by (auto simp: churn_once_def Let_def replace_user_def bindA_eq_Inr retA_def split: if_splits)
  then show ?case using echo_slot_active by blast
next
  case (Suc n)
  then show ?case by (subst (asm) churn_loop.simps) (auto simp: bindA_eq_Inr simp del: churn_loop.simps)
qed

lemma command_selects:
  fixes C :: "'d client"
  assumes "client_command E text C = (Inr q, C')" "uc_ok C" "selection_ok C"
  shows "selection_ok C'"
proof -
  have ok: "uc_ok C'" by (rule keepsD [where P = uc_ok, OF uc.keeps_command assms(2,1)])
  let ?A = "\<lambda>C' :: 'd client. activity C' = activity C"
  have "keeps ?A (send_message E text)"
    by (rule keepsI) (auto simp: send_message_def split: option.splits intro: keeps_snd [where P = ?A, OF keeps_activity(3)])
  then have stable: "\<And>q M. send_message E text C = (q, M) \<Longrightarrow> ?A M" "\<And>q M. board_status E C = (q, M) \<Longrightarrow> ?A M"
    "\<And>m q M. uc_io m C = (q, M) \<Longrightarrow> ?A M" "\<And>n q M. run_rounds E n C = (q, M) \<Longrightarrow> ?A M"
    using keepsD [where P = ?A] keeps_activity activity_rounds by blast+
  from assms(1) consider (frame) "activity C' = activity C"
    | (join) "cmd_join E text C = (Inr (), C')" | (leave) "cmd_leave E text C = (Inr (), C')"
    | (fill) "cmd_fill E text C = (Inr (), C')" | (churn) "cmd_churn E text C = (Inr (), C')"
    | (user) "cmd_user text C = (Inr (), C')"
    unfolding client_command_def going_on_def
    by (auto simp: bindA_eq_Inr retA_def split: if_splits dest!: stable)
  then show ?thesis
  proof cases
    case frame
    then show ?thesis using selection_activity [OF _ assms(2) ok] assms(3) by simp
  next
    case join
    then show ?thesis using join_selects by (auto simp: cmd_join_def Let_def split: sum.splits if_splits)
  next
    case leave
    then show ?thesis using leave_selects assms(2,3) by (fastforce simp: cmd_leave_def bindA_eq_Inr)
  next
    case fill
    then obtain t M y where f: "cmd_fill_to E t C = (Inr (), M)" and b: "board_status E M = (Inr y, C')"
      by (auto simp: cmd_fill_def bindA_eq_Inr retA_def)
    have "uc_ok M" by (rule keepsD [where P = uc_ok, OF uc.keeps_fill_to assms(2) f])
    then show ?thesis
      using selection_activity [OF activity_same [OF board_status_frame [OF b]] _ ok] fill_selects [OF f assms(3)] by simp
  next
    case churn
    then obtain n s M N t D where "0 < n" and l: "churn_loop E 0 (nat n) None M = (Inr s, N)"
      and r: "uc_io read_perf N = (Inr t, D)" "C' = D\<lparr>uc_selected := s\<rparr>"
      by (auto simp: cmd_churn_def bindA_eq_Inr)
    moreover obtain m where "nat n = Suc m" using \<open>0 < n\<close> by (cases "nat n") simp_all
    ultimately obtain x where "s = Some x" "slot_active x N"
      using churn_loop_selects [of E 0 m None M s N] by auto
    then show ?thesis using uc_same_sel [OF uc_io_frame [OF r(1)]] r(2) by (simp add: selection_ok_def slot_active_def)
  next
    case user
    then show ?thesis
      by (auto simp: cmd_user_def bindA_eq_Inr select_slot_def selection_ok_def slot_active_def)
  qed
qed

lemma loop_selects:
  assumes "client_loop E texts C = (Inr q, C')" "uc_ok C" "selection_ok C"
  shows "selection_ok C'"
  using assms
proof (induction texts arbitrary: C)
  case (Cons t ts)
  then obtain b M where c: "client_command E (py_strip t) C = (Inr b, M)"
    and l: "(if b then retA True else client_loop E ts) M = (Inr q, C')"
    by (auto simp: bindA_eq_Inr)
  have "selection_ok M" by (rule command_selects [OF c Cons.prems(2,3)])
  moreover have "uc_ok M" by (rule keepsD [where P = uc_ok, OF uc.keeps_command Cons.prems(2) c])
  ultimately show ?case using l Cons.IH by (auto simp: retA_def split: if_splits)
qed (simp add: retA_def)

lemma start_client_ok: "uc_ok (start_client w v)" "selection_ok (start_client w v)"
proof -
  have "active_slots make_empty_sessions = []"
    by (auto simp: active_slots_def make_empty_sessions_def filter_empty_conv)
  then show "uc_ok (start_client w v)" "selection_ok (start_client w v)"
    by (simp_all add: start_client_def uc_ok_def selection_ok_def users_ok_def make_empty_sessions_def
        list_all_length split: prod.splits)
qed

text \<open>C31. The client's slot list is well formed whatever the user types and the board answers, also when a
  command is ended by an exception: 64 entries, an active one with keys of the right sizes and counters
  equal to the packets it acknowledged, an inactive one empty; user ids are never shared; users joined are
  at least the users present and departed.  While no exception occurs, a slot is selected exactly when one
  is active, and the selected slot is active.\<close>

theorem client_state_ok:
  assumes "client_main E public_key kem_ciphertext texts w = (r, C)"
  shows "uc_ok C \<and> (\<forall>q. r = Inr q \<longrightarrow> selection_ok C)"
proof
  show "uc_ok C" by (rule uc.client_main_P [OF assms start_client_ok(1)])
  show "\<forall>q. r = Inr q \<longrightarrow> selection_ok C"
  proof (intro allI impI)
    fix q assume "r = Inr q"
    with assms obtain y M where b: "board_status E (start_client w (public_key, kem_ciphertext)) = (Inr y, M)"
      and l: "client_loop E texts M = (Inr q, C)"
      by (auto simp: client_main_def load_vectors_def bindA_eq_Inr bindR_guardR split: if_splits)
    have M: "uc_ok M" by (rule keepsD [where P = uc_ok, OF uc.keeps_frames(2) start_client_ok(1) b])
    then have "selection_ok M"
      using selection_activity [OF activity_same [OF board_status_frame [OF b]] start_client_ok(1)] start_client_ok(2) by blast
    then show "selection_ok C" by (rule loop_selects [OF l M])
  qed
qed

section \<open>Fill and churn\<close>

lemma first_free_None:
  "length ss = MAX_SESSIONS \<Longrightarrow> first_free ss = None \<longleftrightarrow> length (active_slots ss) = MAX_SESSIONS"
  using length_filter_less [of _ "[0..<length ss]" "\<lambda>i. us_active (ss ! i)"]
  by (fastforce simp: first_free_def find_None_iff active_slots_def)

lemma fill_steps:
  assumes "cmd_fill_to E target C = (Inr u, C')"
  shows "int (length (active_slots (uc_sessions C'))) = max target (int (length (active_slots (uc_sessions C)))) \<and>
    int (length (uc_joins C')) - int (length (uc_joins C)) =
      int (length (active_slots (uc_sessions C'))) - int (length (active_slots (uc_sessions C))) \<and>
    (\<forall>s. slot_active s C \<longrightarrow> slot_active s C' \<and> uc_sessions C' ! nat s = uc_sessions C ! nat s)"
  using assms
proof (induction E target C rule: cmd_fill_to.induct)
  case (1 E target C)
  show ?case
  proof (cases "int (length (active_slots (uc_sessions C))) < target")
    case False
    then show ?thesis using "1.prems" by (simp add: cmd_fill_to.simps [of E target C])
  next
    case True
    with "1.prems" obtain slot M where f: "first_free (uc_sessions C) = Some slot"
      and b: "bindA (join_next E slot) (\<lambda>_. select_slot slot) C = (Inr (), M)"
      and r: "cmd_fill_to E target M = (Inr u, C')"
      by (subst (asm) cmd_fill_to.simps) (auto split: option.splits prod.splits sum.splits)
    from b obtain N where j: "join_next E slot C = (Inr (), N)" and M: "M = N\<lparr>uc_selected := Some slot\<rparr>"
      by (auto simp: bindA_eq_Inr select_slot_def)
    from j obtain sid us x W where x: "uc_derive_session sid (uc_public_key C) (uc_kem_ciphertext C) = Inr x"
      and N: "N = C\<lparr>uc_world := W, uc_sessions := (uc_sessions C)[nat slot := x\<lparr>us_kem_us := us, us_user := Some (uc_next_user C)\<rparr>],
         uc_joins := uc_joins C @ [us], uc_next_user := uc_next_user C + 1\<rparr>"
      by (cases rule: join_next_cases) auto
    have free: "nat slot < length (uc_sessions C)" "\<not> us_active (uc_sessions C ! nat slot)" "0 \<le> slot"
      using first_free_Some [OF f] by auto
    have act: "us_active x" by (rule uc_derive_active [OF x])
    have len: "length (active_slots (uc_sessions M)) = Suc (length (active_slots (uc_sessions C)))"
      using active_slots_update free act by (simp add: M N)
    have keep: "slot_active s C \<Longrightarrow> slot_active s M \<and> uc_sessions M ! nat s = uc_sessions C ! nat s" for s
      using free act by (auto simp: slot_active_def in_range_def M N nth_update_if)
    have jn: "length (uc_joins M) = Suc (length (uc_joins C))" by (simp add: M N)
    from "1.IH" [OF True f b [symmetric] refl r] show ?thesis using True len keep jn by auto
  qed
qed

text \<open>\<open>/fill n\<close> brings the number of active slots to \<open>n\<close>, if it is not already there, with exactly that many
  joins and without touching an active slot; the search for a free slot in its loop fails only when all 64
  are active, which the bound on \<open>n\<close> excludes.\<close>

theorem fill_spec:
  assumes "uc_ok C" "cmd_fill E text C = (Inr u, C')"
  shows "\<exists>target. int_argument text = Inr target \<and> 0 \<le> target \<and> target \<le> 64 \<and>
      int (length (active_slots (uc_sessions C'))) = max target (int (length (active_slots (uc_sessions C)))) \<and>
      int (length (uc_joins C')) - int (length (uc_joins C)) =
        int (length (active_slots (uc_sessions C'))) - int (length (active_slots (uc_sessions C))) \<and>
      (\<forall>s. slot_active s C \<longrightarrow> slot_active s C' \<and> uc_sessions C' ! nat s = uc_sessions C ! nat s) \<and>
      (first_free (uc_sessions C) = None \<longleftrightarrow> length (active_slots (uc_sessions C)) = 64)"
proof -
  from assms(2) obtain target M y where t: "int_argument text = Inr target" "0 \<le> target" "target \<le> int MAX_SESSIONS"
    and f: "cmd_fill_to E target C = (Inr (), M)" and b: "board_status E M = (Inr y, C')"
    by (auto simp: cmd_fill_def bindA_eq_Inr liftR_def retA_def)
  have "uc_sessions C' = uc_sessions M" "uc_joins C' = uc_joins M"
    using uc_same_sel [OF board_status_frame [OF b]] by auto
  then show ?thesis
    using t fill_steps [OF f] first_free_None [of "uc_sessions C"] assms(1)
    by (simp add: MAX_SESSIONS_def slot_active_def uc_ok_def)
qed

lemma update_update_flags:
  "us_active y = us_active (ss ! i) \<Longrightarrow> map us_active (ss[i := x, i := y]) = map us_active ss"
  by (rule nth_equalityI) (auto simp: nth_update_if split: if_splits)

lemma replace_user_steps:
  assumes "replace_user E old slot C = (Inr s, C')"
  shows "uc_leaves C' = uc_leaves C + 1 \<and> length (uc_joins C') = Suc (length (uc_joins C)) \<and>
    map us_active (uc_sessions C') = map us_active (uc_sessions C)"
proof -
  from assms obtain A B D F G where l: "leave_session E slot C = (Inr (), A)"
    and e1: "expect_rejected_packet E old slot ''ERR NOSESSION'' (A\<lparr>uc_leaves := uc_leaves A + 1\<rparr>) = (Inr (), B)"
    and j: "join_next E slot B = (Inr (), D)" and e2: "expect_rejected_packet E old slot ''ERR AUTH'' D = (Inr (), F)"
    and p: "secure_echo E slot (new_user_message (uc_next_user F)) F = (Inr (), C')"
    by (auto simp: replace_user_def bindA_eq_Inr add_leave_def retA_def)
  from l obtain M where act: "slot_active slot C" and M: "uc_same C M" "A = M\<lparr>uc_sessions := (uc_sessions C)[nat slot := empty_session]\<rparr>"
    by (cases rule: leave_session_cases) auto
  note B = uc_same_sel [OF expect_rejected_frame [OF e1]] and F = uc_same_sel [OF expect_rejected_frame [OF e2]]
  from j obtain sid us x W where x: "uc_derive_session sid (uc_public_key B) (uc_kem_ciphertext B) = Inr x"
    and D: "D = B\<lparr>uc_world := W, uc_sessions := (uc_sessions B)[nat slot := x\<lparr>us_kem_us := us, us_user := Some (uc_next_user B)\<rparr>],
         uc_joins := uc_joins B @ [us], uc_next_user := uc_next_user B + 1\<rparr>"
    by (cases rule: join_next_cases) auto
  have "map us_active (uc_sessions F) = map us_active (uc_sessions C)"
    using update_update_flags [of "x\<lparr>us_kem_us := us, us_user := Some (uc_next_user B)\<rparr>" "uc_sessions C" "nat slot" empty_session]
      act uc_derive_active [OF x] B F M(2) by (simp add: D slot_active_def)
  moreover have "map us_active (uc_sessions C') = map us_active (uc_sessions F)"
    using activity_echo [OF p] by (simp add: activity_def)
  moreover have "uc_leaves C' = uc_leaves F \<and> uc_joins C' = uc_joins F"
    using p uc_same_sel by (cases rule: secure_echo_cases) (fastforce simp: uc_acknowledge_def split: prod.splits)+
  ultimately show ?thesis using B F M uc_same_sel [OF M(1)] by (simp add: D)
qed

lemma churn_loop_steps:
  "churn_loop E i n s0 C = (Inr s, C') \<Longrightarrow>
    uc_leaves C' = uc_leaves C + int n \<and> length (uc_joins C') = length (uc_joins C) + n \<and>
    map us_active (uc_sessions C') = map us_active (uc_sessions C)"
proof (induction n arbitrary: i s0 C)
  case (Suc n)
  then obtain t M where c: "churn_once E i C = (Inr t, M)" and l: "churn_loop E (i + 1) n t M = (Inr s, C')"
    by (auto simp: bindA_eq_Inr)
  have "uc_leaves M = uc_leaves C + 1 \<and> length (uc_joins M) = Suc (length (uc_joins C)) \<and>
      map us_active (uc_sessions M) = map us_active (uc_sessions C)"
    using c by (auto simp: churn_once_def Let_def split: if_splits dest!: replace_user_steps)
  then show ?case using Suc.IH [OF l] by simp
qed (simp add: retA_def)

text \<open>\<open>/churn n\<close> replaces \<open>n\<close> users: \<open>n\<close> departures and \<open>n\<close> joins, one more join when it starts without any
  session, and at its end the same slots are active as before, or slot 0.\<close>

lemma churn_spec:
  assumes "cmd_churn E text C = (Inr u, C')" "length (uc_sessions C) = 64"
  shows "\<exists>n > 0. int_argument text = Inr n \<and> uc_leaves C' = uc_leaves C + n \<and>
      int (length (uc_joins C')) = int (length (uc_joins C)) + n + (if active_slots (uc_sessions C) = [] then 1 else 0) \<and>
      active_slots (uc_sessions C') = (if active_slots (uc_sessions C) = [] then [0] else active_slots (uc_sessions C))"
proof -
  from assms(1) obtain n M t0 A s B t1 D where n: "int_argument text = Inr n" "0 < n"
    and j: "(if active_slots (uc_sessions C) = [] then join_next E 0 C else retA () C) = (Inr (), M)"
    and i: "uc_io read_perf M = (Inr t0, A)" "uc_io read_perf B = (Inr t1, D)"
    and l: "churn_loop E 0 (nat n) None A = (Inr s, B)" and C': "C' = D\<lparr>uc_selected := s\<rparr>"
    by (auto simp: cmd_churn_def bindA_eq_Inr)
  note A = uc_same_sel [OF uc_io_frame [OF i(1)]] and D = uc_same_sel [OF uc_io_frame [OF i(2)]]
  have flags: "active_slots (uc_sessions B) = active_slots (uc_sessions A)"
    using churn_loop_steps [OF l] by (simp only: active_slots_map)
  have "active_slots (uc_sessions M) = (if active_slots (uc_sessions C) = [] then [0] else active_slots (uc_sessions C)) \<and>
      length (uc_joins M) = length (uc_joins C) + (if active_slots (uc_sessions C) = [] then 1 else 0) \<and>
      uc_leaves M = uc_leaves C"
  proof (cases "active_slots (uc_sessions C) = []")
    case True
    then have "join_next E 0 C = (Inr (), M)" using j by simp
    then obtain sid us x W where x: "uc_derive_session sid (uc_public_key C) (uc_kem_ciphertext C) = Inr x"
      and M: "M = C\<lparr>uc_world := W, uc_sessions := (uc_sessions C)[0 := x\<lparr>us_kem_us := us, us_user := Some (uc_next_user C)\<rparr>],
         uc_joins := uc_joins C @ [us], uc_next_user := uc_next_user C + 1\<rparr>"
      by (cases rule: join_next_cases) auto
    have off: "i < 64 \<Longrightarrow> \<not> us_active (uc_sessions C ! i)" for i
      using True assms(2) by (auto simp: active_slots_def filter_empty_conv)
    have "filter (\<lambda>i. us_active (uc_sessions M ! i)) [0..<64] = [0]"
    proof -
      have "[0..<64] = 0 # [1..<64]" by (simp add: upt_rec)
      moreover have "filter (\<lambda>i. us_active (uc_sessions M ! i)) [1..<64] = []"
        using off by (auto simp: filter_empty_conv M)
      ultimately show ?thesis using uc_derive_active [OF x] assms(2) by (simp add: M)
    qed
    then show ?thesis using True assms(2) by (simp add: active_slots_def M)
  next
    case False
    then show ?thesis using j by (simp add: retA_def)
  qed
  then show ?thesis using n A D flags churn_loop_steps [OF l] by (auto simp: C')
qed

section \<open>Examples\<close>

definition demo_client :: "string list \<Rightarrow> script client" where
  "demo_client ls = start_client (demo_world ls) (replicate 800 1, replicate 768 9)"

text \<open>The port of \<open>C\<close> will answer with the lines \<open>ls\<close>.\<close>

definition answers :: "script client \<Rightarrow> string list \<Rightarrow> bool" where
  "answers C ls \<longleftrightarrow> clk (uc_world C) = unit_clock \<and>
     replies (dev (uc_world C)) = map (\<lambda>l. encode_ascii (l @ [CHR 0x0A])) ls"

lemma demo_client_answers [simp]: "answers (demo_client ls) ls"
  by (simp add: answers_def demo_client_def start_client_def demo_world_def)

lemma demo_client_send:
  assumes "answers C (l # ls)" "line_ok l" "py_startswith l UC_PREFIXES"
  shows "\<exists>M. uc_send_line demo_env t C = (Inr l, M) \<and> uc_same C M \<and> answers M ls"
proof -
  have "send_line demo_env UC_PREFIXES late 60 t (uc_world C) =
      (Inr l, (uc_world C)\<lparr>ticks := ticks (uc_world C) + 2,
         dev := \<lparr>replies = map (\<lambda>l. encode_ascii (l @ [CHR 0x0A])) ls,
           sent = sent (dev (uc_world C)) @ [encode_ascii (t @ [CHR 0x0A])]\<rparr>\<rparr>)" for late
    using assms by (intro demo_send_line) (simp_all add: answers_def)
  then show ?thesis
    using assms(1) by (simp add: uc_send_line_def uc_io_def answers_def)
qed

definition status_0 :: string where "status_0 = ''STATUS 0 00000000 00000000''"

definition ready_0 :: string where "ready_0 = ''READY 0 00000007 540''"

lemma demo_lines:
  "line_ok status_0" "py_startswith status_0 UC_PREFIXES" "line_ok ready_0" "py_startswith ready_0 UC_PREFIXES"
  "uc_check_ready 0 ready_0 = Inr (7, 540)"
  by code_simp+

lemma demo_client_status: "answers C (status_0 # ls) \<Longrightarrow> \<exists>M. board_status demo_env C = (Inr (0, 0), M) \<and> uc_same C M \<and> answers M ls"
proof -
  assume "answers C (status_0 # ls)"
  then obtain M where m: "uc_send_line demo_env ''STATUS'' C = (Inr status_0, M)" "uc_same C M" "answers M ls"
    using demo_client_send demo_lines by blast
  have f: "py_split status_0 = [''STATUS'', ''0'', ''00000000'', ''00000000'']" "\<not> prefix ''ERR '' status_0"
    "py_int 10 ''0'' = Inr 0" "py_int 16 ''00000000'' = Inr 0"
    by code_simp+
  show ?thesis using m f by (simp add: board_status_def bindA_def reject_err_def Let_def)
qed

lemma demo_client_join:
  assumes "answers C (ready_0 # ls)" "length (uc_sessions C) = 64"
  shows "\<exists>x M. join_next demo_env 0 C = (Inr (), M) \<and> answers M ls \<and> us_active x \<and>
    uc_sessions M = (uc_sessions C)[0 := x] \<and> uc_selected M = uc_selected C"
proof -
  obtain M where m: "uc_send_line demo_env (''OPEN '' @ str_int 0) C = (Inr ready_0, M)" "uc_same C M" "answers M ls"
    using demo_client_send assms(1) demo_lines by blast
  obtain x where x: "uc_derive_session 7 (uc_public_key M) (uc_kem_ciphertext M) = Inr x"
    by (simp add: uc_derive_session_def Let_def to_bytes_be_Inr bindR_def to_bytes_be_def split: if_splits)
  note M = uc_same_sel [OF m(2)]
  have j: "join_session demo_env 0 (uc_next_user C) C = (Inr (), M\<lparr>uc_sessions := (uc_sessions M)[0 := x\<lparr>us_kem_us := 540, us_user := Some (uc_next_user C)\<rparr>],
      uc_joins := uc_joins M @ [540]\<rparr>)"
    using m x assms(2) M by (simp add: join_session_def in_range_def MAX_SESSIONS_def bindA_def demo_lines uc_file_session_def)
  have "us_active x" by (rule uc_derive_active [OF x])
  then have "us_active (x\<lparr>us_kem_us := 540, us_user := Some (uc_next_user C)\<rparr>)" by simp
  moreover have "join_next demo_env 0 C = (Inr (), M\<lparr>uc_sessions := (uc_sessions M)[0 := x\<lparr>us_kem_us := 540, us_user := Some (uc_next_user C)\<rparr>],
      uc_joins := uc_joins M @ [540], uc_next_user := uc_next_user M + 1\<rparr>)"
    using j by (simp add: join_next_def bindA_def)
  ultimately show ?thesis using m(3) M
    by (intro exI [of _ "x\<lparr>us_kem_us := 540, us_user := Some (uc_next_user C)\<rparr>"]) (auto simp: answers_def)
qed

theorem client_state_ok_witness:
  "\<exists>C. client_main demo_env (replicate 800 1) (replicate 768 9) [''/join 0''] (demo_world [status_0, ready_0]) = (Inr False, C) \<and>
     uc_selected C = Some 0 \<and> uc_ok C \<and> selection_ok C"
proof -
  have v: "load_vectors (replicate 800 1) (replicate 768 9) = Inr (replicate 800 1, replicate 768 9)"
    by (simp add: load_vectors_def)
  obtain M where b: "board_status demo_env (demo_client [status_0, ready_0]) = (Inr (0, 0), M)"
    and M: "uc_same (demo_client [status_0, ready_0]) M" "answers M [ready_0]"
    using demo_client_status [OF demo_client_answers, of "[ready_0]"] by auto
  have len: "length (uc_sessions M) = 64"
    using uc_same_sel [OF M(1)] by (simp add: demo_client_def start_client_def make_empty_sessions_def MAX_SESSIONS_def)
  obtain N where j: "join_next demo_env 0 M = (Inr (), N)" using demo_client_join [OF M(2) len] by blast
  have c: "py_strip ''/join 0'' = ''/join 0''" "py_split ''/join 0'' = [''/join'', ''0'']" "py_int 10 ''0'' = Inr 0"
    by code_simp+
  have "client_main demo_env (replicate 800 1) (replicate 768 9) [''/join 0''] (demo_world [status_0, ready_0]) =
      (Inr False, N\<lparr>uc_selected := Some 0\<rparr>)"
    using b j c unfolding client_main_def v demo_client_def
    by (simp add: bindA_def client_command_def going_on_def cmd_join_def select_slot_def)
  from client_state_ok [OF this] this show ?thesis by fastforce
qed

theorem fill_spec_witness:
  "\<exists>C. cmd_fill demo_env ''/fill 1'' (demo_client [ready_0, status_0]) = (Inr (), C) \<and> length (active_slots (uc_sessions C)) = 1"
proof -
  let ?C = "demo_client [ready_0, status_0]"
  have empty: "uc_sessions ?C = make_empty_sessions" "active_slots make_empty_sessions = []"
    by (auto simp: demo_client_def start_client_def active_slots_def make_empty_sessions_def filter_empty_conv)
  have len: "length (uc_sessions ?C) = 64" by (simp add: empty make_empty_sessions_def MAX_SESSIONS_def)
  have free: "first_free (uc_sessions ?C) = Some 0"
    unfolding empty first_free_def make_empty_sessions_def MAX_SESSIONS_def by (simp add: upt_rec [of 0])
  obtain x M where j: "join_next demo_env 0 ?C = (Inr (), M)" "answers M [status_0]" "us_active x"
    "uc_sessions M = (uc_sessions ?C)[0 := x]"
    using demo_client_join [OF demo_client_answers len] by blast
  have one: "length (active_slots (uc_sessions M)) = 1"
    using active_slots_update [of 0 "uc_sessions ?C" x] j(3,4) len empty by (simp add: make_empty_sessions_def MAX_SESSIONS_def)
  have f: "cmd_fill_to demo_env 1 ?C = (Inr (), M\<lparr>uc_selected := Some 0\<rparr>)"
    using one j(1) free empty
    by (simp add: cmd_fill_to.simps [of demo_env 1 ?C] cmd_fill_to.simps [of demo_env 1 "M\<lparr>uc_selected := Some 0\<rparr>"]
        bindA_def select_slot_def)
  have "answers (M\<lparr>uc_selected := Some 0\<rparr>) [status_0]" using j(2) by (simp add: answers_def)
  then obtain N where "board_status demo_env (M\<lparr>uc_selected := Some 0\<rparr>) = (Inr (0, 0), N)"
    using demo_client_status by blast
  moreover have "int_argument ''/fill 1'' = Inr 1" by code_simp
  ultimately have r: "cmd_fill demo_env ''/fill 1'' ?C = (Inr (), N)"
    using f by (simp add: cmd_fill_def MAX_SESSIONS_def bindA_def)
  have "uc_ok ?C" unfolding demo_client_def by (rule start_client_ok)
  from fill_spec [OF this r] r empty \<open>int_argument ''/fill 1'' = Inr 1\<close> show ?thesis by auto
qed

end
