(* ===== verification/UartClient_Sim.thy ===== *)
theory UartClient_Sim
  imports UartClient_Spec
begin

text \<open>
  The interactive client and \<open>SerialBoardLink\<close> of \<open>board_link.py\<close> are two implementations of one
  protocol: from corresponding states they put the same bytes on the wire, accept the same answers and
  reach corresponding states.
\<close>

section \<open>Corresponding states\<close>



text \<open>Two outcomes agree: both return, with related values and states, or both raise with the world in the same
  state (the texts of the exceptions differ).\<close>

definition agree :: "('a \<Rightarrow> 'd client \<Rightarrow> 'b \<Rightarrow> 'd serial_v1 \<Rightarrow> bool) \<Rightarrow> 'a res \<times> 'd client \<Rightarrow> 'b res \<times> 'd serial_v1 \<Rightarrow> bool" where
  "agree R p q \<longleftrightarrow>
     (case (fst p, fst q) of
        (Inr x, Inr y) \<Rightarrow> R x (snd p) y (snd q)
      | (Inl _, Inl _) \<Rightarrow> uc_world (snd p) = s1_world (snd q)
      | _ \<Rightarrow> False)"

lemma agree_simps [simp]:
  "agree R (Inr x, C) (Inr y, L) = R x C y L"
  "agree R (Inl e, C) (Inl f, L) = (uc_world C = s1_world L)"
  "\<not> agree R (Inl e, C) (Inr y, L)" "\<not> agree R (Inr x, C) (Inl f, L)"
  by (simp_all add: agree_def)





section \<open>The port\<close>





section \<open>The operations\<close>


















end
