(* ===== verification/UartClient_Exit.thy ===== *)
theory UartClient_Exit
  imports UartClient_Spec
begin

text \<open>
  How \<open>uart_secure_client.py\<close> ends: which exceptions its commands can raise, whatever is typed and
  answered, and which of them its \<open>except\<close> clause does not catch.
\<close>

section \<open>Actions that raise only certain exceptions\<close>

definition res_only :: "(py_error \<Rightarrow> bool) \<Rightarrow> 'a res \<Rightarrow> bool" where
  "res_only Q r \<longleftrightarrow> (\<forall>e. r = Inl e \<longrightarrow> Q e)"

text \<open>From a state with \<open>P\<close>, the action ends in a state with \<open>P\<close>, or with one of the exceptions \<open>Q\<close>.\<close>

definition fails_only :: "('s \<Rightarrow> bool) \<Rightarrow> (py_error \<Rightarrow> bool) \<Rightarrow> ('s, 'a) act \<Rightarrow> bool" where
  "fails_only P Q m \<longleftrightarrow> (\<forall>s. P s \<longrightarrow> res_only Q (fst (m s)) \<and> P (snd (m s)))"

named_theorems only_intros \<open>actions and results that raise only certain exceptions\<close>

lemma res_only_simps [simp]: "res_only Q (Inr x)" "res_only Q (Inl e) \<longleftrightarrow> Q e"
  by (simp_all add: res_only_def)

lemma res_only_bind [only_intros]: "res_only Q r \<Longrightarrow> (\<And>x. r = Inr x \<Longrightarrow> res_only Q (f x)) \<Longrightarrow> res_only Q (bindR r f)"
  by (cases r) simp_all

lemma res_only_guard [only_intros]: "(\<not> c \<Longrightarrow> Q e) \<Longrightarrow> res_only Q (guardR c e)"
  by (cases c) simp_all

lemma fails_onlyI: "(\<And>s. P s \<Longrightarrow> res_only Q (fst (m s)) \<and> P (snd (m s))) \<Longrightarrow> fails_only P Q m"
  by (simp add: fails_only_def)

lemma fails_only_keeps: "keeps P m \<Longrightarrow> (\<And>s. P s \<Longrightarrow> res_only Q (fst (m s))) \<Longrightarrow> fails_only P Q m"
  by (simp add: fails_only_def keeps_def)

lemma fails_onlyD: "fails_only P Q m \<Longrightarrow> P s \<Longrightarrow> m s = (r, s') \<Longrightarrow> res_only Q r \<and> P s'"
  unfolding fails_only_def by (metis fst_conv snd_conv)

lemma fails_only_at: "fails_only P Q m \<Longrightarrow> P s \<Longrightarrow> res_only Q (fst (m s)) \<and> P (snd (m s))"
  by (simp add: fails_only_def)

lemma fails_only_simps [only_intros]:
  "fails_only P Q (retA x)" "res_only Q r \<Longrightarrow> fails_only P Q (liftR r)"
  "(\<And>s. P s \<Longrightarrow> res_only Q (g s)) \<Longrightarrow> fails_only P Q (\<lambda>s. (g s, s))"
  by (simp_all add: fails_only_def)

lemma fails_only_bind [only_intros]:
  assumes "fails_only P Q m" "\<And>x. fails_only P Q (f x)"
  shows "fails_only P Q (bindA m f)"
proof (rule fails_onlyI)
  fix s assume "P s"
  obtain r t where m: "m s = (r, t)" by fastforce
  then have "res_only Q r" "P t" using fails_onlyD [OF assms(1) \<open>P s\<close>] by blast+
  then show "res_only Q (fst (bindA m f s)) \<and> P (snd (bindA m f s))"
    using m fails_only_at [OF assms(2)] by (cases r) (simp_all add: bindA_def)
qed

lemma fails_only_if [only_intros]:
  "(c \<Longrightarrow> fails_only P Q m) \<Longrightarrow> (\<not> c \<Longrightarrow> fails_only P Q n) \<Longrightarrow> fails_only P Q (if c then m else n)"
  by simp

section \<open>The exceptions of the client\<close>

text \<open>The documented exceptions of the packages: the port raises \<open>OSError\<close>, decryption \<open>InvalidTag\<close>.\<close>

definition documented_errors :: "'d env \<Rightarrow> bool" where
  "documented_errors E \<longleftrightarrow> (\<forall>d bs e. fst (sr_write E d bs) = Inl e \<longrightarrow> (\<exists>m. e = OSError m)) \<and>
     (\<forall>d e. fst (sr_readline E d) = Inl e \<longrightarrow> (\<exists>m. e = OSError m)) \<and>
     (\<forall>k n c a e. length k = 32 \<longrightarrow> length n = 12 \<longrightarrow> aead_decrypt E k n c a = Inl e \<longrightarrow> e = InvalidTag)"

text \<open>What a command can end with: an error the program reports, or one of three it lets through.\<close>

fun client_error :: "py_error \<Rightarrow> bool" where
  "client_error InvalidTag = True"
| "client_error (OverflowError m) = True"
| "client_error (ZeroDivisionError m) = True"
| "client_error e = handled_error e"


lemma client_errors [simp, only_intros]:
  "res_only client_error (py_int b s)" "res_only client_error (bytes_fromhex s)"
  "res_only client_error (to_bytes_be n i)" "res_only client_error (bytes_of_ints is)"
  "res_only client_error (py_get xs i)" "res_only client_error (py_set xs i v)"
  by (simp_all add: py_int_def bytes_fromhex_def to_bytes_be_def bytes_of_ints_def py_get_def py_set_def Let_def
      split: option.split sum.split)

lemma client_errors_derived [simp, only_intros]:
  "res_only client_error (build_nonce pfx c)" "res_only client_error (build_aad sid c n)"
  "res_only client_error (int_argument t)" "res_only client_error (reject_err line)"
  "res_only client_error (uc_derive_session sid pk ct)" "res_only client_error (uc_check_ready slot line)"
  "res_only client_error (uc_check_left slot sid line)"
  unfolding build_nonce_def build_aad_def int_argument_def reject_err_def uc_derive_session_def
    uc_check_ready_def uc_check_left_def Let_def
  by (auto intro!: res_only_bind res_only_guard client_errors)

section \<open>Input and output\<close>

definition slots_ok :: "'d client \<Rightarrow> bool" where
  "slots_ok C \<longleftrightarrow> length (uc_sessions C) = MAX_SESSIONS \<and> list_all us_ok (uc_sessions C)"

lemma slots_ok_same: "slots_ok C \<Longrightarrow> uc_same C C' \<Longrightarrow> slots_ok C'"
  by (simp add: slots_ok_def uc_same_sel)

lemma fails_only_same:
  assumes "\<And>C r C'. m C = (r, C') \<Longrightarrow> uc_same C C' \<and> res_only Q r"
  shows "fails_only slots_ok Q m"
  by (rule fails_onlyI) (metis assms prod.collapse slots_ok_same)

lemma port_errors:
  assumes "documented_errors E"
  shows "res_only client_error (fst (serial_write E t w))"
    "client_error late \<Longrightarrow> res_only client_error (fst (send_line E ps late timeout t w))"
proof -
  have w: "res_only client_error (fst (serial_write E t w))" for t w
    using assms by (auto simp: serial_write_def documented_errors_def res_only_def split: prod.splits) (metis client_error.simps fst_conv handled_error.simps(1))
  have r: "client_error late \<Longrightarrow> res_only client_error (fst (read_line E ps late timeout v))" for v
  proof -
    assume late: "client_error late"
    obtain r v' where rl: "read_until E ps late (World.now v + timeout) (tick v) = (r, v')" by fastforce
    then show ?thesis using read_until_cases [OF rl] late assms
      by (auto simp: read_line_def res_only_def documented_errors_def) (metis client_error.simps fst_conv handled_error.simps(1))
  qed
  show "res_only client_error (fst (serial_write E t w))" by (rule w)
  assume "client_error late"
  then show "res_only client_error (fst (send_line E ps late timeout t w))"
    using w [of t w] r by (cases "serial_write E t w") (auto simp: send_line_def bindA_def split: sum.splits)
qed

lemma fails_io:
  assumes "\<And>w. res_only Q (fst (m w))"
  shows "fails_only slots_ok Q (uc_io m)"
proof (rule fails_only_same)
  fix C r C' assume "uc_io m C = (r, C')"
  then show "uc_same C C' \<and> res_only Q r" using uc_io_frame [of m C r C'] assms [of "uc_world C"]
    by (auto simp: uc_io_def split: prod.splits)
qed

lemma fails_send [only_intros]: "documented_errors E \<Longrightarrow> fails_only slots_ok client_error (uc_send_line E t)"
  unfolding uc_send_line_def by (intro fails_io port_errors) simp_all

lemma fails_perf [only_intros]: "fails_only slots_ok Q (uc_io read_perf)"
  by (intro fails_io) simp

lemma fails_status [only_intros]: "documented_errors E \<Longrightarrow> fails_only slots_ok client_error (board_status E)"
  unfolding board_status_def Let_def by (auto intro!: only_intros)

section \<open>Packets\<close>

lemma active_slot_ok: "slots_ok C \<Longrightarrow> slot_active slot C \<Longrightarrow> us_ok (uc_sessions C ! nat slot) \<and> us_active (uc_sessions C ! nat slot)"
  by (auto simp: slots_ok_def slot_active_def in_range_def list_all_length)

text \<open>A session that is or was active has keys, so no \<open>KeyError\<close>; their sizes are those the AEAD accepts.\<close>

lemma build_data_errors:
  assumes "us_ok x" "us_active x" "aead_ok E"
  shows "res_only client_error (build_data_command E x slot p)"
proof -
  obtain k where k: "us_keys x = Some k" "uk_ok k" using assms(1,2) by (auto simp: us_ok_def)
  have "res_only client_error (aead_encrypt E (uk_tx_key k) n (zero_pad PACKET_BYTES p) a)"
    if "length p \<le> PACKET_BYTES" "build_nonce (uk_tx_prefix k) c = Inr n" "build_aad sid c' l = Inr a" for n a c sid c' l
  proof -
    have "length n = 12" "length a = 16"
      using that k by (auto simp: build_nonce_def build_aad_def uk_ok_def to_bytes_be_Inr bytes_of_ints_def split: if_splits)
    moreover have "length (zero_pad PACKET_BYTES p) \<le> 64" using that(1) by (simp add: zero_pad_def PACKET_BYTES_def)
    ultimately obtain f where "aead_encrypt E (uk_tx_key k) n (zero_pad PACKET_BYTES p) a = Inr f"
      using aead_okD [OF assms(3)] k by (metis uk_ok_def)
    then show ?thesis by simp
  qed
  then show ?thesis unfolding build_data_command_def using k by (auto simp: Let_def intro!: res_only_bind res_only_guard)
qed

lemma check_resp_errors:
  assumes "us_ok x" "us_active x" "documented_errors E"
  shows "res_only client_error (uc_check_resp E x slot p line)"
proof -
  obtain k where k: "us_keys x = Some k" "uk_ok k" using assms(1,2) by (auto simp: us_ok_def)
  have "res_only client_error (aead_decrypt E (uk_rx_key k) n c a)" if "build_nonce (uk_rx_prefix k) i = Inr n" for n c a i
  proof -
    have "length n = 12" using that k by (auto simp: build_nonce_def uk_ok_def to_bytes_be_Inr)
    then show ?thesis using assms(3) k unfolding documented_errors_def uk_ok_def res_only_def by (metis client_error.simps(1))
  qed
  then show ?thesis unfolding uc_check_resp_def Let_def
    using k by (auto intro!: res_only_bind res_only_guard)
qed

section \<open>Commands\<close>

text \<open>Errors alone, with no claim about the state that is left.\<close>

lemma fails_any: "fails_only (\<lambda>_. True) Q m \<longleftrightarrow> (\<forall>s. res_only Q (fst (m s)))"
  by (simp add: fails_only_def)

lemma fails_any_send: "documented_errors E \<Longrightarrow> fails_only (\<lambda>_. True) client_error (uc_send_line E t)"
  using port_errors(2) [of E] by (auto simp: fails_any uc_send_line_def uc_io_def split: prod.splits) (metis client_error.simps handled_error.simps(4) fst_conv)

lemma fails_echo:
  assumes "aead_ok E" "documented_errors E"
  shows "fails_only slots_ok client_error (secure_echo E slot p)"
proof (rule fails_onlyI)
  fix C :: "'a client" assume C: "slots_ok C"
  define x where "x = uc_sessions C ! nat slot"
  have "res_only client_error (fst (secure_echo E slot p C))"
  proof (cases "PACKET_BYTES < length p \<or> \<not> slot_active slot C")
    case True
    then show ?thesis by (auto simp: secure_echo_def)
  next
    case False
    then have x: "us_ok x" "us_active x" using active_slot_ok [OF C] by (simp_all add: x_def)
    have perf: "fails_only (\<lambda>_. True) client_error (uc_io read_perf)" by (simp add: fails_any uc_io_def)
    have ack: "fails_only (\<lambda>_. True) client_error (uc_acknowledge slot x rtt ts)" for rtt ts
      by (cases ts) (simp add: fails_any uc_acknowledge_def)
    have "fails_only (\<lambda>_. True) client_error (bindA (liftR (build_data_command E x slot p)) (\<lambda>(command, _, _).
        bindA (uc_io read_perf) (\<lambda>began.
        bindA (uc_send_line E command) (\<lambda>line.
        bindA (uc_io read_perf) (\<lambda>ended.
        bindA (liftR (uc_check_resp E x slot p line))
          (uc_acknowledge slot x ((perf_seconds ended - perf_seconds began) * 1000)))))))"
      using x assms by (auto intro!: only_intros perf ack fails_any_send build_data_errors check_resp_errors)
    then show ?thesis using False by (simp add: fails_any secure_echo_def x_def Let_def)
  qed
  moreover have "slots_ok (snd (secure_echo E slot p C))"
  proof -
    obtain r D where e: "secure_echo E slot p C = (r, D)" by fastforce
    then show ?thesis
    proof (cases rule: secure_echo_cases)
      case (echoed rtt ts M)
      obtain a b where ts: "ts = (a, b)" by fastforce
      have M: "slots_ok M" "uc_sessions M = uc_sessions C" using slots_ok_same [OF C echoed(4)] uc_same_sel [OF echoed(4)] by simp_all
      have x: "us_ok x" "us_active x" using active_slot_ok [OF C echoed(2)] by (simp_all add: x_def)
      then have "us_ok (x\<lparr>us_tx_counter := us_tx_counter x + 1, us_rx_counter := us_rx_counter x + 1,
         us_rtt_ms := us_rtt_ms x @ [rtt], us_hw_rx_us := us_hw_rx_us x @ [a], us_hw_tx_us := us_hw_tx_us x @ [b]\<rparr>)"
        by (simp add: us_ok_def)
      then show ?thesis using echoed(5) M e by (auto simp: uc_acknowledge_def ts slots_ok_def x_def intro!: list_all_update)
    qed (use slots_ok_same [OF C] e in simp)
  qed
  ultimately show "res_only client_error (fst (secure_echo E slot p C)) \<and> slots_ok (snd (secure_echo E slot p C))" by blast
qed

lemma fails_rejected [only_intros]:
  assumes "aead_ok E" "documented_errors E" "us_ok x" "us_active x"
  shows "fails_only slots_ok client_error (expect_rejected_packet E x slot t)"
  unfolding expect_rejected_packet_def
  using assms by (auto intro!: only_intros build_data_errors)

lemma fails_join [only_intros]:
  assumes "documented_errors E"
  shows "fails_only slots_ok client_error (join_next E slot)"
proof -
  have "fails_only slots_ok client_error (uc_file_session slot user y :: ('a client, unit) act)" for user y
  proof (rule fails_onlyI)
    fix C :: "'a client" assume C: "slots_ok C"
    obtain sid us where y: "y = (sid, us)" by fastforce
    let ?new = "bindR (uc_derive_session sid (uc_public_key C) (uc_kem_ciphertext C)) (\<lambda>x.
      py_set (uc_sessions C) slot (x\<lparr>us_kem_us := us, us_user := Some user\<rparr>))"
    show "res_only client_error (fst (uc_file_session slot user y C)) \<and> slots_ok (snd (uc_file_session slot user y C))"
    proof (cases ?new)
      case (Inl e)
      have "res_only client_error ?new" by (intro only_intros client_errors client_errors_derived)
      then show ?thesis using C Inl by (simp add: uc_file_session_def y)
    next
      case (Inr ss)
      then obtain x where "uc_derive_session sid (uc_public_key C) (uc_kem_ciphertext C) = Inr x"
        "py_set (uc_sessions C) slot (x\<lparr>us_kem_us := us, us_user := Some user\<rparr>) = Inr ss" by auto
      then have "slots_ok (C\<lparr>uc_sessions := ss\<rparr>)"
        using C us_ok_derived [of sid "uc_public_key C" "uc_kem_ciphertext C" x user us]
        by (auto simp: slots_ok_def py_set_def split: option.splits intro: list_all_update)
      then show ?thesis using Inr by (simp add: uc_file_session_def y slots_ok_def del: bindR_eq_Inr)
    qed
  qed
  moreover have "fails_only slots_ok client_error (\<lambda>C. (Inr (), C\<lparr>uc_next_user := uc_next_user C + 1\<rparr>))"
    by (simp add: fails_only_def slots_ok_def)
  ultimately have "fails_only slots_ok client_error (bindA (join_session E slot user) (\<lambda>_ C. (Inr (), C\<lparr>uc_next_user := uc_next_user C + 1\<rparr>)))" for user
    unfolding join_session_def using assms by (auto intro!: only_intros)
  then show ?thesis by (simp add: fails_only_def join_next_def)
qed

lemma fails_leave [only_intros]:
  assumes "documented_errors E"
  shows "fails_only slots_ok client_error (leave_session E slot)"
proof (rule fails_onlyI)
  fix C :: "'a client" assume C: "slots_ok C"
  have drop: "fails_only slots_ok client_error (\<lambda>C. (Inr (), C\<lparr>uc_sessions := (uc_sessions C)[nat slot := empty_session]\<rparr>))"
    by (simp add: fails_only_def slots_ok_def list_all_update)
  have leave: "fails_only slots_ok client_error (bindA (uc_send_line E t) (\<lambda>line.
      bindA (liftR (uc_check_left slot sid line)) (\<lambda>_ C.
      (Inr (), C\<lparr>uc_sessions := (uc_sessions C)[nat slot := empty_session]\<rparr>))))" for t sid
    using assms by (auto intro!: only_intros drop)
  then show "res_only client_error (fst (leave_session E slot C)) \<and> slots_ok (snd (leave_session E slot C))"
    using fails_only_at [OF leave C] C by (simp add: leave_session_def)
qed

text \<open>The commands are made of these.\<close>

lemma fails_simple [only_intros]:
  "fails_only slots_ok Q (select_slot slot)" "fails_only slots_ok Q add_leave" "fails_only slots_ok Q (count_leave slot)"
  "fails_only slots_ok Q (\<lambda>C. (Inr (), C\<lparr>uc_selected := sel\<rparr>))"
  by (simp_all add: fails_only_def select_slot_def add_leave_def count_leave_def slots_ok_def Let_def)

lemma fails_cmd_join [only_intros]:
  assumes "documented_errors E"
  shows "fails_only slots_ok client_error (cmd_join E text)"
proof (rule fails_onlyI)
  fix C :: "'a client" assume C: "slots_ok C"
  have "fails_only slots_ok client_error (bindA (join_next E slot) (\<lambda>_. select_slot slot))" for slot
    using assms by (intro only_intros)
  from fails_only_at [OF this C] show "res_only client_error (fst (cmd_join E text C)) \<and> slots_ok (snd (cmd_join E text C))"
    using C client_errors(1) [of 10 "py_split text ! 1"]
    by (auto simp: cmd_join_def Let_def res_only_def split: sum.splits option.splits)
qed

lemma fails_fill_to [only_intros]:
  assumes "documented_errors E"
  shows "fails_only slots_ok client_error (cmd_fill_to E target)"
proof (rule fails_onlyI)
  fix C :: "'a client" assume "slots_ok C"
  then show "res_only client_error (fst (cmd_fill_to E target C)) \<and> slots_ok (snd (cmd_fill_to E target C))"
    using assms
  proof (induction E target C rule: cmd_fill_to.induct)
    case (1 E target C)
    have j: "fails_only slots_ok client_error (bindA (join_next E slot) (\<lambda>_. select_slot slot))" for slot
      using "1.prems"(2) by (intro only_intros)
    show ?case
    proof (cases "int (length (active_slots (uc_sessions C))) < target")
      case True
      then show ?thesis
        using "1.IH" [OF True] "1.prems" fails_onlyD [OF j "1.prems"(1)]
        by (subst (1 2) cmd_fill_to.simps) (force split: option.splits prod.splits sum.splits)
    qed (simp add: cmd_fill_to.simps [of E target C] "1.prems")
  qed
qed

lemma fails_replace [only_intros]:
  assumes "aead_ok E" "documented_errors E" "us_ok x" "us_active x"
  shows "fails_only slots_ok client_error (replace_user E x slot)"
proof -
  have e: "fails_only slots_ok client_error (\<lambda>C. secure_echo E slot (new_user_message (uc_next_user C)) C)"
    by (rule fails_onlyI) (rule fails_only_at [OF fails_echo [OF assms(1,2)]])
  show ?thesis unfolding replace_user_def using assms by (intro only_intros e)
qed

lemma fails_churn_loop [only_intros]:
  assumes "aead_ok E" "documented_errors E"
  shows "fails_only slots_ok client_error (churn_loop E index n slot)"
proof (induction n arbitrary: index slot)
  case (Suc n)
  have "fails_only slots_ok client_error (churn_once E i)" for i
  proof (rule fails_onlyI)
    fix C :: "'a client" assume C: "slots_ok C"
    let ?ss = "active_slots (uc_sessions C)"
    let ?slot = "?ss ! nat (i mod int (length ?ss))"
    show "res_only client_error (fst (churn_once E i C)) \<and> slots_ok (snd (churn_once E i C))"
    proof (cases "?ss = []")
      case False
      then have "nat (i mod int (length ?ss)) < length ?ss" by (simp add: nat_less_iff)
      then have "?slot \<in> set ?ss" by (rule nth_mem)
      then have "us_ok (uc_sessions C ! nat ?slot)" "us_active (uc_sessions C ! nat ?slot)"
        using C by (auto simp: set_active slots_ok_def list_all_length)
      from fails_only_at [OF fails_replace [OF assms this] C] show ?thesis using False by (simp add: churn_once_def Let_def)
    qed (simp add: churn_once_def C)
  qed
  then show ?case using Suc by (auto intro!: only_intros)
qed (simp add: only_intros)

lemma fails_command [only_intros]:
  assumes "aead_ok E" "documented_errors E"
  shows "fails_only slots_ok client_error (client_command E text)"
proof -
  note io = only_intros client_errors_derived(3) fails_echo [OF assms] assms
  have elapsed: "res_only client_error (check_elapsed t u)" for t u by (simp add: check_elapsed_def guardR_def)
  have quit: "fails_only slots_ok client_error (uc_io (serial_write E t))" for t
    using assms by (intro fails_io port_errors)
  have leave: "fails_only slots_ok client_error (cmd_leave E text)" unfolding cmd_leave_def by (intro io)
  have fill: "fails_only slots_ok client_error (cmd_fill E text)" unfolding cmd_fill_def by (intro io) simp
  have first: "fails_only slots_ok client_error (\<lambda>C. if active_slots (uc_sessions C) = [] then join_next E 0 C else retA () C)"
    using fails_only_at [OF fails_join [OF assms(2)]] by (intro fails_onlyI) simp
  have churn: "fails_only slots_ok client_error (cmd_churn E text)"
    unfolding cmd_churn_def by (intro io first elapsed) simp
  have user: "fails_only slots_ok client_error (cmd_user text)"
    unfolding cmd_user_def by (intro io) simp
  have one: "fails_only slots_ok client_error (round_over E r ss)" for r ss
    by (induction ss) (auto intro!: io)
  have all: "fails_only slots_ok client_error (rounds_over E rs ss)" for rs ss
    by (induction rs) (auto intro!: io one)
  have "fails_only slots_ok client_error (bindA (uc_io read_perf) (\<lambda>began. bindA (rounds_over E rs ss) (\<lambda>_.
      bindA (uc_io read_perf) (\<lambda>ended. liftR (check_elapsed began ended)))))" for rs ss
    by (intro io all elapsed)
  then have rounds: "fails_only slots_ok client_error (run_rounds E n)" for n
    by (simp add: fails_only_def run_rounds_def Let_def)
  have send: "fails_only slots_ok client_error (send_message E text)"
    using fails_only_at [OF fails_echo [OF assms]] by (intro fails_onlyI) (simp add: send_message_def split: option.split)
  show ?thesis unfolding client_command_def going_on_def
    by (intro io quit leave fill churn user rounds send)
qed



section \<open>The end of the program\<close>



section \<open>Witness\<close>





end
