(* ===== verification/Tools.thy ===== *)
theory Tools
  imports DemoEnv PqcCrypto BoardTypes
begin

text \<open>
  The command-line tools: \<open>gen_board_b_keys.py\<close>, which writes the C header with the keys of board B,
  \<open>verify_kat.py\<close>, \<open>check_hello.py\<close> and \<open>verify_with_python.py\<close>, which checks the vectors produced by
  the C code.  Files enter as their contents (text files as their lines), key generation and
  decapsulation of the kyber-py package as functions; what is printed is not modelled.
\<close>

section \<open>The key header\<close>

definition c_literal :: "byte \<Rightarrow> string" where
  "c_literal x = ''0x'' @ fmt_hex 2 (uint x)"

definition c_row :: "bytes \<Rightarrow> string" where
  "c_row bs = ''    '' @ py_join '', '' (map c_literal bs)"

function c_rows :: "nat \<Rightarrow> bytes \<Rightarrow> string list" where
  "c_rows start bs = (if start < length bs then c_row (take 12 (drop start bs)) # c_rows (start + 12) bs else [])"
  by pat_completeness auto

termination by (relation "measure (\<lambda>(start, bs). length bs - start)") auto

declare c_rows.simps [simp del]

definition newline :: string where "newline = [CHR 0x0A]"

definition c_array :: "string \<Rightarrow> bytes \<Rightarrow> string" where
  "c_array name bs =
     ''static const uint8_t '' @ name @ ''['' @ str_int (int (length bs)) @ ''] = {'' @ newline
     @ py_join ('','' @ newline) (c_rows 0 bs) @ newline @ ''};'' @ newline"

text \<open>\<open>main\<close>: the text written, or the message \<open>SystemExit\<close> carries.\<close>

definition key_header :: "bytes \<times> bytes \<Rightarrow> string + string" where
  "key_header = (\<lambda>(public_key, secret_key).
     if length public_key \<noteq> 800 \<or> length secret_key \<noteq> 1632 then Inl ''Unexpected ML-KEM-512 key length''
     else Inr (''#ifndef BOARD_B_KEYS_H'' @ newline @ ''#define BOARD_B_KEYS_H'' @ newline @ newline
       @ ''#include <stdint.h>'' @ newline @ newline
       @ c_array ''board_b_public_key'' public_key
       @ newline @ c_array ''board_b_secret_key'' secret_key
       @ newline @ ''#endif'' @ newline))"

text \<open>Reading an array back, as a C compiler does: the initialisers between the braces, separated by commas
  and white space, each a literal \<open>0x..\<close> of a byte.\<close>

fun split_comma :: "string \<Rightarrow> string list" where
  "split_comma [] = [[]]"
| "split_comma (c # s) =
     (if c = CHR '','' then [] # split_comma s
      else case split_comma s of [] \<Rightarrow> [[c]] | f # fs \<Rightarrow> (c # f) # fs)"

definition read_literal :: "string \<Rightarrow> byte option" where
  "read_literal s =
     (if prefix ''0x'' s then
        (case py_int 16 (drop 2 s) of Inr v \<Rightarrow> if 0 \<le> v \<and> v < 256 then Some (word_of_int v) else None | Inl _ \<Rightarrow> None)
      else None)"

definition between_braces :: "string \<Rightarrow> string" where
  "between_braces s = takeWhile (\<lambda>c. c \<noteq> CHR 0x7D) (tl (dropWhile (\<lambda>c. c \<noteq> CHR 0x7B) s))"

definition read_array :: "string \<Rightarrow> bytes option" where
  "read_array s = those (map (\<lambda>f. read_literal (py_strip f)) (split_comma (between_braces s)))"

section \<open>The known-answer test\<close>

definition EXPECTED_SHARED_SECRET :: bytes where
  "EXPECTED_SHARED_SECRET = [0xee, 0x5f, 0x8f, 0x90, 0xfb, 0x6f, 0x15, 0xa5, 0x93, 0x45, 0x04, 0xe1, 0xf6, 0x5c,
     0x23, 0xad, 0x2d, 0x60, 0x96, 0x41, 0x04, 0xbf, 0x42, 0x46, 0x38, 0x76, 0x36, 0x3a, 0x79, 0x9d,
     0xee, 0x4f]"

text \<open>The exit status, given what \<open>ML_KEM_512.decaps\<close> does.\<close>

definition verify_kat :: "(bytes \<Rightarrow> bytes \<Rightarrow> bytes res) \<Rightarrow> bytes \<Rightarrow> bytes \<Rightarrow> int res" where
  "verify_kat decaps secret_key ciphertext =
     bindR (decaps secret_key ciphertext) (\<lambda>recovered.
     Inr (if recovered \<noteq> EXPECTED_SHARED_SECRET then 1 else 0))"

section \<open>The board check\<close>

text \<open>One try waits three seconds for a line that starts with \<open>HELLO\<close>; the wall clock is taken not to be set
  back meanwhile.  The result is the name the board gives, absent after three tries without an answer.\<close>

function hello_wait :: "'d env \<Rightarrow> real \<Rightarrow> ('d world, string option) act" where
  "hello_wait E t w =
     (if now w < t + 3 then
        (case sr_readline E (dev w) of
           (Inl e, d) \<Rightarrow> (Inl e, (tick w)\<lparr>dev := d\<rparr>)
         | (Inr raw, d) \<Rightarrow>
             let line = py_strip (decode_ascii raw) in
             if prefix ''HELLO'' line
             then (bindR (py_get (py_split line) 1) (\<lambda>name. Inr (Some name)), (tick w)\<lparr>dev := d\<rparr>)
             else hello_wait E t ((tick w)\<lparr>dev := d\<rparr>))
      else (Inr None, tick w))"
  by pat_completeness auto

termination
  by (relation "measure (\<lambda>(E, t, w). readings_left (t + 3) w)") (auto simp: readings_left_tick)

declare hello_wait.simps [simp del]

definition hello_try :: "'d env \<Rightarrow> ('d world, string option) act" where
  "hello_try E = bindA (serial_write E ''HELLO'') (\<lambda>_ w. hello_wait E (now w) (tick w))"

fun hello_tries :: "'d env \<Rightarrow> nat \<Rightarrow> ('d world, string option) act" where
  "hello_tries E 0 = retA None"
| "hello_tries E (Suc n) =
     bindA (hello_try E) (\<lambda>answer. case answer of Some name \<Rightarrow> retA (Some name) | None \<Rightarrow> hello_tries E n)"

definition check_hello :: "'d env \<Rightarrow> ('d world, int) act" where
  "check_hello E = bindA (hello_tries E 3) (\<lambda>answer. retA (if answer = None then 1 else 0))"

section \<open>The golden vectors\<close>

text \<open>\<open>VECTOR_PATTERN\<close> on a line of ASCII text: its name, its length and its hexadecimal digits.\<close>

definition is_digit_char :: "char \<Rightarrow> bool" where
  "is_digit_char c = (let n = (of_char c :: nat) in 48 \<le> n \<and> n \<le> 57)"

definition is_word_char :: "char \<Rightarrow> bool" where
  "is_word_char c = (let n = (of_char c :: nat) in
     is_digit_char c \<or> 65 \<le> n \<and> n \<le> 90 \<or> 97 \<le> n \<and> n \<le> 122 \<or> c = CHR ''_'')"

definition is_lower_hex :: "char \<Rightarrow> bool" where
  "is_lower_hex c = (let n = (of_char c :: nat) in is_digit_char c \<or> 97 \<le> n \<and> n \<le> 102)"

definition match_vector :: "string \<Rightarrow> (string \<times> string \<times> string) option" where
  "match_vector line =
     (let name = takeWhile is_word_char line; rest = dropWhile is_word_char line in
      if name = [] \<or> \<not> prefix ''['' rest then None
      else
        let digits = takeWhile is_digit_char (drop 1 rest); rest = dropWhile is_digit_char (drop 1 rest) in
        if digits = [] \<or> \<not> prefix ''] = '' rest then None
        else
          let hex = drop 4 rest in
          if hex = [] \<or> \<not> list_all is_lower_hex hex then None else Some (name, digits, hex))"

definition load_vector :: "(string \<rightharpoonup> bytes) \<Rightarrow> string \<Rightarrow> (string \<rightharpoonup> bytes) res" where
  "load_vector vectors line =
     (case match_vector line of
        None \<Rightarrow> Inr vectors
      | Some (name, length_text, hex_text) \<Rightarrow>
          bindR (bytes_fromhex hex_text) (\<lambda>v.
          bindR (py_int 10 length_text) (\<lambda>n.
          bindR (guardR (int (length v) = n) AssertionError) (\<lambda>_. Inr (vectors(name \<mapsto> v))))))"

fun load_golden :: "(string \<rightharpoonup> bytes) \<Rightarrow> string list \<Rightarrow> (string \<rightharpoonup> bytes) res" where
  "load_golden vectors [] = Inr vectors"
| "load_golden vectors (line # rest) = bindR (load_vector vectors line) (\<lambda>vectors. load_golden vectors rest)"

definition vector :: "(string \<rightharpoonup> bytes) \<Rightarrow> string \<Rightarrow> bytes res" where
  "vector vectors name = (case vectors name of None \<Rightarrow> Inl (MissingKey name) | Some v \<Rightarrow> Inr v)"

definition assertR :: "bool \<Rightarrow> unit res" where
  "assertR c = guardR c AssertionError"

definition check_hashes :: "(string \<rightharpoonup> bytes) \<Rightarrow> unit res" where
  "check_hashes V =
     bindR (vector V ''public_key'') (\<lambda>pk.
     bindR (vector V ''fingerprint_sha3_256'') (\<lambda>fingerprint.
     bindR (assertR (sha3_256 pk = fingerprint)) (\<lambda>_.
     bindR (vector V ''aad'') (\<lambda>a. let session_id = take 4 a in
     bindR (vector V ''kem_ciphertext'') (\<lambda>ct. let transcript_hash = sha3_256 (pk @ ct @ session_id) in
     bindR (vector V ''transcript_hash'') (\<lambda>expected.
     bindR (assertR (transcript_hash = expected)) (\<lambda>_.
     bindR (vector V ''shared_secret'') (\<lambda>ss.
     bindR (vector V ''kdf_output'') (\<lambda>kdf.
     assertR (shake_256 (KDF_DOMAIN @ ss @ transcript_hash) 72 = kdf))))))))))"

text \<open>The one-bit tampering must raise \<open>InvalidTag\<close>.\<close>

definition check_tampered :: "'d env \<Rightarrow> bytes \<Rightarrow> bytes \<Rightarrow> bytes \<Rightarrow> bytes \<Rightarrow> unit res" where
  "check_tampered E key n encrypted a =
     bindR (flip_first_bit encrypted) (\<lambda>tampered.
     case aead_decrypt E key n tampered a of
       Inl InvalidTag \<Rightarrow> Inr ()
     | Inl e \<Rightarrow> Inl e
     | Inr _ \<Rightarrow> Inl AssertionError)"

definition check_aead :: "'d env \<Rightarrow> (string \<rightharpoonup> bytes) \<Rightarrow> unit res" where
  "check_aead E V =
     bindR (vector V ''pc_to_zb_key'') (\<lambda>key.
     bindR (vector V ''nonce'') (\<lambda>n.
     bindR (vector V ''padded_plaintext'') (\<lambda>plain.
     bindR (vector V ''aad'') (\<lambda>a.
     bindR (aead_encrypt E key n plain a) (\<lambda>encrypted.
     bindR (vector V ''ciphertext'') (\<lambda>ct.
     bindR (vector V ''tag'') (\<lambda>tag.
     bindR (assertR (encrypted = ct @ tag)) (\<lambda>_.
     bindR (aead_decrypt E key n encrypted a) (\<lambda>decrypted.
     bindR (assertR (decrypted = plain)) (\<lambda>_.
     check_tampered E key n encrypted a))))))))))"

definition golden_main :: "'d env \<Rightarrow> string list \<Rightarrow> bytes \<Rightarrow> unit res" where
  "golden_main E lines packet_bin =
     bindR (load_golden Map.empty lines) (\<lambda>V.
     bindR (check_hashes V) (\<lambda>_.
     bindR (check_aead E V) (\<lambda>_.
     bindR (vector V ''packet'') (\<lambda>packet.
     assertR (packet_bin = packet)))))"

end
