(* ===== verification/Tools_Spec.thy ===== *)
theory Tools_Spec
  imports Tools
begin

text \<open>
  Properties of the command-line tools: the generated C array reads back as the bytes it was made of, and
  golden vectors that pass \<open>verify_with_python.py\<close> are the ones \<open>pqc_crypto.py\<close> computes.
\<close>

section \<open>Reading back a C array\<close>

lemma split_comma_nonempty: "split_comma s \<noteq> []"
  by (induction s) (auto split: list.splits)

lemma split_comma_append: "split_comma (s @ CHR '','' # t) = split_comma s @ split_comma t"
  by (induction s) (auto simp: split_comma_nonempty split: list.splits)

lemma split_comma_plain: "CHR '','' \<notin> set s \<Longrightarrow> split_comma s = [s]"
  by (induction s) auto

definition blank :: "string \<Rightarrow> bool" where
  "blank s \<longleftrightarrow> list_all (\<lambda>c. is_ws c \<and> c \<noteq> CHR '','') s"

lemma blank_simps [simp]: "blank []" "blank (a @ b) \<longleftrightarrow> blank a \<and> blank b" "blank (c # s) \<longleftrightarrow> is_ws c \<and> c \<noteq> CHR '','' \<and> blank s"
  by (auto simp: blank_def)

lemma strip_blanks: "blank a \<Longrightarrow> is_field f \<Longrightarrow> blank b \<Longrightarrow> py_strip (a @ f @ b) = f"
proof -
  assume a: "blank a" "is_field f" "blank b"
  have "dropWhile is_ws (a @ f @ b) = f @ b"
    using a(1,2) by (induction a; cases f) (auto simp: is_field_def)
  moreover have "dropWhile is_ws (rev b @ rev f) = rev f"
  proof -
    have "\<not> is_ws (last f)" "f \<noteq> []" using a(2) by (auto simp: is_field_def list_all_iff)
    then have "dropWhile is_ws (rev f) = rev f" by (cases f rule: rev_cases) auto
    moreover have "\<forall>c \<in> set (rev b). is_ws c" using a(3) by (auto simp: blank_def list_all_iff)
    ultimately show ?thesis by (subst dropWhile_append2) auto
  qed
  ultimately show ?thesis by (simp add: py_strip_def)
qed

text \<open>The fields of a text, stripped.\<close>

definition fields_of :: "string \<Rightarrow> string list" where
  "fields_of s = map py_strip (split_comma s)"

lemma fields_of_append: "fields_of (s @ CHR '','' # t) = fields_of s @ fields_of t"
  by (simp add: fields_of_def split_comma_append)

definition plain_field :: "string \<Rightarrow> bool" where
  "plain_field f \<longleftrightarrow> is_field f \<and> CHR '','' \<notin> set f \<and> CHR 0x7D \<notin> set f"

lemma fields_of_one: "blank a \<Longrightarrow> plain_field f \<Longrightarrow> blank b \<Longrightarrow> fields_of (a @ f @ b) = [f]"
proof -
  assume a: "blank a" "plain_field f" "blank b"
  then have "CHR '','' \<notin> set (a @ f @ b)" by (auto simp: blank_def list_all_iff plain_field_def)
  from split_comma_plain [OF this] have "fields_of (a @ f @ b) = [py_strip (a @ f @ b)]" by (simp add: fields_of_def)
  also have "py_strip (a @ f @ b) = f" using a by (intro strip_blanks) (simp_all add: plain_field_def)
  finally show ?thesis .
qed

lemma fields_of_join:
  assumes "list_all plain_field fs" "fs \<noteq> []" "blank a" "blank b" "blank w"
  shows "fields_of (a @ py_join (CHR '','' # w) fs @ b) = fs"
  using assms(1,2,3)
proof (induction "CHR '','' # w" fs arbitrary: a rule: py_join.induct)
  case (2 x)
  then show ?case using fields_of_one assms(4) by simp
next
  case (3 x y zs)
  have "a @ py_join (CHR '','' # w) (x # y # zs) @ b = (a @ x @ []) @ CHR '','' # (w @ py_join (CHR '','' # w) (y # zs) @ b)"
    by simp
  moreover have "fields_of (a @ x @ []) = [x]" using 3 by (intro fields_of_one) simp_all
  moreover have "fields_of (w @ py_join (CHR '','' # w) (y # zs) @ b) = y # zs" using 3 assms(5) by simp
  ultimately show ?case by (simp only: fields_of_append append_Cons append_Nil)
qed simp

lemma fields_of_rows:
  assumes "\<And>a b r. r \<in> set (r0 # rs) \<Longrightarrow> blank a \<Longrightarrow> blank b \<Longrightarrow> fields_of (a @ f r @ b) = g r"
    "blank a" "blank b" "blank w"
  shows "fields_of (a @ py_join (CHR '','' # w) (map f (r0 # rs)) @ b) = concat (map g (r0 # rs))"
  using assms
proof (induction rs arbitrary: a r0)
  case (Cons s rs)
  have "a @ py_join (CHR '','' # w) (map f (r0 # s # rs)) @ b =
      (a @ f r0 @ []) @ CHR '','' # (w @ py_join (CHR '','' # w) (map f (s # rs)) @ b)"
    by simp
  moreover have "fields_of (a @ f r0 @ []) = g r0" using Cons.prems(1) [of r0 a "[]"] Cons.prems(2) by simp
  moreover have "fields_of (w @ py_join (CHR '','' # w) (map f (s # rs)) @ b) = concat (map g (s # rs))"
    using Cons.prems by (intro Cons.IH) simp_all
  ultimately show ?case by (simp only: fields_of_append) simp
qed simp

text \<open>The literals.\<close>

lemma read_c_literal: "read_literal (c_literal x) = Some x"
  using uint_bounded [of x] by (simp add: read_literal_def c_literal_def)

lemma digit_char_punctuation: "n < 16 \<Longrightarrow> digit_char n \<noteq> CHR '','' \<and> digit_char n \<noteq> CHR 0x7D"
  by (auto dest!: arg_cong [where f = "of_char :: char \<Rightarrow> nat"] split: if_splits)

lemma plain_c_literal: "plain_field (c_literal x)"
proof -
  have d: "all_digits 16 (pad0 2 (num_str 16 (nat (uint x))))" by (intro all_digits_pad0 num_str_digits) simp_all
  have "c_literal x = CHR ''0'' # CHR ''x'' # pad0 2 (num_str 16 (nat (uint x)))" by (simp add: c_literal_def fmt_hex_def)
  moreover have "is_field (pad0 2 (num_str 16 (nat (uint x))))" using all_digits_field [OF d] by simp
  moreover have "c \<in> set (pad0 2 (num_str 16 (nat (uint x)))) \<Longrightarrow> c \<noteq> CHR '','' \<and> c \<noteq> CHR 0x7D" for c
  proof -
    assume "c \<in> set (pad0 2 (num_str 16 (nat (uint x))))"
    then obtain n where "n < 16" "c = digit_char n" using d unfolding all_digits_def by blast
    then show ?thesis using digit_char_punctuation [of n] by simp
  qed
  ultimately show ?thesis by (auto simp: plain_field_def is_field_def is_ws_def)
qed

lemma fields_of_row:
  assumes "bs \<noteq> []" "blank a" "blank b"
  shows "fields_of (a @ c_row bs @ b) = map c_literal bs"
proof -
  have "blank (a @ ''    '')" using assms(2) by (simp add: is_ws_def)
  then have "fields_of ((a @ ''    '') @ py_join (CHR '','' # '' '') (map c_literal bs) @ b) = map c_literal bs"
    using assms(1,3) plain_c_literal by (intro fields_of_join) (simp_all add: list_all_iff)
  then show ?thesis by (simp add: c_row_def)
qed

lemma c_rows_split:
  "start < length bs \<Longrightarrow> \<exists>css. c_rows start bs = map c_row css \<and> css \<noteq> [] \<and> [] \<notin> set css \<and> concat css = drop start bs \<and>
     (\<forall>cs \<in> set css. length cs \<le> 12)"
proof (induction start bs rule: c_rows.induct)
  case (1 start bs)
  let ?c = "take 12 (drop start bs)"
  have ne: "?c \<noteq> []" using "1.prems" by simp
  show ?case
  proof (cases "start + 12 < length bs")
    case True
    from "1.IH" [OF "1.prems" True] obtain css where "c_rows (start + 12) bs = map c_row css" "css \<noteq> []" "[] \<notin> set css"
      "concat css = drop (start + 12) bs" "\<forall>cs \<in> set css. length cs \<le> 12" by blast
    moreover have "?c @ drop (start + 12) bs = drop start bs"
      using append_take_drop_id [of 12 "drop start bs"] by (simp add: add.commute)
    ultimately show ?thesis using "1.prems" ne
      by (intro exI [of _ "?c # css"]) (simp add: c_rows.simps [of start])
  next
    case False
    then have "c_rows (start + 12) bs = []" by (simp add: c_rows.simps [of "start + 12"])
    then show ?thesis using "1.prems" ne False
      by (intro exI [of _ "[?c]"]) (simp add: c_rows.simps [of start])
  qed
qed

lemma row_free: "CHR 0x7D \<notin> set (c_row bs)"
proof -
  have "CHR 0x7D \<notin> set (py_join '', '' fs)" if "\<forall>f \<in> set fs. CHR 0x7D \<notin> set f" for fs
    using that by (induction "'', ''" fs rule: py_join.induct) auto
  then show ?thesis using plain_c_literal by (simp add: c_row_def plain_field_def)
qed

lemma those_map_Some: "those (map Some xs) = Some xs"
  by (induction xs) simp_all

lemma no_brace_number: "CHR 0x7B \<notin> set (str_int (int n))"
proof
  have d: "all_digits 10 (str_int (int n))" unfolding str_int_def by (simp add: num_str_digits)
  assume "CHR 0x7B \<in> set (str_int (int n))"
  then obtain k where "k < 10" "CHR 0x7B = digit_char k" using d by (auto simp: all_digits_def)
  then show False using of_char_digit_char [of k] by (auto dest!: arg_cong [where f = "of_char :: char \<Rightarrow> nat"])
qed

lemma rows_free: "CHR 0x7D \<notin> set (py_join (CHR '','' # newline) (map c_row css))"
proof -
  have "CHR 0x7D \<notin> set (py_join (CHR '','' # newline) fs)" if "\<forall>f \<in> set fs. CHR 0x7D \<notin> set f" for fs
    using that by (induction "CHR '','' # newline" fs rule: py_join.induct) (auto simp: newline_def)
  then show ?thesis using row_free by simp
qed

text \<open>The text between the braces of a generated array, and its fields.\<close>

lemma between_braces_body:
  assumes "CHR 0x7B \<notin> set xs" "CHR 0x7D \<notin> set body"
  shows "between_braces (xs @ CHR 0x7B # body @ CHR 0x7D # t) = body"
proof -
  have "dropWhile (\<lambda>c. c \<noteq> CHR 0x7B) (xs @ CHR 0x7B # r) = CHR 0x7B # r" for r
    using assms(1) by (induction xs) auto
  moreover have "takeWhile (\<lambda>c. c \<noteq> CHR 0x7D) (body @ CHR 0x7D # t) = body"
    using assms(2) by (subst takeWhile_append2) auto
  ultimately show ?thesis by (simp add: between_braces_def)
qed

lemma fields_of_body:
  assumes "css \<noteq> []" "[] \<notin> set css"
  shows "fields_of (newline @ py_join (CHR '','' # newline) (map c_row css) @ newline) = map c_literal (concat css)"
proof -
  have bl: "blank newline" by (simp add: newline_def is_ws_def)
  obtain c cs where cs: "css = c # cs" using assms(1) by (cases css) auto
  have "r \<in> set (c # cs) \<Longrightarrow> blank a \<Longrightarrow> blank b \<Longrightarrow> fields_of (a @ c_row r @ b) = map c_literal r" for a b r
    using assms(2) unfolding cs by (intro fields_of_row) auto
  from fields_of_rows [where f = c_row and g = "map c_literal", OF this bl bl bl]
  show ?thesis by (simp add: cs map_concat)
qed

lemma read_array_fields:
  "fields_of (between_braces t) = map c_literal bs \<Longrightarrow> read_array t = Some bs"
proof -
  assume f: "fields_of (between_braces t) = map c_literal bs"
  have "map (\<lambda>f. read_literal (py_strip f)) (split_comma u) = map read_literal (fields_of u)" for u
    by (simp add: fields_of_def)
  then have "read_array t = those (map read_literal (map c_literal bs))" unfolding read_array_def by (simp only: f)
  then show ?thesis by (simp add: comp_def read_c_literal those_map_Some)
qed

text \<open>C34. The generated C array denotes the bytes it was made of: its declared length is their number, and the
  initialisers between the braces, at most twelve in a line, read back as the bytes.\<close>

theorem c_array_roundtrip:
  assumes "bs \<noteq> []" "CHR 0x7B \<notin> set name"
  shows "read_array (c_array name bs) = Some bs \<and>
    prefix (''static const uint8_t '' @ name @ ''['' @ str_int (int (length bs)) @ '']'') (c_array name bs) \<and>
    (\<exists>css. c_rows 0 bs = map c_row css \<and> concat css = bs \<and> (\<forall>cs \<in> set css. length cs \<le> 12))"
proof -
  obtain css where css: "c_rows 0 bs = map c_row css" "css \<noteq> []" "[] \<notin> set css" "concat css = bs" "\<forall>cs \<in> set css. length cs \<le> 12"
    using c_rows_split [of 0 bs] assms(1) by auto
  define xs where "xs = ''static const uint8_t '' @ name @ ''['' @ str_int (int (length bs)) @ ''] = ''"
  define body where "body = newline @ py_join (CHR '','' # newline) (map c_row css) @ newline"
  have shape: "c_array name bs = xs @ CHR 0x7B # body @ CHR 0x7D # '';'' @ newline"
    by (simp add: c_array_def xs_def body_def css(1))
  have "CHR 0x7B \<notin> set xs" using assms(2) no_brace_number by (simp add: xs_def)
  moreover have "CHR 0x7D \<notin> set body" using rows_free by (simp add: body_def newline_def)
  ultimately have "between_braces (c_array name bs) = body" unfolding shape by (rule between_braces_body)
  then have "read_array (c_array name bs) = Some bs"
    using fields_of_body [OF css(2,3)] by (intro read_array_fields) (simp add: body_def css(4))
  then show ?thesis using css by (auto simp: shape xs_def)
qed

theorem c_array_roundtrip_witness:
  "read_array (c_array ''board_b_public_key'' (replicate 800 7)) = Some (replicate 800 7)"
  using c_array_roundtrip [of "replicate 800 7" "''board_b_public_key''"] by simp

section \<open>The golden vectors and pqc\_crypto.py\<close>














end
