(* ===== verification/Canvas.thy ===== *)
theory Canvas
  imports Simulator
begin

text \<open>
  What the renderer of \<open>ui.py\<close> is built on.  The drawing package (pygame) is not in the repository: a
  drawing is the list of the calls made on the canvas, in order, and the operations of \<open>pygame.Rect\<close> and
  the width of a rendered text enter as the fields of \<open>gfx\<close>.  Drawing reads the clock, so a painter is a
  function of the controller that returns its calls and the controller with the clock readings counted.
\<close>

section \<open>Rectangles and calls\<close>

record rect =
  r_x :: int
  r_y :: int
  r_w :: int
  r_h :: int

type_synonym point = "int \<times> int"
type_synonym color = "int \<times> int \<times> int"

definition Rect :: "int \<Rightarrow> int \<Rightarrow> int \<Rightarrow> int \<Rightarrow> rect" where
  "Rect x y w h = \<lparr>r_x = x, r_y = y, r_w = w, r_h = h\<rparr>"

lemma Rect_sel [simp]:
  "r_x (Rect x y w h) = x" "r_y (Rect x y w h) = y" "r_w (Rect x y w h) = w" "r_h (Rect x y w h) = h"
  by (simp_all add: Rect_def)

record gfx =
  g_right :: "rect \<Rightarrow> int"
  g_bottom :: "rect \<Rightarrow> int"
  g_center :: "rect \<Rightarrow> point"
  g_around :: "point \<Rightarrow> int \<times> int \<Rightarrow> rect"     \<comment> \<open>a rectangle of that size after \<open>rect.center = point\<close>\<close>
  g_inflate :: "int \<Rightarrow> int \<Rightarrow> rect \<Rightarrow> rect"
  g_hit :: "rect \<Rightarrow> point \<Rightarrow> bool"                \<comment> \<open>\<open>collidepoint\<close>\<close>
  g_text_width :: "string \<Rightarrow> string \<Rightarrow> int"        \<comment> \<open>of a text in a font\<close>

text \<open>
  What pygame documents of \<open>Rect\<close>: the right and bottom edges lie one width and height from the corner,
  a point on them is outside, moving and inflating keep a rectangle centred (up to the rounding of half
  a pixel), and widths of texts are not negative.
\<close>

definition gfx_ok :: "gfx \<Rightarrow> bool" where
  "gfx_ok G \<longleftrightarrow>
     (\<forall>r. g_right G r = r_x r + r_w r \<and> g_bottom G r = r_y r + r_h r) \<and>
     (\<forall>r px py. g_hit G r (px, py) \<longleftrightarrow> r_x r \<le> px \<and> px < r_x r + r_w r \<and> r_y r \<le> py \<and> py < r_y r + r_h r) \<and>
     (\<forall>cx cy w h. let r = g_around G (cx, cy) (w, h) in r_w r = w \<and> r_h r = h \<and>
        \<bar>2 * r_x r + w - 2 * cx\<bar> \<le> 1 \<and> \<bar>2 * r_y r + h - 2 * cy\<bar> \<le> 1) \<and>
     (\<forall>r a b. let q = g_inflate G (2 * a) (2 * b) r in
        r_x q = r_x r - a \<and> r_y q = r_y r - b \<and> r_w q = r_w r + 2 * a \<and> r_h q = r_h r + 2 * b) \<and>
     (\<forall>f t. 0 \<le> g_text_width G f t)"

text \<open>A call; the width and the corner radius that a call leaves out are 0.\<close>

datatype shape =
    Fill color
  | Box color rect int int
  | Line color point point int
  | Circle color point int int
  | Arc color rect real real int
  | Label string point string color string

type_synonym 'b painter = "'b controller \<Rightarrow> shape list \<times> 'b controller"

definition strokes :: "shape list \<Rightarrow> 'b painter" where
  "strokes xs C = (xs, C)"

definition followed :: "'b painter \<Rightarrow> 'b painter \<Rightarrow> 'b painter" where
  "followed p q C = (case p C of (xs, C) \<Rightarrow> case q C of (ys, C) \<Rightarrow> (xs @ ys, C))"

fun paint_all :: "'b painter list \<Rightarrow> 'b painter" where
  "paint_all [] = strokes []"
| "paint_all (p # ps) = followed p (paint_all ps)"

section \<open>Numbers\<close>

text \<open>\<open>int(x)\<close> of a float, \<open>range(a, b, step)\<close>, and the formats \<open>:.1f\<close> and \<open>:.2f\<close>.\<close>

definition py_trunc :: "real \<Rightarrow> int" where
  "py_trunc x = (if 0 \<le> x then \<lfloor>x\<rfloor> else \<lceil>x\<rceil>)"

definition py_range :: "int \<Rightarrow> int \<Rightarrow> int \<Rightarrow> int list" where
  "py_range a b step = map (\<lambda>i. a + step * int i) [0..<nat ((b - a + step - 1) div step)]"

definition fmt_fixed :: "nat \<Rightarrow> real \<Rightarrow> string" where
  "fmt_fixed n x =
     (let p = 10 ^ n;
          digits = (\<lambda>y. let k = round_even (real_of_int p * y)
                        in str_int (k div p) @ ''.'' @ pad0 n (str_int (k mod p)))
      in if x < 0 then ''-'' @ digits (- x) else digits x)"

lemma py_trunc_bounds: "a \<le> x \<Longrightarrow> x \<le> b \<Longrightarrow> 0 \<le> x \<Longrightarrow> real_of_int (py_trunc x) \<le> b \<and> a - 1 < real_of_int (py_trunc x)"
  unfolding py_trunc_def by (simp, linarith)

lemma py_trunc_le: "0 \<le> x \<Longrightarrow> x \<le> real_of_int n \<Longrightarrow> py_trunc x \<le> n"
  by (simp add: py_trunc_def) linarith

lemma py_trunc_ge: "real_of_int n \<le> x \<Longrightarrow> 0 \<le> n \<Longrightarrow> n \<le> py_trunc x"
  by (simp add: py_trunc_def le_floor_iff)

section \<open>Colours and layout\<close>

definition LOGICAL_SIZE :: "int \<times> int" where "LOGICAL_SIZE = (1600, 900)"

definition BG :: color where "BG = (10, 16, 27)"
definition PANEL :: color where "PANEL = (20, 29, 45)"
definition PANEL_2 :: color where "PANEL_2 = (25, 36, 55)"
definition TEXT :: color where "TEXT = (225, 232, 241)"
definition MUTED :: color where "MUTED = (139, 153, 175)"
definition BLUE :: color where "BLUE = (45, 139, 255)"
definition ORANGE :: color where "ORANGE = (255, 151, 58)"
definition GREEN :: color where "GREEN = (57, 211, 153)"
definition RED :: color where "RED = (255, 82, 105)"
definition YELLOW :: color where "YELLOW = (255, 208, 74)"
definition GREY :: color where "GREY = (126, 139, 158)"
definition WHITE :: color where "WHITE = (242, 245, 250)"
definition ROAD :: color where "ROAD = (45, 50, 60)"
definition DARK :: color where "DARK = (8, 14, 23)"
definition GLASS :: color where "GLASS = (181, 211, 232)"
definition LEGEND :: color where "LEGEND = (176, 187, 204)"

definition ROAD_TOP :: int where "ROAD_TOP = 164"
definition ROAD_HEIGHT :: int where "ROAD_HEIGHT = 220"

definition round_panel :: "rect \<Rightarrow> shape list" where
  "round_panel r = [Box PANEL r 0 14, Box (47, 62, 84) r 1 14]"

definition tl_text :: "string \<Rightarrow> point \<Rightarrow> string \<Rightarrow> color \<Rightarrow> shape" where
  "tl_text t p font c = Label t p font c ''topleft''"

definition button :: "gfx \<Rightarrow> rect \<Rightarrow> string \<Rightarrow> color \<Rightarrow> shape list" where
  "button G r t c = [Box c r 0 9, Label t (g_center G r) ''small'' WHITE ''center'']"

end
