(* ===== verification/Ui.thy ===== *)
theory Ui
  imports Canvas "HOL-Library.Sublist"
begin

text \<open>
  \<open>DemoUI\<close> of \<open>ui.py\<close>: the drawing of a frame, one function per method, and the handling of an event.
  The statistics of the workers are read at one moment of the frame.
\<close>

section \<open>Vehicles\<close>

text \<open>\<open>_draw_body\<close>: a part of the body between two fractions of the length and of the height, and a
  column.\<close>

definition body_part :: "gfx \<Rightarrow> rect \<Rightarrow> int \<Rightarrow> real \<Rightarrow> real \<Rightarrow> real \<Rightarrow> real \<Rightarrow> rect" where
  "body_part G r direction u0 u1 v0 v1 =
     (let w = real_of_int (r_w r); h = real_of_int (r_h r);
          (x0, x1) = (if direction > 0 then (real_of_int (r_x r) + u0 * w, real_of_int (r_x r) + u1 * w)
                      else (real_of_int (g_right G r) - u1 * w, real_of_int (g_right G r) - u0 * w))
      in Rect (py_trunc x0) (py_trunc (real_of_int (r_y r) + v0 * h)) (max 1 (py_trunc (x1 - x0)))
           (max 1 (py_trunc ((v1 - v0) * h))))"

definition body_px :: "gfx \<Rightarrow> rect \<Rightarrow> int \<Rightarrow> real \<Rightarrow> int" where
  "body_px G r direction u =
     (if direction > 0 then py_trunc (real_of_int (r_x r) + u * real_of_int (r_w r))
      else py_trunc (real_of_int (g_right G r) - u * real_of_int (r_w r)))"

definition wheels :: "gfx \<Rightarrow> rect \<Rightarrow> int \<Rightarrow> int \<Rightarrow> real list \<Rightarrow> shape list" where
  "wheels G r direction radius us = map (\<lambda>u. Circle (5, 8, 13) (body_px G r direction u, g_bottom G r) radius 0) us"

definition wheel_radius :: "real \<Rightarrow> int" where
  "wheel_radius scale = max 3 (py_trunc (5 * scale))"

definition bike_body :: "gfx \<Rightarrow> rect \<Rightarrow> int \<Rightarrow> color \<Rightarrow> shape list" where
  "bike_body G r direction c =
     (let h = real_of_int (r_h r); wr = max 3 (py_trunc (h * (30 / 100)));
          px = body_px G r direction; body = body_part G r direction (20 / 100) (80 / 100) (35 / 100) (75 / 100)
      in [Box c body 0 3, Box DARK body 1 3,
          Circle c (px (55 / 100), r_y r + py_trunc (h * (20 / 100))) (max 3 (py_trunc (h * (20 / 100)))) 0,
          Line c (px (55 / 100), r_y r + py_trunc (h * (30 / 100))) (px (80 / 100), r_y body) 3]
         @ map (\<lambda>u. Circle (5, 8, 13) (px u, g_bottom G r - wr + 2) wr 3) [15 / 100, 85 / 100])"

definition truck_body :: "gfx \<Rightarrow> rect \<Rightarrow> int \<Rightarrow> color \<Rightarrow> real \<Rightarrow> int \<Rightarrow> shape list" where
  "truck_body G r direction c scale rad =
     (let part = body_part G r direction; px = body_px G r direction;
          cargo = part 0 (70 / 100) 0 1; cab = part (73 / 100) 1 (22 / 100) 1
      in [Box c cargo 0 3, Box DARK cargo 2 3]
         @ map (\<lambda>u. Line DARK (px u, r_y cargo + 3) (px u, g_bottom G cargo - 3) 1) [8 / 100, 62 / 100]
         @ [Box c cab 0 rad, Box DARK cab 2 rad, Box GLASS (part (82 / 100) (96 / 100) (32 / 100) (55 / 100)) 0 2]
         @ wheels G r direction (wheel_radius scale) [12 / 100, 30 / 100, 86 / 100])"

definition bus_body :: "gfx \<Rightarrow> rect \<Rightarrow> int \<Rightarrow> real \<Rightarrow> shape list" where
  "bus_body G r direction scale =
     (let part = body_part G r direction in
      map (\<lambda>i. let u0 = 6 / 100 + real i * (145 / 1000)
               in Box GLASS (part u0 (u0 + 11 / 100) (14 / 100) (42 / 100)) 0 2) [0..<5]
      @ [Box GLASS (part (86 / 100) (96 / 100) (14 / 100) (62 / 100)) 0 2]
      @ wheels G r direction (wheel_radius scale) [17 / 100, 82 / 100])"

definition suv_body :: "gfx \<Rightarrow> rect \<Rightarrow> int \<Rightarrow> real \<Rightarrow> shape list" where
  "suv_body G r direction scale =
     (let part = body_part G r direction in
      [Box GLASS (part (22 / 100) (50 / 100) (12 / 100) (40 / 100)) 0 2,
       Box GLASS (part (54 / 100) (84 / 100) (12 / 100) (40 / 100)) 0 2]
      @ wheels G r direction (max 4 (py_trunc (6 * scale))) [20 / 100, 80 / 100])"

text \<open>The ambulance's light bar blinks with the clock: \<open>t\<close> is the reading.\<close>

definition ambulance_body :: "gfx \<Rightarrow> rect \<Rightarrow> int \<Rightarrow> real \<Rightarrow> real \<Rightarrow> shape list" where
  "ambulance_body G r direction scale t =
     (let part = body_part G r direction;
          cross = part (14 / 100) (34 / 100) (12 / 100) (52 / 100);
          (cx, cy) = g_center G cross;
          arm = max 2 (r_h cross div 6);
          blink = (py_trunc (t * 4) mod 2 = 0);
          bar = part (44 / 100) (62 / 100) (- (18 / 100)) (2 / 100);
          half = r_w bar div 2
      in [Box WHITE (part 0 1 (58 / 100) (74 / 100)) 0 0,
          Box RED (Rect (cx - arm) (r_y cross) (arm * 2) (r_h cross)) 0 0,
          Box RED (Rect (cx - r_h cross div 2) (cy - arm) (r_h cross) (arm * 2)) 0 0,
          Box GLASS (part (66 / 100) (90 / 100) (12 / 100) (44 / 100)) 0 2,
          Box (if blink then RED else BLUE) (Rect (r_x bar) (r_y bar) half (r_h bar)) 0 2,
          Box (if blink then BLUE else RED) (Rect (r_x bar + half) (r_y bar) (r_w bar - half) (r_h bar)) 0 2]
         @ wheels G r direction (wheel_radius scale) [20 / 100, 80 / 100])"

definition sedan_body :: "gfx \<Rightarrow> rect \<Rightarrow> int \<Rightarrow> real \<Rightarrow> shape list" where
  "sedan_body G r direction scale =
     Box GLASS (body_part G r direction (48 / 100) (84 / 100) (14 / 100) (44 / 100)) 0 3
     # wheels G r direction (wheel_radius scale) [22 / 100, 78 / 100]"

definition draw_body :: "gfx \<Rightarrow> vkind \<Rightarrow> rect \<Rightarrow> int \<Rightarrow> color \<Rightarrow> real \<Rightarrow> 'b painter" where
  "draw_body G kind r direction c scale C =
     (let rad = max 2 (py_trunc (7 * scale)); shell = [Box c r 0 rad, Box DARK r 2 rad] in
      case kind of
        Bike \<Rightarrow> (bike_body G r direction c, C)
      | Truck \<Rightarrow> (truck_body G r direction c scale rad, C)
      | Bus \<Rightarrow> (shell @ bus_body G r direction scale, C)
      | Suv \<Rightarrow> (shell @ suv_body G r direction scale, C)
      | Ambulance \<Rightarrow> (case ct_time C of (t, C) \<Rightarrow> (shell @ ambulance_body G r direction scale t, C))
      | Sedan \<Rightarrow> (shell @ sedan_body G r direction scale, C))"

definition vehicle_color :: "vehicle \<Rightarrow> color" where
  "vehicle_color v =
     (if v_state v \<in> {Connecting, Handover, Exiting} then GREY
      else case v_board v of Some BoardA \<Rightarrow> BLUE | Some BoardB \<Rightarrow> ORANGE | None \<Rightarrow> WHITE)"

definition v_label :: "vehicle \<Rightarrow> string" where
  "v_label v = str_int (v_id v)"

definition vehicle_label :: "gfx \<Rightarrow> vehicle \<Rightarrow> rect \<Rightarrow> shape" where
  "vehicle_label G v r =
     (let (cx, cy) = g_center G r in
      case v_kind v of
        Bike \<Rightarrow> Label (v_label v) (cx, r_y r - 2) ''xs'' WHITE ''midbottom''
      | Truck \<Rightarrow> Label (v_label v)
          (r_x r + py_trunc (real_of_int (r_w r) * (if v_direction v > 0 then 35 / 100 else 65 / 100)), cy + 1) ''xs'' BG ''center''
      | _ \<Rightarrow> Label (v_label v) (cx, cy + 1) ''xs'' BG ''center'')"

definition draw_vehicle :: "gfx \<Rightarrow> vehicle \<Rightarrow> rect \<Rightarrow> real \<Rightarrow> 'b painter" where
  "draw_vehicle G v r scale C =
     (let (body, C) = draw_body G (v_kind v) r (v_direction v) (vehicle_color v) scale C;
          selected = (ct_selected C = Some (v_id v));
          (t, C) = ct_time C;
          attacked = (t < v_attacked v)
      in (body @ [vehicle_label G v r]
          @ (if selected \<or> attacked then [Box (if attacked then RED else WHITE) (g_inflate G 10 10 r) 3 10] else [])
          @ (if v_state v = Handover then [Label ''HANDOVER'' (fst (g_center G r), r_y r - 16) ''xs'' YELLOW ''center''] else []), C))"

section \<open>Header\<close>

definition legend_width :: "gfx \<Rightarrow> int" where
  "legend_width G =
     sum_list (map (\<lambda>k. py_trunc (real_of_int (length_px (VEHICLE_KINDS k)) * (45 / 100)) + 5
        + g_text_width G ''xs'' (vk_title (VEHICLE_KINDS k))) all_kinds) + 16 * (int (length all_kinds) - 1)"

fun legend_items :: "gfx \<Rightarrow> int \<Rightarrow> int \<Rightarrow> vkind list \<Rightarrow> 'b painter" where
  "legend_items G x center_y [] = strokes []"
| "legend_items G x center_y (k # ks) =
     (let spec = VEHICLE_KINDS k;
          w = py_trunc (real_of_int (length_px spec) * (45 / 100));
          h = py_trunc (real_of_int (height_px spec) * (45 / 100));
          r = Rect x (center_y - h div 2 - 2) w h
      in followed (draw_body G k r 1 LEGEND (45 / 100))
        (followed (strokes [Label (vk_title spec) (x + (w + 5), center_y) ''xs'' MUTED ''midleft''])
          (legend_items G (x + (w + 5) + (g_text_width G ''xs'' (vk_title spec) + 16)) center_y ks)))"

definition draw_legend :: "gfx \<Rightarrow> int \<Rightarrow> int \<Rightarrow> 'b painter" where
  "draw_legend G right center_y = legend_items G (right - legend_width G) center_y all_kinds"

definition draw_header :: "gfx \<Rightarrow> 'b painter" where
  "draw_header G C =
     followed (strokes [tl_text ''Zynq FPGA PQC Secure Handover'' (40, 25) ''title'' TEXT,
         tl_text ''ML-KEM session establishment  +  ChaCha20-Poly1305 authenticated data'' (42, 67) ''small'' MUTED])
       (if ct_mock C then draw_legend G 1560 52
        else let badge = Rect 1325 30 235 44 in
          followed (strokes [Box (35, 73, 128) badge 0 22, Label ''2-BOARD UART'' (g_center G badge) ''small'' WHITE ''center''])
            (draw_legend G 1305 52)) C"

section \<open>Road\<close>

definition radians :: "real \<Rightarrow> real" where "radians d = d * pi / 180"

definition draw_antenna :: "point \<Rightarrow> color \<Rightarrow> shape list" where
  "draw_antenna center c =
     (let (x, y) = center in
      [Line c (x, y + 18) (x, y - 14) 3, Circle c (x, y - 17) 4 0]
      @ map (\<lambda>radius. Arc c (Rect (x - radius) (y - 17 - radius) (radius * 2) (radius * 2)) (radians 205) (radians 335) 2) [12, 22]
      @ [Line c (x, y + 18) (x - 13, y + 30) 3, Line c (x, y + 18) (x + 13, y + 30) 3])"

definition lane_height :: "nat \<Rightarrow> real" where
  "lane_height per_dir = real_of_int ROAD_HEIGHT / real (per_dir * 2)"

definition lane_lines :: "nat \<Rightarrow> shape list" where
  "lane_lines per_dir =
     concat (map (\<lambda>i. let y = py_trunc (real_of_int ROAD_TOP + lane_height per_dir * real i) in
        if i = per_dir then [Line YELLOW (84, y - 3) (1516, y - 3) 2, Line YELLOW (84, y + 2) (1516, y + 2) 2]
        else map (\<lambda>x. Box (205, 211, 220) (Rect x (y - 1) 38 3) 0 2) (py_range 95 1510 70)) [1..<per_dir * 2])"

definition road_ground :: "nat \<Rightarrow> shape list" where
  "road_ground per_dir =
     round_panel (Rect 40 100 1520 340)
     @ [Box ROAD (Rect 78 ROAD_TOP 1444 ROAD_HEIGHT) 0 14,
        Box (29, 62, 101) (Rect 78 ROAD_TOP 722 ROAD_HEIGHT) 0 14,
        Box (101, 60, 28) (Rect 800 ROAD_TOP 722 ROAD_HEIGHT) 0 14,
        Box ROAD (Rect 78 ROAD_TOP 1444 ROAD_HEIGHT) 2 14]
     @ lane_lines per_dir
     @ [Line YELLOW (800, 136) (800, 411) 3]
     @ map (\<lambda>y. Line BG (800, y) (800, y + 8) 3) (py_range 136 412 18)
     @ [tl_text ''CELL A'' (98, 118) ''sub'' BLUE,
        tl_text ''ZedBoard A'' (98, 145) ''small'' MUTED,
        Label ''CELL B'' (1502, 118) ''sub'' ORANGE ''topright'',
        Label ''ZedBoard B'' (1502, 145) ''small'' MUTED ''topright'',
        Label ''200 m  HANDOVER BOUNDARY'' (800, 414) ''xs'' YELLOW ''midtop'']
     @ draw_antenna (205, 135) BLUE @ draw_antenna (1395, 135) ORANGE
     @ [tl_text ''0 m'' (78, 390) ''xs'' MUTED, Label ''400 m'' (1522, 390) ''xs'' MUTED ''topright'']"

definition vehicle_scale :: "nat \<Rightarrow> real" where
  "vehicle_scale per_dir = min 1 ((lane_height per_dir - 10) / 34)"

text \<open>The rectangle of a vehicle, and the larger one that takes its clicks.\<close>

definition vehicle_rect :: "gfx \<Rightarrow> nat \<Rightarrow> vehicle \<Rightarrow> rect" where
  "vehicle_rect G per_dir v =
     (let x = 100 + py_trunc ((v_position v / ROAD_METERS) * 1400);
          y = py_trunc (real_of_int ROAD_TOP + lane_height per_dir * (real_of_int (v_lane v) + 1 / 2));
          spec = VEHICLE_KINDS (v_kind v); scale = vehicle_scale per_dir
      in g_around G (x, y) (py_trunc (real_of_int (length_px spec) * scale), py_trunc (real_of_int (height_px spec) * scale)))"

text \<open>\<open>d[k] = x\<close> on a dictionary, as an association list in insertion order.\<close>

fun dict_set :: "'k \<Rightarrow> 'a \<Rightarrow> ('k \<times> 'a) list \<Rightarrow> ('k \<times> 'a) list" where
  "dict_set k x [] = [(k, x)]"
| "dict_set k x ((j, y) # d) = (if j = k then (j, x) # d else (j, y) # dict_set k x d)"

definition vehicle_rects :: "gfx \<Rightarrow> nat \<Rightarrow> vehicle list \<Rightarrow> (int \<times> rect) list" where
  "vehicle_rects G per_dir vs =
     foldl (\<lambda>d v. dict_set (v_id v) (g_inflate G 6 6 (vehicle_rect G per_dir v)) d) [] vs"

definition draw_road :: "gfx \<Rightarrow> 'b painter" where
  "draw_road G C =
     followed (strokes (road_ground (ct_lanes C)))
       (paint_all (map (\<lambda>v. draw_vehicle G v (vehicle_rect G (ct_lanes C) v) (vehicle_scale (ct_lanes C))) (ct_vehicles C))) C"

section \<open>Board panels\<close>

definition slot_cell :: "rect \<Rightarrow> nat \<Rightarrow> rect" where
  "slot_cell r slot = Rect (r_x r + 20 + int (slot mod 8) * (41 + 3)) (r_y r + 60 + int (slot div 8) * 23) 41 20"

definition draw_slot :: "gfx \<Rightarrow> rect \<Rightarrow> color \<Rightarrow> board_stats \<Rightarrow> nat \<Rightarrow> shape list" where
  "draw_slot G r accent st slot =
     (let cell = slot_cell r slot; occupant = slots st ! slot in
      [Box (case occupant of None \<Rightarrow> PANEL_2 | Some _ \<Rightarrow> accent) cell 0 4,
       Label (case occupant of None \<Rightarrow> str_int (int slot) | Some vehicle_id \<Rightarrow> str_int vehicle_id) (g_center G cell) ''xs''
         (case occupant of None \<Rightarrow> (87, 103, 127) | Some _ \<Rightarrow> BG) ''center''])"

definition draw_board_panel :: "gfx \<Rightarrow> board_id \<Rightarrow> rect \<Rightarrow> color \<Rightarrow> 'b controller \<Rightarrow> shape list" where
  "draw_board_panel G name r accent C =
     (let w = ct_workers C name; st = wk_stats w;
          online = (connected st \<and> bs_error st = []);
          grid_y = r_y r + 60; sx = r_x r + 382; footer_y = g_bottom G r - 28
      in round_panel r
         @ [Circle accent (r_x r + 25, r_y r + 27) 7 0,
            tl_text (''BOARD '' @ board_str name) (r_x r + 42, r_y r + 13) ''sub'' TEXT,
            Label (if online then ''ONLINE'' else ''ERROR'') (g_right G r - 20, r_y r + 18) ''xs''
              (if online then GREEN else RED) ''topright'']
         @ concat (map (draw_slot G r accent st) [0..<MAX_SESSIONS])
         @ [tl_text ''ACTIVE'' (sx, grid_y) ''xs'' MUTED,
            tl_text (str_int (active_count st) @ ''/64'') (sx, grid_y + 16) ''num'' accent,
            tl_text ''PENDING'' (sx, grid_y + 58) ''xs'' MUTED,
            tl_text (str_int (int (pending_count w))) (sx, grid_y + 75) ''body'' TEXT,
            tl_text ''LAST KEM'' (sx, grid_y + 110) ''xs'' MUTED,
            tl_text (str_int (last_kem_us st) @ '' us'') (sx, grid_y + 127) ''body'' TEXT,
            (if kem_samples st \<noteq> 0
             then tl_text (''avg '' @ fmt_f0 (average_kem_us st) @ '' us'') (sx, grid_y + 156) ''xs'' GREEN
             else tl_text ''avg --'' (sx, grid_y + 156) ''xs'' MUTED),
            tl_text (''DATA OK  '' @ str_int (data_ok st)) (r_x r + 20, footer_y) ''xs'' GREEN,
            tl_text (''FAIL  '' @ str_int (data_fail st)) (r_x r + 145, footer_y) ''xs'' RED,
            tl_text (''BLOCKED  '' @ str_int (attacks_blocked st)) (r_x r + 245, footer_y) ''xs'' YELLOW,
            Label (''RTT  '' @ fmt_fixed 1 (last_rtt_ms st) @ '' ms'') (g_right G r - 18, footer_y) ''xs'' MUTED ''topright''])"

section \<open>Event log and controls\<close>

definition event_color :: "string \<Rightarrow> color" where
  "event_color kind =
     (case map_of [(''OPEN'', GREEN), (''HO'', YELLOW), (''LEAVE'', MUTED), (''ATTACK'', RED), (''BLOCKED'', GREEN),
        (''ERROR'', RED), (''SYSTEM'', BLUE)] kind of None \<Rightarrow> TEXT | Some c \<Rightarrow> c)"

definition clipped :: "string \<Rightarrow> string" where
  "clipped message = (if length message \<le> 58 then message else take 55 message @ ''...'')"

fun log_lines :: "gfx \<Rightarrow> rect \<Rightarrow> int \<Rightarrow> (string \<times> string) list \<Rightarrow> shape list" where
  "log_lines G r y [] = []"
| "log_lines G r y ((kind, message) # events) =
     (if y + 20 > g_bottom G r - 6 then []
      else [Circle (event_color kind) (r_x r + 18, y + 10) 4 0, tl_text (clipped message) (r_x r + 31, y) ''xs'' TEXT]
           @ log_lines G r (y + 26) events)"

definition draw_event_log :: "gfx \<Rightarrow> rect \<Rightarrow> 'b controller \<Rightarrow> shape list" where
  "draw_event_log G r C =
     round_panel r
     @ [tl_text ''LIVE EVENT LOG'' (r_x r + 22, r_y r + 12) ''small'' TEXT,
        Label (''HANDOVERS  '' @ str_int (ct_handovers C)) (g_right G r - 20, r_y r + 15) ''xs'' YELLOW ''topright'']
     @ log_lines G r (r_y r + 42) (ct_events C)"

definition selected_vehicle :: "'b controller \<Rightarrow> vehicle option" where
  "selected_vehicle C =
     (case ct_selected C of None \<Rightarrow> None
      | Some n \<Rightarrow> map_option (\<lambda>i. the_vehicle i C) (vehicle_by_id n C))"

definition target_status :: "vehicle \<Rightarrow> string" where
  "target_status v =
     (case v_board v of None \<Rightarrow> ''-'' | Some b \<Rightarrow> board_str b) @ '' / slot ''
     @ (case v_slot v of None \<Rightarrow> ''-'' | Some s \<Rightarrow> str_int s)"

definition control_buttons :: "rect \<Rightarrow> (string \<times> rect) list" where
  "control_buttons r =
     [(''attack'', Rect (r_x r + 410) (r_y r + 17) 210 48), (''pause'', Rect (r_x r + 640) (r_y r + 17) 135 48),
      (''quit'', Rect (r_x r + 795) (r_y r + 17) 135 48)]"

definition draw_controls :: "gfx \<Rightarrow> rect \<Rightarrow> 'b controller \<Rightarrow> shape list" where
  "draw_controls G r C =
     (let selected = selected_vehicle C in
      round_panel r
      @ [tl_text ''ATTACK TARGET'' (r_x r + 22, r_y r + 14) ''xs'' MUTED,
         tl_text (case selected of None \<Rightarrow> ''Click a vehicle'' | Some v \<Rightarrow> v_title v) (r_x r + 22, r_y r + 35) ''sub'' TEXT,
         tl_text (case selected of None \<Rightarrow> ''No target selected'' | Some v \<Rightarrow> target_status v) (r_x r + 270, r_y r + 41) ''small'' MUTED]
      @ button G (Rect (r_x r + 410) (r_y r + 17) 210 48) ''TAMPER DATA'' RED
      @ button G (Rect (r_x r + 640) (r_y r + 17) 135 48) (if ct_running C then ''PAUSE'' else ''START'') BLUE
      @ button G (Rect (r_x r + 795) (r_y r + 17) 135 48) ''EXIT'' GREY
      @ [tl_text (''ATTACKS '' @ str_int (ct_attempts C) @ ''   BLOCKED '' @ str_int (ct_blocked C))
           (r_x r + 410, g_bottom G r + 12) ''xs'' MUTED,
         Label ''Space: pause   T: attack   F11: fullscreen'' (g_right G r, g_bottom G r + 12) ''xs'' MUTED ''topright''])"

section \<open>ML-KEM panel\<close>

text \<open>\<open>_dashed_hline\<close> with its default dash and gap.\<close>

function dashes :: "color \<Rightarrow> int \<Rightarrow> int \<Rightarrow> int \<Rightarrow> shape list" where
  "dashes c stop_x y x =
     (if x < stop_x then Line c (x, y) (min (x + 8) stop_x, y) 1 # dashes c stop_x y (x + (8 + 6)) else [])"
  by pat_completeness auto

termination by (relation "measure (\<lambda>(c, stop_x, y, x). nat (stop_x - x))") auto

declare dashes.simps [simp del]

definition dashed_hline :: "gfx \<Rightarrow> rect \<Rightarrow> int \<Rightarrow> color \<Rightarrow> shape list" where
  "dashed_hline G box y c = dashes c (g_right G box - 6) y (r_x box + 6)"

text \<open>The numbers on the left; the rate reads the clock.\<close>

definition kem_rows :: "'b controller \<Rightarrow> (string \<times> string \<times> color) list \<times> 'b controller" where
  "kem_rows C =
     (let samples = ct_kem_samples C;
          first = [(''PS SW avg ('' @ (if sw_live C then ''live'' else ''ref'') @ '')'', fmt_f0 (ps_kem_us C) @ '' us'', RED),
                   (''PL HW avg'', if samples \<noteq> 0 then fmt_f0 (average_pl_kem_us C) @ '' us'' else ''--'', GREEN)]
      in if samples = 0 then (first, C)
         else
           let (lo, hi) = kem_min_max C; jitter = recent_jitter_us C; (rate, C) = kem_rate_per_s C
           in (first @ [(''PL min / max'', str_int lo @ '' / '' @ str_int hi @ '' us'', TEXT),
                 (''jitter / rate'', fmt_f0 jitter @ '' us / '' @ fmt_fixed 1 rate @ ''/s'', TEXT)], C))"

fun row_texts :: "int \<Rightarrow> int \<Rightarrow> (string \<times> string \<times> color) list \<Rightarrow> shape list" where
  "row_texts lx y [] = []"
| "row_texts lx y ((label, shown, c) # rows) =
     tl_text label (lx, y) ''xs'' MUTED # Label shown (lx + 205, y) ''xs'' c ''topright'' # row_texts lx (y + 21) rows"

definition kem_numbers :: "gfx \<Rightarrow> rect \<Rightarrow> 'b painter" where
  "kem_numbers G r C =
     (let samples = ct_kem_samples C; lx = r_x r + 22; ly = r_y r + 44; speedup = mlkem_speedup C;
          sw_n = ct_sw_samples C; (rows, C) = kem_rows C
      in (round_panel r
          @ [tl_text ''ML-KEM LIVE ANALYSIS'' (r_x r + 22, r_y r + 12) ''small'' TEXT,
             Label (''PL n='' @ str_int samples @ ''   SW n='' @ str_int sw_n) (g_right G r - 20, r_y r + 15) ''xs'' MUTED ''topright'',
             tl_text ''SPEEDUP  PS SW / PL HW'' (lx, ly) ''xs'' MUTED,
             (if samples \<noteq> 0 then tl_text (fmt_fixed 2 speedup @ ''x'') (lx, ly + 16) ''big'' GREEN
              else tl_text ''--'' (lx, ly + 16) ''big'' MUTED)]
          @ row_texts lx (ly + 74) rows, C))"

text \<open>The chart: its area, the samples of the last 30 seconds, the scale and the two coordinate functions.\<close>

definition chart_rect :: "rect \<Rightarrow> rect" where
  "chart_rect r = Rect (r_x r + 250) (r_y r + 44) (r_w r - 272) (r_h r - 66)"

definition recent :: "real \<Rightarrow> (real \<times> 'a) list \<Rightarrow> (real \<times> 'a) list" where
  "recent t xs = filter (\<lambda>(h, _). t - h \<le> 30) xs"

definition chart_top :: "real \<Rightarrow> (real \<times> board_id \<times> int \<times> reason) list \<Rightarrow> (real \<times> board_id \<times> int) list \<Rightarrow> real" where
  "chart_top ps pl sw =
     foldl max ps (map (\<lambda>(_, _, k, _). real_of_int k) pl @ map (\<lambda>(_, _, k). real_of_int k) sw) * (115 / 100)"

definition y_of :: "gfx \<Rightarrow> rect \<Rightarrow> real \<Rightarrow> real \<Rightarrow> int" where
  "y_of G chart peak v =
     py_trunc (real_of_int (g_bottom G chart - 6) - (v / peak) * real_of_int (r_h chart - 12))"

definition x_of :: "gfx \<Rightarrow> rect \<Rightarrow> real \<Rightarrow> real \<Rightarrow> int" where
  "x_of G chart t h =
     py_trunc (real_of_int (g_right G chart - 8) - (t - h) / 30 * real_of_int (r_w chart - 16))"

definition chart_lines :: "gfx \<Rightarrow> rect \<Rightarrow> real \<Rightarrow> 'b controller \<Rightarrow> shape list" where
  "chart_lines G chart peak C =
     (let ps = ps_kem_us C; avg = average_pl_kem_us C in
      [Box PANEL_2 chart 0 8, tl_text ''decaps time (us), last 30 s'' (r_x chart + 8, r_y chart + 4) ''xs'' MUTED]
      @ dashed_hline G chart (y_of G chart peak ps) RED
      @ [Label (''SW '' @ fmt_f0 ps) (g_right G chart - 6, y_of G chart peak ps + 4) ''xs'' RED ''topright'']
      @ (if ct_kem_samples C \<noteq> 0
         then dashed_hline G chart (y_of G chart peak avg) GREEN
              @ [Label (''HW '' @ fmt_f0 avg) (g_right G chart - 6, y_of G chart peak avg + 8) ''xs'' GREEN ''topright'']
         else []))"

definition chart_points :: "gfx \<Rightarrow> rect \<Rightarrow> real \<Rightarrow> real \<Rightarrow> (real \<times> board_id \<times> int \<times> reason) list \<Rightarrow> (real \<times> board_id \<times> int) list \<Rightarrow> shape list" where
  "chart_points G chart peak t pl sw =
     map (\<lambda>(h, _, k). Circle RED (x_of G chart t h, y_of G chart peak (real_of_int k)) 3 0) sw
     @ concat (map (\<lambda>(h, board, k, why).
         let pos = (x_of G chart t h, y_of G chart peak (real_of_int k)) in
         Circle (if board = BoardA then BLUE else ORANGE) pos 3 0
         # (if why = HandoverNew then [Circle YELLOW pos 5 1] else [])) pl)"

fun chart_legend :: "gfx \<Rightarrow> int \<Rightarrow> int \<Rightarrow> (string \<times> color) list \<Rightarrow> shape list" where
  "chart_legend G lg_y cx [] = []"
| "chart_legend G lg_y cx ((label, c) # items) =
     Circle c (cx, lg_y + 8) 4 0 # tl_text label (cx + 8, lg_y) ''xs'' MUTED
     # chart_legend G lg_y (cx + (g_text_width G ''xs'' label + 24)) items"

definition draw_chart :: "gfx \<Rightarrow> rect \<Rightarrow> real \<Rightarrow> 'b controller \<Rightarrow> shape list res" where
  "draw_chart G chart t C =
     (let pl = recent t (ct_kem_history C); sw = recent t (ct_sw_history C); peak = chart_top (ps_kem_us C) pl sw in
      bindR (guardR (peak \<noteq> 0) (ZeroDivisionError ''float division by zero'')) (\<lambda>_.
      Inr (chart_lines G chart peak C
        @ (if pl = [] \<and> sw = []
           then (if ct_kem_samples C = 0
                 then [Label ''waiting for ML-KEM sessions...'' (g_center G chart) ''xs'' MUTED ''center''] else [])
           else chart_points G chart peak t pl sw
                @ chart_legend G (g_bottom G chart + 4) (r_x chart + 10)
                    [(''SW'', RED), (''HW A'', BLUE), (''HW B'', ORANGE), (''handover'', YELLOW)]))))"

definition draw_kem_panel :: "gfx \<Rightarrow> rect \<Rightarrow> ('b controller, shape list) act" where
  "draw_kem_panel G r C =
     (let (numbers, C) = kem_numbers G r C; (t, C) = ct_time C
      in (bindR (draw_chart G (chart_rect r) t C) (\<lambda>chart. Inr (numbers @ chart)), C))"

section \<open>The frame\<close>

text \<open>The fonts that are loaded: name, then family, size and weight.\<close>

definition FONTS :: "(string \<times> string \<times> int \<times> bool) list" where
  "FONTS = [(''xs'', ''segoeui,arial'', 15, False), (''small'', ''segoeui,arial'', 18, False),
     (''body'', ''segoeui,arial'', 21, False), (''sub'', ''segoeui,arial'', 25, True),
     (''title'', ''segoeui,arial'', 34, True), (''big'', ''segoeui,arial'', 44, True),
     (''num'', ''segoeui,arial'', 30, True)]"

datatype window_mode = RESIZABLE | FULLSCREEN

text \<open>The window shows nothing or a canvas scaled to a size.\<close>

record 'b ui =
  ui_controller :: "'b controller"
  ui_caption :: string
  ui_mode :: window_mode
  ui_fonts :: "(string \<times> string \<times> int \<times> bool) list"
  ui_canvas :: "shape list"
  ui_rects :: "(int \<times> rect) list"
  ui_buttons :: "(string \<times> rect) list"
  ui_size :: "int \<times> int"       \<comment> \<open>\<open>screen.get_size()\<close>\<close>
  ui_screen :: "(shape list \<times> (int \<times> int)) option"
  ui_toggles :: nat             \<comment> \<open>calls of \<open>toggle_fullscreen\<close>\<close>
  ui_open :: bool

text \<open>The size of a window that was asked for \<open>LOGICAL_SIZE\<close> is the window system's to decide.\<close>

definition new_ui :: "'b controller \<Rightarrow> bool \<Rightarrow> int \<times> int \<Rightarrow> 'b ui" where
  "new_ui C fullscreen sz =
     \<lparr>ui_controller = C, ui_caption = ''Zynq FPGA PQC Secure Handover Demo'',
      ui_mode = (if fullscreen then FULLSCREEN else RESIZABLE), ui_fonts = FONTS, ui_canvas = [], ui_rects = [],
      ui_buttons = [], ui_size = sz, ui_screen = None, ui_toggles = 0, ui_open = True\<rparr>"

definition close_ui :: "'b ui \<Rightarrow> 'b ui" where
  "close_ui U = U\<lparr>ui_open := False\<rparr>"

definition draw :: "gfx \<Rightarrow> ('b ui, unit) act" where
  "draw G U =
     (let (front, C) = paint_all [strokes [Fill BG], draw_header G, draw_road G,
            (\<lambda>C. (draw_board_panel G BoardA (Rect 40 470 470 280) BLUE C, C)),
            (\<lambda>C. (draw_board_panel G BoardB (Rect 530 470 470 280) ORANGE C, C))] (ui_controller U);
          U = U\<lparr>ui_canvas := front, ui_rects := vehicle_rects G (ct_lanes C) (ct_vehicles C)\<rparr>
      in case draw_kem_panel G (Rect 1020 470 540 215) C of
           (Inl e, C) \<Rightarrow> (Inl e, U\<lparr>ui_controller := C\<rparr>)
         | (Inr kem, C) \<Rightarrow>
             let canvas = front @ kem @ draw_event_log G (Rect 1020 697 540 153) C @ draw_controls G (Rect 40 770 960 80) C
             in (Inr (), U\<lparr>ui_controller := C, ui_canvas := canvas,
                   ui_buttons := control_buttons (Rect 40 770 960 80), ui_screen := Some (canvas, ui_size U)\<rparr>))"

text \<open>\<open>save_screenshot\<close> on a file system, a path being the list of its components: the directories on the way
  are made, and the canvas is written, not the scaled screen.\<close>

record disk =
  dk_dirs :: "string list set"
  dk_images :: "string list \<rightharpoonup> shape list"

definition save_screenshot :: "string list \<Rightarrow> 'b ui \<Rightarrow> disk \<Rightarrow> disk" where
  "save_screenshot path U k =
     k\<lparr>dk_dirs := dk_dirs k \<union> set (prefixes (butlast path)), dk_images := (dk_images k)(path \<mapsto> ui_canvas U)\<rparr>"

section \<open>Events\<close>

datatype key = KEscape | KQ | KSpace | KT | KF11 | KOther

datatype ui_event = QuitEvent | KeyDown key | MouseDown int point | OtherEvent

definition logical_mouse :: "int \<times> int \<Rightarrow> point \<Rightarrow> point res" where
  "logical_mouse sz pos =
     (case (sz, pos) of ((width, height), (px, py)) \<Rightarrow>
       bindR (guardR (width \<noteq> 0 \<and> height \<noteq> 0) (ZeroDivisionError ''division by zero'')) (\<lambda>_.
       Inr (py_trunc (real_of_int (px * 1600) / real_of_int width), py_trunc (real_of_int (py * 900) / real_of_int height))))"

definition on_controller :: "('b controller \<Rightarrow> 'b controller) \<Rightarrow> 'b ui \<Rightarrow> 'b ui" where
  "on_controller f U = U\<lparr>ui_controller := f (ui_controller U)\<rparr>"

text \<open>A button under the point; going on looks at the next one.  The result says whether to quit.\<close>

fun press_buttons :: "'b board_ops \<Rightarrow> gfx \<Rightarrow> point \<Rightarrow> (string \<times> rect) list \<Rightarrow> 'b ui \<Rightarrow> bool \<times> 'b ui" where
  "press_buttons B G p [] U = (False, U)"
| "press_buttons B G p ((name, r) # rest) U =
     (if g_hit G r p then
        (if name = ''pause'' then press_buttons B G p rest (on_controller toggle_running U)
         else if name = ''attack'' then press_buttons B G p rest (on_controller (\<lambda>C. snd (attack_selected B C)) U)
         else if name = ''quit'' then (True, U)
         else press_buttons B G p rest U)
      else press_buttons B G p rest U)"

definition click :: "'b board_ops \<Rightarrow> gfx \<Rightarrow> point \<Rightarrow> 'b ui \<Rightarrow> bool \<times> 'b ui" where
  "click B G p U =
     (case List.find (\<lambda>(_, r). g_hit G r p) (ui_rects U) of
        Some (vehicle_id, _) \<Rightarrow> (False, on_controller (select_vehicle (Some vehicle_id)) U)
      | None \<Rightarrow> press_buttons B G p (ui_buttons U) U)"

definition press_key :: "'b board_ops \<Rightarrow> key \<Rightarrow> 'b ui \<Rightarrow> bool \<times> 'b ui" where
  "press_key B k U =
     (if k = KEscape \<or> k = KQ then (True, U)
      else
        let U = (if k = KSpace then on_controller toggle_running U else U);
            U = (if k = KT then on_controller (\<lambda>C. snd (attack_selected B C)) U else U)
        in (False, if k = KF11 then U\<lparr>ui_toggles := ui_toggles U + 1\<rparr> else U))"

definition handle_event :: "'b board_ops \<Rightarrow> gfx \<Rightarrow> ui_event \<Rightarrow> ('b ui, bool) act" where
  "handle_event B G e U =
     (case e of
        QuitEvent \<Rightarrow> (Inr True, U)
      | KeyDown k \<Rightarrow> (case press_key B k U of (q, U) \<Rightarrow> (Inr q, U))
      | MouseDown b pos \<Rightarrow>
          (if b \<noteq> 1 then (Inr False, U)
           else case logical_mouse (ui_size U) pos of
             Inl err \<Rightarrow> (Inl err, U)
           | Inr p \<Rightarrow> (case click B G p U of (q, U) \<Rightarrow> (Inr q, U)))
      | OtherEvent \<Rightarrow> (Inr False, U))"

end
