(* ===== verification/DemoMain.thy ===== *)
theory DemoMain
  imports Ui
begin

text \<open>
  \<open>demo_pr5.py\<close>: the program that puts the boards, the controller and the window together.  Parsing the
  command line is \<open>argparse\<close>'s; the checks the program makes of the parsed arguments are modelled.  A
  port that \<open>serial.Serial\<close> opens is a value \<open>'d world res\<close> (the world behind the port, or the exception),
  a window that pygame opens is a value of type \<open>unit res\<close>.  The random streams of \<open>random.Random\<close> are a
  function of the seed.
\<close>

section \<open>Arguments\<close>

record args =
  a_mock :: bool
  a_board_a :: "string option"
  a_board_b :: "string option"
  a_baud :: int
  a_vehicles :: int
  a_speed :: real
  a_lanes :: int
  a_seed :: "int option"
  a_ps_kem_us :: real
  a_fullscreen :: bool

definition default_args :: args where
  "default_args = \<lparr>a_mock = False, a_board_a = None, a_board_b = None, a_baud = 115200, a_vehicles = 12,
     a_speed = 25, a_lanes = 2, a_seed = None, a_ps_kem_us = 1258523 / 1000, a_fullscreen = False\<rparr>"

text \<open>A port name that is absent or empty counts as not given.\<close>

definition given :: "string option \<Rightarrow> bool" where
  "given p = (case p of None \<Rightarrow> False | Some s \<Rightarrow> s \<noteq> [])"

text \<open>The checks of \<open>parse_args\<close>, in order: the message of \<open>parser.error\<close>, which ends the program.\<close>

definition check_args :: "args \<Rightarrow> string + args" where
  "check_args a =
     (if \<not> a_mock a \<and> \<not> (given (a_board_a a) \<and> given (a_board_b a))
      then Inl ''use --mock or provide both --board-a and --board-b''
      else if a_mock a \<and> (given (a_board_a a) \<or> given (a_board_b a))
      then Inl ''--mock cannot be combined with real board ports''
      else if \<not> (1 \<le> a_vehicles a \<and> a_vehicles a \<le> 64) then Inl ''--vehicles must be 1..64''
      else if \<not> (1 \<le> a_lanes a \<and> a_lanes a \<le> 3) then Inl ''--lanes must be 1..3''
      else if a_ps_kem_us a \<le> 0 then Inl ''--ps-kem-us must be positive''
      else Inr a)"

section \<open>The boards\<close>

text \<open>
  The threads that were started, as a call leaves them: the state of the actions below.  \<open>open_link\<close> is
  \<open>SerialBoardLink(name, port, baud, unused)\<close> of \<open>serial_board_v2.py\<close>: open the port, then HELLO and RESET.
\<close>

type_synonym 'b threads = "'b worker list"

definition open_link :: "'d env \<Rightarrow> string \<Rightarrow> 'd world res \<Rightarrow> 'd serial_v2 res" where
  "open_link E name port =
     bindR port (\<lambda>w. case v2_init E name 3 w of (Inl e, L) \<Rightarrow> Inl e | (Inr _, L) \<Rightarrow> Inr L)"

definition start_worker :: "board_id \<Rightarrow> 'b \<Rightarrow> ('b threads, 'b worker) act" where
  "start_worker name b ts = (Inr (new_worker name b), ts @ [new_worker name b])"

definition make_mock_workers ::
    "(int option \<Rightarrow> draws) \<Rightarrow> (mock_board threads, mock_board worker \<times> mock_board worker) act" where
  "make_mock_workers rng =
     bindA (start_worker BoardA (new_mock ''A'' (rng (Some 1101)))) (\<lambda>a.
     bindA (start_worker BoardB (new_mock ''B'' (rng (Some 2202)))) (\<lambda>b. retA (a, b)))"

text \<open>When board B cannot be opened, the worker of board A is stopped and the exception goes on; \<open>n\<close> are the steps
  of its thread that the stop waits for.\<close>

definition make_serial_workers ::
    "'d env \<Rightarrow> nat \<Rightarrow> 'd world res \<Rightarrow> 'd world res \<Rightarrow>
     ('d serial_v2 threads, 'd serial_v2 worker \<times> 'd serial_v2 worker) act" where
  "make_serial_workers E n port_a port_b =
     bindA (liftR (open_link E ''A'' port_a)) (\<lambda>link_a.
     bindA (start_worker BoardA link_a) (\<lambda>a ts.
       case open_link E ''B'' port_b of
         Inl e \<Rightarrow> (Inl e, map (stop_worker (v2_ops E) n) ts)
       | Inr link_b \<Rightarrow> bindA (start_worker BoardB link_b) (\<lambda>b. retA (a, b)) ts))"

section \<open>The main loop\<close>

text \<open>\<open>any(ui.handle_event(event) == "quit" for event in ...)\<close>: events after the one that quits are not
  handled.\<close>

fun any_quit :: "'b board_ops \<Rightarrow> gfx \<Rightarrow> ui_event list \<Rightarrow> ('b ui, bool) act" where
  "any_quit B G [] = retA False"
| "any_quit B G (e # es) = bindA (handle_event B G e) (\<lambda>q. if q then retA True else any_quit B G es)"

text \<open>
  What the window system delivers for a frame: the milliseconds of \<open>clock.tick\<close>, the size of the window
  and the events.
\<close>

record frame =
  f_ms :: nat
  f_size :: "int \<times> int"
  f_events :: "ui_event list"

definition demo_frame :: "'b board_ops \<Rightarrow> gfx \<Rightarrow> frame \<Rightarrow> ('b ui, bool) act" where
  "demo_frame B G f U =
     bindA (any_quit B G (f_events f)) (\<lambda>q.
       if q then retA True
       else (\<lambda>U. bindA (draw G) (\<lambda>_. retA False) (on_controller (update B (real (f_ms f) / 1000)) U)))
     (U\<lparr>ui_size := f_size f\<rparr>)"

text \<open>The \<open>while True\<close> loop on the frames delivered so far: no result while it is still running.\<close>

fun demo_loop :: "'b board_ops \<Rightarrow> gfx \<Rightarrow> frame list \<Rightarrow> 'b ui \<Rightarrow> int res option \<times> 'b ui" where
  "demo_loop B G [] U = (None, U)"
| "demo_loop B G (f # fs) U =
     (case demo_frame B G f U of
        (Inl e, U) \<Rightarrow> (Some (Inl e), U)
      | (Inr True, U) \<Rightarrow> (Some (Inr 0), U)
      | (Inr False, U) \<Rightarrow> demo_loop B G fs U)"

text \<open>\<open>DemoController(board_a, board_b, args.vehicles, ...)\<close>\<close>

definition build_controller ::
    "'b board_ops \<Rightarrow> args \<Rightarrow> 'b worker \<times> 'b worker \<Rightarrow> (int option \<Rightarrow> draws) \<Rightarrow> (nat \<Rightarrow> board_id list) \<Rightarrow> clock \<Rightarrow>
     'b controller res" where
  "build_controller B a ws rng sched clk0 =
     new_controller B (fst ws) (snd ws) (a_mock a) sched clk0 (rng (a_seed a)) (nat (a_vehicles a)) (a_speed a)
       (nat (a_lanes a)) (a_ps_kem_us a)"

text \<open>
  The body of \<open>main\<close> after the boards are made, with its \<open>finally\<close>: the result, if the program has ended,
  and the threads as it leaves them.
\<close>

definition threads_of :: "'b controller \<Rightarrow> 'b threads" where
  "threads_of C = [ct_workers C BoardA, ct_workers C BoardB]"

definition demo_body ::
    "'b board_ops \<Rightarrow> nat \<Rightarrow> gfx \<Rightarrow> args \<Rightarrow> 'b worker \<times> 'b worker \<Rightarrow> (int option \<Rightarrow> draws) \<Rightarrow> (nat \<Rightarrow> board_id list) \<Rightarrow>
     clock \<Rightarrow> unit res \<Rightarrow> frame list \<Rightarrow> int res option \<times> 'b threads" where
  "demo_body B n G a ws rng sched clk0 window fs =
     (case build_controller B a ws rng sched clk0 of
        Inl e \<Rightarrow> (Some (Inl e), [stop_worker B n (fst ws), stop_worker B n (snd ws)])
      | Inr C \<Rightarrow>
          (case window of
             Inl e \<Rightarrow> (Some (Inl e), threads_of (shutdown B C))
           | Inr _ \<Rightarrow>
               (case demo_loop B G fs (new_ui C (a_fullscreen a) LOGICAL_SIZE) of
                  (None, U) \<Rightarrow> (None, threads_of (ui_controller U))
                | (Some r, U) \<Rightarrow> (Some r, threads_of (shutdown B (ui_controller (close_ui U)))))))"

definition demo_main ::
    "'b board_ops \<Rightarrow> nat \<Rightarrow> gfx \<Rightarrow> args \<Rightarrow> ('b threads, 'b worker \<times> 'b worker) act \<Rightarrow> (int option \<Rightarrow> draws) \<Rightarrow>
     (nat \<Rightarrow> board_id list) \<Rightarrow> clock \<Rightarrow> unit res \<Rightarrow> frame list \<Rightarrow> int res option \<times> 'b threads" where
  "demo_main B n G a boards rng sched clk0 window fs =
     (case boards [] of
        (Inl e, ts) \<Rightarrow> (Some (Inl e), ts)
      | (Inr ws, _) \<Rightarrow> demo_body B n G a ws rng sched clk0 window fs)"

end
