(* ===== verification/Ui_Spec.thy ===== *)
theory Ui_Spec
  imports Ui
begin

text \<open>
  Properties of the renderer: drawing only reads the controller, where vehicles, slots and chart points lie
  on the canvas, what a click does after a frame, and when a frame cannot be drawn.
\<close>

section \<open>Drawing only reads\<close>

text \<open>The controllers that differ at most in having read the clock some more times.\<close>

definition only_time :: "'b controller \<Rightarrow> 'b controller \<Rightarrow> bool" where
  "only_time C C' \<longleftrightarrow> (\<exists>n. C' = C\<lparr>ct_ticks := ct_ticks C + n\<rparr>)"

named_theorems reads_intros \<open>painters that only read the clock\<close>

definition reads :: "'b painter \<Rightarrow> bool" where
  "reads p \<longleftrightarrow> (\<forall>C. only_time C (snd (p C)))"

lemma only_time_refl [simp]: "only_time C C"
  unfolding only_time_def by (rule exI [of _ 0]) simp

lemma only_time_trans: "only_time C D \<Longrightarrow> only_time D E \<Longrightarrow> only_time C E"
  unfolding only_time_def by (elim exE) (rule_tac x = "n + na" in exI, simp add: add.assoc)

lemma only_time_ct_time: "ct_time C = (t, C') \<Longrightarrow> only_time C C'"
  by (auto simp: ct_time_def only_time_def intro: exI [of _ 1])

lemma only_time_sel: "only_time C C' \<Longrightarrow> ct_vehicles C' = ct_vehicles C \<and> ct_lanes C' = ct_lanes C \<and>
    ct_kem_history C' = ct_kem_history C \<and> ct_sw_history C' = ct_sw_history C \<and> ct_workers C' = ct_workers C \<and>
    ct_ps_ref C' = ct_ps_ref C \<and> ct_selected C' = ct_selected C \<and> ct_clk C' = ct_clk C"
  by (auto simp: only_time_def)

lemma reads_strokes [reads_intros]: "reads (strokes xs)"
  by (simp add: reads_def strokes_def)

lemma reads_followed [reads_intros]: "reads p \<Longrightarrow> reads q \<Longrightarrow> reads (followed p q)"
proof (unfold reads_def, intro allI)
  fix C assume p: "\<forall>C. only_time C (snd (p C))" and q: "\<forall>C. only_time C (snd (q C))"
  have "only_time C (snd (q (snd (p C))))" using p q only_time_trans by blast
  then show "only_time C (snd (followed p q C))" by (cases "p C"; cases "q (snd (p C))") (simp add: followed_def)
qed

lemma reads_all: "(\<And>p. p \<in> set ps \<Longrightarrow> reads p) \<Longrightarrow> reads (paint_all ps)"
  by (induction ps) (auto intro: reads_intros)

lemma reads_body [reads_intros]: "reads (draw_body G kind r direction c scale)"
  unfolding reads_def draw_body_def
  by (auto simp: Let_def split: vkind.split prod.split dest: only_time_ct_time)

lemma reads_vehicle [reads_intros]: "reads (draw_vehicle G v r scale)"
  unfolding reads_def
proof
  fix C
  obtain b D where d: "draw_body G (v_kind v) r (v_direction v) (vehicle_color v) scale C = (b, D)" by fastforce
  obtain t F where t: "ct_time D = (t, F)" by fastforce
  have "only_time C D" using reads_body [of G "v_kind v" r "v_direction v" "vehicle_color v" scale] d
    by (auto simp: reads_def dest: spec [of _ C])
  then have "only_time C F" using only_time_ct_time [OF t] by (rule only_time_trans)
  then show "only_time C (snd (draw_vehicle G v r scale C))" by (simp add: draw_vehicle_def d t Let_def)
qed

lemma reads_legend [reads_intros]: "reads (draw_legend G right center_y)"
proof -
  have "reads (legend_items G x center_y ks)" for x ks
    by (induction ks arbitrary: x) (simp_all add: Let_def reads_intros)
  then show ?thesis by (simp add: draw_legend_def [abs_def])
qed

lemma reads_apply: "reads p \<Longrightarrow> only_time C (snd (p C))"
  by (simp add: reads_def)

lemma reads_header [reads_intros]: "reads (draw_header G)"
  unfolding reads_def draw_header_def Let_def
  by (intro allI reads_apply) (auto intro!: reads_intros)

lemma reads_road [reads_intros]: "reads (draw_road G)"
  unfolding reads_def draw_road_def
  by (intro allI reads_apply) (auto intro!: reads_intros reads_all)

lemma reads_panel [reads_intros]: "reads (\<lambda>C. (f C, C))"
  by (simp add: reads_def)


text \<open>The front part of a frame.\<close>

definition front :: "gfx \<Rightarrow> 'b painter" where
  "front G = paint_all [strokes [Fill BG], draw_header G, draw_road G,
      (\<lambda>C. (draw_board_panel G BoardA (Rect 40 470 470 280) BLUE C, C)),
      (\<lambda>C. (draw_board_panel G BoardB (Rect 530 470 470 280) ORANGE C, C))]"

lemma reads_front: "reads (front G)"
  unfolding front_def by (rule reads_all) (auto intro: reads_intros)

lemma draw_unfold:
  "draw G U = (case front G (ui_controller U) of (xs, C) \<Rightarrow>
     let U = U\<lparr>ui_canvas := xs, ui_rects := vehicle_rects G (ct_lanes C) (ct_vehicles C)\<rparr>
     in case draw_kem_panel G (Rect 1020 470 540 215) C of
          (Inl e, C) \<Rightarrow> (Inl e, U\<lparr>ui_controller := C\<rparr>)
        | (Inr kem, C) \<Rightarrow>
            let canvas = xs @ kem @ draw_event_log G (Rect 1020 697 540 153) C @ draw_controls G (Rect 40 770 960 80) C
            in (Inr (), U\<lparr>ui_controller := C, ui_canvas := canvas,
                  ui_buttons := control_buttons (Rect 40 770 960 80), ui_screen := Some (canvas, ui_size U)\<rparr>))"
  by (simp add: draw_def front_def Let_def)


section \<open>When a frame cannot be drawn\<close>

lemma foldl_max: "foldl max (a :: real) xs = Max (insert a (set xs))"
proof (induction xs arbitrary: a)
  case (Cons x xs)
  have "Max (insert a (insert x (set xs))) = Max (insert (max a x) (set xs))"
    by (cases "set xs = {}") (simp_all add: Max_insert max.assoc)
  then show ?case using Cons by simp
qed simp

lemma chart_top_Max:
  "chart_top ps pl sw = Max (insert ps ((\<lambda>(_, _, k, _). real_of_int k) ` set pl \<union> (\<lambda>(_, _, k). real_of_int k) ` set sw)) * (115 / 100)"
  unfolding chart_top_def foldl_max by simp

lemma chart_top_ge:
  "ps * (115 / 100) \<le> chart_top ps pl sw"
  "(h, b, k, w) \<in> set pl \<Longrightarrow> real_of_int k * (115 / 100) \<le> chart_top ps pl sw"
  "(h, b, k) \<in> set sw \<Longrightarrow> real_of_int k * (115 / 100) \<le> chart_top ps pl sw"
  unfolding chart_top_Max by (auto intro!: mult_right_mono Max_ge intro: rev_image_eqI)

lemma draw_result:
  "fst (draw G U) = (let C = snd (front G (ui_controller U)); D = snd (kem_numbers G (Rect 1020 470 540 215) C);
       t = fst (ct_time D); E = snd (ct_time D) in
     if chart_top (ps_kem_us E) (recent t (ct_kem_history E)) (recent t (ct_sw_history E)) = 0
     then Inl (ZeroDivisionError ''float division by zero'') else Inr ())"
proof -
  obtain xs C where f: "front G (ui_controller U) = (xs, C)" by fastforce
  obtain ys D where n: "kem_numbers G (Rect 1020 470 540 215) C = (ys, D)" by fastforce
  obtain t E where t: "ct_time D = (t, E)" by fastforce
  show ?thesis
    by (simp add: draw_unfold draw_kem_panel_def draw_chart_def Let_def f n t)
qed

lemma draw_scale:
  obtains t where "fst (draw G U) =
    (if chart_top (ps_kem_us (ui_controller U)) (recent t (ct_kem_history (ui_controller U))) (recent t (ct_sw_history (ui_controller U))) = 0
     then Inl (ZeroDivisionError ''float division by zero'') else Inr ())"
proof -
  let ?C0 = "ui_controller U"
  define D0 where "D0 = snd (kem_numbers G (Rect 1020 470 540 215) (snd (front G ?C0)))"
  define D where "D = snd (ct_time D0)"
  have "only_time D0 D" using only_time_ct_time [of D0] by (cases "ct_time D0") (simp add: D_def)
  moreover have "only_time (snd (front G ?C0)) D0"
    by (auto simp: D0_def kem_numbers_def kem_rows_def kem_rate_per_s_def Let_def split: prod.splits dest: only_time_ct_time)
  ultimately have D: "only_time ?C0 D" using reads_apply [OF reads_front, of ?C0 G] only_time_trans by blast
  have ps: "ps_kem_us D = ps_kem_us ?C0"
    using only_time_sel [OF D] by (simp add: ps_kem_us_def ct_sw_samples_def sum_stats_def)
  show ?thesis
    using that [of "fst (ct_time D0)"] draw_result [of G U] only_time_sel [OF D] ps
    by (simp add: Let_def flip: D0_def D_def)
qed

lemma draw_succeeds: "0 < ps_kem_us (ui_controller U) \<Longrightarrow> \<exists>U'. draw G U = (Inr (), U')"
proof -
  assume "0 < ps_kem_us (ui_controller U)"
  moreover obtain t where "fst (draw G U) =
    (if chart_top (ps_kem_us (ui_controller U)) (recent t (ct_kem_history (ui_controller U))) (recent t (ct_sw_history (ui_controller U))) = 0
     then Inl (ZeroDivisionError ''float division by zero'') else Inr ())" by (rule draw_scale)
  ultimately have "fst (draw G U) = Inr ()"
    using chart_top_ge(1) [of "ps_kem_us (ui_controller U)" "recent t (ct_kem_history (ui_controller U))" "recent t (ct_sw_history (ui_controller U))"]
    by simp
  then show ?thesis by (metis prod.collapse)
qed


section \<open>Inside the chart\<close>

lemma x_of_bounds:
  assumes "gfx_ok G" "0 \<le> t - h" "t - h \<le> 30" "0 \<le> r_x c" "16 \<le> r_w c"
  shows "r_x c + 8 \<le> x_of G c t h \<and> x_of G c t h \<le> r_x c + r_w c - 8"
proof -
  let ?q = "(t - h) / 30 * real_of_int (r_w c - 16)"
  have q: "0 \<le> ?q" "?q \<le> real_of_int (r_w c - 16)" using assms(2,3,5) mult_right_mono [of "(t - h) / 30" 1 "real_of_int (r_w c - 16)"] by simp_all
  have right: "g_right G c = r_x c + r_w c" using assms(1) by (simp add: gfx_ok_def)
  have "r_x c + 8 \<le> x_of G c t h" unfolding x_of_def right by (rule py_trunc_ge) (use q assms(4) in simp_all)
  moreover have "x_of G c t h \<le> r_x c + r_w c - 8" unfolding x_of_def right by (rule py_trunc_le) (use q assms(4) in simp_all)
  ultimately show ?thesis by simp
qed

lemma y_of_bounds:
  assumes "gfx_ok G" "0 \<le> v" "v \<le> peak" "0 < peak" "0 \<le> r_y c" "12 \<le> r_h c"
  shows "r_y c + 6 \<le> y_of G c peak v \<and> y_of G c peak v \<le> r_y c + r_h c - 6"
proof -
  let ?q = "v / peak * real_of_int (r_h c - 12)"
  have "0 \<le> v / peak" "v / peak \<le> 1" using assms(2,3,4) by simp_all
  then have q: "0 \<le> ?q" "?q \<le> real_of_int (r_h c - 12)" using assms(2,4,6) mult_right_mono [of "v / peak" 1 "real_of_int (r_h c - 12)"] by simp_all
  have bottom: "g_bottom G c = r_y c + r_h c" using assms(1) by (simp add: gfx_ok_def)
  have "r_y c + 6 \<le> y_of G c peak v" unfolding y_of_def bottom by (rule py_trunc_ge) (use q assms(5) in simp_all)
  moreover have "y_of G c peak v \<le> r_y c + r_h c - 6" unfolding y_of_def bottom by (rule py_trunc_le) (use q assms(5) in simp_all)
  ultimately show ?thesis by simp
qed

text \<open>Every point of the chart is drawn inside it: for non-negative samples that are not from the future, the
  scale that \<open>draw\<close> computes keeps the circles of the last 30 seconds within the chart's margins.\<close>

theorem chart_points_inside:
  assumes "gfx_ok G" "0 < ps" "c = chart_rect (Rect 1020 470 540 215)"
    and "\<And>h b k w. (h, b, k, w) \<in> set pl \<Longrightarrow> 0 \<le> k \<and> h \<le> t" "\<And>h b k. (h, b, k) \<in> set sw \<Longrightarrow> 0 \<le> k \<and> h \<le> t"
    and "Circle col (x, y) radius width \<in> set (chart_points G c (chart_top ps (recent t pl) (recent t sw)) t (recent t pl) (recent t sw))"
  shows "r_x c + 8 \<le> x \<and> x \<le> r_x c + r_w c - 8 \<and> r_y c + 6 \<le> y \<and> y \<le> r_y c + r_h c - 6"
proof -
  let ?peak = "chart_top ps (recent t pl) (recent t sw)"
  have c: "0 \<le> r_x c" "16 \<le> r_w c" "0 \<le> r_y c" "12 \<le> r_h c" by (simp_all add: assms(3) chart_rect_def)
  have peak: "0 < ?peak" using chart_top_ge(1) [of ps "recent t pl" "recent t sw"] assms(2) by simp
  from assms(6) obtain h k where "x = x_of G c t h" "y = y_of G c ?peak (real_of_int k)"
    and "(\<exists>b w. (h, b, k, w) \<in> set (recent t pl)) \<or> (\<exists>b. (h, b, k) \<in> set (recent t sw))"
    by (fastforce simp: chart_points_def Let_def split: if_splits)
  moreover from this(3) have "0 \<le> t - h \<and> t - h \<le> 30 \<and> 0 \<le> k"
    using assms(4,5) by (auto simp: recent_def)
  moreover from calculation(3) have "real_of_int k * (115 / 100) \<le> ?peak"
    using chart_top_ge(2,3) by blast
  ultimately show ?thesis
    using x_of_bounds [OF assms(1) _ _ c(1,2), of t h] y_of_bounds [OF assms(1) _ _ peak c(3,4), of "real_of_int k"] by auto
qed

section \<open>Vehicles on the road\<close>

definition vehicle_box :: "gfx \<Rightarrow> nat \<Rightarrow> vehicle \<Rightarrow> rect" where
  "vehicle_box G n v = g_inflate G 6 6 (vehicle_rect G n v)"

lemma lane_height_bounds:
  assumes "1 \<le> n" "n \<le> 3"
  shows "36 < lane_height n" "lane_height n \<le> 110"
proof -
  have "n = 1 \<or> n = 2 \<or> n = 3" using assms by linarith
  then show "36 < lane_height n" "lane_height n \<le> 110" by (auto simp: lane_height_def ROAD_HEIGHT_def)
qed

lemma kind_size: "0 \<le> height_px (VEHICLE_KINDS k) \<and> height_px (VEHICLE_KINDS k) \<le> 34 \<and>
    0 \<le> length_px (VEHICLE_KINDS k) \<and> length_px (VEHICLE_KINDS k) \<le> 92"
  by (cases k) simp_all

lemma vehicle_size:
  assumes "1 \<le> n" "n \<le> 3"
  shows "real_of_int (py_trunc (real_of_int (height_px (VEHICLE_KINDS k)) * vehicle_scale n)) \<le> lane_height n - 10"
    and "real_of_int (py_trunc (real_of_int (length_px (VEHICLE_KINDS k)) * vehicle_scale n)) \<le> 92"
proof -
  have s: "vehicle_scale n \<le> 1" "vehicle_scale n \<le> (lane_height n - 10) / 34"
    unfolding vehicle_scale_def by (rule min.cobounded1, rule min.cobounded2)
  have s0: "0 \<le> vehicle_scale n" using lane_height_bounds [OF assms] by (simp add: vehicle_scale_def)
  have le: "real_of_int (py_trunc x) \<le> x" if "0 \<le> x" for x using that by (simp add: py_trunc_def)
  have k: "0 \<le> real_of_int (height_px (VEHICLE_KINDS k))" "real_of_int (height_px (VEHICLE_KINDS k)) \<le> 34"
    "0 \<le> real_of_int (length_px (VEHICLE_KINDS k))" "real_of_int (length_px (VEHICLE_KINDS k)) \<le> 92"
    using kind_size [of k] by simp_all
  have "real_of_int (height_px (VEHICLE_KINDS k)) * vehicle_scale n \<le> 34 * ((lane_height n - 10) / 34)"
    using k s s0 by (intro mult_mono) simp_all
  then show "real_of_int (py_trunc (real_of_int (height_px (VEHICLE_KINDS k)) * vehicle_scale n)) \<le> lane_height n - 10"
    using le [of "real_of_int (height_px (VEHICLE_KINDS k)) * vehicle_scale n"] k s s0 by simp
  have "real_of_int (length_px (VEHICLE_KINDS k)) * vehicle_scale n \<le> 92 * 1" using k s s0 by (intro mult_mono) simp_all
  then show "real_of_int (py_trunc (real_of_int (length_px (VEHICLE_KINDS k)) * vehicle_scale n)) \<le> 92"
    using le [of "real_of_int (length_px (VEHICLE_KINDS k)) * vehicle_scale n"] k s s0 by simp
qed

lemma box_strip:
  assumes "gfx_ok G" "1 \<le> n" "n \<le> 3" "0 \<le> v_lane v" "0 \<le> v_position v" "v_position v \<le> 400"
  defines "b \<equiv> vehicle_box G n v"
  shows "164 + lane_height n * real_of_int (v_lane v) < real_of_int (r_y b)"
    and "real_of_int (r_y b + r_h b) < 164 + lane_height n * (real_of_int (v_lane v) + 1)"
    and "40 \<le> r_x b" "r_x b + r_w b \<le> 1560"
proof -
  define x where "x = 100 + py_trunc ((v_position v / ROAD_METERS) * 1400)"
  define y where "y = py_trunc (real_of_int ROAD_TOP + lane_height n * (real_of_int (v_lane v) + 1 / 2))"
  define w where "w = py_trunc (real_of_int (length_px (VEHICLE_KINDS (v_kind v))) * vehicle_scale n)"
  define h where "h = py_trunc (real_of_int (height_px (VEHICLE_KINDS (v_kind v))) * vehicle_scale n)"
  define r where "r = g_around G (x, y) (w, h)"
  have vr: "vehicle_rect G n v = r" by (simp add: vehicle_rect_def r_def x_def y_def w_def h_def Let_def)
  have r: "r_w r = w" "r_h r = h" "\<bar>2 * r_x r + w - 2 * x\<bar> \<le> 1" "\<bar>2 * r_y r + h - 2 * y\<bar> \<le> 1"
    using assms(1) unfolding gfx_ok_def r_def Let_def by blast+
  have "r_x (g_inflate G (2 * 3) (2 * 3) r) = r_x r - 3 \<and> r_y (g_inflate G (2 * 3) (2 * 3) r) = r_y r - 3 \<and>
      r_w (g_inflate G (2 * 3) (2 * 3) r) = r_w r + 2 * 3 \<and> r_h (g_inflate G (2 * 3) (2 * 3) r) = r_h r + 2 * 3"
    using assms(1) unfolding gfx_ok_def Let_def by blast
  then have b: "r_x b = r_x r - 3" "r_y b = r_y r - 3" "r_w b = w + 6" "r_h b = h + 6"
    by (simp_all add: b_def vehicle_box_def vr r)
  have size: "real_of_int h \<le> lane_height n - 10" "w \<le> 92"
    using vehicle_size [OF assms(2,3), of "v_kind v"] by (simp_all add: h_def w_def)
  have lh: "0 < lane_height n" using lane_height_bounds [OF assms(2,3)] by simp
  define c where "c = 164 + lane_height n * (real_of_int (v_lane v) + 1 / 2)"
  have "0 \<le> c" using lh assms(4) by (simp add: c_def)
  then have y: "c - 1 < real_of_int y" "real_of_int y \<le> c"
    unfolding y_def ROAD_TOP_def using py_trunc_bounds [of c c c] by (simp_all add: c_def)
  have c: "c = 164 + lane_height n * real_of_int (v_lane v) + lane_height n / 2" by (simp add: c_def algebra_simps)
  have "real_of_int (2 * r_y r + h) \<ge> real_of_int (2 * y - 1)" "real_of_int (2 * r_y r + h) \<le> real_of_int (2 * y + 1)"
    using r(4) by linarith+
  then show "164 + lane_height n * real_of_int (v_lane v) < real_of_int (r_y b)"
    and "real_of_int (r_y b + r_h b) < 164 + lane_height n * (real_of_int (v_lane v) + 1)"
    using y size(1) c by (simp_all add: b algebra_simps)
  have p: "0 \<le> (v_position v / ROAD_METERS) * 1400" "(v_position v / ROAD_METERS) * 1400 \<le> real_of_int 1400"
    using assms(5,6) by (simp_all add: ROAD_METERS_def)
  have "0 \<le> py_trunc ((v_position v / ROAD_METERS) * 1400)" by (rule py_trunc_ge) (use p in simp_all)
  moreover have "py_trunc ((v_position v / ROAD_METERS) * 1400) \<le> 1400" by (rule py_trunc_le) (use p in simp_all)
  ultimately show "40 \<le> r_x b" "r_x b + r_w b \<le> 1560"
    using r(3) size(2) by (simp_all add: b x_def)
qed

lemma lanes_apart:
  assumes "gfx_ok G" "1 \<le> n" "n \<le> 3" "0 \<le> v_lane u" "0 \<le> v_position u" "v_position u \<le> 400"
    "0 \<le> v_position v" "v_position v \<le> 400" "v_lane u < v_lane v"
  shows "r_y (vehicle_box G n u) + r_h (vehicle_box G n u) \<le> r_y (vehicle_box G n v)"
proof -
  have lh: "0 < lane_height n" using lane_height_bounds [OF assms(2,3)] by simp
  have "real_of_int (v_lane u) + 1 \<le> real_of_int (v_lane v)" using assms(9) by linarith
  then have "lane_height n * (real_of_int (v_lane u) + 1) \<le> lane_height n * real_of_int (v_lane v)"
    using lh by (intro mult_left_mono) simp_all
  then show ?thesis
    using box_strip(2) [OF assms(1-6)] box_strip(1) [OF assms(1,2,3) _ assms(7,8)] assms(4,9) by linarith
qed

text \<open>C37. A vehicle on the road is drawn inside the strip of its lane, and within the road panel: the box that takes
  its clicks stays between the lane's edges, so a point is never inside the boxes of two vehicles of
  different lanes.\<close>

theorem vehicle_boxes:
  assumes "gfx_ok G" "1 \<le> n" "n \<le> 3"
    and "0 \<le> v_lane u" "0 \<le> v_position u" "v_position u \<le> 400" "0 \<le> v_lane v" "0 \<le> v_position v" "v_position v \<le> 400"
  shows "164 + lane_height n * real_of_int (v_lane v) < real_of_int (r_y (vehicle_box G n v)) \<and>
    real_of_int (r_y (vehicle_box G n v) + r_h (vehicle_box G n v)) < 164 + lane_height n * (real_of_int (v_lane v) + 1) \<and>
    40 \<le> r_x (vehicle_box G n v) \<and> r_x (vehicle_box G n v) + r_w (vehicle_box G n v) \<le> 1560 \<and>
    (v_lane u \<noteq> v_lane v \<longrightarrow> \<not> (g_hit G (vehicle_box G n u) p \<and> g_hit G (vehicle_box G n v) p))"
proof -
  obtain px py where p: "p = (px, py)" by fastforce
  have hit: "g_hit G r p \<longleftrightarrow> r_x r \<le> px \<and> px < r_x r + r_w r \<and> r_y r \<le> py \<and> py < r_y r + r_h r" for r
    using assms(1) unfolding p gfx_ok_def by blast
  have "\<not> (g_hit G (vehicle_box G n u) p \<and> g_hit G (vehicle_box G n v) p)" if "v_lane u \<noteq> v_lane v"
  proof (cases "v_lane u < v_lane v")
    case True
    then show ?thesis using lanes_apart [OF assms(1-6,8,9) True] hit by fastforce
  next
    case False
    then have "v_lane v < v_lane u" using that by simp
    then show ?thesis using lanes_apart [OF assms(1-3,7,8,9,5,6)] hit by fastforce
  qed
  then show ?thesis using box_strip [OF assms(1-3,7-9)] by blast
qed

section \<open>Clicks\<close>

lemma dict_set_new: "k \<notin> fst ` set d \<Longrightarrow> dict_set k x d = d @ [(k, x)]"
  by (induction d) auto

lemma vehicle_rects_distinct:
  assumes "distinct (map v_id vs)"
  shows "vehicle_rects G n vs = map (\<lambda>v. (v_id v, vehicle_box G n v)) vs"
proof -
  have "distinct (map v_id vs) \<Longrightarrow> fst ` set d \<inter> v_id ` set vs = {} \<Longrightarrow>
      foldl (\<lambda>d v. dict_set (v_id v) (g_inflate G 6 6 (vehicle_rect G n v)) d) d vs = d @ map (\<lambda>v. (v_id v, vehicle_box G n v)) vs" for d
    by (induction vs arbitrary: d) (auto simp: dict_set_new vehicle_box_def)
  from this [of "[]"] show ?thesis using assms by (simp add: vehicle_rects_def)
qed

lemma find_pairs: "List.find (\<lambda>(_, r). g_hit G r p) (map (\<lambda>v. (f v, g v)) vs) =
    map_option (\<lambda>v. (f v, g v)) (List.find (\<lambda>v. g_hit G (g v) p) vs)"
  by (induction vs) auto

lemma draw_records:
  assumes "draw G U = (Inr (), U')"
  shows "ui_rects U' = vehicle_rects G (ct_lanes (ui_controller U)) (ct_vehicles (ui_controller U))"
    "ui_buttons U' = control_buttons (Rect 40 770 960 80)" "ui_size U' = ui_size U"
proof -
  obtain xs C where f: "front G (ui_controller U) = (xs, C)" by fastforce
  have c: "only_time (ui_controller U) C" using reads_apply [OF reads_front, of "ui_controller U" G] f by simp
  show "ui_rects U' = vehicle_rects G (ct_lanes (ui_controller U)) (ct_vehicles (ui_controller U))"
    "ui_buttons U' = control_buttons (Rect 40 770 960 80)" "ui_size U' = ui_size U"
    using assms only_time_sel [OF c] by (auto simp: draw_unfold f Let_def split: prod.splits sum.splits)
qed

text \<open>C38. After a frame, a left click selects the first vehicle, in the order of the list, whose box contains the
  point; if there is none, it presses the button under the point, of which there is at most one: attack,
  pause or quit; elsewhere it does nothing.\<close>

theorem click_after_draw:
  assumes "gfx_ok G" "draw G U = (Inr (), U')" "distinct (map v_id (ct_vehicles (ui_controller U)))"
    and "logical_mouse (ui_size U) pos = Inr (px, py)"
  shows "handle_event B G (MouseDown 1 pos) U' =
    (case List.find (\<lambda>v. g_hit G (vehicle_box G (ct_lanes (ui_controller U)) v) (px, py)) (ct_vehicles (ui_controller U)) of
       Some v \<Rightarrow> (Inr False, on_controller (select_vehicle (Some (v_id v))) U')
     | None \<Rightarrow>
         if 787 \<le> py \<and> py < 835 then
           if 450 \<le> px \<and> px < 660 then (Inr False, on_controller (\<lambda>C. snd (attack_selected B C)) U')
           else if 680 \<le> px \<and> px < 815 then (Inr False, on_controller toggle_running U')
           else if 835 \<le> px \<and> px < 970 then (Inr True, U')
           else (Inr False, U')
         else (Inr False, U'))"
proof -
  have hit: "g_hit G r (px, py) \<longleftrightarrow> r_x r \<le> px \<and> px < r_x r + r_w r \<and> r_y r \<le> py \<and> py < r_y r + r_h r" for r
    using assms(1) unfolding gfx_ok_def by blast
  have "handle_event B G (MouseDown 1 pos) U' = (case click B G (px, py) U' of (q, U) \<Rightarrow> (Inr q, U))"
    using assms(4) draw_records(3) [OF assms(2)] by (simp add: handle_event_def)
  then show ?thesis
    unfolding click_def draw_records(1,2) [OF assms(2)] vehicle_rects_distinct [OF assms(3)] find_pairs
    by (auto simp: control_buttons_def hit split: option.split)
qed

section \<open>Examples\<close>

definition demo_gfx :: gfx where
  "demo_gfx = \<lparr>g_right = (\<lambda>r. r_x r + r_w r), g_bottom = (\<lambda>r. r_y r + r_h r),
     g_center = (\<lambda>r. (r_x r + r_w r div 2, r_y r + r_h r div 2)),
     g_around = (\<lambda>(cx, cy) (w, h). Rect (cx - w div 2) (cy - h div 2) w h),
     g_inflate = (\<lambda>dx dy r. Rect (r_x r - dx div 2) (r_y r - dy div 2) (r_w r + dx) (r_h r + dy)),
     g_hit = (\<lambda>r (px, py). r_x r \<le> px \<and> px < r_x r + r_w r \<and> r_y r \<le> py \<and> py < r_y r + r_h r),
     g_text_width = (\<lambda>_ t. 8 * int (length t))\<rparr>"

lemma demo_gfx_ok: "gfx_ok demo_gfx"
  unfolding gfx_ok_def demo_gfx_def Let_def by (simp; presburger)

definition demo_vehicle :: "int \<Rightarrow> int \<Rightarrow> vehicle" where
  "demo_vehicle n lane_no = new_vehicle n lane_no 1 100 25 Sedan"

definition demo_controller :: "mock_board controller" where
  "demo_controller = blank_controller (new_worker BoardA (new_mock ''A'' zero_draws)) (new_worker BoardB (new_mock ''B'' zero_draws))
     True (\<lambda>_. []) unit_clock \<lparr>rng_draws = zero_draws, rng_used = 0\<rparr> 2 25 2 1258 [demo_vehicle 0 0, demo_vehicle 1 2]"

lemma demo_controller_sel:
  "ct_vehicles demo_controller = [demo_vehicle 0 0, demo_vehicle 1 2]" "ct_lanes demo_controller = 2"
  "ct_kem_history demo_controller = []" "ct_sw_history demo_controller = []" "ps_kem_us demo_controller = 1258"
  by (simp_all add: demo_controller_def blank_controller_def ps_kem_us_def ct_sw_samples_def sum_stats_def all_boards_def
      new_worker_def new_stats_def)


theorem chart_points_inside_witness:
  "let x = x_of demo_gfx (chart_rect (Rect 1020 470 540 215)) 1 0 in 1278 \<le> x \<and> x \<le> 1530"
proof -
  let ?c = "chart_rect (Rect 1020 470 540 215)" and ?pl = "[(0, BoardA, 50, Entry)]" and ?sw = "[] :: (real \<times> board_id \<times> int) list"
  have r: "recent 1 ?pl = ?pl" "recent 1 ?sw = []" by (simp_all add: recent_def)
  have "Circle BLUE (x_of demo_gfx ?c 1 0, y_of demo_gfx ?c (chart_top 100 ?pl ?sw) 50) 3 0
      \<in> set (chart_points demo_gfx ?c (chart_top 100 (recent 1 ?pl) (recent 1 ?sw)) 1 (recent 1 ?pl) (recent 1 ?sw))"
    unfolding r by (simp add: chart_points_def Let_def)
  from chart_points_inside [OF demo_gfx_ok _ refl _ _ this] show ?thesis by (auto simp: chart_rect_def Let_def)
qed

theorem vehicle_boxes_witness:
  "\<not> (g_hit demo_gfx (vehicle_box demo_gfx 2 (demo_vehicle 0 0)) (450, 191) \<and>
      g_hit demo_gfx (vehicle_box demo_gfx 2 (demo_vehicle 1 2)) (450, 191))"
  using vehicle_boxes [OF demo_gfx_ok, of 2 "demo_vehicle 0 0" "demo_vehicle 1 2" "(450, 191)"]
  by (simp add: demo_vehicle_def new_vehicle_def)

lemma demo_box: "vehicle_box demo_gfx 2 (demo_vehicle 0 0) = Rect 422 174 56 34"
proof -
  have t: "py_trunc 350 = 350" "py_trunc (383 / 2) = 191" "py_trunc 50 = 50" "py_trunc 28 = 28"
    by (simp_all add: py_trunc_def)
  have s: "lane_height 2 = 55" "vehicle_scale 2 = 1" by (simp_all add: lane_height_def vehicle_scale_def ROAD_HEIGHT_def)
  have "vehicle_rect demo_gfx 2 (demo_vehicle 0 0) = Rect 425 177 50 28"
    using t by (simp add: vehicle_rect_def demo_gfx_def demo_vehicle_def new_vehicle_def s ROAD_METERS_def ROAD_TOP_def Let_def)
  then show ?thesis by (simp add: vehicle_box_def demo_gfx_def)
qed

theorem click_after_draw_witness:
  "\<exists>U'. draw demo_gfx (new_ui demo_controller False (1600, 900)) = (Inr (), U') \<and>
     ct_selected (ui_controller (snd (handle_event mock_ops demo_gfx (MouseDown 1 (450, 191)) U'))) = Some 0"
proof -
  obtain U' where d: "draw demo_gfx (new_ui demo_controller False (1600, 900)) = (Inr (), U')"
    using draw_succeeds [of "new_ui demo_controller False (1600, 900)"] by (auto simp: new_ui_def demo_controller_sel)
  have l: "logical_mouse (ui_size (new_ui demo_controller False (1600, 900))) (450, 191) = Inr (450, 191)"
    by (simp add: logical_mouse_def new_ui_def py_trunc_def)
  have u: "ui_controller (new_ui demo_controller False (1600, 900)) = demo_controller" by (simp add: new_ui_def)
  have di: "distinct (map v_id (ct_vehicles (ui_controller (new_ui demo_controller False (1600, 900)))))"
    by (simp add: u demo_controller_sel demo_vehicle_def new_vehicle_def)
  have h: "g_hit demo_gfx (vehicle_box demo_gfx 2 (demo_vehicle 0 0)) (450, 191)"
    by (simp add: demo_box) (simp add: demo_gfx_def)
  have "handle_event mock_ops demo_gfx (MouseDown 1 (450, 191)) U' =
      (Inr False, on_controller (select_vehicle (Some 0)) U')"
    using click_after_draw [OF demo_gfx_ok d di l, of mock_ops] h
    by (simp add: u demo_controller_sel) (simp add: demo_vehicle_def new_vehicle_def)
  then show ?thesis using d by (simp add: on_controller_def select_vehicle_def)
qed

end
