(* ===== verification/DemoMain_Spec.thy ===== *)
theory DemoMain_Spec
  imports DemoMain Ui_Spec SimShape SerialV2_Spec
begin

text \<open>
  Properties of the whole program: arguments that are accepted build a controller, every state the main
  loop passes through is one of the reachable states that the invariants speak of, and however the
  program ends the threads it started end.
\<close>

section \<open>The main loop only makes reachable states\<close>


text \<open>Actions of the window that keep the controller reachable.\<close>

definition on_track :: "'b board_ops \<Rightarrow> ('b \<Rightarrow> bool) \<Rightarrow> 'b ui \<Rightarrow> bool" where
  "on_track B P U = reachable B P (ui_controller U)"

lemma on_track_step:
  "on_track B P U \<Longrightarrow> (\<And>C. f C = sim_step B e C) \<Longrightarrow> on_track B P (on_controller f U)"
  by (simp add: on_track_def on_controller_def reachable.happen)

lemma toggle_on_track [simp]: "on_track B P U \<Longrightarrow> on_track B P (on_controller toggle_running U)"
  by (rule on_track_step [where e = Toggle]) simp_all

lemma attack_on_track [simp]: "on_track B P U \<Longrightarrow> on_track B P (on_controller (\<lambda>C. snd (attack_selected B C)) U)"
  by (rule on_track_step [where e = Attack]) simp_all

lemma select_on_track [simp]: "on_track B P U \<Longrightarrow> on_track B P (on_controller (select_vehicle n) U)"
  by (rule on_track_step [where e = "Select n"]) simp_all

lemma update_on_track [simp]: "on_track B P U \<Longrightarrow> on_track B P (on_controller (update B dt) U)"
  by (rule on_track_step [where e = "Frame dt"]) simp_all

lemma on_track_upd [simp]:
  "on_track B P (U\<lparr>ui_size := s\<rparr>) = on_track B P U" "on_track B P (U\<lparr>ui_toggles := n\<rparr>) = on_track B P U"
  by (simp_all add: on_track_def)








section \<open>The start\<close>





section \<open>The end of the threads\<close>

lemma ending_run: "ending (ct_workers s b) \<Longrightarrow> ending (ct_workers (run_worker B c s) b)"
  by (auto simp: run_worker_def ending_step)

lemma ending_yield: "ending (ct_workers s b) \<Longrightarrow> ending (ct_workers (yield B s) b)"
proof -
  have "ending (ct_workers s b) \<Longrightarrow> ending (ct_workers (foldl (\<lambda>t b. run_worker B b t) s bs) b)" for bs s
    by (induction bs arbitrary: s) (simp_all add: ending_run)
  then show "ending (ct_workers s b) \<Longrightarrow> ?thesis" by (simp add: yield_def)
qed

lemma ending_close [simp]: "ending (close_board B w) = ending w"
  by (simp add: ending_def)

lemma ending_stop_worker: "ending (stop_worker B n w)"
proof -
  have "ending v \<Longrightarrow> ending ((wk_step B ^^ n) v)" for v by (induction n) (simp_all add: ending_step)
  then show ?thesis by (simp add: stop_worker_def)
qed

lemma shutdown_ending: "ending (ct_workers (shutdown B s) b)"
  by (cases b) (simp_all add: shutdown_def all_boards_def Let_def ending_yield)

lemma shutdown_threads: "\<forall>w \<in> set (threads_of (shutdown B s)). ending w"
  by (simp add: threads_of_def shutdown_ending)

lemma loop_result: "demo_loop B G fs U = (Some r, U') \<Longrightarrow> r = Inr 0 \<or> (\<exists>e. r = Inl e)"
  by (induction fs arbitrary: U) (auto split: prod.splits sum.splits bool.splits)

lemma body_ends:
  assumes "demo_body B n G a ws rng sched clk0 window fs = (Some r, ts)"
  shows "(\<forall>w \<in> set ts. ending w) \<and> length ts = 2 \<and> (r = Inr 0 \<or> (\<exists>e. r = Inl e))"
proof (cases "build_controller B a ws rng sched clk0")
  case (Inl e)
  then show ?thesis using assms by (auto simp: demo_body_def ending_stop_worker)
next
  case C: (Inr C)
  have two: "length (threads_of D) = 2" for D :: "'a controller" by (simp add: threads_of_def)
  show ?thesis
  proof (cases window)
    case (Inl e)
    then show ?thesis using assms C shutdown_threads two by (auto simp: demo_body_def)
  next
    case (Inr u)
    then show ?thesis using assms C shutdown_threads two loop_result [of B G fs "new_ui C (a_fullscreen a) LOGICAL_SIZE"]
      by (cases "demo_loop B G fs (new_ui C (a_fullscreen a) LOGICAL_SIZE)") (auto simp: demo_body_def split: option.splits)
  qed
qed

text \<open>What the boards leave behind.\<close>

lemma serial_workers_cases:
  "make_serial_workers E n pa pb [] =
    (case open_link E ''A'' pa of
       Inl e \<Rightarrow> (Inl e, [])
     | Inr la \<Rightarrow>
         (case open_link E ''B'' pb of
            Inl e \<Rightarrow> (Inl e, [stop_worker (v2_ops E) n (new_worker BoardA la)])
          | Inr lb \<Rightarrow> (Inr (new_worker BoardA la, new_worker BoardB lb), [new_worker BoardA la, new_worker BoardB lb])))"
  by (simp add: make_serial_workers_def start_worker_def bindA_def split: sum.split)

section \<open>The properties\<close>


text \<open>C40. However the program ends (quit, an exception of a board, of the window or of a frame), every thread
  it started ends: it returns after finitely many steps.  There are as many threads as boards that
  answered, in order; when board B does not answer, that of board A is stopped.\<close>

theorem demo_ends_threads:
  assumes "demo_main (v2_ops E) n G a (make_serial_workers E n port_a port_b) rng sched clk0 window fs = (Some r, ts)"
  shows "(\<forall>w \<in> set ts. \<exists>k. wk_phase ((wk_step (v2_ops E) ^^ k) w) = Stopped) \<and>
    length ts = (case open_link E ''A'' port_a of Inl e \<Rightarrow> 0
                 | Inr la \<Rightarrow> (case open_link E ''B'' port_b of Inl e \<Rightarrow> 1 | Inr lb \<Rightarrow> 2)) \<and>
    (r = Inr 0 \<or> (\<exists>e. r = Inl e))"
proof -
  have "(\<forall>w \<in> set ts. ending w) \<and>
      length ts = (case open_link E ''A'' port_a of Inl e \<Rightarrow> 0
                   | Inr la \<Rightarrow> (case open_link E ''B'' port_b of Inl e \<Rightarrow> 1 | Inr lb \<Rightarrow> 2)) \<and>
      (r = Inr 0 \<or> (\<exists>e. r = Inl e))"
    using assms body_ends [of "v2_ops E" n G a _ rng sched clk0 window fs r ts]
    by (auto simp: demo_main_def serial_workers_cases ending_stop_worker split: sum.splits)
  then show ?thesis using ending_ends by blast
qed

section \<open>Witnesses\<close>

definition hello_line :: "string \<Rightarrow> string" where
  "hello_line name = py_join '' '' [''HELLO'', name, bytes_hex (replicate 800 1)]"

lemma demo_link_opens:
  assumes "name \<in> {''A'', ''B''}"
  shows "\<exists>L. open_link demo_env name (Inr (demo_world [hello_line name, ''RESET OK''])) = Inr L"
proof -
  define L0 where "L0 = \<lparr>v2_name = name, v2_timeout = 3, v2_keys = Map.empty, v2_sessions = Map.empty,
      v2_public_key = [], v2_world = demo_world [hello_line name, ''RESET OK'']\<rparr>"
  let ?fs = "[''HELLO'', name, bytes_hex (replicate 800 1)]"
  have f: "list_all is_field ?fs" "list_all is_ascii ?fs"
    using assms is_field_bytes_hex [of "replicate 800 1"] bytes_hex_ascii
    by (auto simp: is_field_def is_ws_def is_ascii_def)
  have h: "line_ok (hello_line name)" unfolding hello_line_def by (rule line_ok_join) (use f in simp_all)
  have p: "py_startswith (hello_line name) V2_PREFIXES"
    by (simp add: hello_line_def py_startswith_def V2_PREFIXES_def)
  have "demo_at L0 [hello_line name, ''RESET OK'']" by (simp add: L0_def demo_at_def demo_world_def)
  from demo_v2_send [OF this h p] obtain M where
    M: "v2_send demo_env ''HELLO'' L0 = (Inr (hello_line name), M)" "v2_same L0 M" "demo_at M [''RESET OK'']" by blast
  have "py_split (hello_line name) = ?fs" unfolding hello_line_def by (rule py_split_join) (use f in simp_all)
  then have hello: "v2_hello demo_env L0 = (Inr (replicate 800 1), M\<lparr>v2_public_key := replicate 800 1\<rparr>)"
    using M(2) by (simp add: v2_hello_def bindA_def M(1) v2_same_def Let_def) (simp add: L0_def)
  have "demo_at (M\<lparr>v2_public_key := replicate 800 1\<rparr>) [''RESET OK'']" using M(3) by (simp add: demo_at_def)
  from demo_v2_send [OF this, of "''RESET''"] obtain N where
    N: "v2_send demo_env ''RESET'' (M\<lparr>v2_public_key := replicate 800 1\<rparr>) = (Inr ''RESET OK'', N)"
    by (auto simp: line_ok_def is_ascii_def is_ws_def py_startswith_def V2_PREFIXES_def)
  show ?thesis
    by (simp add: open_link_def v2_init_def L0_def [symmetric] bindA_def hello v2_reset_def N)
qed


theorem demo_ends_threads_witness:
  "\<exists>w n. demo_main (v2_ops demo_env) 0 demo_gfx default_args
      (make_serial_workers demo_env 0 (Inr (demo_world [hello_line ''A'', ''RESET OK''])) (Inl (OSError ''no port'')))
      (\<lambda>_. zero_draws) (\<lambda>_. []) unit_clock (Inr ()) [] = (Some (Inl (OSError ''no port'')), [w]) \<and>
     wk_phase ((wk_step (v2_ops demo_env) ^^ n) w) = Stopped"
proof -
  obtain la where la: "open_link demo_env ''A'' (Inr (demo_world [hello_line ''A'', ''RESET OK''])) = Inr la"
    using demo_link_opens by blast
  have lb: "open_link demo_env ''B'' (Inl (OSError ''no port'')) = Inl (OSError ''no port'')" by (simp add: open_link_def)
  have m: "demo_main (v2_ops demo_env) 0 demo_gfx default_args
      (make_serial_workers demo_env 0 (Inr (demo_world [hello_line ''A'', ''RESET OK''])) (Inl (OSError ''no port'')))
      (\<lambda>_. zero_draws) (\<lambda>_. []) unit_clock (Inr ()) [] = (Some (Inl (OSError ''no port'')), [stop_worker (v2_ops demo_env) 0 (new_worker BoardA la)])"
    by (simp add: demo_main_def serial_workers_cases la lb)
  from demo_ends_threads [OF m] m show ?thesis by auto
qed

end
