(* ===== verification/Spec2Isabelle.thy ===== *)
theory Spec2Isabelle
  imports Keccak_Spec TwoBoard_Spec SimLedger SimHandover UartClient_Sim UartClient_Exit Tools_Spec DemoMain_Spec
begin

text \<open>
  Verification library of the PC software of the two-board ML-KEM handover demonstration.

  \<^bold>\<open>The program.\<close>  A PC talks to FPGA boards over UART.  For every vehicle of a simulated road it opens a
  session on the board of the cell the vehicle is in: it encapsulates a secret for the board's ML-KEM-512
  key, derives two ChaCha20-Poly1305 keys and two nonce prefixes with SHA3-256 and SHAKE-256, sends
  authenticated packets, and opens a session on the other board when the vehicle crosses the cell
  boundary.  The Python sources, under \<open>src/outputs/\<close>, are these (files of \<open>two_board_demo/pc/\<close> unless a
  path is given):

  \<^item> \<open>pqc_crypto.py\<close>: key derivation and packets.  Pure; every link calls it or repeats it.
  \<^item> \<open>board_link.py\<close>: the data exchanged between threads, a mock board, the first serial link (fixed
    vectors), and \<open>BoardWorker\<close>, the thread that runs the commands of one board.
  \<^item> \<open>serial_board_v2.py\<close>: the serial link the demo uses; \<open>board_link_v2.py\<close>: an alternative with one table.
  \<^item> \<open>simulator.py\<close>: \<open>DemoController\<close>, which moves the vehicles, submits commands to the two workers and
    handles their results.
  \<^item> \<open>ui.py\<close>: the window, which draws the controller and turns keys and clicks into calls of it.
  \<^item> \<open>demo_pr5.py\<close>: arguments, construction, main loop and clean-up.
  \<^item> \<open>rtl_aead/pc_tools/uart_secure_client.py\<close>: an interactive client for one board.
  \<^item> \<open>gen_board_b_keys.py\<close>, \<open>verify_kat.py\<close>, \<open>check_hello.py\<close>, \<open>golden_reference/verify_with_python.py\<close>: tools.

  \<^bold>\<open>How it is modelled.\<close>  A function that can raise returns \<open>py_error + 'a\<close>; a method is a state transformer
  \<open>'s \<Rightarrow> (py_error + 'a) \<times> 's\<close> that keeps the state reached when the exception is raised
  (\<open>Prelude\<close>).  Objects are records with the attributes of \<open>__init__\<close>; dictionaries are maps, or association
  lists where their order is used; bytes are lists of \<open>8 word\<close>, Python integers are \<open>int\<close>, floating-point
  numbers are reals.  Lanes of Keccak are \<open>64 word\<close>.  Packages outside the repository are parameters: the
  fields of \<open>env\<close> (\<open>World\<close>) are pyserial, the AEAD and \<open>ML_KEM_512.encaps\<close>, with the documented laws of the
  AEAD as the hypothesis \<open>aead_ok\<close>; \<open>gfx\<close> (\<open>Canvas\<close>) is pygame's rectangle arithmetic with the hypothesis
  \<open>gfx_ok\<close>.  Clocks are sequences of readings (type \<open>clock\<close>, non-decreasing and unbounded), random
  streams are sequences of draws in \<open>[0,1)\<close> (type \<open>draws\<close>).  \<open>DemoEnv\<close> is a concrete environment in which the
  witnesses are evaluated.

  \<^bold>\<open>Theories.\<close>

  \<^item> \<open>Prelude\<close>, \<open>PyText\<close>, \<open>PyBytes\<close>: exceptions, effects and their state rules, Python's list indexing,
    deques, \<open>split\<close>, \<open>strip\<close>, \<open>join\<close>, integer and hexadecimal parsing and formatting, byte conversions.
  \<^item> \<open>Keccak\<close>: \<open>hashlib.sha3_256\<close> and \<open>hashlib.shake_256\<close> after FIPS 202; its tables are
    those the standard generates (\<open>Keccak_Spec\<close>).  \<open>World\<close>: ports, clocks, the read loop
    every link has.
  \<^item> \<open>PqcCrypto\<close> (\<open>pqc_crypto.py\<close>): what \<open>derive_session\<close> accepts and returns, injectivity of the packet
    header, the round trip of a packet between the two ends, authenticity of what is opened.
  \<^item> \<open>BoardTypes\<close>, \<open>MockBoard\<close> (\<open>board_link.py\<close>): data classes, statistics, the mock board; and the locales
    \<open>session_table\<close>, \<open>exclusive_table\<close> and \<open>board_backend\<close>, the contract of a board object (which slots an
    open, a leave and a packet may change), interpreted for the mock board and the links.
  \<^item> \<open>SerialV2\<close>, \<open>SerialV2_Spec\<close> (\<open>serial_board_v2.py\<close>): the functional behaviour of open, leave and data on
    every branch, the answers of the firmware that are accepted, the slot that a malformed answer
    wedges, and the nonces: acknowledged packets never share one, a packet after a tampered one does.
  \<^item> \<open>TwoBoard\<close>, \<open>TwoBoard_Spec\<close> (\<open>board_link_v2.py\<close>): opening is all or nothing; \<open>serial_board_v2.py\<close> refines it.
  \<^item> \<open>SerialV1\<close> (\<open>SerialBoardLink\<close> of \<open>board_link.py\<close>).
  \<^item> \<open>Worker\<close>, \<open>Worker_Spec\<close>, \<open>WorkerSlots\<close> (\<open>BoardWorker\<close>): the thread as a step function over its phases, with
    the main thread's calls in between; \<open>stop\<close> lets the thread make some steps (the join) and
    closes the board; order of results, statistics, progress, and the slot table as a
    mirror of the board's sessions (locale \<open>worked_board\<close>).
  \<^item> \<open>SimTypes\<close>, \<open>Simulator\<close> (\<open>simulator.py\<close>): the controller, with the worker threads running, under an
    arbitrary schedule, before each access to what they share (\<open>yield\<close>); \<open>reachable\<close> are the states after
    any run.  \<open>SimInvariant\<close> reduces an invariant of the controller to its atomic changes (locale
    \<open>step_invariant\<close>); on it rest \<open>SimBooking\<close> (no slot is booked twice), \<open>SimIds\<close> (vehicle ids, the loop that
    looks for a free one), \<open>SimLedger\<close> (the pending table is the ledger of the commands under way: none is
    lost, every one is handled once its worker has run), \<open>SimCounters\<close> (attack counters, bounded logs) and \<open>SimShape\<close> (well-formed
    vehicles).  \<open>SimMotion\<close> is about leaders, gaps and payloads, \<open>SimHandover\<close> about the steps of a handover.
  \<^item> \<open>Canvas\<close>, \<open>Ui\<close>, \<open>Ui_Spec\<close> (\<open>ui.py\<close>): opening the window with its fonts, a frame as the list of the
    drawing calls, screenshots; drawing only reads, what a click does, where vehicles and chart points lie,
    when a frame cannot be drawn.
  \<^item> \<open>DemoMain\<close>, \<open>DemoMain_Spec\<close> (\<open>demo_pr5.py\<close>): the composition.  Every state of the main loop is \<open>reachable\<close>, so
    the invariants above hold in the program; every thread that is started ends.
  \<^item> \<open>UartClient\<close>, \<open>UartClient_Spec\<close>, \<open>UartClient_Sim\<close> (\<open>uart_secure_client.py\<close>): all commands and the command
    loop over the lines typed; the invariant of the slot list; agreement with \<open>SerialV1\<close>.  \<open>UartClient_Exit\<close>: how
    the program ends, and the exceptions it does not catch.
  \<^item> \<open>Tools\<close>, \<open>Tools_Spec\<close>: the tools; reading back a generated C array, and what accepted golden vectors imply.

  \<^bold>\<open>Loops and bounds.\<close>  The loops that wait for an answer end because the clock reaches the deadline
  (\<open>readings_left\<close> is the measure), so no fuel is used: a read is a total function that returns a line or
  raises \<open>TimeoutError\<close>.  The search for an unused vehicle id is a \<open>while_option\<close> with a proof that it ends in
  every reachable state (\<open>ct_stuck\<close> records that it would not).  The main loops run over the frames or
  lines delivered so far.  64 slots, 64-byte packets, 32-bit session ids and 64-bit counters are the
  constants of the code; nothing is scaled down.

  \<^bold>\<open>Not modelled.\<close>  Opening a port or a window is a parameter (the world behind it, or the exception); closing
  it is modelled.  The texts printed on the terminal; \<open>argparse\<close> (the checks made of the parsed arguments are
  modelled); the branches for a missing package (\<open>ImportError\<close>); rounding of floating-point numbers,
  infinities and NaN; font files, the scaling of pixels and the encoding of images, which are pygame's.  Text
  typed or received is ASCII.  The RTL, the firmware and the C reference are not Python and enter only through
  the lines the board sends.
\<close>

end
